(* ===== verification/Py_Prelude.thy ===== *)
theory Py_Prelude
  imports Complex_Main "HOL-Library.Sublist"
begin

text \<open>
  Shared vocabulary of the development: the exceptions of the Python program as a
  datatype, the result type with its sequencing operator, and the few Python and numpy
  primitives that \<^verbatim>\<open>src/KITTILoader.py\<close> calls on scalars and lists
  (float division and modulo, \<^verbatim>\<open>int()\<close>, \<^verbatim>\<open>np.clip\<close>, list indexing).
  Python floats are modelled as \<^typ>\<open>real\<close>: every theorem of the development is
  about exact arithmetic, and says nothing about rounding.
\<close>

section \<open>Fact collections\<close>

named_theorems py_defs "definitions of the Python and numpy primitives"
named_theorems res_iffs "when a sequenced computation returns or raises"

section \<open>Exceptions and results\<close>

datatype py_error =
    IndexError
  | KeyError
  | ValueError
  | ZeroDivisionError
  | AssertionError
  | IOError
  | RuntimeError

type_synonym 'a result = "py_error + 'a"

text \<open>Sequencing: the first exception raised ends the computation.\<close>

definition rbind :: "'a result \<Rightarrow> ('a \<Rightarrow> 'b result) \<Rightarrow> 'b result" where
  "rbind m f = (case m of Inl e \<Rightarrow> Inl e | Inr x \<Rightarrow> f x)"

definition returns :: "'a result \<Rightarrow> bool" where
  "returns m = (case m of Inl e \<Rightarrow> False | Inr x \<Rightarrow> True)"

definition raises :: "'a result \<Rightarrow> py_error \<Rightarrow> bool" where
  "raises m e = (case m of Inl e' \<Rightarrow> e' = e | Inr x \<Rightarrow> False)"

lemma rbind_Inl [simp]: "rbind (Inl e) f = Inl e"
  by (simp add: rbind_def)

lemma rbind_Inr [simp]: "rbind (Inr x) f = f x"
  by (simp add: rbind_def)

lemma rbind_eq_Inr_iff [res_iffs]:
  "rbind m f = Inr y \<longleftrightarrow> (\<exists>x. m = Inr x \<and> f x = Inr y)"
  by (cases m) simp_all

lemma rbind_eq_Inl_iff [res_iffs]:
  "rbind m f = Inl e \<longleftrightarrow> m = Inl e \<or> (\<exists>x. m = Inr x \<and> f x = Inl e)"
  by (cases m) simp_all

lemma rbind_assoc: "rbind (rbind m f) g = rbind m (\<lambda>x. rbind (f x) g)"
  by (cases m) simp_all

lemma rbind_return [simp]: "rbind m Inr = m"
  by (cases m) simp_all

lemma returns_simps [simp]: "returns (Inr x)" "\<not> returns (Inl e)"
  by (simp_all add: returns_def)

lemma raises_simps [simp]: "raises (Inl e') e \<longleftrightarrow> e' = e" "\<not> raises (Inr x) e"
  by (simp_all add: raises_def)

lemma returns_iff: "returns m \<longleftrightarrow> (\<exists>x. m = Inr x)"
  by (cases m) simp_all

lemma returns_rbind_iff [res_iffs]:
  "returns (rbind m f) \<longleftrightarrow> (\<exists>x. m = Inr x \<and> returns (f x))"
  by (cases m) simp_all

section \<open>Real modulo with a positive modulus\<close>

text \<open>
  Python's \<^verbatim>\<open>x % m\<close> on floats has the sign of \<^verbatim>\<open>m\<close>: it is
  \<open>x - m * \<lfloor>x / m\<rfloor>\<close>. The lemmas are for \<open>0 < m\<close>, the only case the program has
  (\<open>m = 2 * pi\<close>).
\<close>

definition rmod :: "real \<Rightarrow> real \<Rightarrow> real" where
  "rmod x m = x - m * of_int \<lfloor>x / m\<rfloor>"

lemma rmod_nonneg:
  assumes "0 < m"
  shows "0 \<le> rmod x m"
proof -
  have "of_int \<lfloor>x / m\<rfloor> * m \<le> x / m * m"
    using assms by (intro mult_right_mono) simp_all
  with assms show ?thesis by (simp add: rmod_def algebra_simps)
qed

lemma rmod_less:
  assumes "0 < m"
  shows "rmod x m < m"
proof -
  have "x / m < of_int \<lfloor>x / m\<rfloor> + 1" by linarith
  with assms have "x / m * m < (of_int \<lfloor>x / m\<rfloor> + 1) * m"
    by (intro mult_strict_right_mono)
  with assms show ?thesis by (simp add: rmod_def algebra_simps)
qed

lemma rmod_unique:
  assumes m: "0 < m" and r: "0 \<le> r" "r < m" and x: "x = r + m * of_int k"
  shows "rmod x m = r"
proof -
  from m x have q: "x / m = r / m + of_int k" by (simp add: field_simps)
  from m r have "0 \<le> r / m" "r / m < 1" by simp_all
  with q have "of_int k \<le> x / m" "x / m < of_int k + 1" by simp_all
  then have "\<lfloor>x / m\<rfloor> = k" by (rule floor_unique)
  with x show ?thesis by (simp add: rmod_def)
qed

lemma rmod_id: "0 \<le> x \<Longrightarrow> x < m \<Longrightarrow> rmod x m = x"
  by (rule rmod_unique [where k = 0]) simp_all

lemma rmod_decomp: "x = rmod x m + m * of_int \<lfloor>x / m\<rfloor>"
  by (simp add: rmod_def)

lemma rmod_add_period:
  assumes "0 < m"
  shows "rmod (x + m * of_int k) m = rmod x m"
proof (rule rmod_unique [where k = "\<lfloor>x / m\<rfloor> + k"])
  show "x + m * of_int k = rmod x m + m * of_int (\<lfloor>x / m\<rfloor> + k)"
    by (simp add: rmod_def algebra_simps)
qed (use assms in \<open>simp_all add: rmod_nonneg rmod_less\<close>)

lemma rmod_rmod_add:
  assumes "0 < m"
  shows "rmod (rmod x m + y) m = rmod (x + y) m"
proof -
  have "rmod x m + y = (x + y) + m * of_int (- \<lfloor>x / m\<rfloor>)"
    by (simp add: rmod_def)
  then show ?thesis by (simp only: rmod_add_period [OF assms])
qed

lemma rmod_idem: "0 < m \<Longrightarrow> rmod (rmod x m) m = rmod x m"
  by (simp add: rmod_id rmod_nonneg rmod_less)

lemma rmod_zero [simp]: "rmod 0 m = 0"
  by (simp add: rmod_def)

lemmas rmod_range = rmod_nonneg rmod_less

lemma floor_div_bracket:
  assumes "0 < (w::real)"
  shows "of_int \<lfloor>t / w\<rfloor> * w \<le> t" "t < (of_int \<lfloor>t / w\<rfloor> + 1) * w"
  using rmod_nonneg [OF assms, of t] rmod_less [OF assms, of t]
  by (simp_all add: rmod_def algebra_simps)

lemma floor_div_unique:
  assumes "0 < (w::real)" "of_int c * w \<le> t" "t < (of_int c + 1) * w"
  shows "\<lfloor>t / w\<rfloor> = c"
proof (rule floor_unique)
  from assms show "of_int c \<le> t / w" by (simp add: pos_le_divide_eq)
  from assms show "t / w < of_int c + 1" by (simp add: pos_divide_less_eq)
qed

section \<open>Python scalar primitives\<close>

text \<open>Float true division \<^verbatim>\<open>a / b\<close> and modulo \<^verbatim>\<open>a % b\<close>: both raise on a zero divisor.\<close>

definition py_fdiv :: "real \<Rightarrow> real \<Rightarrow> real result" where
  "py_fdiv a b = (if b = 0 then Inl ZeroDivisionError else Inr (a / b))"

definition py_fmod :: "real \<Rightarrow> real \<Rightarrow> real result" where
  "py_fmod a b = (if b = 0 then Inl ZeroDivisionError else Inr (rmod a b))"

text \<open>\<^verbatim>\<open>int(x)\<close> truncates towards zero.\<close>

definition py_int :: "real \<Rightarrow> int" where
  "py_int x = (if 0 \<le> x then \<lfloor>x\<rfloor> else \<lceil>x\<rceil>)"

text \<open>\<^verbatim>\<open>np.clip(a, lo, hi)\<close> is \<^verbatim>\<open>minimum(maximum(a, lo), hi)\<close>.\<close>

definition np_clip :: "real \<Rightarrow> real \<Rightarrow> real \<Rightarrow> real" where
  "np_clip a lo hi = min (max a lo) hi"

text \<open>
  \<^verbatim>\<open>xs[i]\<close> on a Python list: a negative index counts from the end, an index out
  of range raises.
\<close>

definition py_index :: "'a list \<Rightarrow> int \<Rightarrow> 'a result" where
  "py_index xs i =
     (if 0 \<le> i \<and> i < int (length xs) then Inr (xs ! nat i)
      else if i < 0 \<and> - int (length xs) \<le> i then Inr (xs ! nat (int (length xs) + i))
      else Inl IndexError)"

text \<open>\<^verbatim>\<open>v[i]\<close> on a one-dimensional array with a constant index \<open>i \<ge> 0\<close>.\<close>

definition vec_get :: "'a list \<Rightarrow> nat \<Rightarrow> 'a result" where
  "vec_get v i = (if i < length v then Inr (v ! i) else Inl IndexError)"

lemmas [py_defs] = py_fdiv_def py_fmod_def py_int_def np_clip_def py_index_def vec_get_def

lemma py_fdiv_simps [simp]:
  "b \<noteq> 0 \<Longrightarrow> py_fdiv a b = Inr (a / b)"
  "py_fdiv a 0 = Inl ZeroDivisionError"
  by (simp_all add: py_fdiv_def)

lemma py_fmod_simps [simp]:
  "b \<noteq> 0 \<Longrightarrow> py_fmod a b = Inr (rmod a b)"
  "py_fmod a 0 = Inl ZeroDivisionError"
  by (simp_all add: py_fmod_def)

lemma py_int_nonneg [simp]: "0 \<le> x \<Longrightarrow> py_int x = \<lfloor>x\<rfloor>"
  by (simp add: py_int_def)

lemma py_int_neg: "x < 0 \<Longrightarrow> py_int x = \<lceil>x\<rceil>"
  by (simp add: py_int_def)

lemma py_int_of_int [simp]: "py_int (of_int k) = k"
  by (simp add: py_int_def)

lemma py_int_abs_le: "\<bar>of_int (py_int x)\<bar> \<le> \<bar>x\<bar>"
  by (simp add: py_int_def)

lemma np_clip_range: "lo \<le> hi \<Longrightarrow> lo \<le> np_clip a lo hi \<and> np_clip a lo hi \<le> hi"
  by (simp add: np_clip_def)

lemma np_clip_below: "a \<le> lo \<Longrightarrow> lo \<le> hi \<Longrightarrow> np_clip a lo hi = lo"
  by (simp add: np_clip_def)

lemma np_clip_inside: "lo \<le> a \<Longrightarrow> a \<le> hi \<Longrightarrow> np_clip a lo hi = a"
  by (simp add: np_clip_def)

lemma py_index_nonneg:
  "0 \<le> i \<Longrightarrow> py_index xs i = (if nat i < length xs then Inr (xs ! nat i) else Inl IndexError)"
  by (auto simp: py_index_def)

lemma py_index_in_set: "py_index xs i = Inr x \<Longrightarrow> x \<in> set xs"
  by (auto simp: py_index_def split: if_splits)

lemma py_index_returns_iff:
  "returns (py_index xs i) \<longleftrightarrow> - int (length xs) \<le> i \<and> i < int (length xs)"
  by (auto simp: py_index_def)

lemma vec_get_simps [simp]:
  "i < length v \<Longrightarrow> vec_get v i = Inr (v ! i)"
  "length v \<le> i \<Longrightarrow> vec_get v i = Inl IndexError"
  by (simp_all add: vec_get_def)

section \<open>The circle constant\<close>

abbreviation two_pi :: real where
  "two_pi \<equiv> 2 * pi"

lemma two_pi_pos [simp]: "0 < two_pi"
  by simp

lemma two_pi_neq_0 [simp]: "two_pi \<noteq> 0"
  by simp

lemma cos_add_period [simp]: "cos (x + two_pi * of_int k) = cos x"
  by (simp add: cos_add)

lemma sin_add_period [simp]: "sin (x + two_pi * of_int k) = sin x"
  by (simp add: sin_add)

lemma cos_rmod [simp]: "cos (rmod x two_pi) = cos x"
proof -
  have "cos x = cos (rmod x two_pi + two_pi * of_int \<lfloor>x / two_pi\<rfloor>)"
    by (simp only: rmod_decomp [symmetric])
  then show ?thesis by (simp only: cos_add_period)
qed

lemma sin_rmod [simp]: "sin (rmod x two_pi) = sin x"
proof -
  have "sin x = sin (rmod x two_pi + two_pi * of_int \<lfloor>x / two_pi\<rfloor>)"
    by (simp only: rmod_decomp [symmetric])
  then show ?thesis by (simp only: sin_add_period)
qed

end
