(* ===== verification/State_Result.thy ===== *)
theory State_Result
  imports Py_Prelude
begin

text \<open>
  Computations that return or raise and change a state on the way: the generators of
  random numbers and the store of arrays are such states. A computation is a function
  from the state to a result and the state after it; \<open>sbind\<close> sequences two of them and
  stops at the first exception, keeping the state reached. Two judgments carry the
  proofs about such computations, each with one rule per kind of statement so that a
  proof follows the statements of a definition one by one: \<open>sim\<close> relates a computation
  to a result computed without the state, \<open>keeps\<close> says that it preserves an invariant
  of the state on every path, exceptions included.
\<close>

section \<open>State and result\<close>

type_synonym ('s, 'a) sres = "'s \<Rightarrow> 'a result \<times> 's"

definition slift :: "'a result \<Rightarrow> ('s, 'a) sres" where
  "slift m = (\<lambda>s. (m, s))"

definition sbind :: "('s, 'a) sres \<Rightarrow> ('a \<Rightarrow> ('s, 'b) sres) \<Rightarrow> ('s, 'b) sres" where
  "sbind m f = (\<lambda>s. case m s of (Inl e, s') \<Rightarrow> (Inl e, s') | (Inr x, s') \<Rightarrow> f x s')"

lemma sbind_slift [simp]:
  "sbind (slift m) f s = (case m of Inl e \<Rightarrow> (Inl e, s) | Inr x \<Rightarrow> f x s)"
  by (simp add: sbind_def slift_def split: sum.splits)

lemma slift_apply [simp]: "slift m s = (m, s)"
  by (simp add: slift_def)

lemma sbind_slift_Inr [simp]: "sbind (slift (Inr x)) f = f x"
  by (rule ext) simp

section \<open>Simulation of a result\<close>

text \<open>
  \<open>sim m r R s\<close>: from the state \<open>s\<close> the computation \<open>m\<close> raises what the result \<open>r\<close>
  raises, and when it returns \<open>x\<close> then \<open>r\<close> returns some \<open>y\<close> with \<open>R x y s'\<close> for the
  state \<open>s'\<close> it ends in. Nothing is said of the state an exception leaves.
\<close>

fun sim_rel :: "('a \<Rightarrow> 'b \<Rightarrow> 's \<Rightarrow> bool) \<Rightarrow> 'a result \<times> 's \<Rightarrow> 'b result \<Rightarrow> bool" where
  "sim_rel R (Inl e, s') (Inl e') \<longleftrightarrow> e = e'"
| "sim_rel R (Inr x, s') (Inr y) \<longleftrightarrow> R x y s'"
| "sim_rel R (Inl e, s') (Inr y) \<longleftrightarrow> False"
| "sim_rel R (Inr x, s') (Inl e') \<longleftrightarrow> False"

definition sim :: "('s, 'a) sres \<Rightarrow> 'b result \<Rightarrow> ('a \<Rightarrow> 'b \<Rightarrow> 's \<Rightarrow> bool) \<Rightarrow> 's \<Rightarrow> bool" where
  "sim m r R s = sim_rel R (m s) r"

lemma sim_Inr_iff: "sim m (Inr y) R s \<longleftrightarrow> (\<exists>x. fst (m s) = Inr x \<and> R x y (snd (m s)))"
  by (cases "(R, m s, Inr y :: 'c result)" rule: sim_rel.cases) (simp_all add: sim_def)

lemma sim_Inl_iff: "sim m (Inl e) R s \<longleftrightarrow> fst (m s) = Inl e"
  by (cases "(R, m s, Inl e :: 'c result)" rule: sim_rel.cases) (auto simp: sim_def)

lemma sim_return: "R x y s \<Longrightarrow> sim (slift (Inr x)) (Inr y) R s"
  by (simp add: sim_def)

lemma sim_lift:
  assumes "\<And>x. m = Inr x \<Longrightarrow> sim (F x) (F' x) R s"
  shows "sim (sbind (slift m) F) (rbind m F') R s"
  using assms by (cases m) (simp_all add: sim_def)

lemma sim_bind:
  assumes "sim m r P s" and "\<And>x y s'. r = Inr y \<Longrightarrow> P x y s' \<Longrightarrow> sim (F x) (F' y) R s'"
  shows "sim (sbind m F) (rbind r F') R s"
proof (cases r)
  case (Inl e)
  with assms(1) show ?thesis
    by (cases "m s") (simp add: sim_Inl_iff sbind_def)
next
  case (Inr y)
  with assms(1) obtain x where x: "fst (m s) = Inr x" "P x y (snd (m s))"
    by (auto simp: sim_Inr_iff)
  then have "sbind m F s = F x (snd (m s))"
    by (cases "m s") (simp add: sbind_def)
  with assms(2) [OF Inr x(2)] Inr show ?thesis
    by (simp add: sim_def)
qed

lemma sim_result:
  assumes "sim m r (\<lambda>x y s'. x = y \<and> Q s') s"
  shows "fst (m s) = r" and "returns r \<Longrightarrow> Q (snd (m s))"
  using assms by (cases r; auto simp: sim_Inr_iff sim_Inl_iff returns_def)+

section \<open>Invariants of the state\<close>

text \<open>
  \<open>keeps I m V\<close>: from a state that satisfies \<open>I\<close> the computation \<open>m\<close> ends in a state
  that satisfies \<open>I\<close>, whether it returns or raises, and a value it returns satisfies \<open>V\<close>.
\<close>

definition keeps :: "('s \<Rightarrow> bool) \<Rightarrow> ('s, 'a) sres \<Rightarrow> ('a \<Rightarrow> bool) \<Rightarrow> bool" where
  "keeps I m V \<longleftrightarrow> (\<forall>s. I s \<longrightarrow> I (snd (m s)) \<and> (\<forall>x. fst (m s) = Inr x \<longrightarrow> V x))"

named_theorems keeps_steps "one rule of invariance for each kind of statement"

lemma keepsD: "keeps I m V \<Longrightarrow> I s \<Longrightarrow> I (snd (m s))"
  by (simp add: keeps_def)

lemma keeps_slift [keeps_steps]: "(\<And>x. m = Inr x \<Longrightarrow> V x) \<Longrightarrow> keeps I (slift m) V"
  by (simp add: keeps_def)

lemma keeps_bind:
  assumes "keeps I m V" and "\<And>x. V x \<Longrightarrow> keeps I (F x) W"
  shows "keeps I (sbind m F) W"
  unfolding keeps_def
proof (intro allI impI)
  fix s assume s: "I s"
  obtain r s' where m: "m s = (r, s')" by (cases "m s")
  with assms(1) s have *: "I s'" "\<And>x. r = Inr x \<Longrightarrow> V x"
    by (auto simp: keeps_def)
  show "I (snd (sbind m F s)) \<and> (\<forall>x. fst (sbind m F s) = Inr x \<longrightarrow> W x)"
  proof (cases r)
    case (Inl e)
    with m * show ?thesis by (simp add: sbind_def)
  next
    case (Inr x)
    with assms(2) [OF *(2) [OF Inr]] m * show ?thesis
      by (simp add: sbind_def keeps_def)
  qed
qed

lemma keeps_lift [keeps_steps]:
  assumes "\<And>x. m = Inr x \<Longrightarrow> keeps I (F x) W"
  shows "keeps I (sbind (slift m) F) W"
  using assms by (cases m) (simp_all add: keeps_def)

lemma keeps_if [keeps_steps]:
  "(c \<Longrightarrow> keeps I a V) \<Longrightarrow> (\<not> c \<Longrightarrow> keeps I b V) \<Longrightarrow> keeps I (if c then a else b) V"
  by simp

lemma keeps_prod [keeps_steps]:
  "(\<And>a b. x = (a, b) \<Longrightarrow> keeps I (F a b) V) \<Longrightarrow> keeps I (case x of (a, b) \<Rightarrow> F a b) V"
  by (cases x) simp

end
