(* ===== verification/NdArray.thy ===== *)
theory NdArray
  imports Py_Prelude
begin

text \<open>
  The numpy arrays of \<^verbatim>\<open>src/KITTILoader.py\<close> and the array operations the program
  applies to them. A two-dimensional float array of shape \<open>(N, C)\<close> is a record of
  its column count and its rows; the shape is known even for \<open>N = 0\<close>. One-dimensional
  arrays are lists. Every operation that numpy checks (an index out of bounds, shapes
  that do not fit) returns a \<^typ>\<open>'a result\<close>.
\<close>

section \<open>Two-dimensional arrays\<close>

record ndarray =
  ncols :: nat
  rows :: "real list list"

definition nrows :: "ndarray \<Rightarrow> nat" where
  "nrows a = length (rows a)"

definition wf_ndarray :: "ndarray \<Rightarrow> bool" where
  "wf_ndarray a = list_all (\<lambda>r. length r = ncols a) (rows a)"

definition np_shape :: "ndarray \<Rightarrow> nat \<times> nat" where
  "np_shape a = (nrows a, ncols a)"

named_theorems nd_defs "definitions of the array operations"
named_theorems nd_shape "shape and well-formedness of the results of array operations"

lemma wf_ndarray_iff: "wf_ndarray a \<longleftrightarrow> (\<forall>r \<in> set (rows a). length r = ncols a)"
  by (simp add: wf_ndarray_def list_all_iff)

lemma wf_ndarray_nth: "wf_ndarray a \<Longrightarrow> i < nrows a \<Longrightarrow> length (rows a ! i) = ncols a"
  by (simp add: wf_ndarray_iff nrows_def)

lemma wf_ndarray_rows_map:
  assumes "wf_ndarray a" and "\<And>r. length r = ncols a \<Longrightarrow> length (f r) = ncols a"
  shows "wf_ndarray (a\<lparr>rows := map f (rows a)\<rparr>)"
  using assms by (simp add: wf_ndarray_iff)

lemma nrows_rows_map [simp]: "nrows (a\<lparr>rows := map f (rows a)\<rparr>) = nrows a"
  by (simp add: nrows_def)

section \<open>Indexing with an index array\<close>

text \<open>\<^verbatim>\<open>a[idx, :]\<close> and \<^verbatim>\<open>v[idx]\<close>: a fresh array of the selected rows or entries.\<close>

definition np_take :: "'a list \<Rightarrow> nat list \<Rightarrow> 'a list result" where
  "np_take v idx =
     (if list_all (\<lambda>i. i < length v) idx then Inr (map (\<lambda>i. v ! i) idx) else Inl IndexError)"

definition np_take_rows :: "ndarray \<Rightarrow> nat list \<Rightarrow> ndarray result" where
  "np_take_rows a idx = rbind (np_take (rows a) idx) (\<lambda>rs. Inr (a\<lparr>rows := rs\<rparr>))"

lemma np_take_Inr_iff:
  "np_take v idx = Inr w \<longleftrightarrow> (\<forall>i \<in> set idx. i < length v) \<and> w = map (\<lambda>i. v ! i) idx"
  by (auto simp: np_take_def list_all_iff)

lemma np_take_Inl_iff:
  "np_take v idx = Inl e \<longleftrightarrow> (\<exists>i \<in> set idx. length v \<le> i) \<and> e = IndexError"
  by (auto simp: np_take_def list_all_iff not_less)

lemma np_take_length: "np_take v idx = Inr w \<Longrightarrow> length w = length idx"
  by (auto simp: np_take_Inr_iff)

lemma np_take_subset: "np_take v idx = Inr w \<Longrightarrow> set w \<subseteq> set v"
  by (auto simp: np_take_Inr_iff)

lemma np_take_rows_Inr_iff:
  "np_take_rows a idx = Inr b \<longleftrightarrow>
     (\<forall>i \<in> set idx. i < nrows a) \<and> b = a\<lparr>rows := map (\<lambda>i. rows a ! i) idx\<rparr>"
  by (auto simp: np_take_rows_def res_iffs np_take_Inr_iff nrows_def)

lemma np_take_rows_Inl_iff:
  "np_take_rows a idx = Inl e \<longleftrightarrow> (\<exists>i \<in> set idx. nrows a \<le> i) \<and> e = IndexError"
  by (auto simp: np_take_rows_def res_iffs np_take_Inl_iff nrows_def)

lemma np_take_rows_shape [nd_shape]:
  assumes "np_take_rows a idx = Inr b"
  shows "nrows b = length idx" "ncols b = ncols a"
  using assms by (auto simp: np_take_rows_Inr_iff nrows_def)

lemma np_take_rows_wf [nd_shape]:
  assumes "np_take_rows a idx = Inr b" and "wf_ndarray a"
  shows "wf_ndarray b"
  using assms by (auto simp: np_take_rows_Inr_iff wf_ndarray_iff nrows_def)

section \<open>Columns\<close>

text \<open>
  \<^verbatim>\<open>a[:, js]\<close> reads the columns \<open>js\<close> of every row; the assignment
  \<^verbatim>\<open>a[:, js] = vals\<close> writes them back. \<^verbatim>\<open>a[:, j] op= x\<close> updates one column
  in place.
\<close>

definition np_get_cols :: "ndarray \<Rightarrow> nat list \<Rightarrow> real list list result" where
  "np_get_cols a js =
     (if list_all (\<lambda>j. j < ncols a) js then Inr (map (\<lambda>r. map (\<lambda>j. r ! j) js) (rows a))
      else Inl IndexError)"

fun set_entries :: "nat list \<Rightarrow> real list \<Rightarrow> real list \<Rightarrow> real list" where
  "set_entries (j # js) (x # xs) r = set_entries js xs (r[j := x])"
| "set_entries js xs r = r"

definition np_set_cols :: "ndarray \<Rightarrow> nat list \<Rightarrow> real list list \<Rightarrow> ndarray result" where
  "np_set_cols a js vals =
     (if \<not> list_all (\<lambda>j. j < ncols a) js then Inl IndexError
      else if \<not> (length vals = nrows a \<and> list_all (\<lambda>v. length v = length js) vals)
        then Inl ValueError
      else Inr (a\<lparr>rows := map2 (set_entries js) vals (rows a)\<rparr>))"

definition np_col_map :: "nat \<Rightarrow> (real \<Rightarrow> real) \<Rightarrow> ndarray \<Rightarrow> ndarray result" where
  "np_col_map j f a =
     (if j < ncols a then Inr (a\<lparr>rows := map (\<lambda>r. r[j := f (r ! j)]) (rows a)\<rparr>)
      else Inl IndexError)"

definition vec_map_at :: "nat \<Rightarrow> (real \<Rightarrow> real) \<Rightarrow> real list \<Rightarrow> real list result" where
  "vec_map_at j f v = (if j < length v then Inr (v[j := f (v ! j)]) else Inl IndexError)"

lemma length_set_entries [simp]: "length (set_entries js xs r) = length r"
  by (induction js xs r rule: set_entries.induct) simp_all

lemma np_col_map_Inr_iff:
  "np_col_map j f a = Inr b \<longleftrightarrow>
     j < ncols a \<and> b = a\<lparr>rows := map (\<lambda>r. r[j := f (r ! j)]) (rows a)\<rparr>"
  by (auto simp: np_col_map_def)

lemma np_col_map_shape [nd_shape]:
  assumes "np_col_map j f a = Inr b"
  shows "nrows b = nrows a" "ncols b = ncols a"
  using assms by (auto simp: np_col_map_Inr_iff)

lemma np_col_map_wf [nd_shape]:
  assumes "np_col_map j f a = Inr b" and "wf_ndarray a"
  shows "wf_ndarray b"
  using assms by (auto simp: np_col_map_Inr_iff wf_ndarray_iff)

lemma vec_map_at_Inr_iff:
  "vec_map_at j f v = Inr w \<longleftrightarrow> j < length v \<and> w = v[j := f (v ! j)]"
  by (auto simp: vec_map_at_def)

lemma vec_map_at_length: "vec_map_at j f v = Inr w \<Longrightarrow> length w = length v"
  by (auto simp: vec_map_at_Inr_iff)

section \<open>Matrix product\<close>

text \<open>
  \<^verbatim>\<open>np.dot(A, B)\<close> for two-dimensional operands given as lists of rows; numpy
  raises \<^verbatim>\<open>ValueError\<close> when a row of \<open>A\<close> is not as long as \<open>B\<close> has rows.
\<close>

definition dot_row :: "real list \<Rightarrow> real list list \<Rightarrow> real list" where
  "dot_row r B = map (\<lambda>col. sum_list (map2 (*) r col)) (transpose B)"

definition np_dot :: "real list list \<Rightarrow> real list list \<Rightarrow> real list list result" where
  "np_dot A B =
     (if list_all (\<lambda>r. length r = length B) A then Inr (map (\<lambda>r. dot_row r B) A)
      else Inl ValueError)"

definition np_transpose :: "real list list \<Rightarrow> real list list" where
  "np_transpose B = transpose B"

lemma transpose_2x2 [simp]: "transpose [[a, b], [c, d]] = [[a, c], [b, d]]"
  by (simp add: transpose.simps)

lemma dot_row_2x2 [simp]:
  "dot_row [x, z] [[a, b], [c, d]] = [x * a + z * c, x * b + z * d]"
  by (simp add: dot_row_def)

section \<open>One-dimensional arrays\<close>

text \<open>
  \<^verbatim>\<open>a - b\<close> on one-dimensional operands with numpy's broadcasting: equal lengths,
  or one operand of length 1, else \<^verbatim>\<open>ValueError\<close>.
\<close>

definition np_sub_vec :: "real list \<Rightarrow> real list \<Rightarrow> real list result" where
  "np_sub_vec a b =
     (if length a = length b then Inr (map2 (-) a b)
      else if length a = 1 then Inr (map (\<lambda>y. hd a - y) b)
      else if length b = 1 then Inr (map (\<lambda>x. x - hd b) a)
      else Inl ValueError)"

text \<open>\<^verbatim>\<open>np.expand_dims(v, 0)\<close> and \<^verbatim>\<open>.squeeze()\<close> of a one-row array.\<close>

definition np_expand_dims0 :: "real list \<Rightarrow> ndarray" where
  "np_expand_dims0 v = \<lparr>ncols = length v, rows = [v]\<rparr>"

definition np_squeeze :: "ndarray \<Rightarrow> real list" where
  "np_squeeze a = concat (rows a)"

lemma np_expand_dims0_shape [simp]:
  "ncols (np_expand_dims0 v) = length v" "nrows (np_expand_dims0 v) = 1"
  "rows (np_expand_dims0 v) = [v]" "wf_ndarray (np_expand_dims0 v)"
  by (simp_all add: np_expand_dims0_def nrows_def wf_ndarray_def)

lemma np_squeeze_expand [simp]: "np_squeeze (np_expand_dims0 v) = v"
  by (simp add: np_squeeze_def np_expand_dims0_def)

lemma np_sub_vec_same_length:
  "length a = length b \<Longrightarrow> np_sub_vec a b = Inr (map2 (-) a b)"
  by (simp add: np_sub_vec_def)

lemma np_sub_vec_returns_iff:
  "returns (np_sub_vec a b) \<longleftrightarrow> length a = length b \<or> length a = 1 \<or> length b = 1"
  by (simp add: np_sub_vec_def)

lemma map2_add_sub_cancel:
  "length a = length b \<Longrightarrow> map2 (+) (map2 (-) a b) b = (a :: real list)"
  by (induction a b rule: list_induct2) simp_all

lemmas [nd_defs] = np_take_def np_take_rows_def np_get_cols_def np_set_cols_def np_col_map_def
  vec_map_at_def np_dot_def np_sub_vec_def np_expand_dims0_def np_squeeze_def nrows_def
  wf_ndarray_def

end
