(* ===== verification/Box_Encoding.thy ===== *)
theory Box_Encoding
  imports NdArray
begin

text \<open>
  The two target encodings of \<^verbatim>\<open>src/KITTILoader.py\<close>: \<^verbatim>\<open>angle2class\<close>
  (lines 76-94), which splits a heading angle into a bin index and a residual, and
  \<^verbatim>\<open>size2class\<close> (lines 98-108), which subtracts the mean box size. Each is
  translated statement by statement; the reference definitions \<open>angle_class\<close>,
  \<open>angle_residual\<close> and the contract \<open>angle_decomp\<close> say what the code computes, and the
  lemmas show that it does.
\<close>

section \<open>Heading angle: class and residual\<close>

definition angle2class :: "real \<Rightarrow> int \<Rightarrow> (int \<times> real) result" where
  "angle2class angle num_class =
     rbind (py_fmod angle (2 * pi)) (\<lambda>angle.
     if \<not> (angle \<ge> 0 \<and> angle \<le> 2 * pi) then Inl AssertionError else
     rbind (py_fdiv (2 * pi) (of_int num_class)) (\<lambda>angle_per_class.
     rbind (py_fmod (angle + angle_per_class / 2) (2 * pi)) (\<lambda>shifted_angle.
     rbind (py_fdiv shifted_angle angle_per_class) (\<lambda>q.
     let class_id = py_int q;
         residual_angle = shifted_angle - (of_int class_id * angle_per_class + angle_per_class / 2)
     in Inr (class_id, residual_angle)))))"

subsection \<open>Reference definitions\<close>

text \<open>
  The width of a bin, the angle shifted by half a bin and wrapped, and the pair the
  code returns. The contract \<open>angle_decomp\<close> is the specification: the class is one
  of the \<open>n\<close> bins, the residual is within half a bin of the bin's centre, and centre
  plus residual is the angle up to a multiple of \<open>2 * pi\<close>.
\<close>

definition bin_width :: "int \<Rightarrow> real" where
  "bin_width n = two_pi / of_int n"

definition shifted_angle :: "real \<Rightarrow> int \<Rightarrow> real" where
  "shifted_angle a n = rmod (a + bin_width n / 2) two_pi"

definition angle_class :: "real \<Rightarrow> int \<Rightarrow> int" where
  "angle_class a n = py_int (shifted_angle a n / bin_width n)"

definition angle_residual :: "real \<Rightarrow> int \<Rightarrow> real" where
  "angle_residual a n =
     shifted_angle a n - (of_int (angle_class a n) * bin_width n + bin_width n / 2)"

definition class2angle :: "int \<Rightarrow> real \<Rightarrow> int \<Rightarrow> real" where
  "class2angle c r n = of_int c * bin_width n + r"

definition angle_decomp :: "real \<Rightarrow> int \<Rightarrow> int \<Rightarrow> real \<Rightarrow> bool" where
  "angle_decomp a n c r \<longleftrightarrow>
     0 \<le> c \<and> c < n \<and> - (bin_width n / 2) \<le> r \<and> r < bin_width n / 2 \<and>
     (\<exists>k::int. class2angle c r n = a + two_pi * of_int k)"

subsection \<open>The bin width\<close>

lemma bin_width_pos [simp]: "0 < n \<Longrightarrow> 0 < bin_width n"
  by (simp add: bin_width_def)

lemma bin_width_nonneg [simp]: "0 < n \<Longrightarrow> 0 \<le> bin_width n"
  by (simp add: bin_width_def)

lemma bin_width_neq_0 [simp]: "n \<noteq> 0 \<Longrightarrow> bin_width n \<noteq> 0"
  by (simp add: bin_width_def)

lemma bin_width_times [simp]: "n \<noteq> 0 \<Longrightarrow> of_int n * bin_width n = two_pi"
  by (simp add: bin_width_def)

lemma bin_width_le_two_pi: "0 < n \<Longrightarrow> bin_width n \<le> two_pi"
  by (simp add: bin_width_def field_simps)

lemma bins_below:
  assumes "0 < n" "c < n"
  shows "(of_int c + 1) * bin_width n \<le> two_pi"
proof -
  from assms have "(of_int c + 1) * bin_width n \<le> of_int n * bin_width n"
    by (intro mult_right_mono) (simp_all add: less_imp_le)
  with assms show ?thesis by simp
qed

subsection \<open>What the code returns\<close>

lemma shifted_angle_range: "0 \<le> shifted_angle a n" "shifted_angle a n < two_pi"
  by (simp_all add: shifted_angle_def rmod_range)

lemma angle2class_Inr:
  assumes "n \<noteq> 0"
  shows "angle2class a n = Inr (angle_class a n, angle_residual a n)"
proof -
  have "0 \<le> rmod a two_pi" "rmod a two_pi \<le> two_pi"
    by (simp_all add: rmod_nonneg rmod_less less_imp_le)
  moreover have "py_fdiv two_pi (of_int n) = Inr (bin_width n)"
    using assms by (simp add: bin_width_def)
  moreover have "rmod (rmod a two_pi + bin_width n / 2) two_pi = shifted_angle a n"
    by (simp add: shifted_angle_def rmod_rmod_add)
  ultimately show ?thesis
    using assms by (simp add: angle2class_def angle_class_def angle_residual_def Let_def)
qed

lemma angle2class_zero: "angle2class a 0 = Inl ZeroDivisionError"
  by (simp add: angle2class_def rmod_nonneg rmod_less less_imp_le)

lemma shifted_quotient_range:
  assumes "0 < n"
  shows "0 \<le> shifted_angle a n / bin_width n" "shifted_angle a n / bin_width n < of_int n"
proof -
  from assms have w: "0 < bin_width n" by simp
  from w show "0 \<le> shifted_angle a n / bin_width n"
    by (intro divide_nonneg_pos shifted_angle_range)
  have "shifted_angle a n < of_int n * bin_width n"
    using assms by (simp add: shifted_angle_range)
  with w show "shifted_angle a n / bin_width n < of_int n"
    by (simp add: pos_divide_less_eq)
qed

lemma angle_class_floor: "0 < n \<Longrightarrow> angle_class a n = \<lfloor>shifted_angle a n / bin_width n\<rfloor>"
  by (simp add: angle_class_def shifted_quotient_range)

lemma angle_class_range:
  assumes "0 < n"
  shows "0 \<le> angle_class a n" "angle_class a n < n"
  using shifted_quotient_range [OF assms, of a]
  by (simp_all add: angle_class_floor [OF assms] floor_less_iff)

lemma angle_class_bracket:
  assumes "0 < n"
  shows "of_int (angle_class a n) * bin_width n \<le> shifted_angle a n"
    and "shifted_angle a n < (of_int (angle_class a n) + 1) * bin_width n"
  using assms by (simp_all add: angle_class_floor floor_div_bracket)

lemma angle_residual_range:
  assumes "0 < n"
  shows "- (bin_width n / 2) \<le> angle_residual a n" "angle_residual a n < bin_width n / 2"
  using angle_class_bracket [OF assms, of a]
  by (simp_all add: angle_residual_def algebra_simps)

lemma class2angle_result:
  "class2angle (angle_class a n) (angle_residual a n) n =
     a + two_pi * of_int (- \<lfloor>(a + bin_width n / 2) / two_pi\<rfloor>)"
  by (simp add: class2angle_def angle_residual_def shifted_angle_def rmod_def)

lemma angle_decomp_result:
  assumes "0 < n"
  shows "angle_decomp a n (angle_class a n) (angle_residual a n)"
  unfolding angle_decomp_def
proof (intro conjI exI)
  show "class2angle (angle_class a n) (angle_residual a n) n =
      a + two_pi * of_int (- \<lfloor>(a + bin_width n / 2) / two_pi\<rfloor>)"
    by (rule class2angle_result)
qed (rule angle_class_range angle_residual_range, rule assms)+

lemma angle_decomp_unique:
  assumes n: "0 < n" and d: "angle_decomp a n c r"
  shows "c = angle_class a n \<and> r = angle_residual a n"
proof -
  let ?w = "bin_width n"
  let ?t = "of_int c * ?w + r + ?w / 2"
  from d obtain k :: int where c: "0 \<le> c" "c < n" and r: "- (?w / 2) \<le> r" "r < ?w / 2"
    and k: "of_int c * ?w + r = a + two_pi * of_int k"
    by (auto simp: angle_decomp_def class2angle_def)
  from n have w: "0 < ?w" by simp
  from c w have cw: "0 \<le> of_int c * ?w" by simp
  have lo: "of_int c * ?w \<le> ?t" using r by simp
  have hi: "?t < (of_int c + 1) * ?w" using r by (simp add: algebra_simps)
  from hi bins_below [OF n c(2)] have "?t < two_pi" by simp
  moreover from cw lo have "0 \<le> ?t" by simp
  moreover from k have "a + ?w / 2 = ?t + two_pi * of_int (- k)" by simp
  ultimately have s: "shifted_angle a n = ?t"
    unfolding shifted_angle_def by (intro rmod_unique [where k = "- k"]) simp_all
  from w lo hi have "\<lfloor>?t / ?w\<rfloor> = c" by (rule floor_div_unique)
  with n s have "angle_class a n = c" by (simp add: angle_class_floor)
  with s show ?thesis by (simp add: angle_residual_def)
qed

lemmas angle_result_facts =
  angle_class_range angle_residual_range angle_decomp_result class2angle_result

subsection \<open>Negative class counts\<close>

lemma angle_class_negative:
  assumes "n < 0"
  shows "n < angle_class a n" "angle_class a n \<le> 0"
proof -
  let ?q = "shifted_angle a n / bin_width n"
  from assms have w: "bin_width n < 0"
    by (simp add: bin_width_def divide_neg_neg field_simps)
  have "of_int n * bin_width n = two_pi" using assms by simp
  with shifted_angle_range(2) [of a n] have "shifted_angle a n < of_int n * bin_width n"
    by simp
  with w have lo: "of_int n < ?q" by (simp add: neg_less_divide_eq)
  from w shifted_angle_range(1) [of a n] have hi: "?q \<le> 0"
    by (simp add: divide_nonneg_neg)
  from lo hi show "n < angle_class a n" "angle_class a n \<le> 0"
    by (auto simp: angle_class_def py_int_def less_ceiling_iff)
qed

lemma angle2class_refines_decomp_aux:
  "0 < n \<Longrightarrow> angle_decomp a n c r \<Longrightarrow> angle2class a n = Inr (c, r)"
  using angle_decomp_unique [of n a c r] by (simp add: angle2class_Inr)

lemma angle2class_raises_aux: "angle2class a n = Inl e \<longleftrightarrow> n = 0 \<and> e = ZeroDivisionError"
  by (cases "n = 0") (auto simp: angle2class_zero angle2class_Inr)

section \<open>Properties of \<open>angle2class\<close>\<close>

text \<open>
  C2: For a positive number of classes \<open>angle2class\<close> implements its contract and
  nothing else: it returns \<open>(c, r)\<close> exactly when \<open>c\<close> is a bin index in \<open>[0, n)\<close>, \<open>r\<close>
  lies in \<open>[-w/2, w/2)\<close> for the bin width \<open>w = 2 * pi / n\<close>, and \<open>c * w + r\<close> is the
  angle up to a multiple of \<open>2 * pi\<close>. The decomposition is unique, so the code
  computes the nearest bin centre.
\<close>

theorem angle2class_refines_decomp:
  assumes "0 < n"
  shows "angle2class a n = Inr (c, r) \<longleftrightarrow> angle_decomp a n c r"
proof
  assume "angle2class a n = Inr (c, r)"
  with assms have "c = angle_class a n" "r = angle_residual a n"
    by (simp_all add: angle2class_Inr)
  with assms show "angle_decomp a n c r" by (simp add: angle_decomp_result)
next
  assume "angle_decomp a n c r"
  with assms have "c = angle_class a n \<and> r = angle_residual a n"
    by (rule angle_decomp_unique)
  with assms show "angle2class a n = Inr (c, r)" by (simp add: angle2class_Inr)
qed

theorem angle2class_refines_decomp_witness:
  "(0::int) < 4 \<and> angle_decomp 0 4 0 0 \<and> angle2class 0 4 = Inr (0, 0)"
proof -
  have d: "angle_decomp 0 4 0 0"
    by (simp add: angle_decomp_def class2angle_def bin_width_def)
  with angle2class_refines_decomp [of 4 0 0 0] show ?thesis by simp
qed

text \<open>
  The class id returned for \<open>n > 0\<close> classes is one of \<open>0, 1, ..., n - 1\<close>, as the
  docstring of \<open>angle2class\<close> promises.
\<close>

theorem angle2class_class_range:
  assumes "0 < n" and "angle2class a n = Inr (c, r)"
  shows "0 \<le> c \<and> c < n"
  using assms angle_class_range [of n a] by (auto simp: angle2class_Inr)

theorem angle2class_class_range_witness:
  "(0::int) < 4 \<and> angle2class pi 4 = Inr (2, 0) \<and> (0::int) \<le> 2 \<and> (2::int) < 4"
proof -
  have "angle_decomp pi 4 2 0"
    by (simp add: angle_decomp_def class2angle_def bin_width_def exI [of _ 0])
  then have e: "angle2class pi 4 = Inr (2, 0)"
    by (simp add: angle2class_refines_decomp_aux)
  with angle2class_class_range [of 4 pi 2 0] show ?thesis by simp
qed

text \<open>
  The residual is at most half a bin wide in absolute value: the returned class centre
  is a nearest one.
\<close>

theorem angle2class_residual_range:
  assumes "0 < n" and "angle2class a n = Inr (c, r)"
  shows "\<bar>r\<bar> \<le> bin_width n / 2 \<and> r < bin_width n / 2"
  using assms angle_residual_range [of n a] by (auto simp: angle2class_Inr abs_le_iff)

theorem angle2class_residual_range_witness:
  "(0::int) < 4 \<and> angle2class 0 4 = Inr (0, 0) \<and> \<bar>0::real\<bar> \<le> bin_width 4 / 2"
proof -
  have "angle_decomp 0 4 0 0"
    by (simp add: angle_decomp_def class2angle_def bin_width_def)
  then have e: "angle2class 0 4 = Inr (0, 0)"
    by (simp add: angle2class_refines_decomp_aux)
  with angle2class_residual_range [of 4 0 0 0] show ?thesis by simp
qed

text \<open>
  The only exception \<open>angle2class\<close> can raise is the division by zero of
  \<open>2 * pi / float(num_class)\<close> for \<open>num_class = 0\<close>. In particular the assertion on
  the wrapped angle never fails, and every other class count returns.
\<close>

theorem angle2class_raises_iff:
  "angle2class a n = Inl e \<longleftrightarrow> n = 0 \<and> e = ZeroDivisionError"
  by (rule angle2class_raises_aux)

theorem angle2class_raises_iff_witness:
  "angle2class 1 0 = Inl ZeroDivisionError \<and> angle2class 1 3 \<noteq> Inl AssertionError"
  using angle2class_raises_iff [of 1 0 ZeroDivisionError]
    angle2class_raises_iff [of 1 3 AssertionError]
  by simp

text \<open>
  C22: Decoding inverts encoding on the circle: class centre plus residual has the
  cosine and the sine of the encoded angle, for every angle (negative ones and ones
  beyond \<open>2 * pi\<close> included) and every class count for which the code returns.
\<close>

theorem angle2class_roundtrip:
  assumes "angle2class a n = Inr (c, r)"
  shows "cos (class2angle c r n) = cos a \<and> sin (class2angle c r n) = sin a"
proof -
  from assms have n: "n \<noteq> 0" by (auto simp: angle2class_zero)
  with assms have "c = angle_class a n" "r = angle_residual a n"
    by (simp_all add: angle2class_Inr)
  then show ?thesis by (simp only: class2angle_result cos_add_period sin_add_period)
qed

theorem angle2class_roundtrip_witness:
  "angle2class pi 4 = Inr (2, 0) \<and> cos (class2angle 2 0 4) = cos pi
     \<and> sin (class2angle 2 0 4) = sin pi"
proof -
  have "angle_decomp pi 4 2 0"
    by (simp add: angle_decomp_def class2angle_def bin_width_def exI [of _ 0])
  then have e: "angle2class pi 4 = Inr (2, 0)"
    by (simp add: angle2class_refines_decomp_aux)
  with angle2class_roundtrip [of pi 4 2 0] show ?thesis by simp
qed

text \<open>
  C40: The docstring's equation \<open>class * (2 * pi / N) + residual_angle = angle\<close> holds
  exactly on \<open>[0, 2 * pi - w/2)\<close> only. In the last half bin before \<open>2 * pi\<close> the code
  returns class 0 with a negative residual, and decoding gives \<open>angle - 2 * pi\<close>.
\<close>

theorem angle2class_reconstruct:
  assumes "0 < n" and "0 \<le> a" and "a < two_pi" and "angle2class a n = Inr (c, r)"
  shows "class2angle c r n = (if a < two_pi - bin_width n / 2 then a else a - two_pi)"
proof -
  let ?w = "bin_width n"
  from assms have cr: "c = angle_class a n" "r = angle_residual a n"
    by (simp_all add: angle2class_Inr)
  from assms have w: "0 < ?w" "?w \<le> two_pi"
    by (simp_all add: bin_width_le_two_pi)
  have "shifted_angle a n = (if a < two_pi - ?w / 2 then a + ?w / 2 else a + ?w / 2 - two_pi)"
  proof (cases "a < two_pi - ?w / 2")
    case True
    with assms w have "rmod (a + ?w / 2) two_pi = a + ?w / 2"
      by (intro rmod_id) simp_all
    with True show ?thesis by (simp add: shifted_angle_def)
  next
    case False
    with assms w have "rmod (a + ?w / 2) two_pi = a + ?w / 2 - two_pi"
      by (intro rmod_unique [where k = 1]) simp_all
    with False show ?thesis by (simp add: shifted_angle_def)
  qed
  then show ?thesis by (simp add: cr class2angle_def angle_residual_def)
qed

theorem angle2class_reconstruct_witness:
  "angle2class (15 * pi / 8) 4 = Inr (0, - (pi / 8))
     \<and> class2angle 0 (- (pi / 8)) 4 = 15 * pi / 8 - two_pi"
proof -
  have "- (pi / 2) < pi" using pi_gt_zero by linarith
  then have "angle_decomp (15 * pi / 8) 4 0 (- (pi / 8))"
    by (simp add: angle_decomp_def class2angle_def bin_width_def exI [of _ "- 1"])
  then have e: "angle2class (15 * pi / 8) 4 = Inr (0, - (pi / 8))"
    by (simp add: angle2class_refines_decomp_aux)
  with angle2class_reconstruct [of 4 "15 * pi / 8" 0 "- (pi / 8)"] show ?thesis
    by (simp add: bin_width_def)
qed

text \<open>
  \<open>angle2class\<close> is periodic: angles that differ by a multiple of \<open>2 * pi\<close> get the
  same class and the same residual, so headings in \<open>[-pi, pi)\<close> and in \<open>[0, 2 * pi)\<close>
  are encoded alike.
\<close>

theorem angle2class_periodic: "angle2class (a + two_pi * of_int k) n = angle2class a n"
proof (cases "n = 0")
  case True
  then show ?thesis by (simp add: angle2class_zero)
next
  case False
  have "a + two_pi * of_int k + bin_width n / 2 = (a + bin_width n / 2) + two_pi * of_int k"
    by simp
  then have "shifted_angle (a + two_pi * of_int k) n = shifted_angle a n"
    unfolding shifted_angle_def by (simp only: rmod_add_period [OF two_pi_pos])
  with False show ?thesis
    by (simp add: angle2class_Inr angle_class_def angle_residual_def)
qed

text \<open>
  Every class centre \<open>k * (2 * pi / n)\<close>, \<open>0 \<le> k < n\<close>, is encoded as class \<open>k\<close>
  with residual 0.
\<close>

theorem angle2class_centre:
  assumes "0 \<le> k" and "k < n"
  shows "angle2class (of_int k * bin_width n) n = Inr (k, 0)"
proof -
  from assms have n: "0 < n" by simp
  have "angle_decomp (of_int k * bin_width n) n k 0"
    using assms n by (simp add: angle_decomp_def class2angle_def exI [of _ 0])
  with n show ?thesis by (simp add: angle2class_refines_decomp_aux)
qed

theorem angle2class_centre_witness:
  "(0::int) \<le> 3 \<and> (3::int) < 4 \<and> angle2class (3 * bin_width 4) 4 = Inr (3, 0)"
  using angle2class_centre [of 3 4] by simp

text \<open>
  A negative class count is not rejected: the code returns a class id in
  \<open>(n, 0]\<close>, outside \<open>[0, |n|)\<close> unless it is 0.
\<close>

theorem angle2class_negative_count:
  assumes "n < 0" and "angle2class a n = Inr (c, r)"
  shows "n < c \<and> c \<le> 0"
  using assms angle_class_negative [of n a] by (auto simp: angle2class_Inr)

theorem angle2class_negative_count_witness:
  "(- 4 :: int) < 0 \<and> (\<exists>c r. angle2class pi (- 4) = Inr (c, r) \<and> - 4 < c \<and> c \<le> 0)"
proof -
  obtain c r where e: "angle2class pi (- 4) = Inr (c, r)"
    by (simp add: angle2class_Inr)
  with angle2class_negative_count [of "- 4" pi c r] show ?thesis by simp
qed

section \<open>Box size: residual to the mean box\<close>

text \<open>
  The module constant \<^verbatim>\<open>__box_mean\<close> (lines 17-19) with its decimal digits, and
  \<^verbatim>\<open>size2class\<close> (lines 98-108): a numpy subtraction of a Python list from the size
  array, hence with numpy's broadcasting.
\<close>

definition box_mean :: "real list" where
  "box_mean =
     [3996132075471698908 / 10 ^ 18,
      1617452830188679469 / 10 ^ 18,
      1517264150943395506 / 10 ^ 18]"

definition size2class :: "real list \<Rightarrow> real list result" where
  "size2class sz = np_sub_vec sz box_mean"

lemma length_box_mean [simp]: "length box_mean = 3"
  by (simp add: box_mean_def)

lemma size2class_3: "length sz = 3 \<Longrightarrow> size2class sz = Inr (map2 (-) sz box_mean)"
  by (simp add: size2class_def np_sub_vec_same_length)

lemma size2class_raises_aux:
  "size2class sz = Inl e \<longleftrightarrow> length sz \<noteq> 3 \<and> length sz \<noteq> 1 \<and> e = ValueError"
  by (auto simp: size2class_def np_sub_vec_def)

lemma size2class_length: "size2class sz = Inr r \<Longrightarrow> length r = 3"
  by (auto simp: size2class_def np_sub_vec_def split: if_splits)

text \<open>
  \<open>size2class\<close> is invertible: for a size vector \<open>(l, w, h)\<close> the residual has three
  entries, and adding the mean box size to it gives the size back.
\<close>

theorem size2class_roundtrip:
  assumes "length sz = 3"
  shows "\<exists>r. size2class sz = Inr r \<and> length r = 3 \<and> map2 (+) r box_mean = sz"
  using assms by (simp add: size2class_3 map2_add_sub_cancel)

theorem size2class_roundtrip_witness:
  "\<exists>r. size2class [4, 2, 1] = Inr r \<and> length r = 3 \<and> map2 (+) r box_mean = [4, 2, 1]"
  by (rule size2class_roundtrip) simp

text \<open>
  \<open>size2class\<close> raises (a \<open>ValueError\<close> of the broadcast) exactly when the size
  array has neither three entries nor one: an array of one entry is not rejected but
  broadcast against the three means.
\<close>

theorem size2class_raises_iff:
  "size2class sz = Inl e \<longleftrightarrow> length sz \<noteq> 3 \<and> length sz \<noteq> 1 \<and> e = ValueError"
  by (rule size2class_raises_aux)

theorem size2class_raises_iff_witness:
  "size2class [4, 2] = Inl ValueError \<and> size2class [4] \<noteq> Inl ValueError"
  using size2class_raises_iff [of "[4, 2]" ValueError] size2class_raises_iff [of "[4]" ValueError]
  by simp

end
