(* ===== verification/Rotation.thy ===== *)
theory Rotation
  imports NdArray
begin

text \<open>
  \<^verbatim>\<open>rotate_pc_along_y\<close> (lines 60-73 of \<^verbatim>\<open>src/KITTILoader.py\<close>): the rotation of
  the \<open>(x, z)\<close> columns of a point array about the \<open>y\<close> axis. The definition follows the
  source: it builds the rotation matrix, multiplies the two selected columns with its
  transpose and writes them back. \<open>rot_row\<close> is the closed form of what happens to one
  row; the lemmas show that the code computes it, and from it that the rotation keeps
  the shape, the other channels and the planar norm, and that rotations compose.
\<close>

section \<open>The operation\<close>

definition rotate_pc_along_y :: "ndarray \<Rightarrow> real \<Rightarrow> ndarray result" where
  "rotate_pc_along_y pc rot_angle =
     (let cosval = cos rot_angle;
          sinval = sin rot_angle;
          rotmat = [[cosval, - sinval], [sinval, cosval]]
      in rbind (np_get_cols pc [0, 2]) (\<lambda>xz.
         rbind (np_dot xz (np_transpose rotmat)) (\<lambda>rotated.
         np_set_cols pc [0, 2] rotated)))"

section \<open>The rotation of one row\<close>

definition rot_row :: "real \<Rightarrow> real list \<Rightarrow> real list" where
  "rot_row t p =
     p[0 := p ! 0 * cos t - p ! 2 * sin t, 2 := p ! 0 * sin t + p ! 2 * cos t]"

definition xz_norm2 :: "real list \<Rightarrow> real" where
  "xz_norm2 p = (p ! 0)\<^sup>2 + (p ! 2)\<^sup>2"

definition xz_dist2 :: "real list \<Rightarrow> real list \<Rightarrow> real" where
  "xz_dist2 p q = (p ! 0 - q ! 0)\<^sup>2 + (p ! 2 - q ! 2)\<^sup>2"

lemma length_rot_row [simp]: "length (rot_row t p) = length p"
  by (simp add: rot_row_def)

lemma rot_row_nth:
  assumes "3 \<le> length p"
  shows "rot_row t p ! 0 = p ! 0 * cos t - p ! 2 * sin t"
    and "rot_row t p ! 2 = p ! 0 * sin t + p ! 2 * cos t"
proof -
  from assms have "p \<noteq> []" "2 < length p" by auto
  then show "rot_row t p ! 0 = p ! 0 * cos t - p ! 2 * sin t"
    and "rot_row t p ! 2 = p ! 0 * sin t + p ! 2 * cos t"
    by (simp_all add: rot_row_def)
qed

lemma rot_row_nth_other: "j \<noteq> 0 \<Longrightarrow> j \<noteq> 2 \<Longrightarrow> rot_row t p ! j = p ! j"
  by (simp add: rot_row_def)

lemma rot_row_0 [simp]: "rot_row 0 p = p"
  by (simp add: rot_row_def)

lemma map_rot_row_0 [simp]: "map (rot_row 0) ps = ps"
  by (induction ps) simp_all

lemma rot_row_add:
  assumes "3 \<le> length p"
  shows "rot_row b (rot_row a p) = rot_row (a + b) p"
proof -
  have "rot_row b (rot_row a p) =
      p[0 := rot_row a p ! 0 * cos b - rot_row a p ! 2 * sin b,
        2 := rot_row a p ! 0 * sin b + rot_row a p ! 2 * cos b]"
    by (simp add: rot_row_def list_update_swap [of 0 2])
  also have "\<dots> = rot_row (a + b) p"
    unfolding rot_row_nth [OF assms]
    by (simp add: rot_row_def cos_add sin_add algebra_simps)
  finally show ?thesis .
qed

lemma unit_rotation_identity:
  fixes x z c s :: real
  assumes "s\<^sup>2 + c\<^sup>2 = 1"
  shows "(x * c - z * s)\<^sup>2 + (x * s + z * c)\<^sup>2 = x\<^sup>2 + z\<^sup>2"
proof -
  have "(x * c - z * s)\<^sup>2 + (x * s + z * c)\<^sup>2 = (x\<^sup>2 + z\<^sup>2) * (s\<^sup>2 + c\<^sup>2)"
    by (simp add: power2_eq_square algebra_simps)
  with assms show ?thesis by simp
qed

lemma rotation_identity:
  fixes x z :: real
  shows "(x * cos t - z * sin t)\<^sup>2 + (x * sin t + z * cos t)\<^sup>2 = x\<^sup>2 + z\<^sup>2"
  by (rule unit_rotation_identity) simp

lemma xz_norm2_rot_row: "3 \<le> length p \<Longrightarrow> xz_norm2 (rot_row t p) = xz_norm2 p"
  by (simp add: xz_norm2_def rot_row_nth rotation_identity)

lemma xz_dist2_rot_row:
  assumes "3 \<le> length p" "3 \<le> length q"
  shows "xz_dist2 (rot_row t p) (rot_row t q) = xz_dist2 p q"
proof -
  have "xz_dist2 (rot_row t p) (rot_row t q) =
      ((p ! 0 - q ! 0) * cos t - (p ! 2 - q ! 2) * sin t)\<^sup>2 +
      ((p ! 0 - q ! 0) * sin t + (p ! 2 - q ! 2) * cos t)\<^sup>2"
    by (simp add: xz_dist2_def rot_row_nth assms algebra_simps)
  then show ?thesis by (simp only: rotation_identity xz_dist2_def)
qed

section \<open>The code computes the rotation of every row\<close>

lemma map2_map_same: "map2 g (map f xs) xs = map (\<lambda>x. g (f x) x) xs"
  by (induction xs) simp_all

lemma rotate_pc_along_y_eq:
  assumes "3 \<le> ncols pc"
  shows "rotate_pc_along_y pc t = Inr (pc\<lparr>rows := map (rot_row t) (rows pc)\<rparr>)"
proof -
  let ?xz = "map (\<lambda>r. [r ! 0, r ! 2]) (rows pc)"
  let ?rot = "map (\<lambda>r. [r ! 0 * cos t + r ! 2 * - sin t, r ! 0 * sin t + r ! 2 * cos t]) (rows pc)"
  from assms have "np_get_cols pc [0, 2] = Inr ?xz"
    by (simp add: np_get_cols_def)
  moreover have "np_dot ?xz (np_transpose [[cos t, - sin t], [sin t, cos t]]) = Inr ?rot"
    by (simp add: np_dot_def np_transpose_def list_all_iff comp_def)
  moreover from assms have "np_set_cols pc [0, 2] ?rot =
      Inr (pc\<lparr>rows := map (rot_row t) (rows pc)\<rparr>)"
    by (simp add: np_set_cols_def list_all_iff nrows_def map2_map_same rot_row_def)
  ultimately show ?thesis
    by (simp add: rotate_pc_along_y_def Let_def)
qed

lemma rotate_pc_along_y_narrow:
  "ncols pc < 3 \<Longrightarrow> rotate_pc_along_y pc t = Inl IndexError"
  by (simp add: rotate_pc_along_y_def Let_def np_get_cols_def)

lemma rotate_pc_along_y_cases:
  "rotate_pc_along_y pc t =
     (if 3 \<le> ncols pc then Inr (pc\<lparr>rows := map (rot_row t) (rows pc)\<rparr>) else Inl IndexError)"
  by (simp add: rotate_pc_along_y_eq rotate_pc_along_y_narrow not_le)

lemma rotate_pc_along_y_Inr_iff:
  "rotate_pc_along_y pc t = Inr pc' \<longleftrightarrow>
     3 \<le> ncols pc \<and> pc' = pc\<lparr>rows := map (rot_row t) (rows pc)\<rparr>"
  by (auto simp: rotate_pc_along_y_cases)

lemma rotate_shape [nd_shape]:
  assumes "rotate_pc_along_y pc t = Inr pc'"
  shows "nrows pc' = nrows pc" "ncols pc' = ncols pc"
  using assms by (auto simp: rotate_pc_along_y_Inr_iff)

lemma rotate_wf [nd_shape]:
  assumes "rotate_pc_along_y pc t = Inr pc'" and "wf_ndarray pc"
  shows "wf_ndarray pc'"
  using assms by (auto simp: rotate_pc_along_y_Inr_iff wf_ndarray_iff)

lemma rotate_row:
  assumes "rotate_pc_along_y pc t = Inr pc'" and "i < nrows pc"
  shows "rows pc' ! i = rot_row t (rows pc ! i)"
  using assms by (auto simp: rotate_pc_along_y_Inr_iff nrows_def)

lemma rotate_row_length:
  assumes "rotate_pc_along_y pc t = Inr pc'" and "wf_ndarray pc" and "i < nrows pc"
  shows "3 \<le> length (rows pc ! i)"
  using assms by (auto simp: rotate_pc_along_y_Inr_iff wf_ndarray_nth)

lemma map_rot_row_add:
  "\<forall>r \<in> set ps. 3 \<le> length r \<Longrightarrow>
     map (rot_row b \<circ> rot_row a) ps = map (rot_row (a + b)) ps"
  by (simp add: rot_row_add)

lemma rotate_rotate:
  assumes "wf_ndarray pc" and "3 \<le> ncols pc"
  shows "rbind (rotate_pc_along_y pc a) (\<lambda>q. rotate_pc_along_y q b) =
    Inr (pc\<lparr>rows := map (rot_row (a + b)) (rows pc)\<rparr>)"
proof -
  from assms have len: "\<forall>r \<in> set (rows pc). 3 \<le> length r"
    by (simp add: wf_ndarray_iff)
  from assms(2) have "rbind (rotate_pc_along_y pc a) (\<lambda>q. rotate_pc_along_y q b) =
      Inr (pc\<lparr>rows := map (rot_row b \<circ> rot_row a) (rows pc)\<rparr>)"
    by (simp add: rotate_pc_along_y_cases)
  then show ?thesis by (simp only: map_rot_row_add [OF len])
qed

section \<open>Properties of \<open>rotate_pc_along_y\<close>\<close>

text \<open>
  C3: The matrix code of \<open>rotate_pc_along_y\<close> (select columns 0 and 2, multiply with
  the transposed rotation matrix, write back) is the plane rotation of every row:
  \<open>x' = x * cos t - z * sin t\<close> and \<open>z' = x * sin t + z * cos t\<close>, when the array has at
  least three columns.
\<close>

theorem rotate_pc_along_y_rows:
  assumes "3 \<le> ncols pc"
  shows "rotate_pc_along_y pc t = Inr (pc\<lparr>rows := map (rot_row t) (rows pc)\<rparr>)"
  using assms by (rule rotate_pc_along_y_eq)

theorem rotate_pc_along_y_rows_witness:
  "rotate_pc_along_y \<lparr>ncols = 3, rows = [[1, 5, 0]]\<rparr> (pi / 2) =
     Inr \<lparr>ncols = 3, rows = [[0, 5, 1]]\<rparr>"
  using rotate_pc_along_y_rows [of "\<lparr>ncols = 3, rows = [[1, 5, 0]]\<rparr>" "pi / 2"]
  by (simp add: rot_row_def)

text \<open>
  C23: The rotation preserves the norm in the \<open>(x, z)\<close> plane: for every point of a
  well-formed array \<open>x\<^sup>2 + z\<^sup>2\<close> is the same before and after.
\<close>

theorem rotate_pc_along_y_norm:
  assumes "rotate_pc_along_y pc t = Inr pc'" and "wf_ndarray pc" and "i < nrows pc"
  shows "xz_norm2 (rows pc' ! i) = xz_norm2 (rows pc ! i)"
  using assms by (simp add: rotate_row xz_norm2_rot_row rotate_row_length)

theorem rotate_pc_along_y_norm_witness:
  "xz_norm2 (rows \<lparr>ncols = 3, rows = [[0, 5, 1]]\<rparr> ! 0) =
     xz_norm2 (rows \<lparr>ncols = 3, rows = [[1, 5, 0]]\<rparr> ! 0)"
proof -
  have "rotate_pc_along_y \<lparr>ncols = 3, rows = [[1, 5, 0]]\<rparr> (pi / 2) =
      Inr \<lparr>ncols = 3, rows = [[0, 5, 1]]\<rparr>"
    by (simp add: rotate_pc_along_y_cases rot_row_def)
  then show ?thesis
    by (rule rotate_pc_along_y_norm) (simp_all add: wf_ndarray_def nrows_def)
qed

text \<open>
  Rotating by \<open>t\<close> and then by \<open>- t\<close> returns the original array.
\<close>

theorem rotate_pc_along_y_inverse:
  assumes "wf_ndarray pc" and "3 \<le> ncols pc"
  shows "rbind (rotate_pc_along_y pc t) (\<lambda>q. rotate_pc_along_y q (- t)) = Inr pc"
  using assms by (simp add: rotate_rotate)

theorem rotate_pc_along_y_inverse_witness:
  "rbind (rotate_pc_along_y \<lparr>ncols = 3, rows = [[1, 5, 0]]\<rparr> (pi / 2))
     (\<lambda>q. rotate_pc_along_y q (- (pi / 2))) = Inr \<lparr>ncols = 3, rows = [[1, 5, 0]]\<rparr>"
  by (rule rotate_pc_along_y_inverse) (simp_all add: wf_ndarray_def)

text \<open>
  Rotations compose: rotating a well-formed array by \<open>a\<close> and then by \<open>b\<close> is
  rotating it by \<open>a + b\<close>, with the same exception when the array is too narrow.
\<close>

theorem rotate_pc_along_y_compose:
  assumes "wf_ndarray pc"
  shows "rbind (rotate_pc_along_y pc a) (\<lambda>q. rotate_pc_along_y q b) =
    rotate_pc_along_y pc (a + b)"
proof (cases "3 \<le> ncols pc")
  case True
  with assms have "rbind (rotate_pc_along_y pc a) (\<lambda>q. rotate_pc_along_y q b) =
      Inr (pc\<lparr>rows := map (rot_row (a + b)) (rows pc)\<rparr>)"
    by (rule rotate_rotate)
  moreover from True have "rotate_pc_along_y pc (a + b) =
      Inr (pc\<lparr>rows := map (rot_row (a + b)) (rows pc)\<rparr>)"
    by (rule rotate_pc_along_y_eq)
  ultimately show ?thesis by simp
next
  case False
  then show ?thesis by (simp add: rotate_pc_along_y_narrow)
qed

theorem rotate_pc_along_y_compose_witness:
  "rbind (rotate_pc_along_y \<lparr>ncols = 3, rows = [[1, 5, 0]]\<rparr> (pi / 2))
     (\<lambda>q. rotate_pc_along_y q (pi / 2)) = Inr \<lparr>ncols = 3, rows = [[- 1, 5, 0]]\<rparr>"
proof -
  have "wf_ndarray \<lparr>ncols = 3, rows = [[1, 5, 0]]\<rparr>" by (simp add: wf_ndarray_def)
  from rotate_pc_along_y_compose [OF this, of "pi / 2" "pi / 2"] show ?thesis
    by (simp add: rotate_pc_along_y_cases rot_row_def)
qed

text \<open>
  The rotation touches nothing but the \<open>x\<close> and \<open>z\<close> channels: the result has the
  shape of the input, is well formed when the input is, and agrees with the input on
  \<open>y\<close> and on every extra channel.
\<close>

theorem rotate_pc_along_y_frame:
  assumes "rotate_pc_along_y pc t = Inr pc'"
  shows "np_shape pc' = np_shape pc \<and> (wf_ndarray pc \<longrightarrow> wf_ndarray pc') \<and>
    (\<forall>i j. i < nrows pc \<and> j \<noteq> 0 \<and> j \<noteq> 2 \<longrightarrow> rows pc' ! i ! j = rows pc ! i ! j)"
  using assms
  by (auto simp: np_shape_def rotate_shape rotate_wf rotate_row rot_row_nth_other)

theorem rotate_pc_along_y_frame_witness:
  "np_shape \<lparr>ncols = 3, rows = [[0, 5, 1]]\<rparr> = np_shape \<lparr>ncols = 3, rows = [[1, 5, 0]]\<rparr>"
proof -
  have "rotate_pc_along_y \<lparr>ncols = 3, rows = [[1, 5, 0]]\<rparr> (pi / 2) =
      Inr \<lparr>ncols = 3, rows = [[0, 5, 1]]\<rparr>"
    by (simp add: rotate_pc_along_y_cases rot_row_def)
  from rotate_pc_along_y_frame [OF this] show ?thesis by simp
qed

text \<open>
  The only exception of \<open>rotate_pc_along_y\<close> is the \<open>IndexError\<close> of selecting
  column 2 of an array with fewer than three columns; the matrix product and the
  write-back never fail.
\<close>

theorem rotate_pc_along_y_raises_iff:
  "rotate_pc_along_y pc t = Inl e \<longleftrightarrow> ncols pc < 3 \<and> e = IndexError"
  by (auto simp: rotate_pc_along_y_cases)

theorem rotate_pc_along_y_raises_iff_witness:
  "rotate_pc_along_y \<lparr>ncols = 2, rows = [[1, 5]]\<rparr> 0 = Inl IndexError"
  using rotate_pc_along_y_raises_iff [of "\<lparr>ncols = 2, rows = [[1, 5]]\<rparr>" 0 IndexError]
  by simp

text \<open>Rotating by the angle 0 is the identity.\<close>

theorem rotate_pc_along_y_zero:
  assumes "3 \<le> ncols pc"
  shows "rotate_pc_along_y pc 0 = Inr pc"
  using assms by (simp add: rotate_pc_along_y_eq)

theorem rotate_pc_along_y_zero_witness:
  "rotate_pc_along_y \<lparr>ncols = 4, rows = [[1, 5, 0, 7], [2, 2, 2, 2]]\<rparr> 0 =
     Inr \<lparr>ncols = 4, rows = [[1, 5, 0, 7], [2, 2, 2, 2]]\<rparr>"
  by (rule rotate_pc_along_y_zero) simp

end
