(* ===== verification/Random_Draws.thy ===== *)
theory Random_Draws
  imports Py_Prelude
begin

text \<open>
  The random number generators are not part of the repository; the model takes the
  outcome of every draw as an input. A draw of an index is given as a raw natural
  number and reduced into the range the call asks for, so that every outcome the
  library can produce is the value of some raw draw and no raw draw is invalid. The
  theorems about the datasets quantify over all draws: they hold for every run.
\<close>

section \<open>\<^verbatim>\<open>np.random.choice(a, size, replace=True)\<close>\<close>

text \<open>
  \<open>size\<close> indices below \<open>a\<close>, drawn independently. numpy raises \<^verbatim>\<open>ValueError\<close> for
  a negative size, and for an empty population unless no sample is taken.
\<close>

definition np_random_choice :: "(nat \<Rightarrow> nat) \<Rightarrow> nat \<Rightarrow> int \<Rightarrow> nat list result" where
  "np_random_choice raw a sz =
     (if sz < 0 then Inl ValueError
      else if a = 0 \<and> sz \<noteq> 0 then Inl ValueError
      else Inr (map (\<lambda>i. raw i mod a) [0..<nat sz]))"

section \<open>\<^verbatim>\<open>random.randint(lo, hi)\<close>\<close>

text \<open>An integer in \<open>[lo, hi]\<close>, both ends included; \<^verbatim>\<open>ValueError\<close> for an empty range.\<close>

definition random_randint :: "nat \<Rightarrow> int \<Rightarrow> int \<Rightarrow> int result" where
  "random_randint raw lo hi =
     (if hi < lo then Inl ValueError else Inr (lo + int raw mod (hi - lo + 1)))"

section \<open>Facts\<close>

lemma np_random_choice_Inr_iff:
  "np_random_choice raw a sz = Inr idx \<longleftrightarrow>
     0 \<le> sz \<and> (0 < a \<or> sz = 0) \<and> idx = map (\<lambda>i. raw i mod a) [0..<nat sz]"
  by (auto simp: np_random_choice_def)

lemma np_random_choice_Inl_iff:
  "np_random_choice raw a sz = Inl e \<longleftrightarrow>
     (sz < 0 \<or> a = 0 \<and> sz \<noteq> 0) \<and> e = ValueError"
  by (auto simp: np_random_choice_def)

lemma np_random_choice_length:
  "np_random_choice raw a sz = Inr idx \<Longrightarrow> length idx = nat sz"
  by (auto simp: np_random_choice_Inr_iff)

lemma np_random_choice_bound:
  "np_random_choice raw a sz = Inr idx \<Longrightarrow> i \<in> set idx \<Longrightarrow> i < a"
  by (auto simp: np_random_choice_Inr_iff)

lemma np_random_choice_nth:
  "np_random_choice raw a sz = Inr idx \<Longrightarrow> i < nat sz \<Longrightarrow> idx ! i = raw i mod a"
  by (auto simp: np_random_choice_Inr_iff)

text \<open>Every list of valid indices is the outcome of some raw draw.\<close>

lemma np_random_choice_complete:
  assumes "\<forall>i \<in> set idx. i < a"
  shows "np_random_choice (\<lambda>i. idx ! i) a (int (length idx)) = Inr idx"
proof -
  from assms have "map (\<lambda>i. idx ! i mod a) [0..<length idx] = map (\<lambda>i. idx ! i) [0..<length idx]"
    by (intro map_cong) simp_all
  moreover from assms have "idx \<noteq> [] \<longrightarrow> 0 < a"
    by (cases idx) auto
  ultimately show ?thesis
    by (auto simp: np_random_choice_def map_nth)
qed

lemma random_randint_Inr_iff:
  "random_randint raw lo hi = Inr x \<longleftrightarrow> lo \<le> hi \<and> x = lo + int raw mod (hi - lo + 1)"
  by (auto simp: random_randint_def)

lemma random_randint_range:
  assumes "random_randint raw lo hi = Inr x"
  shows "lo \<le> x" "x \<le> hi"
proof -
  from assms have h: "lo \<le> hi" and x: "x = lo + int raw mod (hi - lo + 1)"
    by (simp_all add: random_randint_Inr_iff)
  from h have pos: "0 < hi - lo + 1" by simp
  have "0 \<le> int raw mod (hi - lo + 1)" "int raw mod (hi - lo + 1) < hi - lo + 1"
    by (rule pos_mod_sign [OF pos], rule pos_mod_bound [OF pos])
  with x show "lo \<le> x" "x \<le> hi" by simp_all
qed

lemma random_randint_complete:
  assumes "lo \<le> x" "x \<le> hi"
  shows "random_randint (nat (x - lo)) lo hi = Inr x"
  using assms by (simp add: random_randint_def)

end
