(* ===== verification/Point_Data.thy ===== *)
theory Point_Data
  imports Box_Encoding Rotation Random_Draws
begin

text \<open>
  The dataset class \<^verbatim>\<open>myPointData\<close> (lines 112-179 of \<^verbatim>\<open>src/KITTILoader.py\<close>).
  The object is a record of its attributes. A stored sample is the dictionary that
  \<^verbatim>\<open>point_loader\<close> returns: a record whose fields are the keys, \<open>None\<close> for a key
  that is absent, so that a missing key is the \<open>KeyError\<close> branch of \<open>dict_get\<close>. The
  file system is a function from paths to stored samples, \<open>None\<close> for a file that
  cannot be loaded. \<open>myPointData_getitem\<close> is \<^verbatim>\<open>__getitem__\<close>, composed of the
  blocks of the source in their order: field selection, sampling with replacement,
  random flip, random shift, size encoding, rotation into the frustum frame, heading
  encoding.
\<close>

section \<open>Data\<close>

record point_record =
  img_id :: "int option"
  frustum_angle :: "real option"
  point_2d :: "ndarray option"
  label :: "int list option"
  point_velo :: "ndarray option"
  velo_label :: "int list option"
  box3d_center :: "real list option"
  box3d_size :: "real list option"
  heading :: "real option"

record myPointData =
  points :: "string list"
  num_point :: int
  num_angle :: int
  random_flip :: bool
  random_shift :: bool
  lidar :: bool

text \<open>The draws of one call of \<^verbatim>\<open>__getitem__\<close>, in the order the code makes them.\<close>

record draws =
  choice_raw :: "nat \<Rightarrow> nat"
  flip_u :: real
  shift_g :: real

text \<open>The tuple \<^verbatim>\<open>__getitem__\<close> returns, with the names of its local variables.\<close>

record point_sample =
  points_rot :: ndarray
  seg_mask :: "int list"
  box3d_center_rot :: "real list"
  angle_c_rot :: int
  angle_r_rot :: real
  size_r :: "real list"
  rot_angle :: real
  sample_img_id :: int
  sample_name :: string

type_synonym point_fs = "string \<Rightarrow> point_record option"

section \<open>Construction and length\<close>

text \<open>
  \<^verbatim>\<open>__init__\<close>: \<open>listing\<close> is the result of \<^verbatim>\<open>os.listdir(points_dir)\<close>; the paths
  are formed by plain string concatenation.
\<close>

definition myPointData_init ::
  "string list \<Rightarrow> string \<Rightarrow> int \<Rightarrow> int \<Rightarrow> bool \<Rightarrow> bool \<Rightarrow> bool \<Rightarrow> myPointData" where
  "myPointData_init listing points_dir n_point n_angle flip shift use_lidar =
     \<lparr>points = map (\<lambda>point. points_dir @ point) listing,
      num_point = n_point, num_angle = n_angle,
      random_flip = flip, random_shift = shift, lidar = use_lidar\<rparr>"

definition myPointData_len :: "myPointData \<Rightarrow> nat" where
  "myPointData_len self = length (points self)"

section \<open>Loading and dictionary access\<close>

definition point_loader :: "point_fs \<Rightarrow> string \<Rightarrow> point_record result" where
  "point_loader fs path = (case fs path of None \<Rightarrow> Inl IOError | Some d \<Rightarrow> Inr d)"

definition dict_get :: "'a option \<Rightarrow> 'a result" where
  "dict_get v = (case v of None \<Rightarrow> Inl KeyError | Some x \<Rightarrow> Inr x)"

text \<open>\<^verbatim>\<open>s.split(sep)[-1]\<close>: what follows the last separator.\<close>

definition split_last :: "char \<Rightarrow> string \<Rightarrow> string" where
  "split_last sep s = rev (takeWhile (\<lambda>c. c \<noteq> sep) (rev s))"

section \<open>The blocks of \<^verbatim>\<open>__getitem__\<close>\<close>

text \<open>Lines 127-132: the camera-frame or the lidar-frame points with their labels.\<close>

definition select_source :: "myPointData \<Rightarrow> point_record \<Rightarrow> (ndarray \<times> int list) result" where
  "select_source self datas =
     (if lidar self
      then rbind (dict_get (point_velo datas)) (\<lambda>pts.
           rbind (dict_get (velo_label datas)) (\<lambda>seg. Inr (pts, seg)))
      else rbind (dict_get (point_2d datas)) (\<lambda>pts.
           rbind (dict_get (label datas)) (\<lambda>seg. Inr (pts, seg))))"

text \<open>Lines 135-138: \<open>num_point\<close> rows drawn with replacement, and their labels.\<close>

definition subsample ::
  "myPointData \<Rightarrow> draws \<Rightarrow> ndarray \<Rightarrow> int list \<Rightarrow> (ndarray \<times> int list) result" where
  "subsample self rnd pts seg =
     rbind (np_random_choice (choice_raw rnd) (nrows pts) (num_point self)) (\<lambda>choice.
     rbind (np_take_rows pts choice) (\<lambda>pts'.
     rbind (np_take seg choice) (\<lambda>seg'. Inr (pts', seg'))))"

text \<open>Lines 146-152: the mirror image about the \<open>x = 0\<close> plane, with probability 1/2.\<close>

definition flip_aug ::
  "myPointData \<Rightarrow> draws \<Rightarrow> ndarray \<Rightarrow> real list \<Rightarrow> real \<Rightarrow> (ndarray \<times> real list \<times> real) result"
  where
  "flip_aug self rnd pts center head =
     (if random_flip self \<and> flip_u rnd > 0.5
      then rbind (np_col_map 0 (\<lambda>x. x * - 1) pts) (\<lambda>pts'.
           rbind (vec_map_at 0 (\<lambda>x. x * - 1) center) (\<lambda>center'.
           Inr (pts', center', pi - head)))
      else Inr (pts, center, head))"

text \<open>Lines 154-158: a shift along \<open>z\<close> by a clipped Gaussian multiple of the distance.\<close>

definition shift_amount :: "real \<Rightarrow> real \<Rightarrow> real" where
  "shift_amount g d = np_clip (g * d * 0.05) (d * 0.8) (d * 1.2)"

definition shift_aug ::
  "myPointData \<Rightarrow> draws \<Rightarrow> ndarray \<Rightarrow> real list \<Rightarrow> (ndarray \<times> real list) result" where
  "shift_aug self rnd pts center =
     (if random_shift self
      then rbind (vec_get center 0) (\<lambda>c0.
           rbind (vec_get center 1) (\<lambda>c1.
           let dist = sqrt (c0\<^sup>2 + c1\<^sup>2);
               shift = shift_amount (shift_g rnd) dist
           in rbind (np_col_map 2 (\<lambda>z. z + shift) pts) (\<lambda>pts'.
              rbind (vec_map_at 2 (\<lambda>z. z + shift) center) (\<lambda>center'.
              Inr (pts', center')))))
      else Inr (pts, center))"

section \<open>\<^verbatim>\<open>__getitem__\<close>\<close>

definition myPointData_getitem ::
  "point_fs \<Rightarrow> draws \<Rightarrow> myPointData \<Rightarrow> int \<Rightarrow> point_sample result" where
  "myPointData_getitem fs rnd self index =
     rbind (py_index (points self) index) (\<lambda>point.
     rbind (point_loader fs point) (\<lambda>datas.
     rbind (dict_get (img_id datas)) (\<lambda>iid.
     rbind (dict_get (frustum_angle datas)) (\<lambda>fa.
     let rot = pi / 2 + fa in
     rbind (select_source self datas) (\<lambda>(pts, seg).
     rbind (subsample self rnd pts seg) (\<lambda>(pts, seg).
     rbind (dict_get (box3d_center datas)) (\<lambda>center.
     rbind (dict_get (heading datas)) (\<lambda>head.
     rbind (flip_aug self rnd pts center head) (\<lambda>(pts, center, head).
     rbind (shift_aug self rnd pts center) (\<lambda>(pts, center).
     rbind (dict_get (box3d_size datas)) (\<lambda>sz.
     rbind (size2class sz) (\<lambda>res.
     rbind (rotate_pc_along_y pts rot) (\<lambda>pts_rot.
     rbind (rotate_pc_along_y (np_expand_dims0 center) rot) (\<lambda>center_rot.
     rbind (angle2class (head - rot) (num_angle self)) (\<lambda>(angle_c, angle_r).
     Inr \<lparr>points_rot = pts_rot, seg_mask = seg,
          box3d_center_rot = np_squeeze center_rot,
          angle_c_rot = angle_c, angle_r_rot = angle_r, size_r = res,
          rot_angle = rot, sample_img_id = iid,
          sample_name = split_last CHR ''/'' point\<rparr>)))))))))))))))"

section \<open>Reference definitions\<close>

text \<open>
  What the augmentation does to one coordinate list, be it a row of the point array
  or the box centre: \<open>flip_row\<close> negates \<open>x\<close>, \<open>shift_row\<close> adds to \<open>z\<close>. \<open>flip_fn\<close>
  and \<open>shift_fn\<close> are these under the configuration and the draws of one call, and
  \<open>augment\<close> is both in the order of the code. \<open>chosen\<close> is the index of the stored
  point that becomes the \<open>i\<close>-th sampled point.
\<close>

definition stored_points :: "myPointData \<Rightarrow> point_record \<Rightarrow> ndarray option" where
  "stored_points self d = (if lidar self then point_velo d else point_2d d)"

definition stored_labels :: "myPointData \<Rightarrow> point_record \<Rightarrow> int list option" where
  "stored_labels self d = (if lidar self then velo_label d else label d)"

definition chosen :: "draws \<Rightarrow> nat \<Rightarrow> nat \<Rightarrow> nat" where
  "chosen rnd n i = choice_raw rnd i mod n"

definition flipped :: "myPointData \<Rightarrow> draws \<Rightarrow> bool" where
  "flipped self rnd \<longleftrightarrow> random_flip self \<and> flip_u rnd > 0.5"

definition flip_row :: "real list \<Rightarrow> real list" where
  "flip_row p = p[0 := p ! 0 * - 1]"

definition shift_row :: "real \<Rightarrow> real list \<Rightarrow> real list" where
  "shift_row s p = p[2 := p ! 2 + s]"

definition center_dist :: "real list \<Rightarrow> real" where
  "center_dist c = sqrt ((c ! 0)\<^sup>2 + (c ! 1)\<^sup>2)"

definition flip_fn :: "myPointData \<Rightarrow> draws \<Rightarrow> real list \<Rightarrow> real list" where
  "flip_fn self rnd p = (if flipped self rnd then flip_row p else p)"

definition flip_head :: "myPointData \<Rightarrow> draws \<Rightarrow> real \<Rightarrow> real" where
  "flip_head self rnd h = (if flipped self rnd then pi - h else h)"

definition shift_fn :: "myPointData \<Rightarrow> draws \<Rightarrow> real list \<Rightarrow> real list \<Rightarrow> real list" where
  "shift_fn self rnd c p =
     (if random_shift self then shift_row (shift_amount (shift_g rnd) (center_dist c)) p else p)"

definition augment :: "myPointData \<Rightarrow> draws \<Rightarrow> real list \<Rightarrow> real list \<Rightarrow> real list" where
  "augment self rnd c p = shift_fn self rnd (flip_fn self rnd c) (flip_fn self rnd p)"

text \<open>
  A stored sample a dataset can serve: every key is present, the point array is well
  formed with at least the three coordinate channels, there is one label per point,
  and centre and size are 3-vectors.
\<close>

definition wf_point_record :: "myPointData \<Rightarrow> point_record \<Rightarrow> bool" where
  "wf_point_record self d \<longleftrightarrow>
     img_id d \<noteq> None \<and> frustum_angle d \<noteq> None \<and> heading d \<noteq> None \<and>
     (case stored_points self d of None \<Rightarrow> False
      | Some pts \<Rightarrow> wf_ndarray pts \<and> 3 \<le> ncols pts \<and>
          (case stored_labels self d of None \<Rightarrow> False | Some seg \<Rightarrow> length seg = nrows pts)) \<and>
     (case box3d_center d of None \<Rightarrow> False | Some c \<Rightarrow> length c = 3) \<and>
     (case box3d_size d of None \<Rightarrow> False | Some sz \<Rightarrow> length sz = 3)"

section \<open>Rows under the augmentation\<close>

lemma length_flip_row [simp]: "length (flip_row p) = length p"
  by (simp add: flip_row_def)

lemma length_shift_row [simp]: "length (shift_row s p) = length p"
  by (simp add: shift_row_def)

lemma length_flip_fn [simp]: "length (flip_fn self rnd p) = length p"
  by (simp add: flip_fn_def)

lemma length_shift_fn [simp]: "length (shift_fn self rnd c p) = length p"
  by (simp add: shift_fn_def)

lemma length_augment [simp]: "length (augment self rnd c p) = length p"
  by (simp add: augment_def)

lemma map_flip_fn: "map (flip_fn self rnd) ps = (if flipped self rnd then map flip_row ps else ps)"
  by (induction ps) (simp_all add: flip_fn_def)

lemma map_shift_fn:
  "map (shift_fn self rnd c) ps =
     (if random_shift self
      then map (shift_row (shift_amount (shift_g rnd) (center_dist c))) ps else ps)"
  by (induction ps) (simp_all add: shift_fn_def)

lemma flip_row_nth:
  "p \<noteq> [] \<Longrightarrow> flip_row p ! 0 = - (p ! 0)" "j \<noteq> 0 \<Longrightarrow> flip_row p ! j = p ! j"
  by (simp_all add: flip_row_def)

lemma shift_row_nth:
  "2 < length p \<Longrightarrow> shift_row s p ! 2 = p ! 2 + s" "j \<noteq> 2 \<Longrightarrow> shift_row s p ! j = p ! j"
  by (simp_all add: shift_row_def)

lemma flip_row_involution: "flip_row (flip_row p) = p"
  by (cases p) (simp_all add: flip_row_def)

lemma xz_dist2_flip_row:
  "p \<noteq> [] \<Longrightarrow> q \<noteq> [] \<Longrightarrow> xz_dist2 (flip_row p) (flip_row q) = xz_dist2 p q"
  by (simp add: xz_dist2_def flip_row_nth power2_commute)

lemma xz_dist2_shift_row:
  "2 < length p \<Longrightarrow> 2 < length q \<Longrightarrow> xz_dist2 (shift_row s p) (shift_row s q) = xz_dist2 p q"
  by (simp add: xz_dist2_def shift_row_nth)

lemma xz_dist2_augment:
  assumes "3 \<le> length p" "3 \<le> length q"
  shows "xz_dist2 (augment self rnd c p) (augment self rnd c q) = xz_dist2 p q"
proof -
  from assms have "p \<noteq> []" "q \<noteq> []" by auto
  with assms show ?thesis
    by (simp add: augment_def shift_fn_def flip_fn_def xz_dist2_shift_row xz_dist2_flip_row)
qed

lemma augment_nth_other: "j \<noteq> 0 \<Longrightarrow> j \<noteq> 2 \<Longrightarrow> augment self rnd c p ! j = p ! j"
  by (simp add: augment_def shift_fn_def flip_fn_def shift_row_nth flip_row_nth)

section \<open>The blocks, one by one\<close>

named_theorems block_iffs "when a block of the item access returns, and what"
named_theorems block_errors "the exceptions a block of the item access can raise"

lemma dict_get_simps [simp]: "dict_get (Some x) = Inr x" "dict_get None = Inl KeyError"
  by (simp_all add: dict_get_def)

lemma dict_get_Inr_iff [block_iffs]: "dict_get v = Inr x \<longleftrightarrow> v = Some x"
  by (cases v) simp_all

lemma dict_get_Inl_iff [block_errors]: "dict_get v = Inl e \<longleftrightarrow> v = None \<and> e = KeyError"
  by (cases v) auto

lemma point_loader_Inr_iff [block_iffs]: "point_loader fs path = Inr d \<longleftrightarrow> fs path = Some d"
  by (simp add: point_loader_def split: option.splits)

lemma point_loader_Inl_iff [block_errors]:
  "point_loader fs path = Inl e \<longleftrightarrow> fs path = None \<and> e = IOError"
  by (auto simp: point_loader_def split: option.splits)

lemma select_source_Inr_iff [block_iffs]:
  "select_source self d = Inr (pts, seg) \<longleftrightarrow>
     stored_points self d = Some pts \<and> stored_labels self d = Some seg"
  by (auto simp: select_source_def res_iffs dict_get_Inr_iff stored_points_def stored_labels_def)

lemma select_source_Inl [block_errors]: "select_source self d = Inl e \<Longrightarrow> e = KeyError"
  by (auto simp: select_source_def res_iffs dict_get_Inl_iff split: if_splits)

lemma subsample_Inr_iff [block_iffs]:
  "subsample self rnd pts seg = Inr (pts', seg') \<longleftrightarrow>
     0 \<le> num_point self \<and> (0 < nrows pts \<or> num_point self = 0) \<and>
     (\<forall>i < nat (num_point self). chosen rnd (nrows pts) i < length seg) \<and>
     pts' = pts\<lparr>rows := map (\<lambda>i. rows pts ! chosen rnd (nrows pts) i) [0..<nat (num_point self)]\<rparr> \<and>
     seg' = map (\<lambda>i. seg ! chosen rnd (nrows pts) i) [0..<nat (num_point self)]"
  by (auto simp: subsample_def res_iffs np_random_choice_Inr_iff np_take_rows_Inr_iff
      np_take_Inr_iff chosen_def comp_def)

lemma subsample_Inl [block_errors]:
  "subsample self rnd pts seg = Inl e \<Longrightarrow> e = ValueError \<or> e = IndexError"
  by (auto simp: subsample_def res_iffs np_random_choice_Inl_iff np_take_rows_Inl_iff
      np_take_Inl_iff)

lemma flip_aug_Inr_iff [block_iffs]:
  "flip_aug self rnd pts c h = Inr (pts', c', h') \<longleftrightarrow>
     (flipped self rnd \<longrightarrow> 0 < ncols pts \<and> c \<noteq> []) \<and>
     pts' = pts\<lparr>rows := map (flip_fn self rnd) (rows pts)\<rparr> \<and>
     c' = flip_fn self rnd c \<and> h' = flip_head self rnd h"
  by (auto simp: flip_aug_def flipped_def res_iffs np_col_map_Inr_iff vec_map_at_Inr_iff
      map_flip_fn flip_fn_def flip_head_def flip_row_def)

lemma flip_aug_Inl [block_errors]: "flip_aug self rnd pts c h = Inl e \<Longrightarrow> e = IndexError"
  by (auto simp: flip_aug_def res_iffs np_col_map_def vec_map_at_def split: if_splits)

lemma shift_aug_Inr_iff [block_iffs]:
  "shift_aug self rnd pts c = Inr (pts', c') \<longleftrightarrow>
     (random_shift self \<longrightarrow> 3 \<le> ncols pts \<and> 3 \<le> length c) \<and>
     pts' = pts\<lparr>rows := map (shift_fn self rnd c) (rows pts)\<rparr> \<and>
     c' = shift_fn self rnd c c"
  by (auto simp: shift_aug_def res_iffs np_col_map_Inr_iff vec_map_at_Inr_iff vec_get_def
      map_shift_fn shift_fn_def shift_row_def center_dist_def Let_def split: if_splits)

lemma shift_aug_Inl [block_errors]: "shift_aug self rnd pts c = Inl e \<Longrightarrow> e = IndexError"
  by (auto simp: shift_aug_def res_iffs np_col_map_def vec_map_at_def vec_get_def Let_def
      split: if_splits)

section \<open>What \<^verbatim>\<open>__getitem__\<close> returns\<close>

text \<open>
  The characterisation the properties rest on: the item access returns \<open>s\<close> exactly
  when every lookup succeeds, the sample size is legal, arrays and centre have their
  three coordinates, both encodings return, and \<open>s\<close> is the stored data sampled,
  augmented and rotated.
\<close>

lemma myPointData_getitem_Inr_iff:
  "myPointData_getitem fs rnd self index = Inr s \<longleftrightarrow>
     (\<exists>point d iid fa pts seg c h sz res ac ar.
        py_index (points self) index = Inr point \<and> fs point = Some d \<and>
        img_id d = Some iid \<and> frustum_angle d = Some fa \<and>
        stored_points self d = Some pts \<and> stored_labels self d = Some seg \<and>
        0 \<le> num_point self \<and> (0 < nrows pts \<or> num_point self = 0) \<and>
        (\<forall>i < nat (num_point self). chosen rnd (nrows pts) i < length seg) \<and>
        box3d_center d = Some c \<and> heading d = Some h \<and> box3d_size d = Some sz \<and>
        3 \<le> ncols pts \<and> 3 \<le> length c \<and>
        size2class sz = Inr res \<and>
        angle2class (flip_head self rnd h - (pi / 2 + fa)) (num_angle self) = Inr (ac, ar) \<and>
        s = \<lparr>points_rot = pts\<lparr>rows := map (\<lambda>i. rot_row (pi / 2 + fa)
                 (augment self rnd c (rows pts ! chosen rnd (nrows pts) i)))
                 [0..<nat (num_point self)]\<rparr>,
             seg_mask = map (\<lambda>i. seg ! chosen rnd (nrows pts) i) [0..<nat (num_point self)],
             box3d_center_rot = rot_row (pi / 2 + fa) (augment self rnd c c),
             angle_c_rot = ac, angle_r_rot = ar, size_r = res,
             rot_angle = pi / 2 + fa, sample_img_id = iid,
             sample_name = split_last CHR ''/'' point\<rparr>)"
  unfolding myPointData_getitem_def Let_def
  apply (simp add: res_iffs block_iffs rotate_pc_along_y_Inr_iff split_paired_Ex
      np_squeeze_def augment_def comp_def cong: conj_cong)
  apply (rule iffI)
   apply (elim exE conjE)
   apply (intro exI conjI; (assumption | erule sym))
  apply (elim exE conjE)
  apply (intro exI conjI; (assumption | erule sym | force))
  done

lemma myPointData_getitem_Inl:
  assumes "myPointData_getitem fs rnd self index = Inl e"
  shows "e \<noteq> AssertionError"
    and "e = IOError \<longleftrightarrow> (\<exists>point. py_index (points self) index = Inr point \<and> fs point = None)"
    and "e = ZeroDivisionError \<longrightarrow> num_angle self = 0"
  using assms unfolding myPointData_getitem_def Let_def
  by (auto simp: res_iffs block_iffs py_index_def split_paired_Ex
      dest!: select_source_Inl subsample_Inl flip_aug_Inl shift_aug_Inl
      simp: dict_get_Inl_iff point_loader_Inl_iff size2class_raises_aux
        rotate_pc_along_y_cases angle2class_raises_aux split: if_splits)

lemma wf_point_recordE:
  assumes "wf_point_record self d"
  obtains iid fa pts seg c h sz where
    "img_id d = Some iid" "frustum_angle d = Some fa" "heading d = Some h"
    "stored_points self d = Some pts" "stored_labels self d = Some seg"
    "box3d_center d = Some c" "box3d_size d = Some sz"
    "wf_ndarray pts" "3 \<le> ncols pts" "length seg = nrows pts" "length c = 3" "length sz = 3"
  using assms unfolding wf_point_record_def by (auto split: option.splits)

lemma myPointData_getitem_returns_aux:
  assumes "py_index (points self) index = Inr point" and "fs point = Some d"
    and "wf_point_record self d" and "0 \<le> num_point self" and "num_angle self \<noteq> 0"
    and "\<forall>pts. stored_points self d = Some pts \<longrightarrow> 0 < nrows pts \<or> num_point self = 0"
  shows "\<exists>s. myPointData_getitem fs rnd self index = Inr s"
proof -
  from assms(3) obtain iid fa pts seg c h sz where d:
    "img_id d = Some iid" "frustum_angle d = Some fa" "heading d = Some h"
    "stored_points self d = Some pts" "stored_labels self d = Some seg"
    "box3d_center d = Some c" "box3d_size d = Some sz"
    "3 \<le> ncols pts" "length seg = nrows pts" "length c = 3" "length sz = 3"
    by (rule wf_point_recordE)
  from assms(6) d(4) have n: "0 < nrows pts \<or> num_point self = 0" by simp
  with d(9) have "\<forall>i < nat (num_point self). chosen rnd (nrows pts) i < length seg"
    by (auto simp: chosen_def)
  with assms d n show ?thesis
    by (simp add: myPointData_getitem_Inr_iff size2class_3 angle2class_Inr)
qed

section \<open>An example dataset\<close>

text \<open>
  One stored sample of two points, served from the directory \<open>d/\<close>; it instantiates
  the theorems below.
\<close>

definition ex_record :: point_record where
  "ex_record =
     \<lparr>img_id = Some 7, frustum_angle = Some 0,
      point_2d = Some \<lparr>ncols = 3, rows = [[1, 5, 0], [0, 2, 1]]\<rparr>, label = Some [1, 0],
      point_velo = None, velo_label = None,
      box3d_center = Some [1, 0, 2], box3d_size = Some [4, 2, 1], heading = Some (pi / 2)\<rparr>"

definition ex_fs :: point_fs where
  "ex_fs path = (if path = ''d/a.npy'' then Some ex_record else None)"

definition ex_data :: "bool \<Rightarrow> bool \<Rightarrow> myPointData" where
  "ex_data flip shift = myPointData_init [''a.npy''] ''d/'' 2 4 flip shift False"

definition ex_draws :: draws where
  "ex_draws = \<lparr>choice_raw = (\<lambda>i. i), flip_u = 3 / 4, shift_g = 0\<rparr>"

lemma ex_data_simps [simp]:
  "points (ex_data f s) = [''d/a.npy'']" "num_point (ex_data f s) = 2"
  "num_angle (ex_data f s) = 4" "random_flip (ex_data f s) = f"
  "random_shift (ex_data f s) = s" "lidar (ex_data f s) = False"
  by (simp_all add: ex_data_def myPointData_init_def)

lemma ex_record_wf: "wf_point_record (ex_data f s) ex_record"
  by (simp add: wf_point_record_def stored_points_def stored_labels_def ex_record_def
      wf_ndarray_def nrows_def)

lemma ex_getitem_returns: "\<exists>s. myPointData_getitem ex_fs rnd (ex_data f sh) 0 = Inr s"
proof (rule myPointData_getitem_returns_aux)
  show "py_index (points (ex_data f sh)) 0 = Inr ''d/a.npy''" by (simp add: py_index_def)
  show "ex_fs ''d/a.npy'' = Some ex_record" by (simp add: ex_fs_def)
  show "wf_point_record (ex_data f sh) ex_record" by (rule ex_record_wf)
  show "\<forall>pts. stored_points (ex_data f sh) ex_record = Some pts \<longrightarrow>
      0 < nrows pts \<or> num_point (ex_data f sh) = 0"
    by (auto simp: stored_points_def ex_record_def nrows_def)
qed simp_all

text \<open>
  The example of the specification: a stored cloud of 50 points with four channels,
  served 16 points at a time.
\<close>

definition ex_cloud50 :: ndarray where
  "ex_cloud50 = \<lparr>ncols = 4, rows = replicate 50 [1, 5, 0, 9]\<rparr>"

definition ex_record50 :: point_record where
  "ex_record50 = ex_record\<lparr>point_2d := Some ex_cloud50, label := Some (replicate 50 1)\<rparr>"

definition ex_data16 :: myPointData where
  "ex_data16 = myPointData_init [''a.npy''] ''d/'' 16 12 True True False"

lemma ex_record50_simps:
  "py_index (points ex_data16) 0 = Inr ''d/a.npy''"
  "stored_points ex_data16 ex_record50 = Some ex_cloud50"
  "wf_ndarray ex_cloud50" "nrows ex_cloud50 = 50" "ncols ex_cloud50 = 4"
  "num_point ex_data16 = 16" "num_angle ex_data16 = 12"
  "wf_point_record ex_data16 ex_record50"
  by (simp_all add: ex_data16_def myPointData_init_def py_index_def stored_points_def
      stored_labels_def ex_record50_def ex_record_def ex_cloud50_def wf_ndarray_def nrows_def
      wf_point_record_def list_all_iff)

lemma split_last_append:
  assumes "sep \<notin> set name"
  shows "split_last sep (dir @ name) = split_last sep dir @ name"
proof -
  from assms have "takeWhile (\<lambda>c. c \<noteq> sep) (rev name @ rev dir) =
      rev name @ takeWhile (\<lambda>c. c \<noteq> sep) (rev dir)"
    by (intro takeWhile_append2) auto
  then show ?thesis by (simp add: split_last_def)
qed

lemma split_last_no_sep: "sep \<notin> set name \<Longrightarrow> split_last sep name = name"
  using split_last_append [of sep name "[]"] by (simp add: split_last_def)

text \<open>The sampled array is well formed when the stored one is.\<close>

lemma chosen_less: "0 < n \<Longrightarrow> chosen rnd n i < n"
  by (simp add: chosen_def)

lemma myPointData_getitem_wf:
  assumes "myPointData_getitem fs rnd self index = Inr s"
    and "py_index (points self) index = Inr point" and "fs point = Some d"
    and "stored_points self d = Some pts" and "wf_ndarray pts"
  shows "wf_ndarray (points_rot s)" "ncols (points_rot s) = ncols pts"
  using assms
  by (auto simp: myPointData_getitem_Inr_iff wf_ndarray_iff chosen_less nrows_def)

section \<open>Properties of \<open>myPointData\<close>\<close>

text \<open>
  C12: Every item has the configured size, whatever the size of the stored cloud: a
  returned sample has exactly \<open>num_point\<close> points and \<open>num_point\<close> labels, its points
  keep at least the three coordinate channels, and the size residual has three
  entries. When the stored array is well formed, so is the returned one, with the
  same number of channels.
\<close>

theorem myPointData_getitem_shape:
  assumes "myPointData_getitem fs rnd self index = Inr s"
  shows "int (nrows (points_rot s)) = num_point self \<and>
    int (length (seg_mask s)) = num_point self \<and>
    3 \<le> ncols (points_rot s) \<and> 3 \<le> length (box3d_center_rot s) \<and> length (size_r s) = 3 \<and>
    (\<forall>point d pts. py_index (points self) index = Inr point \<and> fs point = Some d \<and>
       stored_points self d = Some pts \<and> wf_ndarray pts \<longrightarrow>
       wf_ndarray (points_rot s) \<and> ncols (points_rot s) = ncols pts)"
proof -
  from assms have "int (nrows (points_rot s)) = num_point self"
    "int (length (seg_mask s)) = num_point self" "3 \<le> ncols (points_rot s)"
    "3 \<le> length (box3d_center_rot s)" "length (size_r s) = 3"
    by (auto simp: myPointData_getitem_Inr_iff nrows_def dest: size2class_length)
  with myPointData_getitem_wf [OF assms] show ?thesis by blast
qed

theorem myPointData_getitem_shape_witness:
  "\<exists>s. myPointData_getitem (\<lambda>path. Some ex_record50) ex_draws ex_data16 0 = Inr s \<and>
     np_shape (points_rot s) = (16, 4) \<and> length (seg_mask s) = 16"
proof -
  have "\<exists>s. myPointData_getitem (\<lambda>path. Some ex_record50) ex_draws ex_data16 0 = Inr s"
    by (rule myPointData_getitem_returns_aux [where d = ex_record50])
      (simp_all add: ex_record50_simps)
  then obtain s where
    s: "myPointData_getitem (\<lambda>path. Some ex_record50) ex_draws ex_data16 0 = Inr s" ..
  note sh = myPointData_getitem_shape [OF s]
  from sh have "nrows (points_rot s) = 16" "length (seg_mask s) = 16"
    by (simp_all add: ex_record50_simps)
  moreover from sh [THEN conjunct2, THEN conjunct2, THEN conjunct2, THEN conjunct2,
      THEN conjunct2, rule_format, of "''d/a.npy''" ex_record50 ex_cloud50]
  have "ncols (points_rot s) = 4" by (simp add: ex_record50_simps)
  ultimately show ?thesis using s by (simp add: np_shape_def)
qed

text \<open>
  C5: The item access succeeds on every well-formed stored sample: if the index is in
  range, the file loads, the record is well formed, the sample size is not negative,
  the cloud is not empty (unless no point is asked for) and the number of angle
  classes is not zero, then \<open>__getitem__\<close> returns, for every outcome of the random
  draws.
\<close>

theorem myPointData_getitem_returns:
  assumes "py_index (points self) index = Inr point" and "fs point = Some d"
    and "wf_point_record self d" and "0 \<le> num_point self" and "num_angle self \<noteq> 0"
    and "\<forall>pts. stored_points self d = Some pts \<longrightarrow> 0 < nrows pts \<or> num_point self = 0"
  shows "returns (myPointData_getitem fs rnd self index)"
  using myPointData_getitem_returns_aux [where fs = fs and rnd = rnd, OF assms]
  by (auto simp: returns_iff)

theorem myPointData_getitem_returns_witness:
  "returns (myPointData_getitem ex_fs ex_draws (ex_data True True) (- 1))"
proof (rule myPointData_getitem_returns)
  show "py_index (points (ex_data True True)) (- 1) = Inr ''d/a.npy''"
    by (simp add: py_index_def)
  show "ex_fs ''d/a.npy'' = Some ex_record" by (simp add: ex_fs_def)
  show "wf_point_record (ex_data True True) ex_record" by (rule ex_record_wf)
  show "\<forall>pts. stored_points (ex_data True True) ex_record = Some pts \<longrightarrow>
      0 < nrows pts \<or> num_point (ex_data True True) = 0"
    by (auto simp: stored_points_def ex_record_def nrows_def)
qed simp_all

text \<open>
  The exceptions of the item access: it never fails an assertion; it raises
  \<open>IOError\<close> exactly when the index is in range and the file cannot be loaded; and a
  \<open>ZeroDivisionError\<close> can only come from a dataset configured with zero angle classes.
\<close>

theorem myPointData_getitem_exceptions:
  assumes "myPointData_getitem fs rnd self index = Inl e"
  shows "e \<noteq> AssertionError \<and>
    (e = IOError \<longleftrightarrow> (\<exists>point. py_index (points self) index = Inr point \<and> fs point = None)) \<and>
    (e = ZeroDivisionError \<longrightarrow> num_angle self = 0)"
  using myPointData_getitem_Inl [OF assms] by blast

theorem myPointData_getitem_exceptions_witness:
  "myPointData_getitem (\<lambda>path. None) ex_draws (ex_data True True) 0 = Inl IOError"
proof -
  have "\<exists>e. myPointData_getitem (\<lambda>path. None) ex_draws (ex_data True True) 0 = Inl e"
    by (simp add: myPointData_getitem_def py_index_def point_loader_def)
  then obtain e where
    e: "myPointData_getitem (\<lambda>path. None) ex_draws (ex_data True True) 0 = Inl e" ..
  from myPointData_getitem_exceptions [OF e] have "e = IOError"
    by (simp add: py_index_def)
  with e show ?thesis by simp
qed

text \<open>
  C7: Labels stay attached to their points: the \<open>i\<close>-th returned point and the \<open>i\<close>-th
  returned label come from the same stored index \<open>j\<close>, which is a valid row of the
  stored cloud, and the returned point is that row augmented and rotated.
\<close>

theorem myPointData_getitem_labels:
  assumes "myPointData_getitem fs rnd self index = Inr s"
    and "py_index (points self) index = Inr point" and "fs point = Some d"
    and "stored_points self d = Some pts" and "stored_labels self d = Some seg"
    and "box3d_center d = Some c" and "i < nat (num_point self)"
  shows "chosen rnd (nrows pts) i < nrows pts \<and>
    seg_mask s ! i = seg ! chosen rnd (nrows pts) i \<and>
    rows (points_rot s) ! i =
      rot_row (rot_angle s) (augment self rnd c (rows pts ! chosen rnd (nrows pts) i))"
  using assms by (auto simp: myPointData_getitem_Inr_iff chosen_def)

theorem myPointData_getitem_labels_witness:
  "\<exists>s. myPointData_getitem ex_fs ex_draws (ex_data True True) 0 = Inr s \<and>
     seg_mask s ! 1 = 0"
proof -
  obtain s where s: "myPointData_getitem ex_fs ex_draws (ex_data True True) 0 = Inr s"
    using ex_getitem_returns by blast
  have "py_index (points (ex_data True True)) 0 = Inr ''d/a.npy''"
    and "ex_fs ''d/a.npy'' = Some ex_record"
    and "stored_points (ex_data True True) ex_record =
      Some \<lparr>ncols = 3, rows = [[1, 5, 0], [0, 2, 1]]\<rparr>"
    and "stored_labels (ex_data True True) ex_record = Some [1, 0]"
    and "box3d_center ex_record = Some [1, 0, 2]"
    and "1 < nat (num_point (ex_data True True))"
    by (simp_all add: py_index_def ex_fs_def stored_points_def stored_labels_def ex_record_def)
  from myPointData_getitem_labels [OF s this] s show ?thesis
    by (auto simp: chosen_def ex_draws_def nrows_def)
qed

text \<open>
  The item carries the stored metadata: the rotation angle is \<open>pi / 2\<close> plus the
  stored frustum angle, the image id is the stored one, the name is the last component
  of the path, and the size residual is \<open>size2class\<close> of the stored box size.
\<close>

theorem myPointData_getitem_meta:
  assumes "myPointData_getitem fs rnd self index = Inr s"
    and "py_index (points self) index = Inr point" and "fs point = Some d"
  shows "frustum_angle d = Some (rot_angle s - pi / 2) \<and> img_id d = Some (sample_img_id s) \<and>
    sample_name s = split_last CHR ''/'' point \<and>
    (\<exists>sz. box3d_size d = Some sz \<and> size2class sz = Inr (size_r s))"
  using assms by (auto simp: myPointData_getitem_Inr_iff)

theorem myPointData_getitem_meta_witness:
  "\<exists>s. myPointData_getitem ex_fs ex_draws (ex_data True True) 0 = Inr s \<and>
     rot_angle s = pi / 2 \<and> sample_img_id s = 7 \<and> sample_name s = ''a.npy''"
proof -
  obtain s where s: "myPointData_getitem ex_fs ex_draws (ex_data True True) 0 = Inr s"
    using ex_getitem_returns by blast
  have "py_index (points (ex_data True True)) 0 = Inr ''d/a.npy''"
    and "ex_fs ''d/a.npy'' = Some ex_record"
    by (simp_all add: py_index_def ex_fs_def)
  from myPointData_getitem_meta [OF s this] s show ?thesis
    by (auto simp: ex_record_def split_last_def)
qed

text \<open>
  The forced flip mirrors consistently: when \<open>random_flip\<close> is set and the draw
  exceeds 0.5, the \<open>x\<close> coordinate of the box centre and of every point is negated, the
  heading \<open>h\<close> becomes \<open>pi - h\<close>, and nothing else changes.
\<close>

theorem flip_aug_mirrors:
  assumes "random_flip self" and "flip_u rnd > 0.5" and "wf_ndarray pts"
    and "flip_aug self rnd pts c h = Inr (pts', c', h')"
  shows "c' ! 0 = - (c ! 0) \<and> h' = pi - h \<and> np_shape pts' = np_shape pts \<and>
    (\<forall>i < nrows pts. rows pts' ! i ! 0 = - (rows pts ! i ! 0)) \<and>
    (\<forall>j. j \<noteq> 0 \<longrightarrow> c' ! j = c ! j \<and> (\<forall>i < nrows pts. rows pts' ! i ! j = rows pts ! i ! j))"
proof -
  from assms(1,2) have f: "flipped self rnd" by (simp add: flipped_def)
  with assms(4) have *: "0 < ncols pts" "c \<noteq> []" "pts' = pts\<lparr>rows := map flip_row (rows pts)\<rparr>"
    "c' = flip_row c" "h' = pi - h"
    by (simp_all add: flip_aug_Inr_iff map_flip_fn flip_fn_def flip_head_def)
  have "rows pts ! i \<noteq> []" if "i < nrows pts" for i
    using wf_ndarray_nth [OF assms(3) that] *(1) by auto
  then have "\<forall>i < nrows pts. rows pts ! i \<noteq> []" by blast
  with * show ?thesis
    by (auto simp: np_shape_def nrows_def flip_row_nth)
qed

theorem flip_aug_mirrors_witness:
  "flip_aug (ex_data True False) ex_draws \<lparr>ncols = 3, rows = [[1, 5, 0]]\<rparr> [1, 0, 2] (pi / 2) =
     Inr (\<lparr>ncols = 3, rows = [[- 1, 5, 0]]\<rparr>, [- 1, 0, 2], pi / 2)"
proof -
  have e: "flip_aug (ex_data True False) ex_draws \<lparr>ncols = 3, rows = [[1, 5, 0]]\<rparr> [1, 0, 2]
      (pi / 2) = Inr (\<lparr>ncols = 3, rows = [[- 1, 5, 0]]\<rparr>, [- 1, 0, 2], pi - pi / 2)"
    by (simp add: flip_aug_def ex_draws_def np_col_map_def vec_map_at_def)
  have "random_flip (ex_data True False)" "flip_u ex_draws > 0.5"
    "wf_ndarray \<lparr>ncols = 3, rows = [[1, 5, 0]]\<rparr>"
    by (simp_all add: ex_draws_def wf_ndarray_def)
  from flip_aug_mirrors [OF this e] e show ?thesis by simp
qed

text \<open>
  C36: The random shift is not centred at zero: the amount added to \<open>z\<close> always lies
  between 0.8 and 1.2 times the planar distance \<open>sqrt (cx\<^sup>2 + cy\<^sup>2)\<close> of the box centre,
  and it is exactly 0.8 times that distance whenever the Gaussian draw is at most 16,
  that is in practically every call.
\<close>

theorem shift_aug_amount:
  assumes "random_shift self" and "shift_aug self rnd pts c = Inr (pts', c')"
  shows "c ! 2 + 0.8 * center_dist c \<le> c' ! 2 \<and> c' ! 2 \<le> c ! 2 + 1.2 * center_dist c \<and>
    (shift_g rnd \<le> 16 \<longrightarrow> c' ! 2 = c ! 2 + 0.8 * center_dist c)"
proof -
  let ?d = "center_dist c"
  let ?s = "shift_amount (shift_g rnd) ?d"
  have d: "0 \<le> ?d" by (simp add: center_dist_def)
  from assms have c: "3 \<le> length c" "c' = shift_row ?s c"
    by (simp_all add: shift_aug_Inr_iff shift_fn_def)
  then have z: "c' ! 2 = c ! 2 + ?s" by (simp add: shift_row_nth)
  from d have "?d * 0.8 \<le> ?s \<and> ?s \<le> ?d * 1.2"
    unfolding shift_amount_def by (intro np_clip_range) simp
  moreover have "?s = ?d * 0.8" if "shift_g rnd \<le> 16"
  proof -
    from that d have "shift_g rnd * ?d \<le> 16 * ?d" by (rule mult_right_mono)
    with d show ?thesis
      unfolding shift_amount_def by (intro np_clip_below) (simp_all add: mult.commute)
  qed
  ultimately show ?thesis using z by (simp add: mult.commute)
qed

theorem shift_aug_amount_witness:
  "shift_aug (ex_data False True) ex_draws \<lparr>ncols = 3, rows = [[1, 5, 0]]\<rparr> [3, 4, 2] =
     Inr (\<lparr>ncols = 3, rows = [[1, 5, 4]]\<rparr>, [3, 4, 6])"
proof -
  have d: "center_dist [3, 4, 2] = 5"
    by (simp add: center_dist_def real_sqrt_unique)
  have "\<exists>pts' c'. shift_aug (ex_data False True) ex_draws \<lparr>ncols = 3, rows = [[1, 5, 0]]\<rparr>
      [3, 4, 2] = Inr (pts', c')"
    by (simp add: shift_aug_Inr_iff)
  then obtain pts' c' where e: "shift_aug (ex_data False True) ex_draws
      \<lparr>ncols = 3, rows = [[1, 5, 0]]\<rparr> [3, 4, 2] = Inr (pts', c')" by blast
  have "random_shift (ex_data False True)" by simp
  from shift_aug_amount [OF this e] have "c' ! 2 = 6"
    by (simp add: d ex_draws_def)
  with e show ?thesis
    by (auto simp: shift_aug_Inr_iff shift_fn_def shift_row_def d)
qed

text \<open>
  Item names and the constructor: the paths are the directory string followed by
  the listed file names without any separator added, so the name returned for an item
  is the file name prefixed with whatever follows the last \<open>/\<close> of \<open>points_dir\<close>; it is
  the file name itself exactly when \<open>points_dir\<close> ends with a slash.
\<close>

theorem myPointData_init_names:
  assumes "i < length listing" and "CHR ''/'' \<notin> set (listing ! i)"
  shows "split_last CHR ''/'' (points (myPointData_init listing dir n a f s l) ! i) =
    split_last CHR ''/'' dir @ listing ! i"
  using assms by (simp add: myPointData_init_def split_last_append)

theorem myPointData_init_names_witness:
  "split_last CHR ''/'' (points (myPointData_init [''a.npy''] ''d/'' 2 4 False False False) ! 0)
     = ''a.npy'' \<and>
   split_last CHR ''/'' (points (myPointData_init [''a.npy''] ''x/d'' 2 4 False False False) ! 0)
     = ''da.npy''"
  using myPointData_init_names [of 0 "[''a.npy'']" "''d/''" 2 4 False False False]
    myPointData_init_names [of 0 "[''a.npy'']" "''x/d''" 2 4 False False False]
  by (simp add: split_last_def)

end
