(* ===== verification/Store_Model.thy ===== *)
theory Store_Model
  imports State_Result Point_Data
begin

text \<open>
  \<^verbatim>\<open>myPointData.__getitem__\<close> (lines 122-176 of \<^verbatim>\<open>src/KITTILoader.py\<close>) once more,
  with the numpy arrays as objects of a store. The source updates arrays in place
  (\<^verbatim>\<open>points[:, 0] *= -1\<close>, \<^verbatim>\<open>box3d_center[2] += shift\<close>, the assignment in
  \<^verbatim>\<open>rotate_pc_along_y\<close>), reads the box centre through an alias of the loaded
  dictionary, and copies where it indexes by the drawn rows or calls \<^verbatim>\<open>.copy()\<close>. Here
  a variable holds an address, an update writes the store at that address and a copy
  allocates; the theorems show that the definitions over values in \<open>Point_Data\<close> are a
  sound view of this, which arrays a call writes, and what happens when two keys of a
  loaded sample are bound to one array.
\<close>

section \<open>The store\<close>

text \<open>
  One-dimensional and two-dimensional float arrays live at addresses below
  \<open>next_addr\<close>. The label arrays and the scalars are never written by the source and
  stay values.
\<close>

record store =
  next_addr :: nat
  arr1 :: "nat \<Rightarrow> real list"
  arr2 :: "nat \<Rightarrow> ndarray"

type_synonym 'a heap = "(store, 'a) sres"

text \<open>Allocation, read and write of one array.\<close>

definition new_arr1 :: "real list \<Rightarrow> nat heap" where
  "new_arr1 v = (\<lambda>h. (Inr (next_addr h), h\<lparr>next_addr := Suc (next_addr h), arr1 := (arr1 h)(next_addr h := v)\<rparr>))"

definition new_arr2 :: "ndarray \<Rightarrow> nat heap" where
  "new_arr2 x = (\<lambda>h. (Inr (next_addr h), h\<lparr>next_addr := Suc (next_addr h), arr2 := (arr2 h)(next_addr h := x)\<rparr>))"

definition get_arr1 :: "nat \<Rightarrow> real list heap" where
  "get_arr1 a = (\<lambda>h. (Inr (arr1 h a), h))"

definition get_arr2 :: "nat \<Rightarrow> ndarray heap" where
  "get_arr2 a = (\<lambda>h. (Inr (arr2 h a), h))"

definition put_arr1 :: "nat \<Rightarrow> real list \<Rightarrow> unit heap" where
  "put_arr1 a v = (\<lambda>h. (Inr (), h\<lparr>arr1 := (arr1 h)(a := v)\<rparr>))"

definition put_arr2 :: "nat \<Rightarrow> ndarray \<Rightarrow> unit heap" where
  "put_arr2 a x = (\<lambda>h. (Inr (), h\<lparr>arr2 := (arr2 h)(a := x)\<rparr>))"

section \<open>Array operations on the store\<close>

text \<open>
  \<^verbatim>\<open>a.copy()\<close>, \<^verbatim>\<open>a[choice, :]\<close> (indexing by a list of rows builds a new array),
  \<^verbatim>\<open>a[:, j] op= x\<close> and \<^verbatim>\<open>v[j] op= x\<close> (in place), \<^verbatim>\<open>a[:, js] = vals\<close> (in place).
  \<^verbatim>\<open>np.expand_dims\<close> is applied by the source to a copy nothing else refers to, so the
  one-row array it gives is a new object here.
\<close>

definition np_copy1 :: "nat \<Rightarrow> nat heap" where
  "np_copy1 a = sbind (get_arr1 a) new_arr1"

definition np_copy2 :: "nat \<Rightarrow> nat heap" where
  "np_copy2 a = sbind (get_arr2 a) new_arr2"

definition take_rows_h :: "nat \<Rightarrow> nat list \<Rightarrow> nat heap" where
  "take_rows_h a choice = sbind (get_arr2 a) (\<lambda>x. sbind (slift (np_take_rows x choice)) new_arr2)"

definition col_imap :: "nat \<Rightarrow> (real \<Rightarrow> real) \<Rightarrow> nat \<Rightarrow> unit heap" where
  "col_imap j f a = sbind (get_arr2 a) (\<lambda>x. sbind (slift (np_col_map j f x)) (put_arr2 a))"

definition vec_imap :: "nat \<Rightarrow> (real \<Rightarrow> real) \<Rightarrow> nat \<Rightarrow> unit heap" where
  "vec_imap j f a = sbind (get_arr1 a) (\<lambda>v. sbind (slift (vec_map_at j f v)) (put_arr1 a))"

definition set_cols_h :: "nat \<Rightarrow> nat list \<Rightarrow> real list list \<Rightarrow> unit heap" where
  "set_cols_h a js vals = sbind (get_arr2 a) (\<lambda>x. sbind (slift (np_set_cols x js vals)) (put_arr2 a))"

definition expand_dims_h :: "nat \<Rightarrow> nat heap" where
  "expand_dims_h a = sbind (get_arr1 a) (\<lambda>v. new_arr2 (np_expand_dims0 v))"

text \<open>
  \<^verbatim>\<open>rotate_pc_along_y\<close> (lines 60-73): the columns are read into a new array, multiplied,
  and assigned to the columns of the argument; the argument is returned.
\<close>

definition rotate_pc_along_y_h :: "nat \<Rightarrow> real \<Rightarrow> nat heap" where
  "rotate_pc_along_y_h pc t =
     (let cosval = cos t;
          sinval = sin t;
          rotmat = [[cosval, - sinval], [sinval, cosval]]
      in sbind (get_arr2 pc) (\<lambda>a.
         sbind (slift (np_get_cols a [0, 2])) (\<lambda>xz.
         sbind (slift (np_dot xz (np_transpose rotmat))) (\<lambda>rotated.
         sbind (set_cols_h pc [0, 2] rotated) (\<lambda>_. slift (Inr pc))))))"

section \<open>A loaded sample\<close>

text \<open>
  The dictionary \<^verbatim>\<open>point_loader\<close> returns, with an address for each array it holds.
  \<open>point_loader_h\<close> builds it from the stored sample: every call allocates the arrays
  anew, as \<^verbatim>\<open>np.load\<close> does.
\<close>

record point_refs =
  ref_img_id :: "int option"
  ref_frustum_angle :: "real option"
  ref_point_2d :: "nat option"
  ref_label :: "int list option"
  ref_point_velo :: "nat option"
  ref_velo_label :: "int list option"
  ref_box3d_center :: "nat option"
  ref_box3d_size :: "nat option"
  ref_heading :: "real option"

definition load_opt :: "('a \<Rightarrow> nat heap) \<Rightarrow> 'a option \<Rightarrow> nat option heap" where
  "load_opt new v =
     (case v of None \<Rightarrow> slift (Inr None)
      | Some x \<Rightarrow> sbind (new x) (\<lambda>a. slift (Inr (Some a))))"

definition point_loader_h :: "point_fs \<Rightarrow> string \<Rightarrow> point_refs heap" where
  "point_loader_h fs path =
     sbind (slift (point_loader fs path)) (\<lambda>d.
     sbind (load_opt new_arr2 (point_2d d)) (\<lambda>p2.
     sbind (load_opt new_arr2 (point_velo d)) (\<lambda>pv.
     sbind (load_opt new_arr1 (box3d_center d)) (\<lambda>c.
     sbind (load_opt new_arr1 (box3d_size d)) (\<lambda>s.
     slift (Inr \<lparr>ref_img_id = img_id d, ref_frustum_angle = frustum_angle d,
                 ref_point_2d = p2, ref_label = label d,
                 ref_point_velo = pv, ref_velo_label = velo_label d,
                 ref_box3d_center = c, ref_box3d_size = s,
                 ref_heading = heading d\<rparr>))))))"

section \<open>The blocks of the item access on the store\<close>

text \<open>
  The blocks of \<open>Point_Data\<close> in the same order, now on addresses. The flip and the
  shift write the sampled points and the centre where they are; they return only the
  heading, which is a number.
\<close>

definition select_source_h :: "myPointData \<Rightarrow> point_refs \<Rightarrow> (nat \<times> int list) result" where
  "select_source_h self datas =
     (if lidar self
      then rbind (dict_get (ref_point_velo datas)) (\<lambda>p.
           rbind (dict_get (ref_velo_label datas)) (\<lambda>seg. Inr (p, seg)))
      else rbind (dict_get (ref_point_2d datas)) (\<lambda>p.
           rbind (dict_get (ref_label datas)) (\<lambda>seg. Inr (p, seg))))"

definition subsample_h ::
  "myPointData \<Rightarrow> draws \<Rightarrow> nat \<Rightarrow> int list \<Rightarrow> (nat \<times> int list) heap" where
  "subsample_h self rnd p seg =
     sbind (get_arr2 p) (\<lambda>a.
     sbind (slift (np_random_choice (choice_raw rnd) (nrows a) (num_point self))) (\<lambda>choice.
     sbind (take_rows_h p choice) (\<lambda>p'.
     sbind (slift (np_take seg choice)) (\<lambda>seg'. slift (Inr (p', seg'))))))"

definition flip_aug_h :: "myPointData \<Rightarrow> draws \<Rightarrow> nat \<Rightarrow> nat \<Rightarrow> real \<Rightarrow> real heap" where
  "flip_aug_h self rnd p c head =
     (if random_flip self \<and> flip_u rnd > 0.5
      then sbind (col_imap 0 (\<lambda>x. x * - 1) p) (\<lambda>_.
           sbind (vec_imap 0 (\<lambda>x. x * - 1) c) (\<lambda>_.
           slift (Inr (pi - head))))
      else slift (Inr head))"

definition shift_aug_h :: "myPointData \<Rightarrow> draws \<Rightarrow> nat \<Rightarrow> nat \<Rightarrow> unit heap" where
  "shift_aug_h self rnd p c =
     (if random_shift self
      then sbind (get_arr1 c) (\<lambda>center.
           sbind (slift (vec_get center 0)) (\<lambda>c0.
           sbind (slift (vec_get center 1)) (\<lambda>c1.
           let dist = sqrt (c0\<^sup>2 + c1\<^sup>2);
               shift = shift_amount (shift_g rnd) dist
           in sbind (col_imap 2 (\<lambda>z. z + shift) p) (\<lambda>_.
              vec_imap 2 (\<lambda>z. z + shift) c))))
      else slift (Inr ()))"

text \<open>
  Lines 125-176, the item access after the load. The tensors of the result are built
  from the arrays at the end and are values.
\<close>

definition getitem_from ::
  "myPointData \<Rightarrow> draws \<Rightarrow> string \<Rightarrow> point_refs \<Rightarrow> point_sample heap" where
  "getitem_from self rnd point datas =
     sbind (slift (dict_get (ref_img_id datas))) (\<lambda>iid.
     sbind (slift (dict_get (ref_frustum_angle datas))) (\<lambda>fa.
     let rot = pi / 2 + fa in
     sbind (slift (select_source_h self datas)) (\<lambda>(p, seg).
     sbind (subsample_h self rnd p seg) (\<lambda>(p, seg).
     sbind (slift (dict_get (ref_box3d_center datas))) (\<lambda>c.
     sbind (slift (dict_get (ref_heading datas))) (\<lambda>head.
     sbind (flip_aug_h self rnd p c head) (\<lambda>head.
     sbind (shift_aug_h self rnd p c) (\<lambda>_.
     sbind (slift (dict_get (ref_box3d_size datas))) (\<lambda>s.
     sbind (get_arr1 s) (\<lambda>sz.
     sbind (slift (size2class sz)) (\<lambda>res.
     sbind (np_copy2 p) (\<lambda>p_copy.
     sbind (rotate_pc_along_y_h p_copy rot) (\<lambda>p_rot.
     sbind (np_copy1 c) (\<lambda>c_copy.
     sbind (expand_dims_h c_copy) (\<lambda>c_row.
     sbind (rotate_pc_along_y_h c_row rot) (\<lambda>c_rot.
     sbind (slift (angle2class (head - rot) (num_angle self))) (\<lambda>(angle_c, angle_r).
     sbind (get_arr2 p_rot) (\<lambda>pts_rot.
     sbind (get_arr2 c_rot) (\<lambda>center_rot.
     slift (Inr \<lparr>points_rot = pts_rot, seg_mask = seg,
                 box3d_center_rot = np_squeeze center_rot,
                 angle_c_rot = angle_c, angle_r_rot = angle_r, size_r = res,
                 rot_angle = rot, sample_img_id = iid,
                 sample_name = split_last CHR ''/'' point\<rparr>))))))))))))))))))))"

definition myPointData_getitem_h ::
  "point_fs \<Rightarrow> draws \<Rightarrow> myPointData \<Rightarrow> int \<Rightarrow> point_sample heap" where
  "myPointData_getitem_h fs rnd self index =
     sbind (slift (py_index (points self) index)) (\<lambda>point.
     sbind (point_loader_h fs point) (\<lambda>datas.
     getitem_from self rnd point datas))"

section \<open>Reference definitions\<close>

text \<open>
  \<open>abs_record\<close> reads a loaded sample off the store. \<open>unaliased\<close>: centre and size are
  two arrays. \<open>seen_record\<close> is the sample as the item access sees it: the size is read
  after the centre has been augmented in place, so when both keys are bound to one
  array the size seen is the augmented centre.
\<close>

definition abs_record :: "store \<Rightarrow> point_refs \<Rightarrow> point_record" where
  "abs_record h d =
     \<lparr>img_id = ref_img_id d, frustum_angle = ref_frustum_angle d,
      point_2d = map_option (arr2 h) (ref_point_2d d), label = ref_label d,
      point_velo = map_option (arr2 h) (ref_point_velo d), velo_label = ref_velo_label d,
      box3d_center = map_option (arr1 h) (ref_box3d_center d),
      box3d_size = map_option (arr1 h) (ref_box3d_size d),
      heading = ref_heading d\<rparr>"

definition unaliased :: "point_refs \<Rightarrow> bool" where
  "unaliased d \<longleftrightarrow> ref_box3d_center d = None \<or> ref_box3d_center d \<noteq> ref_box3d_size d"

definition size_seen :: "myPointData \<Rightarrow> draws \<Rightarrow> store \<Rightarrow> point_refs \<Rightarrow> nat \<Rightarrow> real list" where
  "size_seen self rnd h d s =
     (if ref_box3d_center d = Some s then augment self rnd (arr1 h s) (arr1 h s) else arr1 h s)"

definition seen_record :: "myPointData \<Rightarrow> draws \<Rightarrow> store \<Rightarrow> point_refs \<Rightarrow> point_record" where
  "seen_record self rnd h d =
     (abs_record h d)\<lparr>box3d_size := map_option (size_seen self rnd h d) (ref_box3d_size d)\<rparr>"

section \<open>Rules of simulation for the store\<close>

text \<open>
  For a statement that only reads or allocates, the rule continues with the value read
  or the fresh address in the store that results. For an operation that may raise, the
  lemma gives its result and its store in terms of the operation on values.
\<close>

lemma sim_get1: "sim (F (arr1 h a)) r R h \<Longrightarrow> sim (sbind (get_arr1 a) F) r R h"
  by (simp add: sim_def sbind_def get_arr1_def)

lemma sim_get2: "sim (F (arr2 h a)) r R h \<Longrightarrow> sim (sbind (get_arr2 a) F) r R h"
  by (simp add: sim_def sbind_def get_arr2_def)

lemma sim_copy1:
  "sim (F (next_addr h)) r R (h\<lparr>next_addr := Suc (next_addr h), arr1 := (arr1 h)(next_addr h := arr1 h a)\<rparr>)
   \<Longrightarrow> sim (sbind (np_copy1 a) F) r R h"
  by (simp add: sim_def sbind_def np_copy1_def get_arr1_def new_arr1_def)

lemma sim_copy2:
  "sim (F (next_addr h)) r R (h\<lparr>next_addr := Suc (next_addr h), arr2 := (arr2 h)(next_addr h := arr2 h a)\<rparr>)
   \<Longrightarrow> sim (sbind (np_copy2 a) F) r R h"
  by (simp add: sim_def sbind_def np_copy2_def get_arr2_def new_arr2_def)

lemma sim_expand_dims:
  "sim (F (next_addr h)) r R (h\<lparr>next_addr := Suc (next_addr h), arr2 := (arr2 h)(next_addr h := np_expand_dims0 (arr1 h a))\<rparr>)
   \<Longrightarrow> sim (sbind (expand_dims_h a) F) r R h"
  by (simp add: sim_def sbind_def expand_dims_h_def get_arr1_def new_arr2_def)

lemma col_imap_apply:
  "col_imap j f a h =
     (case np_col_map j f (arr2 h a) of Inl e \<Rightarrow> (Inl e, h)
      | Inr x \<Rightarrow> (Inr (), h\<lparr>arr2 := (arr2 h)(a := x)\<rparr>))"
  by (simp add: col_imap_def sbind_def get_arr2_def put_arr2_def split: sum.splits)

lemma vec_imap_apply:
  "vec_imap j f a h =
     (case vec_map_at j f (arr1 h a) of Inl e \<Rightarrow> (Inl e, h)
      | Inr v \<Rightarrow> (Inr (), h\<lparr>arr1 := (arr1 h)(a := v)\<rparr>))"
  by (simp add: vec_imap_def sbind_def get_arr1_def put_arr1_def split: sum.splits)

lemma set_cols_h_apply:
  "set_cols_h a js vals h =
     (case np_set_cols (arr2 h a) js vals of Inl e \<Rightarrow> (Inl e, h)
      | Inr x \<Rightarrow> (Inr (), h\<lparr>arr2 := (arr2 h)(a := x)\<rparr>))"
  by (simp add: set_cols_h_def sbind_def get_arr2_def put_arr2_def split: sum.splits)

lemma take_rows_h_apply:
  "take_rows_h a choice h =
     (case np_take_rows (arr2 h a) choice of Inl e \<Rightarrow> (Inl e, h)
      | Inr x \<Rightarrow> (Inr (next_addr h), h\<lparr>next_addr := Suc (next_addr h), arr2 := (arr2 h)(next_addr h := x)\<rparr>))"
  by (simp add: take_rows_h_def sbind_def get_arr2_def new_arr2_def split: sum.splits)

lemma rotate_pc_along_y_h_apply:
  "rotate_pc_along_y_h a t h =
     (case rotate_pc_along_y (arr2 h a) t of Inl e \<Rightarrow> (Inl e, h)
      | Inr x \<Rightarrow> (Inr a, h\<lparr>arr2 := (arr2 h)(a := x)\<rparr>))"
  by (simp add: rotate_pc_along_y_h_def rotate_pc_along_y_def Let_def sbind_def get_arr2_def
      set_cols_h_apply rbind_def split: sum.splits)


section \<open>The blocks simulate their pure counterparts\<close>

text \<open>
  Each block on the store raises what the block on values raises, and when it returns
  the store holds the arrays the block on values returns, at the addresses the block
  was given. The premises say which values the store holds at these addresses before.
\<close>

lemma sim_lift_eq:
  assumes "m = m'" and "\<And>x. m = Inr x \<Longrightarrow> sim (F x) (F' x) R s"
  shows "sim (sbind (slift m) F) (rbind m' F') R s"
  using assms sim_lift [of m F F' R s] by simp

lemma sim_prod2:
  assumes "\<And>a b c d. x = (a, b) \<Longrightarrow> y = (c, d) \<Longrightarrow> sim (F a b) (F' c d) R s"
  shows "sim (case x of (a, b) \<Rightarrow> F a b) (case y of (c, d) \<Rightarrow> F' c d) R s"
  using assms by (cases x; cases y) simp

lemma sim_prod_right:
  assumes "\<And>c d. y = (c, d) \<Longrightarrow> sim m (F' c d) R s"
  shows "sim m (case y of (c, d) \<Rightarrow> F' c d) R s"
  using assms by (cases y) simp

lemma sim_dict_ref:
  assumes "\<And>a. v = Some a \<Longrightarrow> sim (F a) (F' (f a)) R s"
  shows "sim (sbind (slift (dict_get v)) F) (rbind (dict_get (map_option f v)) F') R s"
  using assms by (cases v) (simp_all add: sim_def)

lemma seen_record_simps [simp]:
  "img_id (seen_record self rnd h d) = ref_img_id d"
  "frustum_angle (seen_record self rnd h d) = ref_frustum_angle d"
  "heading (seen_record self rnd h d) = ref_heading d"
  "box3d_center (seen_record self rnd h d) = map_option (arr1 h) (ref_box3d_center d)"
  "box3d_size (seen_record self rnd h d) = map_option (size_seen self rnd h d) (ref_box3d_size d)"
  by (simp_all add: seen_record_def abs_record_def)

lemma seen_record_unaliased: "unaliased d \<Longrightarrow> seen_record self rnd h d = abs_record h d"
  by (cases "ref_box3d_size d") (auto simp: seen_record_def abs_record_def unaliased_def size_seen_def)

lemma select_source_h_sim:
  "sim (slift (select_source_h self d)) (select_source self (seen_record self rnd h0 d))
     (\<lambda>x y h'. h' = h \<and> snd x = snd y \<and> arr2 h0 (fst x) = fst y) h"
  by (cases "ref_point_velo d"; cases "ref_velo_label d"; cases "ref_point_2d d";
      cases "ref_label d")
    (simp_all add: sim_def select_source_h_def select_source_def seen_record_def abs_record_def)

lemma subsample_h_sim:
  assumes "arr2 h p = pts" and "seg = seg'"
  shows "sim (subsample_h self rnd p seg) (subsample self rnd pts seg')
     (\<lambda>x y h'. fst x = next_addr h \<and> snd x = snd y \<and>
        h' = h\<lparr>next_addr := Suc (next_addr h), arr2 := (arr2 h)(next_addr h := fst y)\<rparr>) h"
  using assms
  by (simp add: sim_def subsample_h_def subsample_def sbind_def get_arr2_def take_rows_h_apply
      rbind_def split: sum.splits)

lemma flip_aug_h_sim:
  assumes "arr2 h p = pts" and "arr1 h c = center"
  shows "sim (flip_aug_h self rnd p c head) (flip_aug self rnd pts center head)
     (\<lambda>x y h'. x = snd (snd y) \<and>
        h' = h\<lparr>arr1 := (arr1 h)(c := fst (snd y)), arr2 := (arr2 h)(p := fst y)\<rparr>) h"
  using assms
  by (auto simp: sim_def flip_aug_h_def flip_aug_def sbind_def col_imap_apply vec_imap_apply
      rbind_def split: sum.splits)

lemma shift_aug_h_sim:
  assumes "arr2 h p = pts" and "arr1 h c = center"
  shows "sim (shift_aug_h self rnd p c) (shift_aug self rnd pts center)
     (\<lambda>x y h'. h' = h\<lparr>arr1 := (arr1 h)(c := snd y), arr2 := (arr2 h)(p := fst y)\<rparr>) h"
  using assms
  by (auto simp: sim_def shift_aug_h_def shift_aug_def sbind_def col_imap_apply vec_imap_apply
      get_arr1_def rbind_def Let_def split: sum.splits)

lemma rotate_pc_along_y_h_sim:
  assumes "arr2 h a = x"
  shows "sim (rotate_pc_along_y_h a t) (rotate_pc_along_y x t)
     (\<lambda>r y h'. r = a \<and> h' = h\<lparr>arr2 := (arr2 h)(a := y)\<rparr>) h"
  using assms by (simp add: sim_def rotate_pc_along_y_h_apply split: sum.splits)

lemmas store_steps =
  sim_get1 sim_get2 sim_copy1 sim_copy2 sim_expand_dims
  sim_bind [OF select_source_h_sim] sim_bind [OF subsample_h_sim]
  sim_bind [OF flip_aug_h_sim] sim_bind [OF shift_aug_h_sim]
  sim_bind [OF rotate_pc_along_y_h_sim]
  sim_dict_ref sim_prod2 sim_prod_right sim_lift sim_lift_eq sim_return

text \<open>
  What a call that returns has done to the store it started from: it has allocated,
  it has written no two-dimensional array that existed, and of the one-dimensional
  arrays that existed it has changed only the loaded centre, which holds its augmented
  value.
\<close>

definition served :: "myPointData \<Rightarrow> draws \<Rightarrow> store \<Rightarrow> point_refs \<Rightarrow> store \<Rightarrow> bool" where
  "served self rnd h d h' \<longleftrightarrow>
     next_addr h \<le> next_addr h' \<and>
     (\<forall>a < next_addr h. arr2 h' a = arr2 h a) \<and>
     (\<forall>a < next_addr h.
        arr1 h' a = (if ref_box3d_center d = Some a
                     then augment self rnd (arr1 h a) (arr1 h a) else arr1 h a))"

lemma getitem_from_sim_aux:
  assumes "py_index (points self) index = Inr point"
    and "fs point = Some (seen_record self rnd h d)"
  shows "sim (getitem_from self rnd point d) (myPointData_getitem fs rnd self index)
     (\<lambda>x y h'. x = y \<and> served self rnd h d h') h"
  unfolding getitem_from_def myPointData_getitem_def Let_def
  apply (simp only: assms rbind_Inr point_loader_def option.case seen_record_simps)
  apply (intro store_steps)
  apply (auto simp: served_def size_seen_def block_iffs augment_def)
  done

section \<open>The loader\<close>

lemma point_loader_h_None: "fs path = None \<Longrightarrow> point_loader_h fs path h = (Inl IOError, h)"
  by (simp add: point_loader_h_def point_loader_def)

lemma point_loader_h_Some:
  assumes "fs path = Some d"
  shows "\<exists>refs h'. point_loader_h fs path h = (Inr refs, h') \<and> abs_record h' refs = d \<and>
           unaliased refs"
  using assms
  by (cases "point_2d d"; cases "point_velo d"; cases "box3d_center d"; cases "box3d_size d")
    (simp_all add: point_loader_h_def point_loader_def load_opt_def new_arr1_def new_arr2_def
      sbind_def abs_record_def unaliased_def)

lemma myPointData_getitem_h_result_aux:
  "fst (myPointData_getitem_h fs rnd self index h) = myPointData_getitem fs rnd self index"
proof (cases "py_index (points self) index")
  case (Inl e)
  then show ?thesis by (simp add: myPointData_getitem_h_def myPointData_getitem_def)
next
  case (Inr point)
  show ?thesis
  proof (cases "fs point")
    case None
    with Inr show ?thesis
      by (simp add: myPointData_getitem_h_def myPointData_getitem_def point_loader_h_None
          point_loader_def sbind_def)
  next
    case (Some d)
    from point_loader_h_Some [where fs = fs and h = h, OF Some] obtain refs h' where l:
      "point_loader_h fs point h = (Inr refs, h')" "abs_record h' refs = d" "unaliased refs"
      by blast
    from Some l have "fs point = Some (seen_record self rnd h' refs)"
      by (simp add: seen_record_unaliased)
    from sim_result(1) [OF getitem_from_sim_aux [where fs = fs, OF Inr this]] Inr l(1) show ?thesis
      by (simp add: myPointData_getitem_h_def sbind_def)
  qed
qed

section \<open>What a call leaves untouched\<close>

text \<open>
  \<open>untouched b h\<close> is an invariant of the store: the addresses below \<open>b\<close> hold what they
  hold in \<open>h\<close>. Allocation keeps it, and so does a write at an address from \<open>b\<close> on. The
  item access writes only the centre it loaded and arrays it allocated, so it keeps
  the invariant for \<open>b\<close> the first free address at the call, on every path.
\<close>

definition untouched :: "nat \<Rightarrow> store \<Rightarrow> store \<Rightarrow> bool" where
  "untouched b h h' \<longleftrightarrow>
     b \<le> next_addr h' \<and> (\<forall>a < b. arr1 h' a = arr1 h a \<and> arr2 h' a = arr2 h a)"

definition extends :: "store \<Rightarrow> store \<Rightarrow> bool" where
  "extends h h' \<longleftrightarrow> untouched (next_addr h) h h'"

definition fresh :: "nat \<Rightarrow> nat option \<Rightarrow> bool" where
  "fresh b r = (case r of None \<Rightarrow> True | Some a \<Rightarrow> b \<le> a)"

lemma keeps_get1 [keeps_steps]: "(\<And>x. keeps I (F x) W) \<Longrightarrow> keeps I (sbind (get_arr1 a) F) W"
  by (simp add: keeps_def sbind_def get_arr1_def)

lemma keeps_get2 [keeps_steps]: "(\<And>x. keeps I (F x) W) \<Longrightarrow> keeps I (sbind (get_arr2 a) F) W"
  by (simp add: keeps_def sbind_def get_arr2_def)

lemma keeps_new1 [keeps_steps]: "keeps (untouched b h) (new_arr1 v) (\<lambda>a. b \<le> a)"
  by (auto simp: keeps_def untouched_def new_arr1_def)

lemma keeps_new2 [keeps_steps]: "keeps (untouched b h) (new_arr2 x) (\<lambda>a. b \<le> a)"
  by (auto simp: keeps_def untouched_def new_arr2_def)

lemma keeps_put1 [keeps_steps]: "b \<le> a \<Longrightarrow> keeps (untouched b h) (put_arr1 a v) (\<lambda>_. True)"
  by (auto simp: keeps_def untouched_def put_arr1_def)

lemma keeps_put2 [keeps_steps]: "b \<le> a \<Longrightarrow> keeps (untouched b h) (put_arr2 a x) (\<lambda>_. True)"
  by (auto simp: keeps_def untouched_def put_arr2_def)

lemma keeps_np_copy1: "keeps (untouched b h) (np_copy1 a) (\<lambda>a. b \<le> a)"
  unfolding np_copy1_def by (intro keeps_steps)

lemma keeps_np_copy2: "keeps (untouched b h) (np_copy2 a) (\<lambda>a. b \<le> a)"
  unfolding np_copy2_def by (intro keeps_steps)

lemma keeps_expand_dims_h: "keeps (untouched b h) (expand_dims_h a) (\<lambda>a. b \<le> a)"
  unfolding expand_dims_h_def by (intro keeps_steps)

lemma keeps_take_rows_h: "keeps (untouched b h) (take_rows_h a choice) (\<lambda>a. b \<le> a)"
  unfolding take_rows_h_def by (intro keeps_steps)

lemma keeps_col_imap: "b \<le> a \<Longrightarrow> keeps (untouched b h) (col_imap j f a) (\<lambda>_. True)"
  unfolding col_imap_def by (intro keeps_steps)

lemma keeps_vec_imap: "b \<le> a \<Longrightarrow> keeps (untouched b h) (vec_imap j f a) (\<lambda>_. True)"
  unfolding vec_imap_def by (intro keeps_steps)

lemma keeps_set_cols_h: "b \<le> a \<Longrightarrow> keeps (untouched b h) (set_cols_h a js vals) (\<lambda>_. True)"
  unfolding set_cols_h_def by (intro keeps_steps)

lemma keeps_rotate_pc_along_y_h:
  "b \<le> a \<Longrightarrow> keeps (untouched b h) (rotate_pc_along_y_h a t) (\<lambda>a. b \<le> a)"
  unfolding rotate_pc_along_y_h_def Let_def
  by (intro keeps_steps keeps_bind [OF keeps_set_cols_h]) auto

lemma keeps_subsample_h:
  "keeps (untouched b h) (subsample_h self rnd p seg) (\<lambda>x. b \<le> fst x)"
  unfolding subsample_h_def
  by (intro keeps_steps keeps_bind [OF keeps_take_rows_h]) auto

lemma keeps_flip_aug_h:
  "b \<le> p \<Longrightarrow> b \<le> c \<Longrightarrow> keeps (untouched b h) (flip_aug_h self rnd p c head) (\<lambda>_. True)"
  unfolding flip_aug_h_def
  by (intro keeps_steps keeps_bind [OF keeps_col_imap] keeps_bind [OF keeps_vec_imap]) simp_all

lemma keeps_shift_aug_h:
  "b \<le> p \<Longrightarrow> b \<le> c \<Longrightarrow> keeps (untouched b h) (shift_aug_h self rnd p c) (\<lambda>_. True)"
  unfolding shift_aug_h_def Let_def
  by (intro keeps_steps keeps_bind [OF keeps_col_imap] keeps_vec_imap) simp_all

lemmas keeps_blocks =
  keeps_bind [OF keeps_subsample_h] keeps_bind [OF keeps_flip_aug_h]
  keeps_bind [OF keeps_shift_aug_h] keeps_bind [OF keeps_np_copy1]
  keeps_bind [OF keeps_np_copy2] keeps_bind [OF keeps_expand_dims_h]
  keeps_bind [OF keeps_rotate_pc_along_y_h]

lemma keeps_getitem_from:
  assumes "fresh b (ref_box3d_center d)"
  shows "keeps (untouched b h) (getitem_from self rnd point d) (\<lambda>_. True)"
  unfolding getitem_from_def Let_def
  by (insert assms, intro keeps_steps keeps_blocks) (auto simp: fresh_def dict_get_Inr_iff)

lemma keeps_load_opt:
  assumes "\<And>x. keeps (untouched b h) (new x) (\<lambda>a. b \<le> a)"
  shows "keeps (untouched b h) (load_opt new v) (fresh b)"
  unfolding load_opt_def
  by (cases v) (auto intro!: keeps_steps keeps_bind [OF assms] simp: fresh_def)

lemma keeps_point_loader_h:
  "keeps (untouched b h) (point_loader_h fs path) (\<lambda>d. fresh b (ref_box3d_center d))"
  unfolding point_loader_h_def
  by (intro keeps_steps keeps_bind [OF keeps_load_opt]) auto

lemma keeps_myPointData_getitem_h:
  "keeps (untouched b h) (myPointData_getitem_h fs rnd self index) (\<lambda>_. True)"
  unfolding myPointData_getitem_h_def
  by (intro keeps_steps keeps_bind [OF keeps_point_loader_h] keeps_getitem_from)

lemma untouched_refl: "untouched (next_addr h) h h"
  by (simp add: untouched_def)

section \<open>An example store\<close>

text \<open>
  The example sample of \<open>Point_Data\<close> as three arrays of a store: the points at address
  0, the centre at 1, the size at 2. \<open>ex_aliased\<close> is the same sample with the size key
  bound to the centre array.
\<close>

definition ex_store :: store where
  "ex_store =
     \<lparr>next_addr = 3,
      arr1 = (\<lambda>a. if a = 1 then [1, 0, 2] else [4, 2, 1]),
      arr2 = (\<lambda>a. \<lparr>ncols = 3, rows = [[1, 5, 0], [0, 2, 1]]\<rparr>)\<rparr>"

definition ex_refs :: point_refs where
  "ex_refs =
     \<lparr>ref_img_id = Some 7, ref_frustum_angle = Some 0,
      ref_point_2d = Some 0, ref_label = Some [1, 0],
      ref_point_velo = None, ref_velo_label = None,
      ref_box3d_center = Some 1, ref_box3d_size = Some 2, ref_heading = Some (pi / 2)\<rparr>"

definition ex_aliased :: point_refs where
  "ex_aliased = ex_refs\<lparr>ref_box3d_size := Some 1\<rparr>"

lemma ex_refs_abs: "abs_record ex_store ex_refs = ex_record"
  by (simp add: abs_record_def ex_store_def ex_refs_def ex_record_def)

lemma ex_index: "py_index (points (ex_data f sh)) 0 = Inr ''d/a.npy''"
  by (simp add: py_index_def)

lemma ex_flip_center: "augment (ex_data True False) ex_draws [1, 0, 2] [1, 0, 2] = [- 1, 0, 2]"
  by (simp add: augment_def shift_fn_def flip_fn_def flipped_def flip_row_def ex_draws_def)

section \<open>Properties\<close>

text \<open>
  C6: The item access on the store computes what the pure item access computes: from
  every store, for every file system, draw, dataset and index, it returns the same
  sample or raises the same exception. The in-place updates of the source are
  therefore not visible in the result.
\<close>

theorem myPointData_getitem_h_refines:
  "fst (myPointData_getitem_h fs rnd self index h) = myPointData_getitem fs rnd self index"
  by (rule myPointData_getitem_h_result_aux)

text \<open>
  C19: A call never changes an array that existed before it, whether it returns or
  raises: the store it leaves has every earlier address with its earlier content.
  All it writes are the arrays it loaded or created itself.
\<close>

theorem myPointData_getitem_h_frame:
  "extends h (snd (myPointData_getitem_h fs rnd self index h))"
  unfolding extends_def by (rule keepsD [OF keeps_myPointData_getitem_h untouched_refl])

theorem myPointData_getitem_h_frame_witness:
  "extends ex_store (snd (myPointData_getitem_h ex_fs ex_draws (ex_data True True) 0 ex_store))"
  by (rule myPointData_getitem_h_frame)

text \<open>
  C14: On a loaded sample whose centre and size are distinct arrays the body of the
  item access computes the pure item of the record the store holds, and when it
  returns it has overwritten the loaded centre with its augmented value and has left
  every other array that existed, the loaded points among them, as it was: indexing
  by the drawn rows copies the points, the centre is updated in place.
\<close>

theorem getitem_from_mutates_center:
  assumes "py_index (points self) index = Inr point" and "fs point = Some (abs_record h d)"
    and "unaliased d" and "ref_box3d_center d = Some c" and "c < next_addr h"
    and "returns (myPointData_getitem fs rnd self index)"
  shows "fst (getitem_from self rnd point d h) = myPointData_getitem fs rnd self index \<and>
         arr1 (snd (getitem_from self rnd point d h)) c = augment self rnd (arr1 h c) (arr1 h c) \<and>
         (\<forall>a < next_addr h. a \<noteq> c \<longrightarrow>
            arr1 (snd (getitem_from self rnd point d h)) a = arr1 h a) \<and>
         (\<forall>a < next_addr h. arr2 (snd (getitem_from self rnd point d h)) a = arr2 h a)"
proof -
  from assms(2,3) have "fs point = Some (seen_record self rnd h d)"
    by (simp add: seen_record_unaliased)
  note s = sim_result [OF getitem_from_sim_aux [where fs = fs, OF assms(1) this]]
  from s(1) s(2) [OF assms(6)] assms(4,5) show ?thesis
    by (auto simp: served_def)
qed

lemma ex_refs_loaded:
  "ex_fs ''d/a.npy'' = Some (abs_record ex_store ex_refs)" "unaliased ex_refs"
  "ref_box3d_center ex_refs = Some 1" "1 < next_addr ex_store" "2 < next_addr ex_store"
  "arr1 ex_store (Suc 0) = [1, 0, 2]" "arr1 ex_store 2 = [4, 2, 1]"
  by (simp_all add: ex_refs_abs ex_fs_def unaliased_def) (simp_all add: ex_refs_def ex_store_def)

theorem getitem_from_mutates_center_witness:
  "arr1 (snd (getitem_from (ex_data True False) ex_draws ''d/a.npy'' ex_refs ex_store)) 1
     = [- 1, 0, 2] \<and>
   arr1 (snd (getitem_from (ex_data True False) ex_draws ''d/a.npy'' ex_refs ex_store)) 2
     = [4, 2, 1]"
proof -
  have "returns (myPointData_getitem ex_fs ex_draws (ex_data True False) 0)"
    using ex_getitem_returns [of ex_draws True False] by (auto simp: returns_def)
  note w = getitem_from_mutates_center [where rnd = ex_draws, OF ex_index ex_refs_loaded(1-4) this]
  from w [THEN conjunct2, THEN conjunct1]
    w [THEN conjunct2, THEN conjunct2, THEN conjunct1, rule_format, of 2]
  show ?thesis
    by (simp add: ex_refs_loaded ex_flip_center)
qed

text \<open>
  C34: When the centre and the size of a loaded sample are one array, the size residual
  is computed from the augmented centre: the body of the item access returns the pure
  item of the record whose size is the flipped and shifted centre. The size is read
  from the dictionary after the centre has been updated in place.
\<close>

theorem getitem_from_aliased:
  assumes "py_index (points self) index = Inr point"
    and "ref_box3d_center d = Some c" and "ref_box3d_size d = Some c"
    and "fs point =
       Some ((abs_record h d)\<lparr>box3d_size := Some (augment self rnd (arr1 h c) (arr1 h c))\<rparr>)"
  shows "fst (getitem_from self rnd point d h) = myPointData_getitem fs rnd self index"
proof -
  from assms(2-4) have "fs point = Some (seen_record self rnd h d)"
    by (simp add: seen_record_def size_seen_def)
  from sim_result(1) [OF getitem_from_sim_aux [where fs = fs, OF assms(1) this]]
  show ?thesis .
qed

theorem getitem_from_aliased_witness:
  "fst (getitem_from (ex_data True False) ex_draws ''d/a.npy'' ex_aliased ex_store) =
     myPointData_getitem (\<lambda>_. Some (ex_record\<lparr>box3d_size := Some [- 1, 0, 2]\<rparr>))
       ex_draws (ex_data True False) 0"
proof -
  have "abs_record ex_store ex_aliased = ex_record\<lparr>box3d_size := Some [1, 0, 2]\<rparr>"
    by (simp add: abs_record_def ex_store_def ex_refs_def ex_aliased_def ex_record_def)
  then show ?thesis
    using getitem_from_aliased [where h = ex_store and d = ex_aliased and c = 1
        and self = "ex_data True False" and rnd = ex_draws and index = 0
        and fs = "\<lambda>_. Some (ex_record\<lparr>box3d_size := Some [- 1, 0, 2]\<rparr>)", OF ex_index]
    by (simp add: ex_aliased_def ex_refs_def ex_store_def ex_flip_center)
qed

text \<open>
  The rotation works in place: on the store it replaces the array at the address
  it is given by the rotated array of the pure rotation and returns that same address;
  when the pure rotation raises it raises the same exception and the store is as
  before.
\<close>

theorem rotate_pc_along_y_h_in_place:
  "rotate_pc_along_y_h a t h =
     (case rotate_pc_along_y (arr2 h a) t of
        Inl e \<Rightarrow> (Inl e, h)
      | Inr x \<Rightarrow> (Inr a, h\<lparr>arr2 := (arr2 h)(a := x)\<rparr>))"
  by (rule rotate_pc_along_y_h_apply)

end
