(* ===== verification/Image_Model.thy ===== *)
theory Image_Model
  imports Py_Prelude "HOL-Library.Word"
begin

text \<open>
  The images of \<^verbatim>\<open>src/KITTILoader.py\<close> and what the program does to them: the
  crop of the imaging library, the conversion of a disparity image to a scaled float
  array with Python's slicing, and the transform \<^verbatim>\<open>get_transform\<close> (lines 14-41)
  that turns an RGB image into a normalised tensor. An image is a record of its
  width, its height and its rows of pixels; an RGB pixel is three bytes, a disparity
  pixel a natural number. A tensor is a list of channel planes.
\<close>

section \<open>Images\<close>

record 'a image =
  im_w :: nat
  im_h :: nat
  im_px :: "'a list list"

type_synonym rgb = "8 word \<times> 8 word \<times> 8 word"
type_synonym plane = "real list list"
type_synonym tensor = "plane list"

definition wf_image :: "'a image \<Rightarrow> bool" where
  "wf_image im \<longleftrightarrow>
     length (im_px im) = im_h im \<and> list_all (\<lambda>r. length r = im_w im) (im_px im)"

definition black :: rgb where
  "black = (0, 0, 0)"

definition channels :: "rgb \<Rightarrow> 8 word list" where
  "channels p = (case p of (r, g, b) \<Rightarrow> [r, g, b])"

text \<open>\<^verbatim>\<open>img.size\<close>: width first.\<close>

definition pil_size :: "'a image \<Rightarrow> int \<times> int" where
  "pil_size im = (int (im_w im), int (im_h im))"

text \<open>
  The pixel at \<open>(x, y)\<close>, and \<open>fill\<close> outside the image: the imaging library pads a
  crop that reaches beyond the image with zero pixels.
\<close>

definition getpixel :: "'a \<Rightarrow> 'a image \<Rightarrow> int \<Rightarrow> int \<Rightarrow> 'a" where
  "getpixel fill im x y =
     (if 0 \<le> x \<and> x < int (im_w im) \<and> 0 \<le> y \<and> y < int (im_h im)
      then im_px im ! nat y ! nat x else fill)"

text \<open>The window of \<open>w\<close> by \<open>h\<close> pixels whose top left corner is at \<open>(l, u)\<close>.\<close>

definition window :: "'a \<Rightarrow> 'a image \<Rightarrow> int \<Rightarrow> int \<Rightarrow> nat \<Rightarrow> nat \<Rightarrow> 'a image" where
  "window fill im l u w h =
     \<lparr>im_w = w, im_h = h,
      im_px = map (\<lambda>y. map (\<lambda>x. getpixel fill im (l + int x) (u + int y)) [0..<w]) [0..<h]\<rparr>"

text \<open>
  \<^verbatim>\<open>img.crop((left, upper, right, lower))\<close>: the window of \<open>right - left\<close> by
  \<open>lower - upper\<close> pixels at \<open>(left, upper)\<close>; a box whose right or lower edge is
  before its left or upper edge is refused with \<^verbatim>\<open>ValueError\<close>.
\<close>

definition pil_crop :: "'a \<Rightarrow> 'a image \<Rightarrow> int \<times> int \<times> int \<times> int \<Rightarrow> 'a image result" where
  "pil_crop fill im box =
     (case box of (l, u, r, lo) \<Rightarrow>
        if r < l \<or> lo < u then Inl ValueError
        else Inr (window fill im l u (nat (r - l)) (nat (lo - u))))"

section \<open>Float arrays from images\<close>

text \<open>
  \<^verbatim>\<open>np.ascontiguousarray(img, dtype=np.float32) / d\<close>: the rows of the image as
  floats, divided by \<open>d\<close>.
\<close>

definition np_asarray_div :: "nat image \<Rightarrow> real \<Rightarrow> plane" where
  "np_asarray_div im d = map (map (\<lambda>v. real v / d)) (im_px im)"

text \<open>
  Python's slice \<^verbatim>\<open>xs[i:j]\<close>: a negative bound counts from the end, and bounds
  beyond the ends are clamped, so a slice never fails.
\<close>

definition slice_bound :: "nat \<Rightarrow> int \<Rightarrow> nat" where
  "slice_bound n i = (if i < 0 then nat (max (i + int n) 0) else min (nat i) n)"

definition py_slice :: "'a list \<Rightarrow> int \<Rightarrow> int \<Rightarrow> 'a list" where
  "py_slice xs i j =
     (let a = slice_bound (length xs) i; b = slice_bound (length xs) j
      in take (b - a) (drop a xs))"

text \<open>\<^verbatim>\<open>a[y0:y1, x0:x1]\<close> on a two-dimensional array.\<close>

definition np_slice2 ::
  "'a list list \<Rightarrow> int \<Rightarrow> int \<Rightarrow> int \<Rightarrow> int \<Rightarrow> 'a list list" where
  "np_slice2 a y0 y1 x0 x1 = map (\<lambda>r. py_slice r x0 x1) (py_slice a y0 y1)"

section \<open>The transform\<close>

text \<open>
  \<^verbatim>\<open>transforms.ToTensor()\<close>: channel first, bytes scaled to \<open>[0, 1]\<close>.
  \<^verbatim>\<open>transforms.Normalize(mean, std)\<close>: per channel \<open>(v - mean) / std\<close>; it refuses
  a zero in \<open>std\<close> with \<^verbatim>\<open>ValueError\<close> and statistics that do not fit the number of
  channels with \<^verbatim>\<open>RuntimeError\<close>.
\<close>

record norm_stats =
  stat_mean :: "real list"
  stat_std :: "real list"

definition imagenet_stats :: norm_stats where
  "imagenet_stats =
     \<lparr>stat_mean = [485 / 1000, 456 / 1000, 406 / 1000],
      stat_std = [229 / 1000, 224 / 1000, 225 / 1000]\<rparr>"

definition to_tensor :: "rgb image \<Rightarrow> tensor" where
  "to_tensor im =
     map (\<lambda>c. map (map (\<lambda>p. real (unat (channels p ! c)) / 255)) (im_px im)) [0..<3]"

definition fits_channels :: "'a list \<Rightarrow> tensor \<Rightarrow> bool" where
  "fits_channels st t \<longleftrightarrow> length st = length t \<or> length st = 1"

definition stat_at :: "real list \<Rightarrow> nat \<Rightarrow> real" where
  "stat_at st c = (if length st = 1 then hd st else st ! c)"

definition tv_normalize :: "norm_stats \<Rightarrow> tensor \<Rightarrow> tensor result" where
  "tv_normalize st t =
     (if list_ex (\<lambda>s. s = 0) (stat_std st) then Inl ValueError
      else if \<not> (fits_channels (stat_mean st) t \<and> fits_channels (stat_std st) t)
        then Inl RuntimeError
      else Inr (map (\<lambda>c. map (map (\<lambda>v. (v - stat_at (stat_mean st) c) / stat_at (stat_std st) c))
                  (t ! c)) [0..<length t]))"

text \<open>
  \<^verbatim>\<open>scale_crop\<close> builds the composition of the two steps and uses neither of its
  size arguments; \<^verbatim>\<open>get_transform\<close> overwrites \<open>normalize\<close> and \<open>input_size\<close> before
  it calls \<^verbatim>\<open>scale_crop\<close>, so all of its arguments but \<open>scale_size\<close> are dead, and
  that one is passed to a function that ignores it. The parameter \<open>normalize\<close> of both
  is called \<open>stats\<close> here.
\<close>

definition scale_crop ::
  "int \<Rightarrow> int option \<Rightarrow> norm_stats \<Rightarrow> rgb image \<Rightarrow> tensor result" where
  "scale_crop input_size scale_size stats =
     (\<lambda>img. rbind (Inr (to_tensor img)) (tv_normalize stats))"

definition get_transform ::
  "string \<Rightarrow> int option \<Rightarrow> int option \<Rightarrow> norm_stats option \<Rightarrow> rgb image \<Rightarrow> tensor result"
  where
  "get_transform name input_size scale_size stats =
     (let stats = imagenet_stats; input_size = 256
      in scale_crop input_size scale_size stats)"

section \<open>Reference definitions\<close>

text \<open>
  The value the transform gives a byte \<open>b\<close> of channel \<open>c\<close>, and the tensor of an
  image written with it.
\<close>

definition norm_value :: "nat \<Rightarrow> 8 word \<Rightarrow> real" where
  "norm_value c b =
     (real (unat b) / 255 - stat_mean imagenet_stats ! c) / stat_std imagenet_stats ! c"

definition norm_tensor :: "rgb image \<Rightarrow> tensor" where
  "norm_tensor im = map (\<lambda>c. map (map (\<lambda>p. norm_value c (channels p ! c))) (im_px im)) [0..<3]"

definition plane_shape :: "'a list list \<Rightarrow> nat \<Rightarrow> nat \<Rightarrow> bool" where
  "plane_shape a h w \<longleftrightarrow> length a = h \<and> list_all (\<lambda>r. length r = w) a"

definition tensor_shape :: "tensor \<Rightarrow> nat \<Rightarrow> nat \<Rightarrow> nat \<Rightarrow> bool" where
  "tensor_shape t c h w \<longleftrightarrow> length t = c \<and> list_all (\<lambda>a. plane_shape a h w) t"

section \<open>Facts about images and crops\<close>

named_theorems img_shape "sizes of images, arrays and tensors"

lemma wf_image_iff:
  "wf_image im \<longleftrightarrow> length (im_px im) = im_h im \<and> (\<forall>r \<in> set (im_px im). length r = im_w im)"
  by (simp add: wf_image_def list_all_iff)

lemma plane_shape_iff:
  "plane_shape a h w \<longleftrightarrow> length a = h \<and> (\<forall>r \<in> set a. length r = w)"
  by (simp add: plane_shape_def list_all_iff)

lemma plane_shape_nth: "plane_shape a h w \<Longrightarrow> y < h \<Longrightarrow> length (a ! y) = w"
  by (simp add: plane_shape_iff)

lemma wf_image_plane: "wf_image im \<longleftrightarrow> plane_shape (im_px im) (im_h im) (im_w im)"
  by (simp add: wf_image_def plane_shape_def)

lemma tensor_shape_iff:
  "tensor_shape t c h w \<longleftrightarrow> length t = c \<and> (\<forall>a \<in> set t. plane_shape a h w)"
  by (simp add: tensor_shape_def list_all_iff)

lemma getpixel_inside:
  "0 \<le> x \<Longrightarrow> x < int (im_w im) \<Longrightarrow> 0 \<le> y \<Longrightarrow> y < int (im_h im) \<Longrightarrow>
     getpixel fill im x y = im_px im ! nat y ! nat x"
  by (simp add: getpixel_def)

lemma getpixel_outside:
  "x < 0 \<or> int (im_w im) \<le> x \<or> y < 0 \<or> int (im_h im) \<le> y \<Longrightarrow> getpixel fill im x y = fill"
  by (auto simp: getpixel_def)

lemma getpixel_offset:
  assumes "0 \<le> l" and "l + int x < int (im_w im)" and "0 \<le> u" and "u + int y < int (im_h im)"
  shows "getpixel fill im (l + int x) (u + int y) = im_px im ! (nat u + y) ! (nat l + x)"
  using assms by (simp add: getpixel_def nat_add_distrib)

lemma window_simps [simp]:
  "im_w (window fill im l u w h) = w" "im_h (window fill im l u w h) = h"
  "wf_image (window fill im l u w h)"
  by (simp_all add: window_def wf_image_iff)

lemma window_pixel:
  "x < w \<Longrightarrow> y < h \<Longrightarrow>
     im_px (window fill im l u w h) ! y ! x = getpixel fill im (l + int x) (u + int y)"
  by (simp add: window_def)

text \<open>A window inside the image takes every pixel from the image.\<close>

lemma window_pixel_inside:
  assumes "x < w" and "y < h" and "0 \<le> l" and "l + int w \<le> int (im_w im)"
    and "0 \<le> u" and "u + int h \<le> int (im_h im)"
  shows "im_px (window fill im l u w h) ! y ! x = im_px im ! (nat u + y) ! (nat l + x)"
  using assms by (simp add: window_pixel getpixel_offset)

text \<open>The crop returns exactly for a box that is not inverted, and then the window.\<close>

lemma pil_crop_Inr_iff:
  "pil_crop fill im (l, u, r, lo) = Inr c \<longleftrightarrow>
     l \<le> r \<and> u \<le> lo \<and> c = window fill im l u (nat (r - l)) (nat (lo - u))"
  by (auto simp: pil_crop_def)

lemma pil_crop_Inl_iff:
  "pil_crop fill im (l, u, r, lo) = Inl e \<longleftrightarrow> (r < l \<or> lo < u) \<and> e = ValueError"
  by (auto simp: pil_crop_def)

lemma pil_crop_window:
  "0 \<le> w \<Longrightarrow> 0 \<le> h \<Longrightarrow>
     pil_crop fill im (l, u, l + w, u + h) = Inr (window fill im l u (nat w) (nat h))"
  by (simp add: pil_crop_def)

lemma pil_crop_size [img_shape]:
  assumes "pil_crop fill im (l, u, r, lo) = Inr c"
  shows "im_w c = nat (r - l)" "im_h c = nat (lo - u)" "wf_image c"
  using assms by (auto simp: pil_crop_Inr_iff)

section \<open>Facts about slices\<close>

lemma slice_bound_inside [simp]: "0 \<le> i \<Longrightarrow> i \<le> int n \<Longrightarrow> slice_bound n i = nat i"
  by (simp add: slice_bound_def)

lemma slice_bound_le: "slice_bound n i \<le> n"
  by (auto simp: slice_bound_def max_def)

lemma py_slice_inside:
  "0 \<le> i \<Longrightarrow> i \<le> j \<Longrightarrow> j \<le> int (length xs) \<Longrightarrow>
     py_slice xs i j = take (nat (j - i)) (drop (nat i) xs)"
  by (simp add: py_slice_def Let_def nat_diff_distrib)

lemma length_py_slice_inside [img_shape]:
  "0 \<le> i \<Longrightarrow> i \<le> j \<Longrightarrow> j \<le> int (length xs) \<Longrightarrow> length (py_slice xs i j) = nat (j - i)"
  by (simp add: py_slice_inside)

lemma length_py_slice_le: "length (py_slice xs i j) \<le> length xs"
  by (simp add: py_slice_def Let_def)

lemma py_slice_nth:
  "0 \<le> i \<Longrightarrow> i \<le> j \<Longrightarrow> j \<le> int (length xs) \<Longrightarrow> k < nat (j - i) \<Longrightarrow>
     py_slice xs i j ! k = xs ! (nat i + k)"
  by (simp add: py_slice_inside)

lemma np_slice2_shape [img_shape]:
  assumes "plane_shape a h w" and "0 \<le> y0" "y0 \<le> y1" "y1 \<le> int h"
    and "0 \<le> x0" "x0 \<le> x1" "x1 \<le> int w"
  shows "plane_shape (np_slice2 a y0 y1 x0 x1) (nat (y1 - y0)) (nat (x1 - x0))"
proof -
  from assms have "\<forall>r \<in> set (py_slice a y0 y1). length r = w"
    by (auto simp: plane_shape_iff py_slice_inside dest!: in_set_takeD in_set_dropD)
  with assms show ?thesis
    by (simp add: plane_shape_iff np_slice2_def length_py_slice_inside)
qed

lemma np_slice2_nth:
  assumes "plane_shape a h w" and "0 \<le> y0" "y0 \<le> y1" "y1 \<le> int h"
    and "0 \<le> x0" "x0 \<le> x1" "x1 \<le> int w" and "y < nat (y1 - y0)" and "x < nat (x1 - x0)"
  shows "np_slice2 a y0 y1 x0 x1 ! y ! x = a ! (nat y0 + y) ! (nat x0 + x)"
proof -
  from assms have len: "length a = h" and y: "nat y0 + y < h"
    by (auto simp: plane_shape_iff)
  with assms(1) have "length (a ! (nat y0 + y)) = w" by (simp add: plane_shape_nth)
  with assms len show ?thesis
    by (simp add: np_slice2_def length_py_slice_inside py_slice_nth)
qed

lemma np_asarray_div_shape [img_shape]:
  "wf_image im \<Longrightarrow> plane_shape (np_asarray_div im d) (im_h im) (im_w im)"
  by (simp add: wf_image_iff plane_shape_iff np_asarray_div_def)

lemma np_asarray_div_nth:
  "wf_image im \<Longrightarrow> y < im_h im \<Longrightarrow> x < im_w im \<Longrightarrow>
     np_asarray_div im d ! y ! x = real (im_px im ! y ! x) / d"
  by (simp add: wf_image_iff np_asarray_div_def)

section \<open>Facts about the transform\<close>

lemma imagenet_stats_simps [simp]:
  "length (stat_mean imagenet_stats) = 3" "length (stat_std imagenet_stats) = 3"
  "\<not> list_ex (\<lambda>s. s = 0) (stat_std imagenet_stats)"
  by (simp_all add: imagenet_stats_def)

lemma length_to_tensor [simp]: "length (to_tensor im) = 3"
  by (simp add: to_tensor_def)

lemma get_transform_Inr: "get_transform name input_size scale_size stats im = Inr (norm_tensor im)"
  by (simp add: get_transform_def scale_crop_def tv_normalize_def fits_channels_def stat_at_def
      norm_tensor_def norm_value_def to_tensor_def comp_def Let_def)

lemma norm_tensor_shape [img_shape]:
  "wf_image im \<Longrightarrow> tensor_shape (norm_tensor im) 3 (im_h im) (im_w im)"
  by (auto simp: tensor_shape_iff plane_shape_iff wf_image_iff norm_tensor_def)

lemma norm_tensor_window_nth:
  "c < 3 \<Longrightarrow> y < h \<Longrightarrow> x < w \<Longrightarrow>
     norm_tensor (window fill im l u w h) ! c ! y ! x =
       norm_value c (channels (getpixel fill im (l + int x) (u + int y)) ! c)"
  by (simp add: norm_tensor_def window_def)

lemma norm_tensor_nth:
  "wf_image im \<Longrightarrow> c < 3 \<Longrightarrow> y < im_h im \<Longrightarrow> x < im_w im \<Longrightarrow>
     norm_tensor im ! c ! y ! x = norm_value c (channels (im_px im ! y ! x) ! c)"
  by (simp add: wf_image_iff norm_tensor_def)

lemma byte_le_255: "unat (b :: 8 word) \<le> 255"
  using unsigned_less [of b, where 'a = nat] by simp

lemma byte_real_range: "0 \<le> real (unat (b :: 8 word))" "real (unat b) \<le> 255"
  using byte_le_255 [of b] by linarith+

lemma stat_std_pos: "c < 3 \<Longrightarrow> 0 < stat_std imagenet_stats ! c"
  by (auto simp: imagenet_stats_def less_Suc_eq numeral_3_eq_3)

lemma norm_value_ends:
  "norm_value c 0 = (0 - stat_mean imagenet_stats ! c) / stat_std imagenet_stats ! c"
  "norm_value c 255 = (1 - stat_mean imagenet_stats ! c) / stat_std imagenet_stats ! c"
  by (simp_all add: norm_value_def)

lemma norm_value_range:
  assumes "c < 3"
  shows "norm_value c 0 \<le> norm_value c b" "norm_value c b \<le> norm_value c 255"
proof -
  let ?m = "stat_mean imagenet_stats ! c"
  let ?v = "real (unat b) / 255"
  from stat_std_pos [OF assms] have s: "0 \<le> stat_std imagenet_stats ! c" by linarith
  from byte_real_range [of b] have "0 - ?m \<le> ?v - ?m" and "?v - ?m \<le> 1 - ?m" by linarith+
  from this(1) s
  have "(0 - ?m) / stat_std imagenet_stats ! c \<le> (?v - ?m) / stat_std imagenet_stats ! c"
    by (rule divide_right_mono)
  moreover from \<open>?v - ?m \<le> 1 - ?m\<close> s
  have "(?v - ?m) / stat_std imagenet_stats ! c \<le> (1 - ?m) / stat_std imagenet_stats ! c"
    by (rule divide_right_mono)
  ultimately show "norm_value c 0 \<le> norm_value c b" "norm_value c b \<le> norm_value c 255"
    by (simp_all only: norm_value_ends) (simp_all only: norm_value_def)
qed

lemma norm_value_inverse:
  "c < 3 \<Longrightarrow>
     (norm_value c b * stat_std imagenet_stats ! c + stat_mean imagenet_stats ! c) * 255 =
       real (unat b)"
  using stat_std_pos [of c] by (simp add: norm_value_def)

lemma norm_value_inj:
  assumes "c < 3" and "norm_value c a = norm_value c b"
  shows "a = b"
proof -
  from assms norm_value_inverse [of c a] norm_value_inverse [of c b]
  have "real (unat a) = real (unat b)" by simp
  then have "unat a = unat b" by (simp only: of_nat_eq_iff)
  then show ?thesis by (simp add: word_unat_eq_iff)
qed

section \<open>Properties of the transform\<close>

text \<open>
  C26: \<open>get_transform\<close> never fails and is the ImageNet normalisation whatever its
  arguments are: on a well-formed image it returns a tensor of three planes of the
  image's height and width whose entry for channel \<open>c\<close> of a pixel with byte \<open>b\<close> is
  \<open>(b / 255 - mean c) / std c\<close>, which lies between the values of the bytes 0 and 255.
\<close>

theorem get_transform_values:
  assumes "wf_image im"
  shows "\<exists>t. get_transform nm input_size scale_size stats im = Inr t \<and>
    tensor_shape t 3 (im_h im) (im_w im) \<and>
    (\<forall>c < 3. \<forall>y < im_h im. \<forall>x < im_w im.
       t ! c ! y ! x = norm_value c (channels (im_px im ! y ! x) ! c) \<and>
       norm_value c 0 \<le> t ! c ! y ! x \<and> t ! c ! y ! x \<le> norm_value c 255)"
  using assms
  by (simp add: get_transform_Inr norm_tensor_shape norm_tensor_nth norm_value_range)

theorem get_transform_values_witness:
  "\<exists>t. get_transform ''imagenet'' None None None \<lparr>im_w = 1, im_h = 1, im_px = [[(255, 0, 51)]]\<rparr>
       = Inr t \<and> t ! 0 ! 0 ! 0 = 515 / 229 \<and> t ! 2 ! 0 ! 0 = - (206 / 225)"
proof -
  let ?im = "\<lparr>im_w = 1, im_h = 1, im_px = [[(255, 0, 51) :: rgb]]\<rparr>"
  have "wf_image ?im" by (simp add: wf_image_def)
  from get_transform_values [OF this, of "''imagenet''" None None None]
  obtain t where t: "get_transform ''imagenet'' None None None ?im = Inr t"
    and v: "\<forall>c < 3. \<forall>y < im_h ?im. \<forall>x < im_w ?im.
      t ! c ! y ! x = norm_value c (channels (im_px ?im ! y ! x) ! c)"
    by blast
  from v have "t ! 0 ! 0 ! 0 = norm_value 0 255" "t ! 2 ! 0 ! 0 = norm_value 2 51"
    by (simp_all add: channels_def)
  with t show ?thesis
    by (simp add: norm_value_def imagenet_stats_def)
qed

text \<open>
  Normalisation loses no information: two well-formed images of the same size
  with the same tensor have the same pixels.
\<close>

theorem get_transform_injective:
  assumes "wf_image a" and "wf_image b" and "im_w a = im_w b" and "im_h a = im_h b"
    and "get_transform nm input_size scale_size stats a =
      get_transform nm input_size scale_size stats b"
  shows "im_px a = im_px b"
proof -
  from assms(5) have eq: "norm_tensor a = norm_tensor b" by (simp add: get_transform_Inr)
  have px: "im_px a ! y ! x = im_px b ! y ! x" if "y < im_h a" "x < im_w a" for y x
  proof -
    from that assms(1-4) eq have
      "norm_value c (channels (im_px a ! y ! x) ! c) = norm_value c (channels (im_px b ! y ! x) ! c)"
      if "c < 3" for c
      using that norm_tensor_nth [of a c y x] norm_tensor_nth [of b c y x] by simp
    then have "channels (im_px a ! y ! x) ! c = channels (im_px b ! y ! x) ! c" if "c < 3" for c
      using that by (blast intro: norm_value_inj)
    from this [of 0] this [of 1] this [of 2] show ?thesis
      by (cases "im_px a ! y ! x"; cases "im_px b ! y ! x") (simp add: channels_def)
  qed
  from assms(1-4) have "im_px a ! y = im_px b ! y" if "y < im_h a" for y
    using that px [OF that] by (intro nth_equalityI) (simp_all add: wf_image_iff)
  with assms(1-4) show ?thesis
    by (intro nth_equalityI) (simp_all add: wf_image_iff)
qed

theorem get_transform_injective_witness:
  "im_px \<lparr>im_w = 1, im_h = 1, im_px = [[(255, 0, 51) :: rgb]]\<rparr> = [[(255, 0, 51)]]"
  using get_transform_injective [of "\<lparr>im_w = 1, im_h = 1, im_px = [[(255, 0, 51)]]\<rparr>"
      "\<lparr>im_w = 1, im_h = 1, im_px = [[(255, 0, 51)]]\<rparr>" "''imagenet''" None None None]
  by (simp add: wf_image_def)

end
