(* ===== verification/Stereo_Data.thy ===== *)
theory Stereo_Data
  imports Image_Model Random_Draws
begin

text \<open>
  The dataset class \<^verbatim>\<open>myImageFloder\<close> (lines 182-247 of \<^verbatim>\<open>src/KITTILoader.py\<close>)
  with the file-name test \<^verbatim>\<open>is_image_file\<close> and the two image loaders (lines
  21-24 and 44-53). The object is a record of its attributes, the two loader
  functions included. \<open>myImageFloder_getitem\<close> is \<^verbatim>\<open>__getitem__\<close>: the lookups
  and loads, then \<open>train_item\<close> (a random 512 by 256 crop) or \<open>eval_item\<close> (the bottom
  right 1232 by 368 crop). The decoded content of a file is given by a file system, a
  function from paths to images.
\<close>

section \<open>File names\<close>

definition IMG_EXTENSIONS :: "string list" where
  "IMG_EXTENSIONS =
     [''.jpg'', ''.JPG'', ''.jpeg'', ''.JPEG'',
      ''.png'', ''.PNG'', ''.ppm'', ''.PPM'', ''.bmp'', ''.BMP'']"

text \<open>\<^verbatim>\<open>s.endswith(e)\<close>.\<close>

definition endswith :: "string \<Rightarrow> string \<Rightarrow> bool" where
  "endswith s e = suffix e s"

definition is_image_file :: "string \<Rightarrow> bool" where
  "is_image_file filename = list_ex (\<lambda>extension. endswith filename extension) IMG_EXTENSIONS"

section \<open>Loaders\<close>

type_synonym 'a image_fs = "string \<Rightarrow> 'a image option"

text \<open>
  \<^verbatim>\<open>Image.open(path).convert('RGB')\<close> and \<^verbatim>\<open>Image.open(path)\<close>: the decoded
  image, or \<^verbatim>\<open>IOError\<close> for a file that is missing or cannot be decoded.
\<close>

definition default_loader :: "rgb image_fs \<Rightarrow> string \<Rightarrow> rgb image result" where
  "default_loader fs path = (case fs path of None \<Rightarrow> Inl IOError | Some im \<Rightarrow> Inr im)"

definition disparity_loader :: "nat image_fs \<Rightarrow> string \<Rightarrow> nat image result" where
  "disparity_loader fs path = (case fs path of None \<Rightarrow> Inl IOError | Some im \<Rightarrow> Inr im)"

section \<open>Data\<close>

record myImageFloder =
  left :: "string list"
  right :: "string list"
  disp_L :: "string list"
  loader :: "string \<Rightarrow> rgb image result"
  dploader :: "string \<Rightarrow> nat image result"
  training :: bool
  name :: "string list"
  load :: bool

text \<open>The two draws of \<^verbatim>\<open>random.randint\<close> in training mode.\<close>

record crop_draws =
  x_raw :: nat
  y_raw :: nat

text \<open>The disparity an item carries: a float array, or the integer 0 in load mode.\<close>

datatype disparity = Disp_array plane | Disp_zero

text \<open>The tuple returned in training mode (four entries) and otherwise (six).\<close>

datatype stereo_item =
    Train_item tensor tensor disparity string
  | Eval_item tensor tensor disparity string int int

section \<open>Construction and length\<close>

definition myImageFloder_init ::
  "string list \<Rightarrow> string list \<Rightarrow> string list \<Rightarrow> bool \<Rightarrow> string list \<Rightarrow> bool \<Rightarrow>
   (string \<Rightarrow> rgb image result) \<Rightarrow> (string \<Rightarrow> nat image result) \<Rightarrow> myImageFloder" where
  "myImageFloder_init lefts rights left_disparity is_training names use_load ld dpld =
     \<lparr>left = lefts, right = rights, disp_L = left_disparity, loader = ld, dploader = dpld,
      training = is_training, name = names, load = use_load\<rparr>"

definition myImageFloder_len :: "myImageFloder \<Rightarrow> nat" where
  "myImageFloder_len self = length (left self)"

section \<open>The blocks of \<^verbatim>\<open>__getitem__\<close>\<close>

text \<open>
  Lines 204-206: the disparity image is looked up and loaded unless the dataset is in
  load mode. The result is \<open>None\<close> in load mode, where the source leaves the variable
  unassigned; the later tests of \<^verbatim>\<open>self.load\<close> are case distinctions on it.
\<close>

definition load_disparity :: "myImageFloder \<Rightarrow> int \<Rightarrow> nat image option result" where
  "load_disparity self index =
     (if \<not> load self
      then rbind (py_index (disp_L self) index) (\<lambda>disp.
           rbind (dploader self disp) (\<lambda>dataL. Inr (Some dataL)))
      else Inr None)"

text \<open>Lines 208-227: the training branch.\<close>

definition train_item ::
  "crop_draws \<Rightarrow> rgb image \<Rightarrow> rgb image \<Rightarrow> nat image option \<Rightarrow> string \<Rightarrow> stereo_item result"
  where
  "train_item rnd left_img right_img dataL nm =
     (case pil_size left_img of (w, h) \<Rightarrow>
      let th = 256; tw = 512 in
      rbind (random_randint (x_raw rnd) 0 (w - tw)) (\<lambda>x1.
      rbind (random_randint (y_raw rnd) 0 (h - th)) (\<lambda>y1.
      rbind (pil_crop black left_img (x1, y1, x1 + tw, y1 + th)) (\<lambda>left_img.
      rbind (pil_crop black right_img (x1, y1, x1 + tw, y1 + th)) (\<lambda>right_img.
      let dataL = (case dataL of
                     Some d \<Rightarrow> Disp_array (np_slice2 (np_asarray_div d 256)
                                 y1 (y1 + th) x1 (x1 + tw))
                   | None \<Rightarrow> Disp_zero);
          processed = get_transform ''imagenet'' None None None
      in rbind (processed left_img) (\<lambda>left_img.
         rbind (processed right_img) (\<lambda>right_img.
         Inr (Train_item left_img right_img dataL nm))))))))"

text \<open>Lines 228-244: the evaluation branch.\<close>

definition eval_item ::
  "rgb image \<Rightarrow> rgb image \<Rightarrow> nat image option \<Rightarrow> string \<Rightarrow> stereo_item result" where
  "eval_item left_img right_img dataL nm =
     (case pil_size left_img of (w, h) \<Rightarrow>
      rbind (pil_crop black left_img (w - 1232, h - 368, w, h)) (\<lambda>left_img.
      rbind (pil_crop black right_img (w - 1232, h - 368, w, h)) (\<lambda>right_img.
      case pil_size left_img of (w1, h1) \<Rightarrow>
      rbind (case dataL of
               Some d \<Rightarrow> rbind (pil_crop 0 d (w - 1232, h - 368, w, h)) (\<lambda>d.
                           Inr (Disp_array (np_asarray_div d 256)))
             | None \<Rightarrow> Inr Disp_zero) (\<lambda>dataL.
      let processed = get_transform ''imagenet'' None None None
      in rbind (processed left_img) (\<lambda>left_img.
         rbind (processed right_img) (\<lambda>right_img.
         Inr (Eval_item left_img right_img dataL nm w h)))))))"

section \<open>\<^verbatim>\<open>__getitem__\<close>\<close>

definition myImageFloder_getitem ::
  "crop_draws \<Rightarrow> myImageFloder \<Rightarrow> int \<Rightarrow> stereo_item result" where
  "myImageFloder_getitem rnd self index =
     rbind (py_index (left self) index) (\<lambda>l.
     rbind (py_index (right self) index) (\<lambda>r.
     rbind (py_index (name self) index) (\<lambda>nm.
     rbind (loader self l) (\<lambda>left_img.
     rbind (loader self r) (\<lambda>right_img.
     rbind (load_disparity self index) (\<lambda>dataL.
     if training self then train_item rnd left_img right_img dataL nm
     else eval_item left_img right_img dataL nm))))))"

section \<open>Reference definitions\<close>

text \<open>
  The origin of the training crop for given draws, the disparity of an item in each
  mode, and the three components every item has.
\<close>

definition crop_x :: "crop_draws \<Rightarrow> 'a image \<Rightarrow> int" where
  "crop_x rnd im = int (x_raw rnd) mod (int (im_w im) - 511)"

definition crop_y :: "crop_draws \<Rightarrow> 'a image \<Rightarrow> int" where
  "crop_y rnd im = int (y_raw rnd) mod (int (im_h im) - 255)"

definition train_disp :: "nat image option \<Rightarrow> int \<Rightarrow> int \<Rightarrow> disparity" where
  "train_disp dataL x1 y1 =
     (case dataL of
        Some d \<Rightarrow> Disp_array (np_slice2 (np_asarray_div d 256) y1 (y1 + 256) x1 (x1 + 512))
      | None \<Rightarrow> Disp_zero)"

definition eval_disp :: "nat image option \<Rightarrow> int \<Rightarrow> int \<Rightarrow> disparity" where
  "eval_disp dataL l u =
     (case dataL of
        Some d \<Rightarrow> Disp_array (np_asarray_div (window 0 d l u 1232 368) 256)
      | None \<Rightarrow> Disp_zero)"

fun item_left :: "stereo_item \<Rightarrow> tensor" where
  "item_left (Train_item l r d n) = l"
| "item_left (Eval_item l r d n w h) = l"

fun item_right :: "stereo_item \<Rightarrow> tensor" where
  "item_right (Train_item l r d n) = r"
| "item_right (Eval_item l r d n w h) = r"

fun item_disp :: "stereo_item \<Rightarrow> disparity" where
  "item_disp (Train_item l r d n) = d"
| "item_disp (Eval_item l r d n w h) = d"

fun item_name :: "stereo_item \<Rightarrow> string" where
  "item_name (Train_item l r d n) = n"
| "item_name (Eval_item l r d n w h) = n"

section \<open>The blocks, one by one\<close>

named_theorems stereo_iffs "when a block of the stereo item access returns, and what"

lemma default_loader_Inr_iff [stereo_iffs]: "default_loader fs path = Inr im \<longleftrightarrow> fs path = Some im"
  by (simp add: default_loader_def split: option.splits)

lemma disparity_loader_Inr_iff [stereo_iffs]:
  "disparity_loader fs path = Inr im \<longleftrightarrow> fs path = Some im"
  by (simp add: disparity_loader_def split: option.splits)

lemma loader_Inl_iff:
  "default_loader fs path = Inl e \<longleftrightarrow> fs path = None \<and> e = IOError"
  "disparity_loader fs' path = Inl e \<longleftrightarrow> fs' path = None \<and> e = IOError"
  by (auto simp: default_loader_def disparity_loader_def split: option.splits)

lemma load_disparity_Inr_iff [stereo_iffs]:
  "load_disparity self index = Inr dataL \<longleftrightarrow>
     (if load self then dataL = None
      else \<exists>disp d. py_index (disp_L self) index = Inr disp \<and> dploader self disp = Inr d \<and>
             dataL = Some d)"
  by (auto simp: load_disparity_def res_iffs)

lemma crop_origin_range:
  assumes "512 \<le> im_w im" and "256 \<le> im_h im"
  shows "0 \<le> crop_x rnd im" "crop_x rnd im + 512 \<le> int (im_w im)"
    "0 \<le> crop_y rnd im" "crop_y rnd im + 256 \<le> int (im_h im)"
proof -
  from assms have w: "0 < int (im_w im) - 511" and h: "0 < int (im_h im) - 255" by simp_all
  from pos_mod_sign [OF w, of "int (x_raw rnd)"] pos_mod_bound [OF w, of "int (x_raw rnd)"]
  show "0 \<le> crop_x rnd im" "crop_x rnd im + 512 \<le> int (im_w im)"
    unfolding crop_x_def by linarith+
  from pos_mod_sign [OF h, of "int (y_raw rnd)"] pos_mod_bound [OF h, of "int (y_raw rnd)"]
  show "0 \<le> crop_y rnd im" "crop_y rnd im + 256 \<le> int (im_h im)"
    unfolding crop_y_def by linarith+
qed

lemma train_item_Inr_iff [stereo_iffs]:
  "train_item rnd L R D nm = Inr it \<longleftrightarrow>
     512 \<le> im_w L \<and> 256 \<le> im_h L \<and>
     it = Train_item (norm_tensor (window black L (crop_x rnd L) (crop_y rnd L) 512 256))
            (norm_tensor (window black R (crop_x rnd L) (crop_y rnd L) 512 256))
            (train_disp D (crop_x rnd L) (crop_y rnd L)) nm"
  by (auto simp: train_item_def pil_size_def Let_def res_iffs random_randint_Inr_iff
      pil_crop_Inr_iff get_transform_Inr train_disp_def crop_x_def crop_y_def algebra_simps)

lemma train_item_Inl_iff:
  "train_item rnd L R D nm = Inl e \<longleftrightarrow> (im_w L < 512 \<or> im_h L < 256) \<and> e = ValueError"
  by (auto simp: train_item_def pil_size_def Let_def res_iffs random_randint_def
      pil_crop_def get_transform_Inr)

lemma eval_item_eq:
  "eval_item L R D nm =
     Inr (Eval_item
       (norm_tensor (window black L (int (im_w L) - 1232) (int (im_h L) - 368) 1232 368))
       (norm_tensor (window black R (int (im_w L) - 1232) (int (im_h L) - 368) 1232 368))
       (eval_disp D (int (im_w L) - 1232) (int (im_h L) - 368)) nm
       (int (im_w L)) (int (im_h L)))"
  by (simp add: eval_item_def pil_size_def Let_def pil_crop_def get_transform_Inr eval_disp_def
      split: option.splits)

section \<open>What \<^verbatim>\<open>__getitem__\<close> returns\<close>

lemma myImageFloder_getitem_Inr_iff:
  "myImageFloder_getitem rnd self index = Inr it \<longleftrightarrow>
     (\<exists>l r nm L R D.
        py_index (left self) index = Inr l \<and> py_index (right self) index = Inr r \<and>
        py_index (name self) index = Inr nm \<and> loader self l = Inr L \<and> loader self r = Inr R \<and>
        load_disparity self index = Inr D \<and>
        (if training self then train_item rnd L R D nm = Inr it
         else eval_item L R D nm = Inr it))"
  by (auto simp: myImageFloder_getitem_def res_iffs)

text \<open>The item of the training mode, over the images the lookups and loads gave.\<close>

lemma getitem_train_form:
  assumes "myImageFloder_getitem rnd self index = Inr it" and "training self"
    and "py_index (left self) index = Inr l" and "loader self l = Inr L"
    and "py_index (right self) index = Inr r" and "loader self r = Inr R"
  shows "512 \<le> im_w L" "256 \<le> im_h L"
    "item_left it = norm_tensor (window black L (crop_x rnd L) (crop_y rnd L) 512 256)"
    "item_right it = norm_tensor (window black R (crop_x rnd L) (crop_y rnd L) 512 256)"
    "\<exists>D. load_disparity self index = Inr D \<and>
       item_disp it = train_disp D (crop_x rnd L) (crop_y rnd L)"
    "py_index (name self) index = Inr (item_name it)"
  using assms by (auto simp: myImageFloder_getitem_Inr_iff train_item_Inr_iff)

text \<open>The item of the evaluation mode.\<close>

lemma getitem_eval_form:
  assumes "myImageFloder_getitem rnd self index = Inr it" and "\<not> training self"
    and "py_index (left self) index = Inr l" and "loader self l = Inr L"
    and "py_index (right self) index = Inr r" and "loader self r = Inr R"
  shows "item_left it =
      norm_tensor (window black L (int (im_w L) - 1232) (int (im_h L) - 368) 1232 368)"
    "item_right it =
      norm_tensor (window black R (int (im_w L) - 1232) (int (im_h L) - 368) 1232 368)"
    "\<exists>D. load_disparity self index = Inr D \<and>
       item_disp it = eval_disp D (int (im_w L) - 1232) (int (im_h L) - 368)"
    "py_index (name self) index = Inr (item_name it)"
    "it = Eval_item (item_left it) (item_right it) (item_disp it) (item_name it)
       (int (im_w L)) (int (im_h L))"
  using assms by (auto simp: myImageFloder_getitem_Inr_iff eval_item_eq)

lemma myImageFloder_getitem_returns_aux:
  "(\<exists>it. myImageFloder_getitem rnd self index = Inr it) \<longleftrightarrow>
     (\<exists>l r nm L R.
        py_index (left self) index = Inr l \<and> py_index (right self) index = Inr r \<and>
        py_index (name self) index = Inr nm \<and> loader self l = Inr L \<and> loader self r = Inr R \<and>
        (load self \<or>
          (\<exists>dp D. py_index (disp_L self) index = Inr dp \<and> dploader self dp = Inr D)) \<and>
        (training self \<longrightarrow> 512 \<le> im_w L \<and> 256 \<le> im_h L))"
  (is "?L \<longleftrightarrow> ?R")
proof
  assume ?L
  then obtain it l r nm L R D where *:
    "py_index (left self) index = Inr l" "py_index (right self) index = Inr r"
    "py_index (name self) index = Inr nm" "loader self l = Inr L" "loader self r = Inr R"
    and d: "load_disparity self index = Inr D"
    and it: "if training self then train_item rnd L R D nm = Inr it
      else eval_item L R D nm = Inr it"
    unfolding myImageFloder_getitem_Inr_iff by blast
  from d have "load self \<or>
      (\<exists>dp D. py_index (disp_L self) index = Inr dp \<and> dploader self dp = Inr D)"
    by (auto simp: load_disparity_Inr_iff split: if_splits)
  moreover from it have "training self \<longrightarrow> 512 \<le> im_w L \<and> 256 \<le> im_h L"
    by (auto simp: train_item_Inr_iff)
  ultimately show ?R using * by blast
next
  assume ?R
  then obtain l r nm L R where *:
    "py_index (left self) index = Inr l" "py_index (right self) index = Inr r"
    "py_index (name self) index = Inr nm" "loader self l = Inr L" "loader self r = Inr R"
    and d: "load self \<or>
      (\<exists>dp D. py_index (disp_L self) index = Inr dp \<and> dploader self dp = Inr D)"
    and sz: "training self \<longrightarrow> 512 \<le> im_w L \<and> 256 \<le> im_h L"
    by blast
  from d have "\<exists>D. load_disparity self index = Inr D"
    by (cases "load self") (auto simp: load_disparity_Inr_iff)
  then obtain D where "load_disparity self index = Inr D" ..
  moreover from sz have "\<exists>it. if training self then train_item rnd L R D nm = Inr it
      else eval_item L R D nm = Inr it"
    by (cases "training self") (simp_all add: train_item_Inr_iff eval_item_eq)
  ultimately show ?L using * unfolding myImageFloder_getitem_Inr_iff by blast
qed

lemma window_tensor_shape [img_shape]:
  "tensor_shape (norm_tensor (window fill im l u w h)) 3 h w"
  using norm_tensor_shape [of "window fill im l u w h"] by simp

lemma train_disp_Some:
  assumes "wf_image D" and "0 \<le> x1" "x1 + 512 \<le> int (im_w D)"
    and "0 \<le> y1" "y1 + 256 \<le> int (im_h D)"
  shows "\<exists>a. train_disp (Some D) x1 y1 = Disp_array a \<and> plane_shape a 256 512 \<and>
    (\<forall>y < 256. \<forall>x < 512. a ! y ! x = real (im_px D ! (nat y1 + y) ! (nat x1 + x)) / 256)"
proof -
  let ?a = "np_slice2 (np_asarray_div D 256) y1 (y1 + 256) x1 (x1 + 512)"
  note p = np_asarray_div_shape [OF assms(1), of 256]
  from assms have "plane_shape ?a (nat (y1 + 256 - y1)) (nat (x1 + 512 - x1))"
    by (intro np_slice2_shape [OF p]) simp_all
  moreover have "?a ! y ! x = real (im_px D ! (nat y1 + y) ! (nat x1 + x)) / 256"
    if "y < 256" "x < 512" for y x
  proof -
    from that assms have "?a ! y ! x = np_asarray_div D 256 ! (nat y1 + y) ! (nat x1 + x)"
      by (intro np_slice2_nth [OF p]) simp_all
    with that assms show ?thesis by (simp add: np_asarray_div_nth)
  qed
  ultimately show ?thesis by (simp add: train_disp_def)
qed

lemma eval_disp_Some:
  "\<exists>a. eval_disp (Some D) l u = Disp_array a \<and> plane_shape a 368 1232 \<and>
     (\<forall>y < 368. \<forall>x < 1232. a ! y ! x = real (getpixel 0 D (l + int x) (u + int y)) / 256)"
  using np_asarray_div_shape [of "window 0 D l u 1232 368" 256]
  by (simp add: eval_disp_def np_asarray_div_nth window_pixel)

section \<open>An example dataset\<close>

text \<open>
  One stereo pair of 1242 by 375 pixels, the size of the images of the benchmark, of
  uniform colour, with a uniform disparity image of raw value 512.
\<close>

definition ex_img :: "nat \<Rightarrow> nat \<Rightarrow> 'a \<Rightarrow> 'a image" where
  "ex_img w h p = \<lparr>im_w = w, im_h = h, im_px = replicate h (replicate w p)\<rparr>"

definition ex_rgb_fs :: "rgb image_fs" where
  "ex_rgb_fs path =
     (if path = ''l.png'' then Some (ex_img 1242 375 (10, 20, 30))
      else if path = ''r.png'' then Some (ex_img 1242 375 (40, 50, 60)) else None)"

definition ex_disp_fs :: "nat image_fs" where
  "ex_disp_fs path = (if path = ''d.png'' then Some (ex_img 1242 375 512) else None)"

definition ex_stereo :: "bool \<Rightarrow> bool \<Rightarrow> myImageFloder" where
  "ex_stereo is_training use_load =
     myImageFloder_init [''l.png''] [''r.png''] [''d.png''] is_training [''000000_10''] use_load
       (default_loader ex_rgb_fs) (disparity_loader ex_disp_fs)"

definition ex_crop :: crop_draws where
  "ex_crop = \<lparr>x_raw = 1000, y_raw = 130\<rparr>"

lemma ex_img_simps [simp]:
  "im_w (ex_img w h p) = w" "im_h (ex_img w h p) = h" "wf_image (ex_img w h p)"
  "x < w \<Longrightarrow> y < h \<Longrightarrow> im_px (ex_img w h p) ! y ! x = p"
  by (simp_all add: ex_img_def wf_image_iff)

lemma ex_stereo_simps [simp]:
  "training (ex_stereo t ld) = t" "load (ex_stereo t ld) = ld"
  "py_index (left (ex_stereo t ld)) 0 = Inr ''l.png''"
  "py_index (right (ex_stereo t ld)) 0 = Inr ''r.png''"
  "py_index (name (ex_stereo t ld)) 0 = Inr ''000000_10''"
  "py_index (disp_L (ex_stereo t ld)) 0 = Inr ''d.png''"
  "loader (ex_stereo t ld) ''l.png'' = Inr (ex_img 1242 375 (10, 20, 30))"
  "loader (ex_stereo t ld) ''r.png'' = Inr (ex_img 1242 375 (40, 50, 60))"
  "dploader (ex_stereo t ld) ''d.png'' = Inr (ex_img 1242 375 512)"
  by (simp_all add: ex_stereo_def myImageFloder_init_def py_index_def default_loader_def
      disparity_loader_def ex_rgb_fs_def ex_disp_fs_def)

lemma ex_crop_origin [simp]:
  "crop_x ex_crop (ex_img 1242 375 p) = 269" "crop_y ex_crop (ex_img 1242 375 p) = 10"
  by (simp_all add: crop_x_def crop_y_def ex_crop_def)

lemma ex_stereo_returns: "\<exists>it. myImageFloder_getitem rnd (ex_stereo t ld) 0 = Inr it"
  unfolding myImageFloder_getitem_returns_aux
  by (intro exI [of _ "''l.png''"] exI [of _ "''r.png''"] exI [of _ "''000000_10''"]
      exI [of _ "ex_img 1242 375 (10, 20, 30)"] exI [of _ "ex_img 1242 375 (40, 50, 60)"])
    (auto intro!: exI [of _ "''d.png''"])

section \<open>Properties of \<open>myImageFloder\<close>\<close>

text \<open>
  C4: The training crop is one window for both images. The crop origin lies in the
  left image with room for 512 by 256 pixels, both returned tensors have three planes
  of 256 rows and 512 columns, the left tensor holds the normalised pixels of the left
  image at the origin plus \<open>(x, y)\<close>, and the right tensor those of the right image at
  the same positions (black where the right image is smaller than the left one).
\<close>

theorem myImageFloder_getitem_train_aligned:
  assumes "myImageFloder_getitem rnd self index = Inr it" and "training self"
    and "py_index (left self) index = Inr l" and "loader self l = Inr L"
    and "py_index (right self) index = Inr r" and "loader self r = Inr R"
  shows "0 \<le> crop_x rnd L \<and> crop_x rnd L + 512 \<le> int (im_w L) \<and>
    0 \<le> crop_y rnd L \<and> crop_y rnd L + 256 \<le> int (im_h L) \<and>
    tensor_shape (item_left it) 3 256 512 \<and> tensor_shape (item_right it) 3 256 512 \<and>
    (\<forall>c < 3. \<forall>y < 256. \<forall>x < 512.
       item_left it ! c ! y ! x =
         norm_value c (channels (im_px L ! (nat (crop_y rnd L) + y) ! (nat (crop_x rnd L) + x)) ! c) \<and>
       item_right it ! c ! y ! x =
         norm_value c
           (channels (getpixel black R (crop_x rnd L + int x) (crop_y rnd L + int y)) ! c))"
proof -
  note f = getitem_train_form [OF assms]
  note o = crop_origin_range [OF f(1,2), of rnd]
  have "getpixel black L (crop_x rnd L + int x) (crop_y rnd L + int y) =
      im_px L ! (nat (crop_y rnd L) + y) ! (nat (crop_x rnd L) + x)"
    if "y < 256" "x < 512" for x y
    using that o by (intro getpixel_offset) simp_all
  with o show ?thesis
    by (simp add: f(3,4) window_tensor_shape norm_tensor_window_nth)
qed

theorem myImageFloder_getitem_train_aligned_witness:
  "\<exists>it. myImageFloder_getitem ex_crop (ex_stereo True False) 0 = Inr it \<and>
     item_left it ! 1 ! 0 ! 0 = norm_value 1 20 \<and> item_right it ! 1 ! 255 ! 511 = norm_value 1 50"
proof -
  obtain it where it: "myImageFloder_getitem ex_crop (ex_stereo True False) 0 = Inr it"
    using ex_stereo_returns by blast
  from myImageFloder_getitem_train_aligned [where l = "''l.png''" and r = "''r.png''"
      and L = "ex_img 1242 375 (10, 20, 30)" and R = "ex_img 1242 375 (40, 50, 60)", OF it] it
  show ?thesis by (simp add: channels_def getpixel_def)
qed

text \<open>
  C15: In training mode the disparity map is cropped at the origin of the image crop
  and scaled by 1/256: for a well-formed disparity image of the size of the left image
  the returned map has 256 rows and 512 columns and its entry at \<open>(y, x)\<close> is the raw
  value at the crop origin plus \<open>(x, y)\<close>, divided by 256.
\<close>

theorem myImageFloder_getitem_train_disparity:
  assumes "myImageFloder_getitem rnd self index = Inr it" and "training self"
    and "py_index (left self) index = Inr l" and "loader self l = Inr L"
    and "py_index (right self) index = Inr r" and "loader self r = Inr R"
    and "\<not> load self" and "py_index (disp_L self) index = Inr dp" and "dploader self dp = Inr D"
    and "wf_image D" and "im_w D = im_w L" and "im_h D = im_h L"
  shows "\<exists>a. item_disp it = Disp_array a \<and> plane_shape a 256 512 \<and>
    (\<forall>y < 256. \<forall>x < 512.
       a ! y ! x = real (im_px D ! (nat (crop_y rnd L) + y) ! (nat (crop_x rnd L) + x)) / 256)"
proof -
  note f = getitem_train_form [OF assms(1-6)]
  note o = crop_origin_range [OF f(1,2), of rnd]
  from f(5) assms(7-9) have "item_disp it = train_disp (Some D) (crop_x rnd L) (crop_y rnd L)"
    by (auto simp: load_disparity_Inr_iff)
  with train_disp_Some [OF assms(10), of "crop_x rnd L" "crop_y rnd L"] o assms(11,12)
  show ?thesis by simp
qed

theorem myImageFloder_getitem_train_disparity_witness:
  "\<exists>it a. myImageFloder_getitem ex_crop (ex_stereo True False) 0 = Inr it \<and>
     item_disp it = Disp_array a \<and> a ! 0 ! 0 = 2"
proof -
  obtain it where it: "myImageFloder_getitem ex_crop (ex_stereo True False) 0 = Inr it"
    using ex_stereo_returns by blast
  from myImageFloder_getitem_train_disparity [where l = "''l.png''" and r = "''r.png''"
      and dp = "''d.png''" and L = "ex_img 1242 375 (10, 20, 30)"
      and R = "ex_img 1242 375 (40, 50, 60)" and D = "ex_img 1242 375 512", OF it]
  obtain a where "item_disp it = Disp_array a" and "\<forall>y < 256. \<forall>x < 512. a ! y ! x = 2"
    by auto
  with it show ?thesis by (intro exI [of _ it] exI [of _ a]) simp
qed

text \<open>
  C24: The evaluation crop has the fixed size for every input size, and the two
  numbers returned with it are the size of the left image before the crop: the item
  is the six-entry tuple whose tensors have three planes of 368 rows and 1232 columns
  and whose last two entries are the width and height of the loaded left image.
\<close>

theorem myImageFloder_getitem_eval_shape:
  assumes "myImageFloder_getitem rnd self index = Inr it" and "\<not> training self"
    and "py_index (left self) index = Inr l" and "loader self l = Inr L"
  shows "\<exists>lt rt d nm. it = Eval_item lt rt d nm (int (im_w L)) (int (im_h L)) \<and>
    tensor_shape lt 3 368 1232 \<and> tensor_shape rt 3 368 1232"
  using assms
  by (auto simp: myImageFloder_getitem_Inr_iff eval_item_eq window_tensor_shape)

theorem myImageFloder_getitem_eval_shape_witness:
  "\<exists>lt rt d nm. myImageFloder_getitem ex_crop (ex_stereo False False) 0 =
     Inr (Eval_item lt rt d nm 1242 375) \<and> tensor_shape lt 3 368 1232"
proof -
  obtain it where it: "myImageFloder_getitem ex_crop (ex_stereo False False) 0 = Inr it"
    using ex_stereo_returns by blast
  from myImageFloder_getitem_eval_shape [OF it, of "''l.png''" "ex_img 1242 375 (10, 20, 30)"] it
  show ?thesis by auto
qed

text \<open>
  C11: When the item access returns: exactly when the index is valid for the lists of
  left images, right images and names, both images load, the disparity image is
  either not wanted (load mode) or found and loaded, and, in training mode only, the
  left image is at least 512 pixels wide and 256 high. Evaluation mode has no
  condition on the image size.
\<close>

theorem myImageFloder_getitem_returns_iff:
  "returns (myImageFloder_getitem rnd self index) \<longleftrightarrow>
     (\<exists>l r nm L R.
        py_index (left self) index = Inr l \<and> py_index (right self) index = Inr r \<and>
        py_index (name self) index = Inr nm \<and> loader self l = Inr L \<and> loader self r = Inr R \<and>
        (load self \<or>
          (\<exists>dp D. py_index (disp_L self) index = Inr dp \<and> dploader self dp = Inr D)) \<and>
        (training self \<longrightarrow> 512 \<le> im_w L \<and> 256 \<le> im_h L))"
  unfolding returns_iff by (rule myImageFloder_getitem_returns_aux)

theorem myImageFloder_getitem_returns_iff_witness:
  "returns (myImageFloder_getitem ex_crop (ex_stereo True False) (- 1))"
  unfolding myImageFloder_getitem_returns_iff
  by (intro exI [of _ "''l.png''"] exI [of _ "''r.png''"] exI [of _ "''000000_10''"]
      exI [of _ "ex_img 1242 375 (10, 20, 30)"] exI [of _ "ex_img 1242 375 (40, 50, 60)"])
    (auto simp: ex_stereo_def myImageFloder_init_def py_index_def default_loader_def
      disparity_loader_def ex_rgb_fs_def ex_disp_fs_def)

text \<open>
  C25: The evaluation crop is anchored at the bottom right corner and padded with
  black: the entry \<open>(c, y, x)\<close> of the left tensor is the normalised pixel of the left
  image at \<open>(w - 1232 + x, h - 368 + y)\<close>; where that position is outside the image
  (an image narrower than 1232 or lower than 368) it is the normalised value of the
  byte 0, which is not 0.
\<close>

theorem myImageFloder_getitem_eval_pixels:
  assumes "myImageFloder_getitem rnd self index = Inr it" and "\<not> training self"
    and "py_index (left self) index = Inr l" and "loader self l = Inr L"
    and "py_index (right self) index = Inr r" and "loader self r = Inr R"
    and "c < 3" and "y < 368" and "x < 1232"
  shows "item_left it ! c ! y ! x =
      norm_value c (channels (getpixel black L (int (im_w L) - 1232 + int x)
        (int (im_h L) - 368 + int y)) ! c) \<and>
    (int (im_w L) + int x < 1232 \<or> int (im_h L) + int y < 368 \<longrightarrow>
      item_left it ! c ! y ! x = norm_value c 0 \<and> norm_value c 0 < 0)"
proof -
  from getitem_eval_form(1) [OF assms(1-6)] assms(7-9) have "item_left it ! c ! y ! x =
      norm_value c (channels (getpixel black L (int (im_w L) - 1232 + int x)
        (int (im_h L) - 368 + int y)) ! c)"
    by (simp add: norm_tensor_window_nth)
  moreover have "channels black ! c = 0"
    using assms(7) by (auto simp: channels_def black_def less_Suc_eq numeral_3_eq_3)
  moreover have "norm_value c 0 < 0"
    using assms(7) by (auto simp: norm_value_def imagenet_stats_def less_Suc_eq numeral_3_eq_3)
  ultimately show ?thesis by (auto simp: getpixel_def)
qed

theorem myImageFloder_getitem_eval_pixels_witness:
  "\<exists>it. myImageFloder_getitem ex_crop (ex_stereo False False) 0 = Inr it \<and>
     item_left it ! 2 ! 367 ! 1231 = norm_value 2 30"
proof -
  obtain it where it: "myImageFloder_getitem ex_crop (ex_stereo False False) 0 = Inr it"
    using ex_stereo_returns by blast
  from myImageFloder_getitem_eval_pixels [where l = "''l.png''" and r = "''r.png''"
      and L = "ex_img 1242 375 (10, 20, 30)" and R = "ex_img 1242 375 (40, 50, 60)"
      and c = 2 and y = 367 and x = 1231, OF it] it
  show ?thesis by (simp add: channels_def getpixel_def)
qed

text \<open>
  An image too small for the training crop is refused by the random draw: when
  the lookups and loads succeed in training mode, the item access raises exactly when
  the left image is narrower than 512 or lower than 256 pixels, and then
  \<open>ValueError\<close>.
\<close>

theorem myImageFloder_getitem_train_raises:
  assumes "training self"
    and "py_index (left self) index = Inr l" and "loader self l = Inr L"
    and "py_index (right self) index = Inr r" and "loader self r = Inr R"
    and "py_index (name self) index = Inr nm" and "load_disparity self index = Inr D"
  shows "myImageFloder_getitem rnd self index = Inl e \<longleftrightarrow>
    (im_w L < 512 \<or> im_h L < 256) \<and> e = ValueError"
  using assms by (simp add: myImageFloder_getitem_def train_item_Inl_iff)

theorem myImageFloder_getitem_train_raises_witness:
  "myImageFloder_getitem ex_crop
     (myImageFloder_init [''a''] [''a''] [] True [''n''] True
        (\<lambda>path. Inr (ex_img 500 375 black)) (\<lambda>path. Inl IOError)) 0 = Inl ValueError"
  by (subst myImageFloder_getitem_train_raises
        [where l = "''a''" and r = "''a''" and nm = "''n''" and D = None
          and L = "ex_img 500 375 black" and R = "ex_img 500 375 black"])
    (simp_all add: myImageFloder_init_def py_index_def load_disparity_def)

text \<open>
  Load mode needs no disparity data: the list of disparity paths and the
  disparity loader are never used, and every returned item carries the integer 0 in
  place of the map.
\<close>

theorem myImageFloder_getitem_load_mode:
  assumes "load self"
  shows "myImageFloder_getitem rnd (self\<lparr>disp_L := ds, dploader := f\<rparr>) index =
      myImageFloder_getitem rnd self index \<and>
    (\<forall>it. myImageFloder_getitem rnd self index = Inr it \<longrightarrow> item_disp it = Disp_zero)"
  using assms
  by (auto simp: myImageFloder_getitem_def load_disparity_def res_iffs train_item_Inr_iff
      eval_item_eq train_disp_def eval_disp_def split: if_splits)

theorem myImageFloder_getitem_load_mode_witness:
  "\<exists>it. myImageFloder_getitem ex_crop (ex_stereo True True) 0 = Inr it \<and>
     item_disp it = Disp_zero"
proof -
  obtain it where it: "myImageFloder_getitem ex_crop (ex_stereo True True) 0 = Inr it"
    using ex_stereo_returns by blast
  with myImageFloder_getitem_load_mode [where self = "ex_stereo True True" and rnd = ex_crop
      and index = 0 and ds = "[]" and f = "\<lambda>p. Inl IOError"]
  show ?thesis by simp
qed

text \<open>
  C31: In evaluation mode the disparity map is cropped with the window of the left
  image and scaled by 1/256: it has 368 rows and 1232 columns, and its entry at
  \<open>(y, x)\<close> is the raw value at \<open>(w - 1232 + x, h - 368 + y)\<close> divided by 256 (0 outside
  the disparity image), where \<open>w\<close> and \<open>h\<close> are the width and height of the left image.
\<close>

theorem myImageFloder_getitem_eval_disparity:
  assumes "myImageFloder_getitem rnd self index = Inr it" and "\<not> training self"
    and "py_index (left self) index = Inr l" and "loader self l = Inr L"
    and "py_index (right self) index = Inr r" and "loader self r = Inr R"
    and "\<not> load self" and "py_index (disp_L self) index = Inr dp" and "dploader self dp = Inr D"
  shows "\<exists>a. item_disp it = Disp_array a \<and> plane_shape a 368 1232 \<and>
    (\<forall>y < 368. \<forall>x < 1232.
       a ! y ! x = real (getpixel 0 D (int (im_w L) - 1232 + int x)
         (int (im_h L) - 368 + int y)) / 256)"
proof -
  from getitem_eval_form(3) [OF assms(1-6)] assms(7-9)
  have "item_disp it = eval_disp (Some D) (int (im_w L) - 1232) (int (im_h L) - 368)"
    by (auto simp: load_disparity_Inr_iff)
  with eval_disp_Some [of D "int (im_w L) - 1232" "int (im_h L) - 368"]
  show ?thesis by simp
qed

theorem myImageFloder_getitem_eval_disparity_witness:
  "\<exists>it a. myImageFloder_getitem ex_crop (ex_stereo False False) 0 = Inr it \<and>
     item_disp it = Disp_array a \<and> a ! 5 ! 7 = 2"
proof -
  obtain it where it: "myImageFloder_getitem ex_crop (ex_stereo False False) 0 = Inr it"
    using ex_stereo_returns by blast
  from myImageFloder_getitem_eval_disparity [where l = "''l.png''" and r = "''r.png''"
      and dp = "''d.png''" and L = "ex_img 1242 375 (10, 20, 30)"
      and R = "ex_img 1242 375 (40, 50, 60)" and D = "ex_img 1242 375 512", OF it]
  obtain a where "item_disp it = Disp_array a"
    and "\<forall>y < 368. \<forall>x < 1232. a ! y ! x =
      real (getpixel 0 (ex_img 1242 375 (512 :: nat)) (10 + int x) (7 + int y)) / 256"
    by auto
  with it show ?thesis
    by (intro exI [of _ it] exI [of _ a]) (simp add: getpixel_def)
qed

text \<open>
  The length of the dataset is the length of the list of left images only. When
  the list of right images or the list of names is shorter, some index below the
  length cannot be served: the item access raises \<open>IndexError\<close> before it loads
  anything.
\<close>

theorem myImageFloder_len_overpromises:
  assumes "length (right self) < length (left self) \<or> length (name self) < length (left self)"
  shows "\<exists>index. 0 \<le> index \<and> index < int (myImageFloder_len self) \<and>
    myImageFloder_getitem rnd self index = Inl IndexError"
proof -
  let ?i = "min (length (right self)) (length (name self))"
  from assms have "?i < length (left self)" by auto
  moreover have "myImageFloder_getitem rnd self (int ?i) = Inl IndexError"
    using assms by (auto simp: myImageFloder_getitem_def py_index_def min_def)
  ultimately show ?thesis
    by (intro exI [of _ "int ?i"]) (simp add: myImageFloder_len_def)
qed

theorem myImageFloder_len_overpromises_witness:
  "\<exists>index. 0 \<le> index \<and> index < 2 \<and>
     myImageFloder_getitem ex_crop
       (myImageFloder_init [''a'', ''b''] [''a''] [] True [''n'', ''m''] True
          (\<lambda>path. Inr (ex_img 500 375 black)) (\<lambda>path. Inl IOError)) index = Inl IndexError"
  using myImageFloder_len_overpromises [of "myImageFloder_init [''a'', ''b''] [''a''] [] True
      [''n'', ''m''] True (\<lambda>path. Inr (ex_img 500 375 black)) (\<lambda>path. Inl IOError)" ex_crop]
  by (simp add: myImageFloder_init_def myImageFloder_len_def)

section \<open>Properties of \<open>is_image_file\<close>\<close>

text \<open>
  The extension test is case sensitive. A name is accepted when it ends in one of
  the ten listed extensions, which are the all-lower-case and the all-upper-case
  spellings; a mixed-case spelling such as \<open>.Jpg\<close> or \<open>.Png\<close> is refused for every
  stem.
\<close>

theorem is_image_file_case_sensitive:
  "(ext \<in> set IMG_EXTENSIONS \<longrightarrow> is_image_file (stem @ ext)) \<and>
   \<not> is_image_file (stem @ ''.Jpg'') \<and> \<not> is_image_file (stem @ ''.Png'')"
  by (auto simp: is_image_file_def endswith_def IMG_EXTENSIONS_def suffix_to_prefix
      list_ex_iff)

theorem is_image_file_case_sensitive_witness:
  "is_image_file ''000000_10.png'' \<and> \<not> is_image_file ''000000_10.Png''"
  using is_image_file_case_sensitive [of "''.png''" "''000000_10''"]
  by (simp add: IMG_EXTENSIONS_def)

end
