(* ===== verification/Rng_State.thy ===== *)
theory Rng_State
  imports State_Result Point_Data Stereo_Data
begin

text \<open>
  The random number generators as state. The program draws from two global
  generators, the one of numpy (\<^verbatim>\<open>np.random.choice\<close>, \<^verbatim>\<open>np.random.random\<close>,
  \<^verbatim>\<open>np.random.randn\<close>) and the one of the module \<^verbatim>\<open>random\<close>
  (\<^verbatim>\<open>random.randint\<close>). A generator is a tape of outcomes and the number of draws
  made so far; a draw reads the tape at that position and moves on. The two item
  accesses are written once more with the generator threaded through their statements,
  so that which draws are made, and in which order, is part of the model. They are
  proved to return what the definitions over a record of draws return, and to advance
  the generator by the number of draws the configuration asks for.
\<close>

section \<open>Generators and computations that draw\<close>

record rng =
  drawn :: nat
  raw_int :: "nat \<Rightarrow> nat"
  raw_real :: "nat \<Rightarrow> real"

type_synonym 'a rand = "(rng, 'a) sres"

definition advance :: "nat \<Rightarrow> rng \<Rightarrow> rng" where
  "advance k g = g\<lparr>drawn := drawn g + k\<rparr>"

text \<open>The draws. A draw that is refused leaves the generator as it was.\<close>

definition st_choice :: "nat \<Rightarrow> int \<Rightarrow> nat list rand" where
  "st_choice a sz =
     (\<lambda>g. case np_random_choice (\<lambda>i. raw_int g (drawn g + i)) a sz of
            Inl e \<Rightarrow> (Inl e, g)
          | Inr idx \<Rightarrow> (Inr idx, advance (nat sz) g))"

definition st_random :: "real rand" where
  "st_random = (\<lambda>g. (Inr (raw_real g (drawn g)), advance 1 g))"

definition st_randn :: "real rand" where
  "st_randn = (\<lambda>g. (Inr (raw_real g (drawn g)), advance 1 g))"

definition st_randint :: "int \<Rightarrow> int \<Rightarrow> int rand" where
  "st_randint lo hi =
     (\<lambda>g. case random_randint (raw_int g (drawn g)) lo hi of
            Inl e \<Rightarrow> (Inl e, g)
          | Inr x \<Rightarrow> (Inr x, advance 1 g))"

section \<open>\<^verbatim>\<open>myPointData.__getitem__\<close> with the generator threaded\<close>

definition subsample_st :: "myPointData \<Rightarrow> ndarray \<Rightarrow> int list \<Rightarrow> (ndarray \<times> int list) rand" where
  "subsample_st self pts seg =
     sbind (st_choice (nrows pts) (num_point self)) (\<lambda>choice.
     sbind (slift (np_take_rows pts choice)) (\<lambda>pts'.
     sbind (slift (np_take seg choice)) (\<lambda>seg'. slift (Inr (pts', seg')))))"

definition flip_aug_st ::
  "myPointData \<Rightarrow> ndarray \<Rightarrow> real list \<Rightarrow> real \<Rightarrow> (ndarray \<times> real list \<times> real) rand" where
  "flip_aug_st self pts center head =
     (if random_flip self
      then sbind st_random (\<lambda>u.
           if u > 0.5
           then sbind (slift (np_col_map 0 (\<lambda>x. x * - 1) pts)) (\<lambda>pts'.
                sbind (slift (vec_map_at 0 (\<lambda>x. x * - 1) center)) (\<lambda>center'.
                slift (Inr (pts', center', pi - head))))
           else slift (Inr (pts, center, head)))
      else slift (Inr (pts, center, head)))"

definition shift_aug_st ::
  "myPointData \<Rightarrow> ndarray \<Rightarrow> real list \<Rightarrow> (ndarray \<times> real list) rand" where
  "shift_aug_st self pts center =
     (if random_shift self
      then sbind (slift (vec_get center 0)) (\<lambda>c0.
           sbind (slift (vec_get center 1)) (\<lambda>c1.
           let dist = sqrt (c0\<^sup>2 + c1\<^sup>2) in
           sbind st_randn (\<lambda>z.
           let shift = np_clip (z * dist * 0.05) (dist * 0.8) (dist * 1.2) in
           sbind (slift (np_col_map 2 (\<lambda>z. z + shift) pts)) (\<lambda>pts'.
           sbind (slift (vec_map_at 2 (\<lambda>z. z + shift) center)) (\<lambda>center'.
           slift (Inr (pts', center')))))))
      else slift (Inr (pts, center)))"

definition myPointData_getitem_st :: "point_fs \<Rightarrow> myPointData \<Rightarrow> int \<Rightarrow> point_sample rand" where
  "myPointData_getitem_st fs self index =
     sbind (slift (py_index (points self) index)) (\<lambda>point.
     sbind (slift (point_loader fs point)) (\<lambda>datas.
     sbind (slift (dict_get (img_id datas))) (\<lambda>iid.
     sbind (slift (dict_get (frustum_angle datas))) (\<lambda>fa.
     let rot = pi / 2 + fa in
     sbind (slift (select_source self datas)) (\<lambda>(pts, seg).
     sbind (subsample_st self pts seg) (\<lambda>(pts, seg).
     sbind (slift (dict_get (box3d_center datas))) (\<lambda>center.
     sbind (slift (dict_get (heading datas))) (\<lambda>head.
     sbind (flip_aug_st self pts center head) (\<lambda>(pts, center, head).
     sbind (shift_aug_st self pts center) (\<lambda>(pts, center).
     sbind (slift (dict_get (box3d_size datas))) (\<lambda>sz.
     sbind (slift (size2class sz)) (\<lambda>res.
     sbind (slift (rotate_pc_along_y pts rot)) (\<lambda>pts_rot.
     sbind (slift (rotate_pc_along_y (np_expand_dims0 center) rot)) (\<lambda>center_rot.
     sbind (slift (angle2class (head - rot) (num_angle self))) (\<lambda>(angle_c, angle_r).
     slift (Inr \<lparr>points_rot = pts_rot, seg_mask = seg,
          box3d_center_rot = np_squeeze center_rot,
          angle_c_rot = angle_c, angle_r_rot = angle_r, size_r = res,
          rot_angle = rot, sample_img_id = iid,
          sample_name = split_last CHR ''/'' point\<rparr>))))))))))))))))"

text \<open>The draws of one call, read off the tape, and their number.\<close>

definition draws_of :: "myPointData \<Rightarrow> rng \<Rightarrow> draws" where
  "draws_of self g =
     \<lparr>choice_raw = (\<lambda>i. raw_int g (drawn g + i)),
      flip_u = raw_real g (drawn g + nat (num_point self)),
      shift_g = raw_real g (drawn g + nat (num_point self) + (if random_flip self then 1 else 0))\<rparr>"

definition draws_used :: "myPointData \<Rightarrow> nat" where
  "draws_used self =
     nat (num_point self) + (if random_flip self then 1 else 0) +
       (if random_shift self then 1 else 0)"

section \<open>\<^verbatim>\<open>myImageFloder.__getitem__\<close> with the generator threaded\<close>

definition train_item_st ::
  "rgb image \<Rightarrow> rgb image \<Rightarrow> nat image option \<Rightarrow> string \<Rightarrow> stereo_item rand" where
  "train_item_st left_img right_img dataL nm =
     (case pil_size left_img of (w, h) \<Rightarrow>
      let th = 256; tw = 512 in
      sbind (st_randint 0 (w - tw)) (\<lambda>x1.
      sbind (st_randint 0 (h - th)) (\<lambda>y1.
      sbind (slift (pil_crop black left_img (x1, y1, x1 + tw, y1 + th))) (\<lambda>left_img.
      sbind (slift (pil_crop black right_img (x1, y1, x1 + tw, y1 + th))) (\<lambda>right_img.
      let dataL = (case dataL of
                     Some d \<Rightarrow> Disp_array (np_slice2 (np_asarray_div d 256)
                                 y1 (y1 + th) x1 (x1 + tw))
                   | None \<Rightarrow> Disp_zero);
          processed = get_transform ''imagenet'' None None None
      in sbind (slift (processed left_img)) (\<lambda>left_img.
         sbind (slift (processed right_img)) (\<lambda>right_img.
         slift (Inr (Train_item left_img right_img dataL nm)))))))))"

definition myImageFloder_getitem_st :: "myImageFloder \<Rightarrow> int \<Rightarrow> stereo_item rand" where
  "myImageFloder_getitem_st self index =
     sbind (slift (py_index (left self) index)) (\<lambda>l.
     sbind (slift (py_index (right self) index)) (\<lambda>r.
     sbind (slift (py_index (name self) index)) (\<lambda>nm.
     sbind (slift (loader self l)) (\<lambda>left_img.
     sbind (slift (loader self r)) (\<lambda>right_img.
     sbind (slift (load_disparity self index)) (\<lambda>dataL.
     if training self then train_item_st left_img right_img dataL nm
     else slift (eval_item left_img right_img dataL nm)))))))"

definition crop_draws_of :: "rng \<Rightarrow> crop_draws" where
  "crop_draws_of g = \<lparr>x_raw = raw_int g (drawn g), y_raw = raw_int g (drawn g + 1)\<rparr>"

definition crop_draws_used :: "myImageFloder \<Rightarrow> nat" where
  "crop_draws_used self = (if training self then 2 else 0)"

section \<open>Refinement\<close>

text \<open>
  \<open>refines m r k g\<close>: from the generator \<open>g\<close> the computation \<open>m\<close> gives the result
  \<open>r\<close>, and when it returns it has made \<open>k\<close> draws. It is the simulation of
  \<open>State_Result\<close> with the final generator given; its rules add up the draws.
\<close>

definition refines :: "'a rand \<Rightarrow> 'a result \<Rightarrow> nat \<Rightarrow> rng \<Rightarrow> bool" where
  "refines m r k g \<longleftrightarrow> sim m r (\<lambda>x y g'. x = y \<and> g' = advance k g) g"

lemma refines_iff:
  "refines m r k g \<longleftrightarrow> fst (m g) = r \<and> (returns r \<longrightarrow> snd (m g) = advance k g)"
  by (cases r) (auto simp: refines_def sim_Inr_iff sim_Inl_iff)

lemma advance_simps [simp]:
  "drawn (advance k g) = drawn g + k" "raw_int (advance k g) = raw_int g"
  "raw_real (advance k g) = raw_real g" "advance 0 g = g"
  "advance j (advance k g) = advance (k + j) g"
  by (simp_all add: advance_def)

lemma refines_slift [intro!]: "refines (slift m) m 0 g"
  by (simp add: refines_iff)

lemma refines_lift [intro!]:
  assumes "\<And>x. m = Inr x \<Longrightarrow> refines (F x) (F' x) k g"
  shows "refines (sbind (slift m) F) (rbind m F') k g"
  using assms unfolding refines_def by (rule sim_lift)

lemma refines_bind:
  assumes "refines m r n g" and "\<And>x. r = Inr x \<Longrightarrow> refines (F x) (F' x) k (advance n g)"
  shows "refines (sbind m F) (rbind r F') (n + k) g"
  unfolding refines_def
proof (rule sim_bind)
  show "sim m r (\<lambda>x y g'. x = y \<and> g' = advance n g) g"
    using assms(1) by (simp add: refines_def)
  show "sim (F x) (F' y) (\<lambda>x y g'. x = y \<and> g' = advance (n + k) g) g'"
    if "r = Inr y" and "x = y \<and> g' = advance n g" for x y g'
    using assms(2) [OF that(1)] that(2) by (simp add: refines_def)
qed

lemma refines_if:
  assumes "c \<Longrightarrow> refines a a' k g" and "\<not> c \<Longrightarrow> refines b b' k' g"
  shows "refines (if c then a else b) (if c then a' else b') (if c then k else k') g"
  using assms by simp

lemma refines_prod [intro!]:
  assumes "\<And>a b. x = (a, b) \<Longrightarrow> refines (F a b) (F' a b) k g"
  shows "refines (case x of (a, b) \<Rightarrow> F a b) (case x of (a, b) \<Rightarrow> F' a b) k g"
  using assms by (cases x) simp

lemma subsample_st_refines:
  assumes "choice_raw rnd = (\<lambda>i. raw_int g (drawn g + i))"
  shows "refines (subsample_st self pts seg) (subsample self rnd pts seg) (nat (num_point self)) g"
  using assms
  by (auto simp: refines_iff subsample_st_def subsample_def sbind_def st_choice_def rbind_def
      split: sum.splits)

lemma flip_aug_st_refines:
  assumes "flip_u rnd = raw_real g (drawn g)"
  shows "refines (flip_aug_st self pts c h) (flip_aug self rnd pts c h)
    (if random_flip self then 1 else 0) g"
  using assms
  by (auto simp: refines_iff flip_aug_st_def flip_aug_def sbind_def st_random_def rbind_def
      split: sum.splits)

lemma shift_aug_st_refines:
  assumes "shift_g rnd = raw_real g (drawn g)"
  shows "refines (shift_aug_st self pts c) (shift_aug self rnd pts c)
    (if random_shift self then 1 else 0) g"
  using assms
  by (auto simp: refines_iff shift_aug_st_def shift_aug_def shift_amount_def sbind_def
      st_randn_def rbind_def Let_def split: sum.splits)

lemma st_randint_refines:
  "x = raw_int g (drawn g) \<Longrightarrow> refines (st_randint lo hi) (random_randint x lo hi) 1 g"
  by (simp add: refines_iff st_randint_def split: sum.splits)

lemma draws_used_sum:
  "draws_used self =
     nat (num_point self) +
       ((if random_flip self then 1 else 0) + ((if random_shift self then 1 else 0) + 0))"
  by (simp add: draws_used_def)

lemma crop_draws_used_sum:
  "crop_draws_used self = (if training self then 1 + (1 + 0) else 0)"
  by (simp add: crop_draws_used_def)

lemmas refines_steps =
  refines_lift refines_prod refines_slift refines_if
  refines_bind [OF subsample_st_refines] refines_bind [OF flip_aug_st_refines]
  refines_bind [OF shift_aug_st_refines] refines_bind [OF st_randint_refines]

lemma myPointData_getitem_st_refines_aux:
  "refines (myPointData_getitem_st fs self index)
     (myPointData_getitem fs (draws_of self g) self index) (draws_used self) g"
  unfolding myPointData_getitem_st_def myPointData_getitem_def Let_def draws_used_sum
  by (intro refines_steps) (simp_all add: draws_of_def)

lemma myImageFloder_getitem_st_refines_aux:
  "refines (myImageFloder_getitem_st self index)
     (myImageFloder_getitem (crop_draws_of g) self index) (crop_draws_used self) g"
  unfolding myImageFloder_getitem_st_def myImageFloder_getitem_def train_item_st_def
    train_item_def Let_def crop_draws_used_sum
  by (intro refines_steps) (simp_all add: crop_draws_of_def)

section \<open>An example generator\<close>

definition ex_rng :: rng where
  "ex_rng = \<lparr>drawn = 0, raw_int = (\<lambda>i. i + 1000), raw_real = (\<lambda>i. 3 / 4)\<rparr>"

section \<open>Properties\<close>

text \<open>
  The record of draws is a sound view of the numpy generator. With the generator
  threaded through its statements, \<open>myPointData.__getitem__\<close> returns or raises what
  the definition over the record of draws does for the draws read off the tape, and
  when it returns it has made \<open>num_point\<close> draws for the sample, one more if
  \<open>random_flip\<close> is set and one more if \<open>random_shift\<close> is set.
\<close>

theorem myPointData_getitem_st_refines:
  "fst (myPointData_getitem_st fs self index g) =
     myPointData_getitem fs (draws_of self g) self index \<and>
   (returns (myPointData_getitem fs (draws_of self g) self index) \<longrightarrow>
      snd (myPointData_getitem_st fs self index g) = advance (draws_used self) g)"
  using myPointData_getitem_st_refines_aux [of fs self index g] by (simp add: refines_iff)

theorem myPointData_getitem_st_refines_witness:
  "snd (myPointData_getitem_st ex_fs (ex_data True True) 0 ex_rng) = advance 4 ex_rng"
proof -
  have "returns (myPointData_getitem ex_fs (draws_of (ex_data True True) ex_rng)
      (ex_data True True) 0)"
    using ex_getitem_returns [of "draws_of (ex_data True True) ex_rng" True True]
    by (auto simp: returns_iff)
  with myPointData_getitem_st_refines [of ex_fs "ex_data True True" 0 ex_rng]
  show ?thesis by (simp add: draws_used_def)
qed

text \<open>
  The same for the stereo dataset and the generator of the module \<open>random\<close>: the
  threaded \<open>myImageFloder.__getitem__\<close> returns or raises what the definition over the
  two recorded draws does, the draw for \<open>x\<close> before the draw for \<open>y\<close>, and a call that
  returns has made two draws in training mode and none otherwise.
\<close>

theorem myImageFloder_getitem_st_refines:
  "fst (myImageFloder_getitem_st self index g) =
     myImageFloder_getitem (crop_draws_of g) self index \<and>
   (returns (myImageFloder_getitem (crop_draws_of g) self index) \<longrightarrow>
      snd (myImageFloder_getitem_st self index g) = advance (crop_draws_used self) g)"
  using myImageFloder_getitem_st_refines_aux [of self index g] by (simp add: refines_iff)

theorem myImageFloder_getitem_st_refines_witness:
  "snd (myImageFloder_getitem_st (ex_stereo True False) 0 ex_rng) = advance 2 ex_rng \<and>
   snd (myImageFloder_getitem_st (ex_stereo False False) 0 ex_rng) = ex_rng"
proof -
  have "returns (myImageFloder_getitem (crop_draws_of ex_rng) (ex_stereo t False) 0)" for t
    using ex_stereo_returns [of "crop_draws_of ex_rng" t False] by (auto simp: returns_iff)
  with myImageFloder_getitem_st_refines [of "ex_stereo True False" 0 ex_rng]
    myImageFloder_getitem_st_refines [of "ex_stereo False False" 0 ex_rng]
  show ?thesis by (simp add: crop_draws_used_def)
qed

end
