(* ===== verification/Dataset_Pass.thy ===== *)
theory Dataset_Pass
  imports Rng_State
begin

text \<open>
  The two dataset classes expose the same interface to their caller, a length and an
  item access by index, and the caller is a loop that fetches the items one after the
  other. This theory holds the interface, both classes as instances of it, and one
  pass over a dataset: as a step relation, whose reachable states carry the invariant,
  and as a recursive function, which is the loop. The generator is the state threaded
  through the fetches. The lemmas about a pass are stated once for the interface; the
  two classes discharge their premises with the refinement lemmas of \<open>Rng_State\<close>. The
  lemmas on \<open>py_index\<close> say which indices the item accesses serve. The loop is not
  code of the program, so that it ends says nothing of the program; what is shown of
  the program is which passes run through to the last index, from the files of the
  dataset.
\<close>

section \<open>The collection interface\<close>

text \<open>
  \<^verbatim>\<open>__len__\<close> and \<^verbatim>\<open>__getitem__\<close> of a class derived from \<^verbatim>\<open>data.Dataset\<close>, over a
  state \<open>'s\<close> and items \<open>'a\<close>.
\<close>

record ('s, 'a) dataset =
  ds_len :: nat
  ds_getitem :: "int \<Rightarrow> ('s, 'a) sres"

definition point_dataset :: "point_fs \<Rightarrow> myPointData \<Rightarrow> (rng, point_sample) dataset" where
  "point_dataset fs self =
     \<lparr>ds_len = myPointData_len self, ds_getitem = myPointData_getitem_st fs self\<rparr>"

definition stereo_dataset :: "myImageFloder \<Rightarrow> (rng, stereo_item) dataset" where
  "stereo_dataset self =
     \<lparr>ds_len = myImageFloder_len self, ds_getitem = myImageFloder_getitem_st self\<rparr>"

section \<open>A pass over a dataset\<close>

text \<open>
  A pass fetches the items at the indices \<open>0\<close>, \<open>1\<close>, ... below the length in this order
  and collects them. A fetch that raises aborts the pass with its exception: nothing
  is retried or skipped. A state is the position with the items collected so far, or
  one of the two final states, together with the state of the dataset.
\<close>

datatype 'a pass = Running nat "'a list" | Finished "'a list" | Aborted nat py_error

inductive step :: "('s, 'a) dataset \<Rightarrow> 'a pass \<times> 's \<Rightarrow> 'a pass \<times> 's \<Rightarrow> bool" for ds where
  fetch: "i < ds_len ds \<Longrightarrow> ds_getitem ds (int i) s = (Inr x, s') \<Longrightarrow>
    step ds (Running i acc, s) (Running (Suc i) (acc @ [x]), s')"
| abort: "i < ds_len ds \<Longrightarrow> ds_getitem ds (int i) s = (Inl e, s') \<Longrightarrow>
    step ds (Running i acc, s) (Aborted i e, s')"
| finish: "i = ds_len ds \<Longrightarrow> step ds (Running i acc, s) (Finished acc, s)"

inductive reachable :: "('s, 'a) dataset \<Rightarrow> 's \<Rightarrow> 'a pass \<times> 's \<Rightarrow> bool" for ds s0 where
  pass_start: "reachable ds s0 (Running 0 [], s0)"
| pass_step: "reachable ds s0 c \<Longrightarrow> step ds c c' \<Longrightarrow> reachable ds s0 c'"

inductive_cases step_RunningE: "step ds (Running i acc, s) c'"
inductive_cases step_FinishedE: "step ds (Finished acc, s) c'"
inductive_cases step_AbortedE: "step ds (Aborted i e, s) c'"

text \<open>
  The loop. It ends because the distance of the position to the length decreases with
  every fetch.
\<close>

function run_pass :: "('s, 'a) dataset \<Rightarrow> nat \<Rightarrow> 'a list \<Rightarrow> ('s, 'a list) sres" where
  "run_pass ds i acc s =
     (if i < ds_len ds
      then (case ds_getitem ds (int i) s of
              (Inl e, s') \<Rightarrow> (Inl e, s')
            | (Inr x, s') \<Rightarrow> run_pass ds (Suc i) (acc @ [x]) s')
      else (Inr acc, s))"
  by pat_completeness auto
termination
  by (relation "measure (\<lambda>(ds, i, acc, s). ds_len ds - i)") auto

declare run_pass.simps [simp del]

section \<open>Reference definitions\<close>

text \<open>
  \<open>seq_results\<close> sequences results: the list of the values when all return, else the
  first exception. \<open>weight\<close> bounds the steps a state has left. \<open>outcome\<close> is what a
  final state means as a result. \<open>pass_inv win st n\<close> is the invariant of a pass of
  length \<open>n\<close> whose \<open>j\<close>-th fetch has the result \<open>win j\<close> and which is in the state \<open>st j\<close>
  after \<open>j\<close> fetches. \<open>tape_pos k g i\<close> is the generator after \<open>i\<close> fetches of \<open>k\<close> draws
  each, and \<open>fetched\<close> and \<open>fetched_stereo\<close> are the pure item accesses on the draws the
  generator holds there. \<open>wf_point_files\<close> and \<open>stereo_files_ok\<close> say of the files
  of a dataset what a pass needs to run through: every listed point file holds a well
  formed record with a cloud that can be sampled; every index of the left list has a
  right image and a name, both images load, the left one is large enough for the
  training crop, and the disparity loads unless the dataset is in load mode.
\<close>

fun seq_results :: "'a result list \<Rightarrow> 'a list result" where
  "seq_results [] = Inr []"
| "seq_results (r # rs) = rbind r (\<lambda>x. rbind (seq_results rs) (\<lambda>xs. Inr (x # xs)))"

fun weight :: "('s, 'a) dataset \<Rightarrow> 'a pass \<times> 's \<Rightarrow> nat" where
  "weight ds (Running i acc, s) = Suc (ds_len ds - i)"
| "weight ds (Finished acc, s) = 0"
| "weight ds (Aborted i e, s) = 0"

fun outcome :: "'a pass \<times> 's \<Rightarrow> 'a list result \<times> 's" where
  "outcome (Finished acc, s) = (Inr acc, s)"
| "outcome (Aborted i e, s) = (Inl e, s)"
| "outcome (Running i acc, s) = (Inr acc, s)"

fun final :: "'a pass \<times> 's \<Rightarrow> bool" where
  "final (Running i acc, s) = False"
| "final (Finished acc, s) = True"
| "final (Aborted i e, s) = True"

fun pass_inv :: "(nat \<Rightarrow> 'a result) \<Rightarrow> (nat \<Rightarrow> 's) \<Rightarrow> nat \<Rightarrow> 'a pass \<times> 's \<Rightarrow> bool" where
  "pass_inv win st n (Running i acc, s) \<longleftrightarrow>
     i \<le> n \<and> s = st i \<and> map Inr acc = map win [0..<i]"
| "pass_inv win st n (Finished acc, s) \<longleftrightarrow> s = st n \<and> map Inr acc = map win [0..<n]"
| "pass_inv win st n (Aborted i e, s) \<longleftrightarrow>
     i < n \<and> win i = Inl e \<and> list_all returns (map win [0..<i])"

definition tape_pos :: "nat \<Rightarrow> rng \<Rightarrow> nat \<Rightarrow> rng" where
  "tape_pos k g i = advance (i * k) g"

definition fetched :: "point_fs \<Rightarrow> myPointData \<Rightarrow> rng \<Rightarrow> nat \<Rightarrow> point_sample result" where
  "fetched fs self g j =
     myPointData_getitem fs (draws_of self (tape_pos (draws_used self) g j)) self (int j)"

definition fetched_stereo :: "myImageFloder \<Rightarrow> rng \<Rightarrow> nat \<Rightarrow> stereo_item result" where
  "fetched_stereo self g j =
     myImageFloder_getitem (crop_draws_of (tape_pos (crop_draws_used self) g j)) self (int j)"

definition wf_point_files :: "point_fs \<Rightarrow> myPointData \<Rightarrow> bool" where
  "wf_point_files fs self \<longleftrightarrow>
     list_all (\<lambda>point. case fs point of None \<Rightarrow> False
        | Some d \<Rightarrow> wf_point_record self d \<and>
            (case stored_points self d of None \<Rightarrow> False
             | Some pts \<Rightarrow> 0 < nrows pts \<or> num_point self = 0)) (points self)"

definition stereo_index_ok :: "myImageFloder \<Rightarrow> nat \<Rightarrow> bool" where
  "stereo_index_ok self i \<longleftrightarrow>
     i < length (right self) \<and> i < length (name self) \<and>
     (case loader self (left self ! i) of Inl e \<Rightarrow> False
      | Inr L \<Rightarrow> training self \<longrightarrow> 512 \<le> im_w L \<and> 256 \<le> im_h L) \<and>
     returns (loader self (right self ! i)) \<and>
     (load self \<or> i < length (disp_L self) \<and> returns (dploader self (disp_L self ! i)))"

definition stereo_files_ok :: "myImageFloder \<Rightarrow> bool" where
  "stereo_files_ok self = list_all (stereo_index_ok self) [0..<length (left self)]"

section \<open>Every pass ends\<close>

lemma step_weight: "step ds c c' \<Longrightarrow> weight ds c' < weight ds c"
  by (induction rule: step.induct) auto

lemma step_wf: "wf {(c', c). step ds c c'}"
  by (rule wf_subset [OF wf_measure [of "weight ds"]]) (auto dest: step_weight)

lemma step_final: "final c \<Longrightarrow> \<not> step ds c c'"
  by (cases c rule: final.cases) (auto elim: step_FinishedE step_AbortedE)

lemma step_deterministic: "step ds c c1 \<Longrightarrow> step ds c c2 \<Longrightarrow> c1 = c2"
  by (induction rule: step.induct) (auto elim!: step_RunningE)

lemma run_pass_unfold:
  "\<not> i < ds_len ds \<Longrightarrow> run_pass ds i acc s = (Inr acc, s)"
  "i < ds_len ds \<Longrightarrow> ds_getitem ds (int i) s = (Inl e, s') \<Longrightarrow>
     run_pass ds i acc s = (Inl e, s')"
  "i < ds_len ds \<Longrightarrow> ds_getitem ds (int i) s = (Inr x, s') \<Longrightarrow>
     run_pass ds i acc s = run_pass ds (Suc i) (acc @ [x]) s'"
  by (subst run_pass.simps, simp)+

lemma run_pass_reachable_aux:
  assumes "reachable ds s0 (Running i acc, s)" and "i \<le> ds_len ds"
  shows "\<exists>c. reachable ds s0 c \<and> final c \<and> outcome c = run_pass ds i acc s"
  using assms
proof (induction ds i acc s rule: run_pass.induct)
  case (1 ds i acc s)
  show ?case
  proof (cases "i < ds_len ds")
    case False
    with 1(3) have "step ds (Running i acc, s) (Finished acc, s)" by (auto intro: step.finish)
    with 1(2) have "reachable ds s0 (Finished acc, s)" by (rule reachable.pass_step)
    with False show ?thesis
      by (intro exI [of _ "(Finished acc, s)"]) (simp add: run_pass_unfold)
  next
    case True
    obtain r s' where g: "ds_getitem ds (int i) s = (r, s')" by (cases "ds_getitem ds (int i) s")
    show ?thesis
    proof (cases r)
      case (Inl e)
      with True g 1(2) have "reachable ds s0 (Aborted i e, s')"
        by (auto intro: reachable.pass_step step.abort)
      with True g Inl show ?thesis
        by (intro exI [of _ "(Aborted i e, s')"]) (simp add: run_pass_unfold)
    next
      case (Inr x)
      with True g 1(2) have "reachable ds s0 (Running (Suc i) (acc @ [x]), s')"
        by (auto intro: reachable.pass_step step.fetch)
      from 1(1) [OF True g [symmetric] Inr this] True
      have "\<exists>c. reachable ds s0 c \<and> final c \<and> outcome c = run_pass ds (Suc i) (acc @ [x]) s'"
        by simp
      with True g Inr show ?thesis by (simp add: run_pass_unfold)
    qed
  qed
qed


section \<open>What a pass collects\<close>

lemma seq_results_snoc:
  "seq_results (rs @ [r]) = rbind (seq_results rs) (\<lambda>xs. rbind r (\<lambda>x. Inr (xs @ [x])))"
  by (induction rs) (auto simp: rbind_def split: sum.splits)

lemma seq_results_Inr_iff: "seq_results rs = Inr xs \<longleftrightarrow> rs = map Inr xs"
  by (induction rs arbitrary: xs) (auto simp: res_iffs)

lemma seq_results_returns_iff: "returns (seq_results rs) \<longleftrightarrow> list_all returns rs"
  by (induction rs) (auto simp: res_iffs returns_iff)

lemma list_all_returns_Inr: "list_all returns (map Inr xs)"
  by (simp add: list_all_iff)

text \<open>
  The premises of the next lemma are stated with an invariant \<open>J\<close> of position and
  state, under which the \<open>i\<close>-th fetch has the result \<open>win i\<close>: for the generators it
  fixes the state at each position, for the store it is true of every state.
\<close>

lemma run_pass_seq_aux:
  assumes "\<And>i s. i < ds_len ds \<Longrightarrow> J i s \<Longrightarrow> fst (ds_getitem ds (int i) s) = win i"
    and "\<And>i s. i < ds_len ds \<Longrightarrow> J i s \<Longrightarrow> returns (win i) \<Longrightarrow>
           J (Suc i) (snd (ds_getitem ds (int i) s))"
    and "J i s"
  shows "fst (run_pass ds i acc s) =
     rbind (seq_results (map win [i..<ds_len ds])) (\<lambda>xs. Inr (acc @ xs))"
  using assms(3)
proof (induction "ds_len ds - i" arbitrary: i acc s)
  case 0
  then show ?case by (simp add: run_pass_unfold)
next
  case (Suc n)
  then have i: "i < ds_len ds" and n: "n = ds_len ds - Suc i" by auto
  obtain r s' where g: "ds_getitem ds (int i) s = (r, s')"
    by (cases "ds_getitem ds (int i) s")
  with assms(1) [OF i Suc(3)] have r: "win i = r" by simp
  show ?case
  proof (cases r)
    case (Inl e)
    with i g r show ?thesis by (simp add: run_pass_unfold upt_conv_Cons)
  next
    case (Inr x)
    with assms(2) [OF i Suc(3)] g r have "J (Suc i) s'" by simp
    from Suc(1) [OF n this, of "acc @ [x]"] i g r Inr show ?thesis
      by (simp add: run_pass_unfold upt_conv_Cons rbind_assoc)
  qed
qed

lemma run_pass_keeps:
  assumes "\<And>i. i < ds_len ds \<Longrightarrow> keeps I (ds_getitem ds (int i)) (\<lambda>_. True)"
  shows "I s \<Longrightarrow> I (snd (run_pass ds i acc s))"
proof (induction "ds_len ds - i" arbitrary: i acc s)
  case 0
  then show ?case by (simp add: run_pass_unfold)
next
  case (Suc n)
  then have i: "i < ds_len ds" and n: "n = ds_len ds - Suc i" by auto
  obtain r s' where g: "ds_getitem ds (int i) s = (r, s')"
    by (cases "ds_getitem ds (int i) s")
  with keepsD [OF assms [OF i] Suc(3)] have s': "I s'" by simp
  show ?case
  proof (cases r)
    case (Inl e)
    with i g s' show ?thesis by (simp add: run_pass_unfold)
  next
    case (Inr x)
    with Suc(1) [OF n s', of "acc @ [x]"] i g show ?thesis by (simp add: run_pass_unfold)
  qed
qed

lemma pass_inv_step:
  assumes "\<And>i. i < ds_len ds \<Longrightarrow> fst (ds_getitem ds (int i) (st i)) = win i"
    and "\<And>i. i < ds_len ds \<Longrightarrow> returns (win i) \<Longrightarrow> snd (ds_getitem ds (int i) (st i)) = st (Suc i)"
    and "step ds c c'" and "pass_inv win st (ds_len ds) c"
  shows "pass_inv win st (ds_len ds) c'"
  using assms(3,4)
proof (induction rule: step.induct)
  case (fetch i s x s' acc)
  then have s: "s = st i" and acc: "map Inr acc = map win [0..<i]" by simp_all
  from assms(1) [OF fetch(1)] fetch(2) s have w: "win i = Inr x" by simp
  with assms(2) [OF fetch(1)] fetch(2) s have "s' = st (Suc i)" by simp
  with fetch(1) acc w show ?case by simp
next
  case (abort i s e s' acc)
  then have s: "s = st i" and acc: "map Inr acc = map win [0..<i]" by simp_all
  from list_all_returns_Inr [of acc] acc have "list_all returns (map win [0..<i])" by simp
  with assms(1) [OF abort(1)] abort(1,2) s show ?case by simp
next
  case (finish i acc s)
  then show ?case by simp
qed

lemma pass_inv_reachable:
  assumes "\<And>i. i < ds_len ds \<Longrightarrow> fst (ds_getitem ds (int i) (st i)) = win i"
    and "\<And>i. i < ds_len ds \<Longrightarrow> returns (win i) \<Longrightarrow> snd (ds_getitem ds (int i) (st i)) = st (Suc i)"
    and "reachable ds (st 0) c"
  shows "pass_inv win st (ds_len ds) c"
  using assms(3)
proof (induction rule: reachable.induct)
  case pass_start
  show ?case by simp
next
  case (pass_step c c')
  from pass_inv_step [OF assms(1,2) pass_step(2,3)] show ?case by simp
qed


section \<open>The two datasets\<close>

lemma point_dataset_simps [simp]:
  "ds_len (point_dataset fs self) = myPointData_len self"
  "ds_getitem (point_dataset fs self) = myPointData_getitem_st fs self"
  by (simp_all add: point_dataset_def)

lemma stereo_dataset_simps [simp]:
  "ds_len (stereo_dataset self) = myImageFloder_len self"
  "ds_getitem (stereo_dataset self) = myImageFloder_getitem_st self"
  by (simp_all add: stereo_dataset_def)

lemma tape_pos_simps [simp]:
  "tape_pos k g 0 = g" "advance k (tape_pos k g i) = tape_pos k g (Suc i)"
  by (simp_all add: tape_pos_def add.commute)

lemma point_windows:
  "fst (myPointData_getitem_st fs self (int i) (tape_pos (draws_used self) g i)) =
     fetched fs self g i"
  "returns (fetched fs self g i) \<Longrightarrow>
     snd (myPointData_getitem_st fs self (int i) (tape_pos (draws_used self) g i)) =
       tape_pos (draws_used self) g (Suc i)"
  using myPointData_getitem_st_refines_aux [of fs self "int i" "tape_pos (draws_used self) g i"]
  by (simp_all add: refines_iff fetched_def)

lemma stereo_windows:
  "fst (myImageFloder_getitem_st self (int i) (tape_pos (crop_draws_used self) g i)) =
     fetched_stereo self g i"
  "returns (fetched_stereo self g i) \<Longrightarrow>
     snd (myImageFloder_getitem_st self (int i) (tape_pos (crop_draws_used self) g i)) =
       tape_pos (crop_draws_used self) g (Suc i)"
  using myImageFloder_getitem_st_refines_aux [of self "int i" "tape_pos (crop_draws_used self) g i"]
  by (simp_all add: refines_iff fetched_stereo_def)

lemma point_pass_seq:
  "fst (run_pass (point_dataset fs self) 0 [] g) =
     seq_results (map (fetched fs self g) [0..<myPointData_len self])"
  using run_pass_seq_aux [of "point_dataset fs self"
      "\<lambda>i s. s = tape_pos (draws_used self) g i" "fetched fs self g" 0 g "[]"]
  by (simp add: point_windows)

lemma stereo_pass_seq:
  "fst (run_pass (stereo_dataset self) 0 [] g) =
     seq_results (map (fetched_stereo self g) [0..<myImageFloder_len self])"
  using run_pass_seq_aux [of "stereo_dataset self"
      "\<lambda>i s. s = tape_pos (crop_draws_used self) g i" "fetched_stereo self g" 0 g "[]"]
  by (simp add: stereo_windows)

lemma point_pass_inv_aux:
  assumes "reachable (point_dataset fs self) g c"
  shows "pass_inv (fetched fs self g) (tape_pos (draws_used self) g) (myPointData_len self) c"
  using pass_inv_reachable [of "point_dataset fs self" "tape_pos (draws_used self) g"
      "fetched fs self g" c] assms
  by (simp add: point_windows)

lemma fetched_stereo_short:
  assumes "length (right self) < length (left self) \<or> length (name self) < length (left self)"
  shows "\<exists>i < myImageFloder_len self. fetched_stereo self g i = Inl IndexError"
proof -
  let ?i = "min (length (right self)) (length (name self))"
  from assms have "?i < myImageFloder_len self" by (auto simp: myImageFloder_len_def)
  moreover have "fetched_stereo self g ?i = Inl IndexError"
    using assms
    by (auto simp: fetched_stereo_def myImageFloder_getitem_def py_index_def min_def)
  ultimately show ?thesis by blast
qed

section \<open>The indices the item accesses serve\<close>

lemma py_index_wrap:
  "length xs = n \<Longrightarrow> 0 \<le> i \<Longrightarrow> i < int n \<Longrightarrow> py_index xs (i - int n) = py_index xs i"
  by (auto simp: py_index_def nat_diff_distrib)

lemma py_index_outside:
  "i < - int (length xs) \<or> int (length xs) \<le> i \<Longrightarrow> py_index xs i = Inl IndexError"
  by (auto simp: py_index_def)

lemma point_getitem_wrap:
  assumes "0 \<le> index" and "index < int (myPointData_len self)"
  shows "myPointData_getitem_st fs self (index - int (myPointData_len self)) =
     myPointData_getitem_st fs self index"
  using assms by (simp add: myPointData_getitem_st_def myPointData_len_def py_index_wrap)

lemma stereo_getitem_wrap:
  assumes "0 \<le> index" and "index < int (myImageFloder_len st)"
    and "length (right st) = length (left st)" and "length (name st) = length (left st)"
    and "load st \<or> length (disp_L st) = length (left st)"
  shows "myImageFloder_getitem_st st (index - int (myImageFloder_len st)) =
     myImageFloder_getitem_st st index"
  using assms
  by (auto simp: myImageFloder_getitem_st_def myImageFloder_len_def load_disparity_def
      py_index_wrap)

section \<open>A pass that runs through\<close>

text \<open>
  A pass that returned went through the finished state, and it left the generator one
  window further for each index of the dataset.
\<close>

lemma run_pass_finished:
  assumes "run_pass ds 0 [] g = (Inr items, s)"
  shows "reachable ds g (Finished items, s)"
proof -
  from run_pass_reachable_aux [OF reachable.pass_start, of ds g]
  obtain c where c: "reachable ds g c" "final c" "outcome c = run_pass ds 0 [] g" by auto
  with assms show ?thesis by (cases c rule: outcome.cases) auto
qed

lemma point_pass_state:
  assumes "returns (fst (run_pass (point_dataset fs self) 0 [] g))"
  shows "snd (run_pass (point_dataset fs self) 0 [] g) =
    advance (myPointData_len self * draws_used self) g"
proof -
  obtain p s where c: "reachable (point_dataset fs self) g (p, s)" "final (p, s)"
    "outcome (p, s) = run_pass (point_dataset fs self) 0 [] g"
    using run_pass_reachable_aux [OF reachable.pass_start, of "point_dataset fs self" g] by auto
  from point_pass_inv_aux [OF c(1)] c(2,3) assms show ?thesis
    by (cases p) (auto simp: tape_pos_def dest: sym)
qed

lemma stereo_pass_state:
  assumes "returns (fst (run_pass (stereo_dataset self) 0 [] g))"
  shows "snd (run_pass (stereo_dataset self) 0 [] g) =
    advance (myImageFloder_len self * crop_draws_used self) g"
proof -
  let ?ds = "stereo_dataset self"
  obtain p s where c: "reachable ?ds g (p, s)" "final (p, s)"
    "outcome (p, s) = run_pass ?ds 0 [] g"
    using run_pass_reachable_aux [OF reachable.pass_start, of ?ds g] by auto
  from c(1) have "pass_inv (fetched_stereo self g) (tape_pos (crop_draws_used self) g)
      (myImageFloder_len self) (p, s)"
    using pass_inv_reachable [of ?ds "tape_pos (crop_draws_used self) g"
        "fetched_stereo self g" "(p, s)"]
    by (simp add: stereo_windows)
  with c(2,3) assms show ?thesis by (cases p) (auto simp: tape_pos_def dest: sym)
qed

text \<open>The files of a dataset decide whether each of its item accesses returns.\<close>

lemma py_index_nat: "py_index xs (int i) = Inr x \<longleftrightarrow> i < length xs \<and> x = xs ! i"
  by (auto simp: py_index_def)

lemma wf_point_files_fetched:
  assumes "wf_point_files fs self" "0 \<le> num_point self" "num_angle self \<noteq> 0"
    and "j < length (points self)"
  shows "returns (fetched fs self g j)"
proof -
  from assms(1,4) obtain d where d: "fs (points self ! j) = Some d" "wf_point_record self d"
    "\<forall>pts. stored_points self d = Some pts \<longrightarrow> 0 < nrows pts \<or> num_point self = 0"
    by (auto simp: wf_point_files_def list_all_length split: option.splits)
  from assms(4) have "py_index (points self) (int j) = Inr (points self ! j)"
    by (simp add: py_index_nat)
  from myPointData_getitem_returns_aux [where fs = fs
      and rnd = "draws_of self (tape_pos (draws_used self) g j)", OF this d(1,2) assms(2,3) d(3)]
  show ?thesis by (auto simp: fetched_def returns_iff)
qed

lemma stereo_index_ok_iff:
  "i < length (left self) \<Longrightarrow>
     returns (fetched_stereo self g i) \<longleftrightarrow> stereo_index_ok self i"
  unfolding stereo_index_ok_def fetched_stereo_def returns_iff
    myImageFloder_getitem_returns_aux py_index_nat
  by (auto split: sum.splits)

lemma stereo_files_ok_iff:
  "stereo_files_ok self \<longleftrightarrow> (\<forall>i < length (left self). returns (fetched_stereo self g i))"
  by (auto simp: stereo_files_ok_def list_all_iff stereo_index_ok_iff)

section \<open>Properties\<close>

text \<open>
  C20: A pass over a point dataset with well-formed files runs through: when every
  listed file holds a well-formed record whose cloud can be sampled, the sample size
  is not negative and there is an angle class, the loop ends in the finished state
  after one fetch for each entry of \<^verbatim>\<open>self.points\<close>, whatever the generator gives. It
  returns the samples of the pure item accesses on the successive windows of the
  tape, as many as there are files, and leaves the generator \<open>draws_used\<close> draws
  further for each.
\<close>

theorem point_pass_completes:
  assumes "wf_point_files fs self" "0 \<le> num_point self" "num_angle self \<noteq> 0"
  shows "\<exists>items. run_pass (point_dataset fs self) 0 [] g =
           (Inr items, advance (length (points self) * draws_used self) g) \<and>
         reachable (point_dataset fs self) g
           (Finished items, advance (length (points self) * draws_used self) g) \<and>
         map Inr items = map (fetched fs self g) [0..<length (points self)]"
proof -
  let ?ds = "point_dataset fs self"
  from assms have "list_all returns (map (fetched fs self g) [0..<length (points self)])"
    by (simp add: list_all_iff wf_point_files_fetched)
  then obtain items where
    i: "seq_results (map (fetched fs self g) [0..<length (points self)]) = Inr items"
    by (auto simp: seq_results_returns_iff [symmetric] returns_iff)
  hence f: "fst (run_pass ?ds 0 [] g) = Inr items"
    by (simp add: point_pass_seq myPointData_len_def)
  with point_pass_state [of fs self g]
  have "run_pass ?ds 0 [] g = (Inr items, advance (length (points self) * draws_used self) g)"
    by (simp add: prod_eq_iff myPointData_len_def)
  with run_pass_finished [OF this] i show ?thesis by (simp add: seq_results_Inr_iff)
qed

theorem point_pass_completes_witness:
  "\<exists>items. run_pass (point_dataset ex_fs (ex_data True True)) 0 [] ex_rng =
     (Inr items, advance 4 ex_rng) \<and> length items = 1"
proof -
  have "wf_point_files ex_fs (ex_data True True)"
    using ex_record_wf [of True True]
    by (simp add: wf_point_files_def ex_fs_def stored_points_def ex_record_def nrows_def)
  from point_pass_completes [OF this, of ex_rng] obtain items where
    "run_pass (point_dataset ex_fs (ex_data True True)) 0 [] ex_rng = (Inr items, advance 4 ex_rng)"
    "map Inr items = map (fetched ex_fs (ex_data True True) ex_rng) [0..<1]"
    by (auto simp: draws_used_def)
  thus ?thesis by (auto dest: map_eq_imp_length_eq)
qed

text \<open>
  C21: A pass over a stereo dataset runs through exactly when its files allow it: the
  loop returns if and only if every index of the left list has a right image and a
  name, both images load, the left image is at least 512 by 256 in training mode,
  and the disparity is listed and loads unless the dataset is in load mode. It then
  returns one item for each entry of \<^verbatim>\<open>self.left\<close>, those of the pure item accesses,
  and has made two draws for each in training mode and none otherwise. The generator
  has no say in whether the pass completes.
\<close>

theorem stereo_pass_completes:
  "(returns (fst (run_pass (stereo_dataset self) 0 [] g)) \<longleftrightarrow> stereo_files_ok self) \<and>
   (stereo_files_ok self \<longrightarrow>
      (\<exists>items. run_pass (stereo_dataset self) 0 [] g =
         (Inr items, advance (length (left self) * crop_draws_used self) g) \<and>
         map Inr items = map (fetched_stereo self g) [0..<length (left self)]))"
proof -
  let ?r = "run_pass (stereo_dataset self) 0 [] g"
  have r: "returns (fst ?r) \<longleftrightarrow> stereo_files_ok self"
    by (auto simp: stereo_pass_seq seq_results_returns_iff list_all_iff myImageFloder_len_def
        stereo_files_ok_iff [of self g])
  moreover have "\<exists>items. ?r = (Inr items, advance (length (left self) * crop_draws_used self) g) \<and>
      map Inr items = map (fetched_stereo self g) [0..<length (left self)]"
    if "returns (fst ?r)"
  proof -
    from that obtain items where i: "fst ?r = Inr items" by (auto simp: returns_iff)
    hence "seq_results (map (fetched_stereo self g) [0..<length (left self)]) = Inr items"
      by (simp add: stereo_pass_seq myImageFloder_len_def)
    hence "map Inr items = map (fetched_stereo self g) [0..<length (left self)]"
      by (simp add: seq_results_Inr_iff)
    with i stereo_pass_state [OF that] show ?thesis
      by (simp add: prod_eq_iff myImageFloder_len_def)
  qed
  ultimately show ?thesis by blast
qed

theorem stereo_pass_completes_witness:
  "(\<exists>items. run_pass (stereo_dataset (ex_stereo True False)) 0 [] ex_rng =
      (Inr items, advance 2 ex_rng) \<and> length items = 1) \<and>
   \<not> returns (fst (run_pass (stereo_dataset (ex_stereo True False\<lparr>name := []\<rparr>)) 0 [] ex_rng))"
  using stereo_pass_completes [of "ex_stereo True False" ex_rng]
    stereo_pass_completes [of "ex_stereo True False\<lparr>name := []\<rparr>" ex_rng]
  by (auto simp: stereo_files_ok_def stereo_index_ok_def ex_stereo_def myImageFloder_init_def
      default_loader_def disparity_loader_def ex_rgb_fs_def ex_disp_fs_def returns_iff
      crop_draws_used_def dest: map_eq_imp_length_eq)

text \<open>
  C18: In every state a pass over the point dataset can reach, the position is at most
  the length, so that no fetch is made at an index the dataset does not have; the
  generator stands \<open>draws_used\<close> draws further for each item fetched, on the same tape;
  and the items collected are those of the pure item access on the successive windows
  of the tape. A pass that aborted did so with the exception of the first window that
  raises.
\<close>

theorem point_pass_invariant:
  assumes "reachable (point_dataset fs self) g c"
  shows "pass_inv (fetched fs self g) (tape_pos (draws_used self) g) (myPointData_len self) c"
  using assms by (rule point_pass_inv_aux)

theorem point_pass_invariant_witness:
  "\<exists>acc. reachable (point_dataset ex_fs (ex_data True True)) ex_rng
      (Finished acc, advance 4 ex_rng) \<and> length acc = 1"
proof -
  let ?ds = "point_dataset ex_fs (ex_data True True)"
  obtain p s where c: "reachable ?ds ex_rng (p, s)" "final (p, s)"
    using run_pass_reachable_aux [OF reachable.pass_start, of ?ds ex_rng] by auto
  from point_pass_invariant [OF c(1)] c(2)
    ex_getitem_returns [of "draws_of (ex_data True True) ex_rng" True True]
  have "\<exists>acc. p = Finished acc \<and> s = advance 4 ex_rng \<and> length acc = 1"
    by (cases p)
      (auto simp: myPointData_len_def draws_used_def fetched_def tape_pos_def
        dest: map_eq_imp_length_eq)
  with c(1) show ?thesis by auto
qed

text \<open>
  C10: A pass over the point dataset is the sequence of the pure item accesses, each on
  its own window of the tape of draws: it returns the list of their samples when all
  of them return and raises the exception of the first that raises. The fetches do
  not influence each other except through the position of the generator, which after
  a pass that returns stands \<open>draws_used\<close> draws further for each item.
\<close>

theorem point_pass_sequence:
  "fst (run_pass (point_dataset fs self) 0 [] g) =
     seq_results (map (fetched fs self g) [0..<myPointData_len self]) \<and>
   (returns (fst (run_pass (point_dataset fs self) 0 [] g)) \<longrightarrow>
      snd (run_pass (point_dataset fs self) 0 [] g) =
        advance (myPointData_len self * draws_used self) g)"
proof -
  obtain p s where c: "reachable (point_dataset fs self) g (p, s)" "final (p, s)"
    "outcome (p, s) = run_pass (point_dataset fs self) 0 [] g"
    using run_pass_reachable_aux [OF reachable.pass_start, of "point_dataset fs self" g] by auto
  from point_pass_inv_aux [OF c(1)] c(2,3)
  have "returns (fst (run_pass (point_dataset fs self) 0 [] g)) \<longrightarrow>
      snd (run_pass (point_dataset fs self) 0 [] g) =
        advance (myPointData_len self * draws_used self) g"
    by (cases p) (auto simp: tape_pos_def dest: sym)
  with point_pass_seq [of fs self g] show ?thesis by simp
qed

theorem point_pass_sequence_witness:
  "snd (run_pass (point_dataset ex_fs (ex_data True True)) 0 [] ex_rng) = advance 4 ex_rng"
proof -
  from ex_getitem_returns [of "draws_of (ex_data True True) ex_rng" True True]
  have "returns (seq_results (map (fetched ex_fs (ex_data True True) ex_rng)
      [0..<myPointData_len (ex_data True True)]))"
    by (auto simp: seq_results_returns_iff myPointData_len_def fetched_def returns_iff
        tape_pos_def)
  with point_pass_sequence [of ex_fs "ex_data True True" ex_rng] show ?thesis
    by (simp add: myPointData_len_def draws_used_def)
qed

text \<open>
  The same for the stereo dataset: a pass is the sequence of the pure item accesses
  on successive windows of the tape, two draws wide in training mode and empty
  otherwise.
\<close>

theorem stereo_pass_sequence:
  "fst (run_pass (stereo_dataset self) 0 [] g) =
     seq_results (map (fetched_stereo self g) [0..<myImageFloder_len self])"
  by (rule stereo_pass_seq)

text \<open>
  A pass over a stereo dataset whose list of right images or of names is shorter
  than its list of left images never returns: the length promises indices that the
  item access refuses with \<open>IndexError\<close>, and the pass aborts there or earlier.
\<close>

theorem stereo_pass_short_lists:
  assumes "length (right self) < length (left self) \<or> length (name self) < length (left self)"
  shows "\<not> returns (fst (run_pass (stereo_dataset self) 0 [] g))"
proof -
  from fetched_stereo_short [OF assms, of g] obtain i where
    "i < myImageFloder_len self" "fetched_stereo self g i = Inl IndexError" by blast
  then have "\<not> list_all returns (map (fetched_stereo self g) [0..<myImageFloder_len self])"
    by (auto simp: list_all_iff intro!: bexI [of _ i])
  with stereo_pass_seq [of self g] show ?thesis by (simp add: seq_results_returns_iff)
qed

theorem stereo_pass_short_lists_witness:
  "\<not> returns (fst (run_pass (stereo_dataset
      (myImageFloder_init [''a'', ''b''] [''a''] [] True [''n'', ''m''] True
        (\<lambda>path. Inr (ex_img 500 375 black)) (\<lambda>path. Inl IOError))) 0 [] ex_rng))"
  by (rule stereo_pass_short_lists) (simp add: myImageFloder_init_def)

text \<open>
  C37: The indices of both datasets are those of a Python list. An index from the
  length on, or below minus the length, raises \<open>IndexError\<close> before anything is loaded
  or drawn: the generator is as before. An index from minus the length up to \<open>-1\<close> is
  served like the index plus the length; for the stereo dataset this needs the lists
  of right images, names and disparity images as long as the list of left images,
  since every list wraps a negative index by its own length.
\<close>

theorem index_contract:
  "(index < - int (myPointData_len self) \<or> int (myPointData_len self) \<le> index \<longrightarrow>
      myPointData_getitem_st fs self index g = (Inl IndexError, g)) \<and>
   (0 \<le> index \<and> index < int (myPointData_len self) \<longrightarrow>
      myPointData_getitem_st fs self (index - int (myPointData_len self)) g =
        myPointData_getitem_st fs self index g) \<and>
   (index < - int (myImageFloder_len st) \<or> int (myImageFloder_len st) \<le> index \<longrightarrow>
      myImageFloder_getitem_st st index g = (Inl IndexError, g)) \<and>
   (0 \<le> index \<and> index < int (myImageFloder_len st) \<and>
    length (right st) = length (left st) \<and> length (name st) = length (left st) \<and>
    (load st \<or> length (disp_L st) = length (left st)) \<longrightarrow>
      myImageFloder_getitem_st st (index - int (myImageFloder_len st)) g =
        myImageFloder_getitem_st st index g)"
  by (simp add: point_getitem_wrap stereo_getitem_wrap)
    (simp add: myPointData_getitem_st_def myPointData_len_def myImageFloder_getitem_st_def
      myImageFloder_len_def py_index_outside)


theorem index_contract_witness:
  "myPointData_getitem_st ex_fs (ex_data True True) 1 ex_rng = (Inl IndexError, ex_rng) \<and>
   myPointData_getitem_st ex_fs (ex_data True True) (- 1) ex_rng =
     myPointData_getitem_st ex_fs (ex_data True True) 0 ex_rng"
  using index_contract [of 1 "ex_data True True" ex_fs ex_rng]
    index_contract [of 0 "ex_data True True" ex_fs ex_rng]
  by (simp add: myPointData_len_def)

end
