(* ===== verification/Getitem_Errors.thy ===== *)
theory Getitem_Errors
  imports Point_Data Stereo_Data
begin

text \<open>
  Which exception an item access raises. Both \<^verbatim>\<open>__getitem__\<close> methods of
  \<^verbatim>\<open>src/KITTILoader.py\<close> are straight-line code, so the exception of a call is that of
  the first statement that fails. This theory writes the failure conditions of the
  statements as a list of checks over the arguments of the call, in the order of the
  statements, and proves that the item access raises the exception of the first check
  that fails and returns when none does. A check is \<open>None\<close> when it passes and
  \<open>Some (e, k)\<close> when it fails: \<open>e\<close> is the exception of the statement and \<open>k\<close> the
  number of random draws the call has made when the statement is reached, which
  \<open>Rng_Errors\<close> shows to be where a failed call leaves the generator. The lemmas
  \<open>block_cases\<close> give the result of every block of the accesses on all its branches.
  The last section reads off the checks which exceptions the point item access can
  raise at all.
\<close>

section \<open>Ordered checks\<close>

text \<open>
  \<open>err_of\<close> and \<open>val_of\<close> are the two halves of a result. \<open>first_error\<close> is the outcome
  of a list of checks. \<open>fails b e\<close> is the check that fails with \<open>e\<close> when \<open>b\<close> holds,
  \<open>absent v e\<close> the one that fails when the value \<open>v\<close> is missing, \<open>raised m k\<close> the one
  that fails with the exception of the result \<open>m\<close>, and \<open>need v c\<close> applies the check \<open>c\<close>
  to a value that an earlier check has shown to be there.
\<close>

type_synonym failure = "py_error \<times> nat"

definition err_of :: "'a result \<Rightarrow> py_error option" where
  "err_of m = (case m of Inl e \<Rightarrow> Some e | Inr x \<Rightarrow> None)"

definition val_of :: "'a result \<Rightarrow> 'a option" where
  "val_of m = (case m of Inl e \<Rightarrow> None | Inr x \<Rightarrow> Some x)"

primrec first_error :: "'e option list \<Rightarrow> 'e option" where
  "first_error [] = None"
| "first_error (c # cs) = (case c of Some e \<Rightarrow> Some e | None \<Rightarrow> first_error cs)"

definition fails :: "bool \<Rightarrow> 'e \<Rightarrow> 'e option" where
  "fails b e = (if b then Some e else None)"

definition absent :: "'a option \<Rightarrow> 'e \<Rightarrow> 'e option" where
  "absent v e = (case v of None \<Rightarrow> Some e | Some x \<Rightarrow> None)"

definition need :: "'a option \<Rightarrow> ('a \<Rightarrow> 'e option) \<Rightarrow> 'e option" where
  "need v c = (case v of None \<Rightarrow> None | Some x \<Rightarrow> c x)"

definition raised :: "'a result \<Rightarrow> nat \<Rightarrow> failure option" where
  "raised m k = (case m of Inl e \<Rightarrow> Some (e, k) | Inr x \<Rightarrow> None)"

text \<open>
  \<^verbatim>\<open>xs[i]\<close>: the check of the index, and the entry it selects. Both item accesses
  index their lists before they draw.
\<close>

definition out_of_range :: "'a list \<Rightarrow> int \<Rightarrow> failure option" where
  "out_of_range xs i = fails (i < - int (length xs) \<or> int (length xs) \<le> i) (IndexError, 0)"

text \<open>
  The draws \<^verbatim>\<open>myPointData.__getitem__\<close> has made when it enters the flip, when it
  enters the shift, and when it has left the shift.
\<close>

definition draws_to_flip :: "myPointData \<Rightarrow> nat" where
  "draws_to_flip self = nat (num_point self)"

definition draws_to_shift :: "myPointData \<Rightarrow> nat" where
  "draws_to_shift self = draws_to_flip self + (if random_flip self then 1 else 0)"

definition draws_to_end :: "myPointData \<Rightarrow> nat" where
  "draws_to_end self = draws_to_shift self + (if random_shift self then 1 else 0)"

definition item_at :: "'a list \<Rightarrow> int \<Rightarrow> 'a option" where
  "item_at xs i = val_of (py_index xs i)"

section \<open>The checks of the point item access\<close>

text \<open>
  The statements of \<^verbatim>\<open>myPointData.__getitem__\<close> that can fail, in four groups as the
  values they depend on become available: \<open>point_checks\<close> for the path and the file,
  \<open>record_checks\<close> for the keys read first, \<open>cloud_checks\<close> for the sampling of the
  cloud \<open>pts\<close> with the labels \<open>seg\<close> and the two keys read next, \<open>box_checks\<close> for the
  augmentation of the centre \<open>c\<close>, the size, the two rotations and the heading.
\<close>

definition box_checks ::
  "myPointData \<Rightarrow> draws \<Rightarrow> point_record \<Rightarrow> ndarray \<Rightarrow> real list \<Rightarrow> failure option list" where
  "box_checks self rnd d pts c =
     [fails (flipped self rnd \<and> (ncols pts = 0 \<or> c = [])) (IndexError, draws_to_shift self),
      fails (random_shift self \<and> length c < 2) (IndexError, draws_to_shift self),
      fails (random_shift self \<and> (ncols pts < 3 \<or> length c < 3))
        (IndexError, draws_to_end self),
      absent (box3d_size d) (KeyError, draws_to_end self),
      need (box3d_size d) (\<lambda>sz.
        fails (length sz \<noteq> 3 \<and> length sz \<noteq> 1) (ValueError, draws_to_end self)),
      fails (ncols pts < 3) (IndexError, draws_to_end self),
      fails (length c < 3) (IndexError, draws_to_end self),
      fails (num_angle self = 0) (ZeroDivisionError, draws_to_end self)]"

definition cloud_checks ::
  "myPointData \<Rightarrow> draws \<Rightarrow> point_record \<Rightarrow> ndarray \<Rightarrow> int list \<Rightarrow> failure option list" where
  "cloud_checks self rnd d pts seg =
     [fails (num_point self < 0 \<or> nrows pts = 0 \<and> num_point self \<noteq> 0) (ValueError, 0),
      fails (list_ex (\<lambda>i. length seg \<le> chosen rnd (nrows pts) i) [0..<nat (num_point self)])
        (IndexError, draws_to_flip self),
      absent (box3d_center d) (KeyError, draws_to_flip self),
      absent (heading d) (KeyError, draws_to_flip self),
      need (box3d_center d) (\<lambda>c. first_error (box_checks self rnd d pts c))]"

definition record_checks :: "myPointData \<Rightarrow> draws \<Rightarrow> point_record \<Rightarrow> failure option list" where
  "record_checks self rnd d =
     [absent (img_id d) (KeyError, 0),
      absent (frustum_angle d) (KeyError, 0),
      absent (stored_points self d) (KeyError, 0),
      absent (stored_labels self d) (KeyError, 0),
      need (stored_points self d) (\<lambda>pts. need (stored_labels self d) (\<lambda>seg.
        first_error (cloud_checks self rnd d pts seg)))]"

definition point_checks ::
  "point_fs \<Rightarrow> draws \<Rightarrow> myPointData \<Rightarrow> int \<Rightarrow> failure option list" where
  "point_checks fs rnd self index =
     [out_of_range (points self) index,
      need (item_at (points self) index) (\<lambda>point. absent (fs point) (IOError, 0)),
      need (item_at (points self) index) (\<lambda>point. need (fs point) (\<lambda>d.
        first_error (record_checks self rnd d)))]"

section \<open>The checks of the stereo item access\<close>

text \<open>
  The statements of \<^verbatim>\<open>myImageFloder.__getitem__\<close> that can fail: the three list
  accesses, the two loads, the access and the load of the disparity unless the dataset
  is in load mode, and in training mode the two draws of the crop origin, the second
  of which is reached after one draw. No check mentions the outcome of a draw.
\<close>

definition stereo_checks :: "myImageFloder \<Rightarrow> int \<Rightarrow> failure option list" where
  "stereo_checks self index =
     [out_of_range (left self) index,
      out_of_range (right self) index,
      out_of_range (name self) index,
      need (item_at (left self) index) (\<lambda>l. raised (loader self l) 0),
      need (item_at (right self) index) (\<lambda>r. raised (loader self r) 0),
      if load self then None else out_of_range (disp_L self) index,
      if load self then None
      else need (item_at (disp_L self) index) (\<lambda>disp. raised (dploader self disp) 0),
      need (item_at (left self) index) (\<lambda>l. need (val_of (loader self l)) (\<lambda>left_img.
        fails (training self \<and> im_w left_img < 512) (ValueError, 0))),
      need (item_at (left self) index) (\<lambda>l. need (val_of (loader self l)) (\<lambda>left_img.
        fails (training self \<and> im_h left_img < 256) (ValueError, 1)))]"

section \<open>The exceptions of the point item access\<close>

text \<open>The exceptions some statement of \<^verbatim>\<open>myPointData.__getitem__\<close> raises.\<close>

definition point_errors :: "py_error set" where
  "point_errors = {IndexError, IOError, KeyError, ValueError, ZeroDivisionError}"

section \<open>Examples\<close>

text \<open>
  A stored sample with an empty centre and without the key of the size, and a stereo
  dataset of two left images, one right image and no disparity, none of which loads.
\<close>

definition ex_bad_record :: point_record where
  "ex_bad_record = ex_record\<lparr>box3d_center := Some [], box3d_size := None\<rparr>"

definition ex_bad_stereo :: myImageFloder where
  "ex_bad_stereo =
     myImageFloder_init [''a'', ''b''] [''a''] [] True [''n'', ''m''] False
       (\<lambda>path. Inl IOError) (\<lambda>path. Inl IOError)"

section \<open>Laws of the checks\<close>

named_theorems block_cases "the result of a block on every branch"

lemma err_of_simps [simp]: "err_of (Inl e) = Some e" "err_of (Inr x) = None"
  by (simp_all add: err_of_def)

lemma val_of_simps [simp]: "val_of (Inl e) = None" "val_of (Inr x) = Some x"
  by (simp_all add: val_of_def)

lemma fails_simps [simp]: "fails True e = Some e" "fails False e = None"
  by (simp_all add: fails_def)

lemma absent_simps [simp]: "absent None e = Some e" "absent (Some x) e = None"
  by (simp_all add: absent_def)

lemma need_simps [simp]: "need None c = None" "need (Some x) c = c x"
  by (simp_all add: need_def)

lemma raised_simps [simp]: "raised (Inl e) k = Some (e, k)" "raised (Inr x) k = None"
  by (simp_all add: raised_def)

lemma map_fst_raised [simp]: "map_option fst (raised m k) = err_of m"
  by (cases m) simp_all

lemma first_error_last [simp]: "(case c of None \<Rightarrow> first_error [] | Some e \<Rightarrow> Some e) = c"
  by (cases c) simp_all

lemma first_error_append:
  "first_error (cs @ ds) = (case first_error cs of Some e \<Rightarrow> Some e | None \<Rightarrow> first_error ds)"
  by (induction cs) (simp_all split: option.splits)

lemma map_option_first_error:
  "map_option f (first_error cs) = first_error (map (map_option f) cs)"
  by (induction cs) (simp_all split: option.splits)

lemma first_error_mem:
  "first_error cs = Some e \<Longrightarrow> Some e \<in> set cs" "Some e = first_error cs \<Longrightarrow> Some e \<in> set cs"
  by (induction cs) (auto split: option.splits)

lemma first_error_None_iff: "first_error cs = None \<longleftrightarrow> (\<forall>c \<in> set cs. c = None)"
  by (induction cs) (auto split: option.splits)

lemma first_error_Some_iff:
  "first_error cs = Some e \<longleftrightarrow> (\<exists>n ds. cs = replicate n None @ Some e # ds)"
proof (induction cs)
  case Nil
  show ?case by simp
next
  case (Cons c cs)
  show ?case
  proof (cases c)
    case None
    have "(\<exists>n ds. c # cs = replicate n None @ Some e # ds) \<longleftrightarrow>
        (\<exists>n ds. cs = replicate n None @ Some e # ds)" (is "?L \<longleftrightarrow> ?R")
    proof
      assume ?L
      then obtain n ds where "c # cs = replicate n None @ Some e # ds" by blast
      with None show ?R by (cases n) auto
    next
      assume ?R
      then obtain n ds where "cs = replicate n None @ Some e # ds" by blast
      with None have "c # cs = replicate (Suc n) None @ Some e # ds" by simp
      then show ?L by blast
    qed
    with None Cons.IH show ?thesis by simp
  next
    case (Some e')
    have "(\<exists>n ds. c # cs = replicate n None @ Some e # ds) \<longleftrightarrow> e' = e" (is "?L \<longleftrightarrow> _")
    proof
      assume ?L
      then obtain n ds where "c # cs = replicate n None @ Some e # ds" by blast
      with Some show "e' = e" by (cases n) auto
    next
      assume "e' = e"
      with Some have "c # cs = replicate 0 None @ Some e # cs" by simp
      then show ?L by blast
    qed
    with Some show ?thesis by simp
  qed
qed

lemma err_of_rbind_append:
  assumes "err_of m = map_option fst (first_error cs)"
    and "\<And>x. m = Inr x \<Longrightarrow> err_of (f x) = map_option fst (first_error ds)"
  shows "err_of (rbind m f) = map_option fst (first_error (cs @ ds))"
proof (cases m)
  case (Inl e)
  with assms(1) show ?thesis by (cases "first_error cs") (auto simp: first_error_append)
next
  case (Inr x)
  with assms(1) have "first_error cs = None" by simp
  with Inr assms(2) show ?thesis by (simp add: first_error_append)
qed

section \<open>Blocks on every branch\<close>

lemma select_source_cases [block_cases]:
  "select_source self d =
     (case stored_points self d of None \<Rightarrow> Inl KeyError
      | Some pts \<Rightarrow> (case stored_labels self d of None \<Rightarrow> Inl KeyError
          | Some seg \<Rightarrow> Inr (pts, seg)))"
  by (simp add: select_source_def stored_points_def stored_labels_def split: option.splits)

lemma mod_not_ge: "0 < (n::nat) \<Longrightarrow> \<not> n \<le> k mod n"
  by (simp add: not_le)

lemma subsample_cases [block_cases]:
  "subsample self rnd pts seg =
     (if num_point self < 0 \<or> nrows pts = 0 \<and> num_point self \<noteq> 0 then Inl ValueError
      else if list_ex (\<lambda>i. length seg \<le> chosen rnd (nrows pts) i) [0..<nat (num_point self)]
        then Inl IndexError
      else Inr (pts\<lparr>rows := map (\<lambda>i. rows pts ! chosen rnd (nrows pts) i)
                  [0..<nat (num_point self)]\<rparr>,
                map (\<lambda>i. seg ! chosen rnd (nrows pts) i) [0..<nat (num_point self)]))"
  by (auto simp: subsample_def np_random_choice_def np_take_rows_def np_take_def list_all_iff
      list_ex_iff chosen_def nrows_def comp_def mod_not_ge not_less intro!: bexI)

lemma flip_aug_cases [block_cases]:
  "flip_aug self rnd pts c h =
     (if flipped self rnd \<and> (ncols pts = 0 \<or> c = []) then Inl IndexError
      else Inr (pts\<lparr>rows := map (flip_fn self rnd) (rows pts)\<rparr>, flip_fn self rnd c,
             flip_head self rnd h))"
proof (cases "flip_aug self rnd pts c h")
  case (Inr r)
  then show ?thesis by (cases r) (auto simp: flip_aug_Inr_iff)
next
  case (Inl e)
  then show ?thesis
    by (auto simp: flip_aug_def flipped_def np_col_map_def vec_map_at_def split: if_splits)
qed

lemma shift_aug_cases [block_cases]:
  "shift_aug self rnd pts c =
     (if random_shift self \<and> (length c < 3 \<or> ncols pts < 3) then Inl IndexError
      else Inr (pts\<lparr>rows := map (shift_fn self rnd c) (rows pts)\<rparr>, shift_fn self rnd c c))"
proof (cases "shift_aug self rnd pts c")
  case (Inr r)
  then show ?thesis by (cases r) (auto simp: shift_aug_Inr_iff)
next
  case (Inl e)
  then show ?thesis
    by (auto simp: shift_aug_def np_col_map_def vec_map_at_def vec_get_def Let_def
        split: if_splits)
qed

lemma size2class_cases [block_cases]:
  "size2class sz =
     (if length sz \<noteq> 3 \<and> length sz \<noteq> 1 then Inl ValueError
      else Inr (if length sz = 3 then map2 (-) sz box_mean else map (\<lambda>y. hd sz - y) box_mean))"
  by (simp add: size2class_def np_sub_vec_def)

lemma angle2class_cases [block_cases]:
  "angle2class a n =
     (if n = 0 then Inl ZeroDivisionError else Inr (angle_class a n, angle_residual a n))"
  by (simp add: angle2class_zero angle2class_Inr)

lemma flip_fn_Nil_iff [simp]: "flip_fn self rnd c = [] \<longleftrightarrow> c = []"
  by (simp add: flip_fn_def flip_row_def)

section \<open>The point item access\<close>

text \<open>
  One lemma per group of checks, from the last statements to the first: the exception
  of the rest of the body, whatever tuple it builds at the end, is the outcome of the
  checks of the group.
\<close>

lemma box_decides:
  "err_of (rbind (flip_aug self rnd pts c h) (\<lambda>(pts, center, head).
     rbind (shift_aug self rnd pts center) (\<lambda>(pts, center).
     rbind (dict_get (box3d_size d)) (\<lambda>sz.
     rbind (size2class sz) (\<lambda>res.
     rbind (rotate_pc_along_y pts rot) (\<lambda>pts_rot.
     rbind (rotate_pc_along_y (np_expand_dims0 center) rot) (\<lambda>center_rot.
     rbind (angle2class (head - rot) (num_angle self)) (\<lambda>(angle_c, angle_r).
     Inr (g pts_rot center_rot angle_c angle_r res))))))))) =
   map_option fst (first_error (box_checks self rnd d pts c))"
  by (cases "box3d_size d")
    (auto simp: box_checks_def fails_def block_cases rotate_pc_along_y_cases not_le)

lemma box_checks_cong:
  "ncols pts' = ncols pts \<Longrightarrow> box_checks self rnd d pts' c = box_checks self rnd d pts c"
  by (simp add: box_checks_def)

lemma cloud_decides:
  "err_of (rbind (subsample self rnd pts seg) (\<lambda>(pts, seg).
     rbind (dict_get (box3d_center d)) (\<lambda>center.
     rbind (dict_get (heading d)) (\<lambda>head.
     rbind (flip_aug self rnd pts center head) (\<lambda>(pts, center, head).
     rbind (shift_aug self rnd pts center) (\<lambda>(pts, center).
     rbind (dict_get (box3d_size d)) (\<lambda>sz.
     rbind (size2class sz) (\<lambda>res.
     rbind (rotate_pc_along_y pts rot) (\<lambda>pts_rot.
     rbind (rotate_pc_along_y (np_expand_dims0 center) rot) (\<lambda>center_rot.
     rbind (angle2class (head - rot) (num_angle self)) (\<lambda>(angle_c, angle_r).
     Inr (g seg pts_rot center_rot angle_c angle_r res)))))))))))) =
   map_option fst (first_error (cloud_checks self rnd d pts seg))"
proof (cases "subsample self rnd pts seg")
  case (Inl e)
  then show ?thesis
    by (auto simp: cloud_checks_def subsample_cases fails_def split: if_splits)
next
  case (Inr r)
  then obtain pts' seg' where r: "subsample self rnd pts seg = Inr (pts', seg')"
    "ncols pts' = ncols pts"
    by (cases r) (auto simp: subsample_cases split: if_splits)
  from r(1) have ok: "\<not> (num_point self < 0 \<or> nrows pts = 0 \<and> num_point self \<noteq> 0)"
    "\<not> list_ex (\<lambda>i. length seg \<le> chosen rnd (nrows pts) i) [0..<nat (num_point self)]"
    by (auto simp: subsample_cases split: if_splits)
  show ?thesis
    by (cases "box3d_center d"; cases "heading d")
      (simp_all add: r(1) ok cloud_checks_def box_decides [where d = d] box_checks_cong [OF r(2)])
qed

lemma record_decides:
  "err_of (rbind (dict_get (img_id d)) (\<lambda>iid.
     rbind (dict_get (frustum_angle d)) (\<lambda>fa.
     let rot = pi / 2 + fa in
     rbind (select_source self d) (\<lambda>(pts, seg).
     rbind (subsample self rnd pts seg) (\<lambda>(pts, seg).
     rbind (dict_get (box3d_center d)) (\<lambda>center.
     rbind (dict_get (heading d)) (\<lambda>head.
     rbind (flip_aug self rnd pts center head) (\<lambda>(pts, center, head).
     rbind (shift_aug self rnd pts center) (\<lambda>(pts, center).
     rbind (dict_get (box3d_size d)) (\<lambda>sz.
     rbind (size2class sz) (\<lambda>res.
     rbind (rotate_pc_along_y pts rot) (\<lambda>pts_rot.
     rbind (rotate_pc_along_y (np_expand_dims0 center) rot) (\<lambda>center_rot.
     rbind (angle2class (head - rot) (num_angle self)) (\<lambda>(angle_c, angle_r).
     Inr (g iid rot seg pts_rot center_rot angle_c angle_r res))))))))))))))) =
   map_option fst (first_error (record_checks self rnd d))"
  by (cases "img_id d"; cases "frustum_angle d"; cases "stored_points self d";
      cases "stored_labels self d")
    (simp_all add: record_checks_def select_source_cases Let_def cloud_decides [where d = d])

lemma myPointData_getitem_decides_aux:
  "err_of (myPointData_getitem fs rnd self index) =
     map_option fst (first_error (point_checks fs rnd self index))"
proof (cases "py_index (points self) index")
  case (Inl e)
  then have "out_of_range (points self) index = Some (e, 0)"
    by (auto simp: py_index_def out_of_range_def split: if_splits)
  with Inl show ?thesis
    by (simp add: myPointData_getitem_def point_checks_def)
next
  case (Inr point)
  then have "out_of_range (points self) index = None" "item_at (points self) index = Some point"
    by (auto simp: item_at_def py_index_def out_of_range_def split: if_splits)
  with Inr show ?thesis
    unfolding myPointData_getitem_def point_checks_def
    by (cases "fs point") (simp_all add: point_loader_def record_decides)
qed

section \<open>The stereo item access\<close>

lemma py_index_cases:
  obtains (outside) "py_index xs i = Inl IndexError" "out_of_range xs i = Some (IndexError, 0)"
      "item_at xs i = None"
    | (item) x where "py_index xs i = Inr x" "out_of_range xs i = None" "item_at xs i = Some x"
  by (cases "py_index xs i") (auto simp: item_at_def py_index_def out_of_range_def split: if_splits)

lemma result_cases:
  obtains (raises) e where "m = Inl e" "err_of m = Some e" "val_of m = None"
    | (returns) x where "m = Inr x" "err_of m = None" "val_of m = Some x"
  by (cases m) simp_all

lemma train_item_cases [block_cases]:
  "train_item rnd L R D nm =
     (if im_w L < 512 \<or> im_h L < 256 then Inl ValueError
      else Inr (Train_item (norm_tensor (window black L (crop_x rnd L) (crop_y rnd L) 512 256))
             (norm_tensor (window black R (crop_x rnd L) (crop_y rnd L) 512 256))
             (train_disp D (crop_x rnd L) (crop_y rnd L)) nm))"
  by (cases "train_item rnd L R D nm")
    (auto simp: train_item_Inl_iff train_item_Inr_iff not_less)

lemma load_disparity_raised:
  "first_error [if load self then None else out_of_range (disp_L self) index,
     if load self then None
     else need (item_at (disp_L self) index) (\<lambda>disp. raised (dploader self disp) 0)] =
   raised (load_disparity self index) 0"
  by (cases rule: py_index_cases [of "disp_L self" index];
      cases rule: result_cases [of "dploader self (the (item_at (disp_L self) index))"])
    (simp_all add: load_disparity_def)

lemma load_disparity_decides:
  "err_of (load_disparity self index) =
     map_option fst (first_error [if load self then None else out_of_range (disp_L self) index,
       if load self then None
       else need (item_at (disp_L self) index) (\<lambda>disp. raised (dploader self disp) 0)])"
  by (simp only: load_disparity_raised map_fst_raised)

lemma item_decides:
  "err_of (if training self then train_item rnd L R D nm else eval_item L R D nm) =
     map_option fst (first_error
       [fails (training self \<and> im_w L < 512) (ValueError, 0),
        fails (training self \<and> im_h L < 256) (ValueError, 1)])"
  by (auto simp: train_item_cases eval_item_eq fails_def)

lemma myImageFloder_getitem_decides_aux:
  "err_of (myImageFloder_getitem rnd self index) =
     map_option fst (first_error (stereo_checks self index))"
proof (cases rule: py_index_cases [of "left self" index])
  case outside
  then show ?thesis by (simp add: myImageFloder_getitem_def stereo_checks_def)
next
  case l: (item l)
  show ?thesis
  proof (cases rule: py_index_cases [of "right self" index])
    case outside
    with l show ?thesis by (simp add: myImageFloder_getitem_def stereo_checks_def)
  next
    case r: (item r)
    show ?thesis
    proof (cases rule: py_index_cases [of "name self" index])
      case outside
      with l r show ?thesis by (simp add: myImageFloder_getitem_def stereo_checks_def)
    next
      case n: (item nm)
      have "err_of (rbind (load_disparity self index) (\<lambda>dataL.
          if training self then train_item rnd L R dataL nm else eval_item L R dataL nm)) =
        map_option fst (first_error
          ([if load self then None else out_of_range (disp_L self) index,
            if load self then None
            else need (item_at (disp_L self) index) (\<lambda>disp. raised (dploader self disp) 0)] @
           [fails (training self \<and> im_w L < 512) (ValueError, 0),
            fails (training self \<and> im_h L < 256) (ValueError, 1)]))" for L R
        by (rule err_of_rbind_append [OF load_disparity_decides]) (rule item_decides)
      note tail = this [simplified]
      show ?thesis
        unfolding myImageFloder_getitem_def stereo_checks_def
        by (cases rule: result_cases [of "loader self l"];
            cases rule: result_cases [of "loader self r"])
          (simp_all add: l r n tail)
    qed
  qed
qed

section \<open>Properties\<close>

lemma raises_err_of: "raises m e \<longleftrightarrow> err_of m = Some e"
  by (cases m) auto

lemma returns_err_of: "returns m \<longleftrightarrow> err_of m = None"
  by (cases m) auto

text \<open>
  C13: The exception of the point item access is that of the first check that fails,
  in the order of the statements: the index, the file, the keys \<open>img_id\<close>,
  \<open>frustum_angle\<close>, points and labels, the sample size, the labels of the chosen
  points, the keys of centre and heading, the flip, the shift, the key and the length
  of the size, the columns of the points, the length of the centre, the number of
  angle classes. The access raises \<open>e\<close> exactly when the first failing check fails
  with \<open>e\<close>, and it returns exactly when every check passes.
\<close>

theorem myPointData_getitem_first_error:
  "(raises (myPointData_getitem fs rnd self index) e \<longleftrightarrow>
      map_option fst (first_error (point_checks fs rnd self index)) = Some e) \<and>
   (returns (myPointData_getitem fs rnd self index) \<longleftrightarrow>
      first_error (point_checks fs rnd self index) = None)"
  by (simp add: raises_err_of returns_err_of myPointData_getitem_decides_aux)

theorem myPointData_getitem_first_error_witness:
  "raises (myPointData_getitem (\<lambda>path. Some ex_bad_record) ex_draws (ex_data True False) 0)
     IndexError \<and>
   raises (myPointData_getitem (\<lambda>path. Some ex_bad_record) ex_draws (ex_data False False) 0)
     KeyError"
  using myPointData_getitem_first_error
      [of "\<lambda>path. Some ex_bad_record" ex_draws "ex_data True False" 0 IndexError]
    myPointData_getitem_first_error
      [of "\<lambda>path. Some ex_bad_record" ex_draws "ex_data False False" 0 KeyError]
  by (simp add: point_checks_def record_checks_def cloud_checks_def box_checks_def
      out_of_range_def item_at_def py_index_def ex_bad_record_def ex_record_def
      stored_points_def stored_labels_def flipped_def chosen_def ex_draws_def nrows_def
      list_ex_iff not_le)

text \<open>
  C29: The exception of the stereo item access is that of the first check that fails:
  the index in the lists of left images, right images and names, the load of the left
  and of the right image, the index in the list of disparities and the load of the
  disparity unless the dataset is in load mode, and in training mode the size of the
  left image, which fails with \<open>ValueError\<close> below 512 by 256. The access returns
  exactly when every check passes, and neither depends on the random draws.
\<close>

theorem myImageFloder_getitem_first_error:
  "(raises (myImageFloder_getitem rnd self index) e \<longleftrightarrow>
      map_option fst (first_error (stereo_checks self index)) = Some e) \<and>
   (returns (myImageFloder_getitem rnd self index) \<longleftrightarrow>
      first_error (stereo_checks self index) = None)"
  by (simp add: raises_err_of returns_err_of myImageFloder_getitem_decides_aux)

theorem myImageFloder_getitem_first_error_witness:
  "raises (myImageFloder_getitem ex_crop ex_bad_stereo 1) IndexError \<and>
   raises (myImageFloder_getitem ex_crop ex_bad_stereo 0) IOError"
  using myImageFloder_getitem_first_error [of ex_crop ex_bad_stereo 1 IndexError]
    myImageFloder_getitem_first_error [of ex_crop ex_bad_stereo 0 IOError]
  by (simp add: stereo_checks_def ex_bad_stereo_def myImageFloder_init_def out_of_range_def
      item_at_def py_index_def)

section \<open>Which exceptions can be raised\<close>

text \<open>Every check of a list names an exception of \<open>point_errors\<close>.\<close>

lemmas check_defs = fails_def absent_def need_def

lemma box_checks_errors:
  "Some (e, k) \<in> set (box_checks self rnd d pts c) \<Longrightarrow> e \<in> point_errors"
  by (auto simp: box_checks_def point_errors_def check_defs split: if_splits option.splits)

lemma cloud_checks_errors:
  "Some (e, k) \<in> set (cloud_checks self rnd d pts seg) \<Longrightarrow> e \<in> point_errors"
  by (auto dest!: first_error_mem dest: box_checks_errors
      simp: cloud_checks_def check_defs split: if_splits option.splits)
    (simp_all add: point_errors_def)

lemma record_checks_errors:
  "Some (e, k) \<in> set (record_checks self rnd d) \<Longrightarrow> e \<in> point_errors"
  by (auto dest!: first_error_mem dest: cloud_checks_errors
      simp: record_checks_def check_defs split: if_splits option.splits)
    (simp_all add: point_errors_def)

lemma point_checks_errors:
  "Some (e, k) \<in> set (point_checks fs rnd self index) \<Longrightarrow> e \<in> point_errors"
  by (auto dest!: first_error_mem dest: record_checks_errors
      simp: point_checks_def check_defs out_of_range_def split: if_splits option.splits)
    (simp_all add: point_errors_def)

text \<open>
  Each of them is raised: by an index beyond the list, a file that does not load, a
  record without the heading, a negative number of points, and no angle class.
\<close>

lemmas ex_checks = point_checks_def record_checks_def cloud_checks_def box_checks_def
  out_of_range_def item_at_def py_index_def ex_record_def stored_points_def stored_labels_def
  flipped_def chosen_def ex_draws_def nrows_def list_ex_iff not_le check_defs

lemma point_errors_raised:
  "raises (myPointData_getitem ex_fs ex_draws (ex_data False False) 1) IndexError"
  "raises (myPointData_getitem (\<lambda>path. None) ex_draws (ex_data False False) 0) IOError"
  "raises (myPointData_getitem (\<lambda>path. Some (ex_record\<lparr>heading := None\<rparr>)) ex_draws
     (ex_data False False) 0) KeyError"
  "raises (myPointData_getitem ex_fs ex_draws ((ex_data False False)\<lparr>num_point := - 1\<rparr>) 0)
     ValueError"
  "raises (myPointData_getitem ex_fs ex_draws ((ex_data False False)\<lparr>num_angle := 0\<rparr>) 0)
     ZeroDivisionError"
  unfolding raises_err_of myPointData_getitem_decides_aux
  by (simp_all add: ex_checks ex_fs_def)

text \<open>
  C30: The exceptions of the point item access are exactly five: there are a file
  system, draws, a dataset and an index for which \<^verbatim>\<open>myPointData.__getitem__\<close> raises
  an exception if and only if it is \<open>IndexError\<close>, \<open>IOError\<close>, \<open>KeyError\<close>, \<open>ValueError\<close>
  or \<open>ZeroDivisionError\<close>; in particular no assertion of \<^verbatim>\<open>angle2class\<close> can fail
  there and no \<open>RuntimeError\<close> reaches the caller.
\<close>

theorem myPointData_getitem_signature:
  "(\<exists>fs rnd self index. raises (myPointData_getitem fs rnd self index) e) \<longleftrightarrow>
     e \<in> point_errors"
proof
  assume "\<exists>fs rnd self index. raises (myPointData_getitem fs rnd self index) e"
  then obtain fs rnd self index k
    where "first_error (point_checks fs rnd self index) = Some (e, k)"
    by (auto simp: raises_err_of myPointData_getitem_decides_aux)
  thus "e \<in> point_errors" by (intro point_checks_errors first_error_mem(1))
next
  assume "e \<in> point_errors"
  with point_errors_raised
  show "\<exists>fs rnd self index. raises (myPointData_getitem fs rnd self index) e"
    unfolding point_errors_def by blast
qed

theorem myPointData_getitem_signature_witness:
  "(\<exists>fs rnd self index. raises (myPointData_getitem fs rnd self index) KeyError) \<and>
   \<not> (\<exists>fs rnd self index. raises (myPointData_getitem fs rnd self index) AssertionError)"
  using myPointData_getitem_signature [of KeyError] myPointData_getitem_signature [of AssertionError]
  by (simp add: point_errors_def)

end
