(* ===== verification/Rng_Errors.thy ===== *)
theory Rng_Errors
  imports Rng_State Getitem_Errors
begin

text \<open>
  Where an item access leaves the generator, on every path. \<open>Rng_State\<close> shows that the
  accesses with the generator threaded through their statements return and raise what
  the definitions over the records of draws do, and how many draws a returning call
  has made. This theory adds the calls that raise: a failed call has made the draws
  that precede the failing statement, the number the checks of \<open>Getitem_Errors\<close> carry.
  So the accesses of \<open>Rng_State\<close> are determined completely: result and generator are
  functions of the arguments and of the generator before the call.
\<close>

section \<open>Draws made\<close>

text \<open>
  \<open>draws_made c d\<close>: the draws of a call whose checks have the outcome \<open>c\<close> and which
  makes \<open>d\<close> draws when it returns.
\<close>

definition draws_made :: "failure option \<Rightarrow> nat \<Rightarrow> nat" where
  "draws_made c d = (case c of Some (e, k) \<Rightarrow> k | None \<Rightarrow> d)"

lemma draws_made_simps [simp]: "draws_made (Some (e, k)) d = k" "draws_made None d = d"
  by (simp_all add: draws_made_def)

lemma draws_to_end_used: "draws_to_end self = draws_used self"
  by (simp add: draws_to_end_def draws_to_shift_def draws_to_flip_def draws_used_def)

section \<open>The drawing blocks, result and generator\<close>

text \<open>
  Each block that draws, as the pair of its result over the record of draws and of the
  generator it leaves: the sampling draws nothing when it refuses its arguments, the
  flip draws whether or not it then fails, the shift draws after it has read the first
  two entries of the centre, and the crop draws \<open>y\<close> only when the draw of \<open>x\<close> was
  accepted.
\<close>

lemma subsample_st_eq:
  assumes "choice_raw rnd = (\<lambda>i. raw_int g (drawn g + i))"
  shows "subsample_st self pts seg g =
    (subsample self rnd pts seg,
     advance (if num_point self < 0 \<or> nrows pts = 0 \<and> num_point self \<noteq> 0 then 0
              else nat (num_point self)) g)"
  using assms
  by (auto simp: subsample_st_def subsample_def sbind_def st_choice_def np_random_choice_def
      rbind_def split: sum.splits)

lemma flip_aug_st_eq:
  assumes "flip_u rnd = raw_real g (drawn g)"
  shows "flip_aug_st self pts c h g =
    (flip_aug self rnd pts c h, advance (if random_flip self then 1 else 0) g)"
  using assms
  by (auto simp: flip_aug_st_def flip_aug_def sbind_def st_random_def rbind_def
      split: sum.splits)

lemma shift_aug_st_eq:
  assumes "shift_g rnd = raw_real g (drawn g)"
  shows "shift_aug_st self pts c g =
    (shift_aug self rnd pts c, advance (if random_shift self \<and> 2 \<le> length c then 1 else 0) g)"
  using assms
  by (auto simp: shift_aug_st_def shift_aug_def shift_amount_def sbind_def st_randn_def
      rbind_def vec_get_def Let_def split: sum.splits)

lemma train_item_st_eq:
  "train_item_st L R D nm g =
    (train_item (crop_draws_of g) L R D nm,
     advance (if im_w L < 512 then 0 else if im_h L < 256 then 1 else 2) g)"
  by (auto simp: train_item_st_def train_item_def pil_size_def Let_def sbind_def
      st_randint_def random_randint_def crop_draws_of_def pil_crop_def get_transform_Inr
      rbind_def split: sum.splits)

lemma sbind_slift_Inl: "sbind (slift (Inl e)) f = slift (Inl e)"
  by (rule ext) simp

section \<open>The generator after the point item access\<close>

text \<open>
  One lemma per group of checks, as in \<open>Getitem_Errors\<close>: the rest of the body, started
  where the draws before it have left the generator, ends with the generator advanced
  by the draws the outcome of the group tells.
\<close>

lemma box_state:
  assumes "flip_u rnd = raw_real g (drawn g + draws_to_flip self)"
    and "shift_g rnd = raw_real g (drawn g + draws_to_shift self)"
  shows "snd (sbind (flip_aug_st self pts c h) (\<lambda>(pts, center, head).
     sbind (shift_aug_st self pts center) (\<lambda>(pts, center).
     sbind (slift (dict_get (box3d_size d))) (\<lambda>sz.
     sbind (slift (size2class sz)) (\<lambda>res.
     sbind (slift (rotate_pc_along_y pts rot)) (\<lambda>pts_rot.
     sbind (slift (rotate_pc_along_y (np_expand_dims0 center) rot)) (\<lambda>center_rot.
     sbind (slift (angle2class (head - rot) (num_angle self))) (\<lambda>(angle_c, angle_r).
     slift (Inr (G pts_rot center_rot angle_c angle_r res)))))))))
       (advance (draws_to_flip self) g)) =
   advance (draws_made (first_error (box_checks self rnd d pts c)) (draws_to_end self)) g"
proof -
  have f: "flip_aug_st self pts c h (advance (draws_to_flip self) g) =
      (flip_aug self rnd pts c h, advance (draws_to_shift self) g)"
    using flip_aug_st_eq [where rnd = rnd and g = "advance (draws_to_flip self) g"] assms(1)
    by (simp add: draws_to_shift_def)
  have s: "shift_aug_st self p q (advance (draws_to_shift self) g) =
      (shift_aug self rnd p q,
       advance (draws_to_shift self + (if random_shift self \<and> 2 \<le> length q then 1 else 0)) g)"
    for p q
    using shift_aug_st_eq [where rnd = rnd and g = "advance (draws_to_shift self) g"] assms(2)
    by simp
  show ?thesis
    by (cases "box3d_size d")
      (auto simp: sbind_def f s box_checks_def fails_def block_cases rotate_pc_along_y_cases
        draws_to_end_def not_le not_less)
qed

lemma cloud_state:
  assumes "choice_raw rnd = (\<lambda>i. raw_int g (drawn g + i))"
    and "flip_u rnd = raw_real g (drawn g + draws_to_flip self)"
    and "shift_g rnd = raw_real g (drawn g + draws_to_shift self)"
  shows "snd (sbind (subsample_st self pts seg) (\<lambda>(pts, seg).
     sbind (slift (dict_get (box3d_center d))) (\<lambda>center.
     sbind (slift (dict_get (heading d))) (\<lambda>head.
     sbind (flip_aug_st self pts center head) (\<lambda>(pts, center, head).
     sbind (shift_aug_st self pts center) (\<lambda>(pts, center).
     sbind (slift (dict_get (box3d_size d))) (\<lambda>sz.
     sbind (slift (size2class sz)) (\<lambda>res.
     sbind (slift (rotate_pc_along_y pts rot)) (\<lambda>pts_rot.
     sbind (slift (rotate_pc_along_y (np_expand_dims0 center) rot)) (\<lambda>center_rot.
     sbind (slift (angle2class (head - rot) (num_angle self))) (\<lambda>(angle_c, angle_r).
     slift (Inr (G seg pts_rot center_rot angle_c angle_r res)))))))))))) g) =
   advance (draws_made (first_error (cloud_checks self rnd d pts seg)) (draws_to_end self)) g"
proof (cases "subsample self rnd pts seg")
  case (Inl e)
  then show ?thesis
    by (auto simp: sbind_def subsample_st_eq [OF assms(1)] cloud_checks_def subsample_cases
        fails_def draws_to_flip_def split: if_splits)
next
  case (Inr r)
  then obtain pts' seg' where r: "subsample self rnd pts seg = Inr (pts', seg')"
    "ncols pts' = ncols pts"
    by (cases r) (auto simp: subsample_cases split: if_splits)
  from r(1) have ok: "\<not> (num_point self < 0 \<or> nrows pts = 0 \<and> num_point self \<noteq> 0)"
    "\<not> list_ex (\<lambda>i. length seg \<le> chosen rnd (nrows pts) i) [0..<nat (num_point self)]"
    by (auto simp: subsample_cases split: if_splits)
  from ok(1) have st: "subsample_st self pts seg g =
      (Inr (pts', seg'), advance (draws_to_flip self) g)"
    by (simp add: subsample_st_eq [OF assms(1)] r(1) draws_to_flip_def)
  show ?thesis
    by (cases "box3d_center d"; cases "heading d")
      (simp_all add: sbind_def [of "subsample_st self pts seg"] st ok cloud_checks_def
        box_state [OF assms(2,3), where d = d] box_checks_cong [OF r(2)])
qed

lemma record_state:
  assumes "choice_raw rnd = (\<lambda>i. raw_int g (drawn g + i))"
    and "flip_u rnd = raw_real g (drawn g + draws_to_flip self)"
    and "shift_g rnd = raw_real g (drawn g + draws_to_shift self)"
  shows "snd (sbind (slift (dict_get (img_id d))) (\<lambda>iid.
     sbind (slift (dict_get (frustum_angle d))) (\<lambda>fa.
     let rot = pi / 2 + fa in
     sbind (slift (select_source self d)) (\<lambda>(pts, seg).
     sbind (subsample_st self pts seg) (\<lambda>(pts, seg).
     sbind (slift (dict_get (box3d_center d))) (\<lambda>center.
     sbind (slift (dict_get (heading d))) (\<lambda>head.
     sbind (flip_aug_st self pts center head) (\<lambda>(pts, center, head).
     sbind (shift_aug_st self pts center) (\<lambda>(pts, center).
     sbind (slift (dict_get (box3d_size d))) (\<lambda>sz.
     sbind (slift (size2class sz)) (\<lambda>res.
     sbind (slift (rotate_pc_along_y pts rot)) (\<lambda>pts_rot.
     sbind (slift (rotate_pc_along_y (np_expand_dims0 center) rot)) (\<lambda>center_rot.
     sbind (slift (angle2class (head - rot) (num_angle self))) (\<lambda>(angle_c, angle_r).
     slift (Inr (G iid rot seg pts_rot center_rot angle_c angle_r res))))))))))))))) g) =
   advance (draws_made (first_error (record_checks self rnd d)) (draws_to_end self)) g"
  by (cases "img_id d"; cases "frustum_angle d"; cases "stored_points self d";
      cases "stored_labels self d")
    (simp_all add: record_checks_def select_source_cases Let_def
      cloud_state [OF assms, where d = d])

lemma myPointData_getitem_st_state_aux:
  "snd (myPointData_getitem_st fs self index g) =
     advance (draws_made (first_error (point_checks fs (draws_of self g) self index))
       (draws_used self)) g"
proof -
  have rnd: "choice_raw (draws_of self g) = (\<lambda>i. raw_int g (drawn g + i))"
    "flip_u (draws_of self g) = raw_real g (drawn g + draws_to_flip self)"
    "shift_g (draws_of self g) = raw_real g (drawn g + draws_to_shift self)"
    by (simp_all add: draws_of_def draws_to_flip_def draws_to_shift_def)
  show ?thesis
    unfolding myPointData_getitem_st_def point_checks_def
    by (cases rule: py_index_cases [of "points self" index];
        cases "fs (the (item_at (points self) index))")
      (simp_all add: point_loader_def sbind_slift_Inl record_state [OF rnd] draws_to_end_used
        del: sbind_slift)
qed

section \<open>The generator after the stereo item access\<close>

lemma stereo_tail_state:
  "snd (sbind (slift (load_disparity self index)) (\<lambda>dataL.
      if training self then train_item_st L R dataL nm
      else slift (eval_item L R dataL nm)) g) =
   advance (draws_made (first_error
     ([if load self then None else out_of_range (disp_L self) index,
       if load self then None
       else need (item_at (disp_L self) index) (\<lambda>disp. raised (dploader self disp) 0)] @
      [fails (training self \<and> im_w L < 512) (ValueError, 0),
       fails (training self \<and> im_h L < 256) (ValueError, 1)])) (crop_draws_used self)) g"
  unfolding first_error_append load_disparity_raised
  by (cases "load_disparity self index")
    (auto simp: train_item_st_eq eval_item_eq fails_def crop_draws_used_def not_less)

lemma myImageFloder_getitem_st_state_aux:
  "snd (myImageFloder_getitem_st self index g) =
     advance (draws_made (first_error (stereo_checks self index)) (crop_draws_used self)) g"
  unfolding myImageFloder_getitem_st_def stereo_checks_def
  by (cases rule: py_index_cases [of "left self" index];
      cases rule: py_index_cases [of "right self" index];
      cases rule: py_index_cases [of "name self" index];
      cases rule: result_cases [of "loader self (the (item_at (left self) index))"];
      cases rule: result_cases [of "loader self (the (item_at (right self) index))"])
    (simp_all add: stereo_tail_state [simplified])

section \<open>Properties\<close>

text \<open>
  C9: The point item access with the numpy generator threaded through its statements
  is determined on every path. Its result is that of the definition over the record of
  draws, for the draws read off the tape. It leaves the generator advanced by the
  draws made before the first failing check: none when the index, the file, one of the
  first four keys or the sample size is refused, \<open>num_point\<close> when a label, the centre or
  the heading is missing, one more when \<open>random_flip\<close> is set and the flip or the read of
  the centre for the shift fails, and all of them, as many as a returning call makes,
  when anything later fails.
\<close>

theorem myPointData_getitem_st_eq:
  "myPointData_getitem_st fs self index g =
     (myPointData_getitem fs (draws_of self g) self index,
      advance (draws_made (first_error (point_checks fs (draws_of self g) self index))
        (draws_used self)) g)"
proof (rule prod_eqI)
  show "fst (myPointData_getitem_st fs self index g) =
      fst (myPointData_getitem fs (draws_of self g) self index,
        advance (draws_made (first_error (point_checks fs (draws_of self g) self index))
          (draws_used self)) g)"
    using myPointData_getitem_st_refines_aux [of fs self index g] by (simp add: refines_iff)
qed (simp add: myPointData_getitem_st_state_aux)

theorem myPointData_getitem_st_eq_witness:
  "snd (myPointData_getitem_st (\<lambda>path. Some ex_bad_record) (ex_data True False) 0 ex_rng) =
     advance 3 ex_rng \<and>
   snd (myPointData_getitem_st (\<lambda>path. Some ex_bad_record) (ex_data False False) 0 ex_rng) =
     advance 2 ex_rng"
  using myPointData_getitem_st_eq [of "\<lambda>path. Some ex_bad_record" "ex_data True False" 0 ex_rng]
    myPointData_getitem_st_eq [of "\<lambda>path. Some ex_bad_record" "ex_data False False" 0 ex_rng]
  by (simp add: point_checks_def record_checks_def cloud_checks_def box_checks_def
      out_of_range_def item_at_def py_index_def ex_bad_record_def ex_record_def
      stored_points_def stored_labels_def flipped_def chosen_def draws_of_def ex_rng_def
      nrows_def list_ex_iff mod_not_ge draws_to_shift_def draws_to_flip_def draws_to_end_def)

text \<open>
  C27: The same for the stereo item access and the generator of the module \<open>random\<close>:
  its result is that of the definition over the two recorded draws, and it leaves the
  generator where it was unless it reaches the draws of the training crop. There it
  has made no draw when the left image is narrower than 512, one when the image is
  wide enough but lower than 256, so that a refused image can cost a draw, and two
  when it returns.
\<close>

theorem myImageFloder_getitem_st_eq:
  "myImageFloder_getitem_st self index g =
     (myImageFloder_getitem (crop_draws_of g) self index,
      advance (draws_made (first_error (stereo_checks self index)) (crop_draws_used self)) g)"
proof (rule prod_eqI)
  show "fst (myImageFloder_getitem_st self index g) =
      fst (myImageFloder_getitem (crop_draws_of g) self index,
        advance (draws_made (first_error (stereo_checks self index)) (crop_draws_used self)) g)"
    using myImageFloder_getitem_st_refines_aux [of self index g] by (simp add: refines_iff)
qed (simp add: myImageFloder_getitem_st_state_aux)

theorem myImageFloder_getitem_st_eq_witness:
  "snd (myImageFloder_getitem_st
     (myImageFloder_init [''a''] [''a''] [] True [''n''] True
        (\<lambda>path. Inr (ex_img 600 200 black)) (\<lambda>path. Inl IOError)) 0 ex_rng) = advance 1 ex_rng"
  using myImageFloder_getitem_st_eq [of "myImageFloder_init [''a''] [''a''] [] True [''n''] True
      (\<lambda>path. Inr (ex_img 600 200 black)) (\<lambda>path. Inl IOError)" 0 ex_rng]
  by (simp add: stereo_checks_def myImageFloder_init_def out_of_range_def item_at_def
      py_index_def)

end
