(* ===== verification/Draw_Coverage.thy ===== *)
theory Draw_Coverage
  imports Point_Data Stereo_Data
begin

text \<open>
  What the random draws can produce. The theorems of \<open>Point_Data\<close> and \<open>Stereo_Data\<close>
  say that every item is a sample of the stored cloud, or a window of the stored
  images. This theory proves the converse for both \<^verbatim>\<open>__getitem__\<close> methods of
  \<^verbatim>\<open>src/KITTILoader.py\<close>: every window that fits the left image is the crop of some
  draws, the two extreme ones included, and every sequence of \<open>num_point\<close> stored
  points, with repetitions, is the sample of some draws.
\<close>

section \<open>Reference definitions\<close>

text \<open>
  \<open>train_window\<close> is the training item cut at a given origin and \<open>crop_origins\<close> the set
  of the origins at which a 512 by 256 window lies inside the image. \<open>crop_draws_for\<close>
  and \<open>draws_for\<close> are draws that make the code choose a given origin, and a given list
  of row indices with given outcomes of the two other draws.
\<close>

definition train_window ::
  "rgb image \<Rightarrow> rgb image \<Rightarrow> nat image option \<Rightarrow> string \<Rightarrow> int \<times> int \<Rightarrow> stereo_item" where
  "train_window L R D nm org =
     Train_item (norm_tensor (window black L (fst org) (snd org) 512 256))
       (norm_tensor (window black R (fst org) (snd org) 512 256))
       (train_disp D (fst org) (snd org)) nm"

definition crop_origins :: "'a image \<Rightarrow> (int \<times> int) set" where
  "crop_origins L = {0..int (im_w L) - 512} \<times> {0..int (im_h L) - 256}"

definition crop_draws_for :: "int \<times> int \<Rightarrow> crop_draws" where
  "crop_draws_for org = \<lparr>x_raw = nat (fst org), y_raw = nat (snd org)\<rparr>"

definition draws_for :: "nat list \<Rightarrow> real \<Rightarrow> real \<Rightarrow> draws" where
  "draws_for idx u g = \<lparr>choice_raw = (\<lambda>i. idx ! i), flip_u = u, shift_g = g\<rparr>"

section \<open>Crop origins\<close>

lemma crop_origin_in_origins:
  assumes "512 \<le> im_w L" and "256 \<le> im_h L"
  shows "(crop_x rnd L, crop_y rnd L) \<in> crop_origins L"
  using crop_origin_range [OF assms, of rnd] by (simp add: crop_origins_def)

lemma crop_draws_for_origin:
  assumes "org \<in> crop_origins L"
  shows "crop_x (crop_draws_for org) L = fst org" "crop_y (crop_draws_for org) L = snd org"
  using assms by (auto simp: crop_origins_def crop_draws_for_def crop_x_def crop_y_def)

lemma crop_origins_size: "org \<in> crop_origins L \<Longrightarrow> 512 \<le> im_w L \<and> 256 \<le> im_h L"
  by (auto simp: crop_origins_def)

lemma train_item_origins_aux:
  "{it. \<exists>rnd. train_item rnd L R D nm = Inr it} = train_window L R D nm ` crop_origins L"
proof (intro set_eqI iffI)
  fix it
  assume "it \<in> {it. \<exists>rnd. train_item rnd L R D nm = Inr it}"
  then obtain rnd where "train_item rnd L R D nm = Inr it" by blast
  then have "512 \<le> im_w L" "256 \<le> im_h L"
    and "it = train_window L R D nm (crop_x rnd L, crop_y rnd L)"
    by (simp_all add: train_item_Inr_iff train_window_def)
  with crop_origin_in_origins [of L rnd] show "it \<in> train_window L R D nm ` crop_origins L"
    by blast
next
  fix it
  assume "it \<in> train_window L R D nm ` crop_origins L"
  then obtain org where o: "org \<in> crop_origins L" "it = train_window L R D nm org" by blast
  with crop_origins_size [OF o(1)] have "train_item (crop_draws_for org) L R D nm = Inr it"
    by (simp add: train_item_Inr_iff train_window_def crop_draws_for_origin)
  then show "it \<in> {it. \<exists>rnd. train_item rnd L R D nm = Inr it}" by blast
qed

text \<open>
  C39: The training crops of an item are exactly the windows that fit the left image.
  When the lookups and loads of an index succeed in training mode, the items the
  access can return, over all draws, are the items cut at the origins \<open>(x, y)\<close> with
  \<open>0 \<le> x \<le> w - 512\<close> and \<open>0 \<le> y \<le> h - 256\<close>, both bounds included, for the size
  \<open>w\<close> by \<open>h\<close> of the left image; there is none when the image is smaller than the
  window.
\<close>

theorem myImageFloder_getitem_train_origins:
  assumes "training self"
    and "py_index (left self) index = Inr l" and "loader self l = Inr L"
    and "py_index (right self) index = Inr r" and "loader self r = Inr R"
    and "py_index (name self) index = Inr nm" and "load_disparity self index = Inr D"
  shows "{it. \<exists>rnd. myImageFloder_getitem rnd self index = Inr it} =
    train_window L R D nm ` ({0..int (im_w L) - 512} \<times> {0..int (im_h L) - 256})"
  using assms train_item_origins_aux [of L R D nm]
  by (simp add: myImageFloder_getitem_def crop_origins_def)

theorem myImageFloder_getitem_train_origins_witness:
  "\<exists>rnd. myImageFloder_getitem rnd (ex_stereo True True) 0 =
     Inr (train_window (ex_img 1242 375 (10, 20, 30)) (ex_img 1242 375 (40, 50, 60)) None
       ''000000_10'' (730, 119))"
proof -
  have "train_window (ex_img 1242 375 (10, 20, 30)) (ex_img 1242 375 (40, 50, 60)) None
      ''000000_10'' (730, 119) \<in>
    {it. \<exists>rnd. myImageFloder_getitem rnd (ex_stereo True True) 0 = Inr it}"
    by (subst myImageFloder_getitem_train_origins
        [where l = "''l.png''" and r = "''r.png''" and nm = "''000000_10''" and D = None
          and L = "ex_img 1242 375 (10, 20, 30)" and R = "ex_img 1242 375 (40, 50, 60)"])
      (simp_all add: load_disparity_def)
  then show ?thesis by simp
qed

section \<open>Samples of the stored cloud\<close>

lemma chosen_draws_for:
  assumes "i < length idx" and "idx ! i < n"
  shows "chosen (draws_for idx u g) n i = idx ! i"
  using assms by (simp add: chosen_def draws_for_def)

lemma map_chosen_draws_for:
  assumes "\<forall>j \<in> set idx. j < n"
  shows "map (\<lambda>i. f (chosen (draws_for idx u g) n i)) [0..<length idx] = map f idx"
proof -
  have "map (\<lambda>i. f (chosen (draws_for idx u g) n i)) [0..<length idx] =
      map (\<lambda>i. f (idx ! i)) [0..<length idx]"
    using assms by (intro map_cong) (simp_all add: chosen_draws_for)
  also have "\<dots> = map f (map (\<lambda>i. idx ! i) [0..<length idx])" by (simp add: comp_def)
  finally show ?thesis by (simp add: map_nth)
qed

text \<open>
  C38: Sampling is with replacement and reaches every sequence of stored points. For a
  well-formed stored sample and every list of \<open>num_point\<close> row indices of its cloud,
  repetitions allowed and however \<open>num_point\<close> compares with the size of the cloud,
  there are draws for which the item access returns the labels at these indices in
  this order and the rows at these indices, augmented and rotated; the outcomes of the
  draws for the flip and the shift can be chosen freely.
\<close>

theorem myPointData_getitem_every_sample:
  assumes "py_index (points self) index = Inr point" and "fs point = Some d"
    and "wf_point_record self d" and "num_angle self \<noteq> 0"
    and "stored_points self d = Some pts" and "stored_labels self d = Some seg"
    and "box3d_center d = Some c"
    and "int (length idx) = num_point self" and "\<forall>j \<in> set idx. j < nrows pts"
  shows "\<exists>s. myPointData_getitem fs (draws_for idx u g) self index = Inr s \<and>
    seg_mask s = map (\<lambda>j. seg ! j) idx \<and>
    rows (points_rot s) =
      map (\<lambda>j. rot_row (rot_angle s) (augment self (draws_for idx u g) c (rows pts ! j))) idx"
proof -
  let ?rnd = "draws_for idx u g"
  from assms(8) have n: "nat (num_point self) = length idx" "0 \<le> num_point self" by auto
  from assms(9) n have "0 < nrows pts \<or> num_point self = 0" by (cases idx) auto
  with assms(5) have "\<forall>p. stored_points self d = Some p \<longrightarrow> 0 < nrows p \<or> num_point self = 0"
    by simp
  from myPointData_getitem_returns_aux [where fs = fs and rnd = ?rnd, OF assms(1-3) n(2) assms(4) this]
  obtain s where s: "myPointData_getitem fs ?rnd self index = Inr s" by blast
  with assms(1,2,5-7) have "seg_mask s = map (\<lambda>i. seg ! chosen ?rnd (nrows pts) i) [0..<length idx]"
    "rows (points_rot s) = map (\<lambda>i. rot_row (rot_angle s)
        (augment self ?rnd c (rows pts ! chosen ?rnd (nrows pts) i))) [0..<length idx]"
    by (auto simp: myPointData_getitem_Inr_iff n(1))
  with s show ?thesis
    by (simp add: map_chosen_draws_for [OF assms(9), where f = "\<lambda>j. seg ! j"]
        map_chosen_draws_for [OF assms(9),
          where f = "\<lambda>j. rot_row (rot_angle s) (augment self ?rnd c (rows pts ! j))"])
qed

theorem myPointData_getitem_every_sample_witness:
  "\<exists>s. myPointData_getitem ex_fs (draws_for [1, 1] (3 / 4) 0) (ex_data True True) 0 = Inr s \<and>
     seg_mask s = [0, 0]"
proof -
  have "py_index (points (ex_data True True)) 0 = Inr ''d/a.npy''"
    and "ex_fs ''d/a.npy'' = Some ex_record"
    and "wf_point_record (ex_data True True) ex_record"
    and "num_angle (ex_data True True) \<noteq> 0"
    and "stored_points (ex_data True True) ex_record =
      Some \<lparr>ncols = 3, rows = [[1, 5, 0], [0, 2, 1]]\<rparr>"
    and "stored_labels (ex_data True True) ex_record = Some [1, 0]"
    and "box3d_center ex_record = Some [1, 0, 2]"
    and "int (length [1, 1 :: nat]) = num_point (ex_data True True)"
    and "\<forall>j \<in> set [1, 1 :: nat]. j < nrows \<lparr>ncols = 3, rows = [[1, 5, 0], [0, 2, 1]]\<rparr>"
    by (simp_all add: py_index_def ex_fs_def ex_record_wf)
      (simp_all add: stored_points_def stored_labels_def ex_record_def nrows_def)
  from myPointData_getitem_every_sample [where fs = ex_fs and u = "3 / 4" and g = 0, OF this]
  show ?thesis by auto
qed

end
