(* ===== verification/Float32.thy ===== *)
theory Float32
  imports Complex_Main "HOL-Library.Word"
begin

text \<open>
  The single-precision numbers behind \<^verbatim>\<open>dtype=np.float32\<close> in
  \<^verbatim>\<open>src/KITTILoader.py\<close> (lines 219 and 236): a number is its 32-bit pattern, one sign
  bit, eight exponent bits and 23 fraction bits, and \<open>valof32\<close> reads a finite pattern
  as a real. The conversion of an integer and the division by a power of two are
  written as the algorithm that rounds a dyadic number \<open>m * 2 ^ e\<close> to the nearest
  pattern, ties to the even significand: the unit in the last place of the result
  (\<open>f32_lsb\<close>), the significand in that unit (\<open>f32_sig\<close>, by \<open>rne\<close> when bits are lost)
  and the packing of both into a word (\<open>f32_round\<close>), which overflows to infinity.
  The lemmas give the value of a rounded number, its distance from the exact one and
  the inputs on which nothing is lost, and show that the algorithm meets the
  specification of correct rounding, \<open>nearest32\<close>.
\<close>

unbundle bit_operations_syntax

section \<open>The format\<close>

type_synonym float32 = "32 word"

definition f32_sign :: "float32 \<Rightarrow> bool" where
  "f32_sign w = bit w 31"

definition f32_exponent :: "float32 \<Rightarrow> nat" where
  "f32_exponent w = unat (take_bit 8 (drop_bit 23 w))"

definition f32_fraction :: "float32 \<Rightarrow> nat" where
  "f32_fraction w = unat (take_bit 23 w)"

text \<open>An exponent field of all ones marks an infinity or a NaN.\<close>

definition f32_finite :: "float32 \<Rightarrow> bool" where
  "f32_finite w \<longleftrightarrow> f32_exponent w \<noteq> 255"

definition f32_inf :: float32 where
  "f32_inf = 0x7F800000"

text \<open>
  The value of a finite pattern: a zero exponent field is a subnormal number without
  the hidden bit, every other one a normal number with it.
\<close>

definition valof32 :: "float32 \<Rightarrow> real" where
  "valof32 w =
     (if f32_sign w then - 1 else 1) *
     (if f32_exponent w = 0 then (2 / 2 ^ 127) * (real (f32_fraction w) / 2 ^ 23)
      else (2 ^ f32_exponent w / 2 ^ 127) * (1 + real (f32_fraction w) / 2 ^ 23))"

text \<open>
  The same value as an integer significand in units of the last place: \<open>valof32 w\<close> is
  \<open>f32_mantissa w\<close> times two to the \<open>f32_lsb_of w\<close>, with the sign.
\<close>

definition f32_mantissa :: "float32 \<Rightarrow> nat" where
  "f32_mantissa w = (if f32_exponent w = 0 then f32_fraction w else 2 ^ 23 + f32_fraction w)"

definition f32_lsb_of :: "float32 \<Rightarrow> int" where
  "f32_lsb_of w = int (max (f32_exponent w) 1) - 150"

section \<open>Rounding to nearest, ties to even\<close>

text \<open>The number of bits of a natural number, Python's \<^verbatim>\<open>int.bit_length\<close>.\<close>

fun bit_length :: "nat \<Rightarrow> nat" where
  "bit_length n = (if n = 0 then 0 else Suc (bit_length (n div 2)))"

declare bit_length.simps [simp del]

text \<open>
  \<open>m / 2 ^ s\<close> as an integer: the quotient when the remainder is below one half or is
  one half and the quotient is even, the next integer otherwise.
\<close>

definition rne :: "nat \<Rightarrow> nat \<Rightarrow> nat" where
  "rne m s =
     (let q = m div 2 ^ s; r = m mod 2 ^ s
      in if 2 * r < 2 ^ s \<or> (2 * r = 2 ^ s \<and> even q) then q else q + 1)"

text \<open>
  Rounding \<open>m * 2 ^ e\<close>: the last place of the result is 23 places below the leading
  bit of \<open>m\<close> and never below \<open>2 ^ - 149\<close>, the last place of the subnormal numbers; the
  significand is \<open>m\<close> shifted to that place, exactly when the shift is to the left. The
  word is the exponent field times \<open>2 ^ 23\<close> plus the significand, whose leading bit
  adds the one that makes a normal exponent and carries when rounding reaches
  \<open>2 ^ 24\<close>; a pattern at or above the one of infinity is infinity.
\<close>

definition f32_lsb :: "nat \<Rightarrow> int \<Rightarrow> int" where
  "f32_lsb m e = max (e + int (bit_length m) - 24) (- 149)"

definition f32_sig :: "nat \<Rightarrow> int \<Rightarrow> nat" where
  "f32_sig m e =
     (let q = f32_lsb m e in if q \<le> e then m * 2 ^ nat (e - q) else rne m (nat (q - e)))"

definition f32_bits :: "nat \<Rightarrow> int \<Rightarrow> nat" where
  "f32_bits m e = nat (f32_lsb m e + 149) * 2 ^ 23 + f32_sig m e"

definition f32_round :: "nat \<Rightarrow> int \<Rightarrow> float32" where
  "f32_round m e =
     (if m = 0 then 0
      else if 255 * 2 ^ 23 \<le> f32_bits m e then f32_inf else word_of_nat (f32_bits m e))"

section \<open>The operations of the program\<close>

text \<open>
  The cast of an integer array entry to \<^verbatim>\<open>float32\<close>, the change of sign, and the
  division of a number by \<open>2 ^ j\<close>: the exact quotient of a finite number is dyadic and
  is rounded; an infinity or a NaN is returned as it is.
\<close>

definition f32_of_nat :: "nat \<Rightarrow> float32" where
  "f32_of_nat n = f32_round n 0"

definition f32_neg :: "float32 \<Rightarrow> float32" where
  "f32_neg w = w XOR 0x80000000"

definition f32_div_pow2 :: "float32 \<Rightarrow> nat \<Rightarrow> float32" where
  "f32_div_pow2 w j =
     (if f32_finite w
      then let r = f32_round (f32_mantissa w) (f32_lsb_of w - int j)
           in if f32_sign w then f32_neg r else r
      else w)"

section \<open>Reference definitions\<close>

text \<open>
  Correct rounding: \<open>a\<close> is a finite number and no finite number is closer to \<open>x\<close>.
\<close>

definition nearest32 :: "real \<Rightarrow> float32 \<Rightarrow> bool" where
  "nearest32 x a \<longleftrightarrow>
     f32_finite a \<and> (\<forall>b. f32_finite b \<longrightarrow> \<bar>valof32 a - x\<bar> \<le> \<bar>valof32 b - x\<bar>)"

lemmas f32_eval = f32_of_nat_def f32_round_def f32_bits_def f32_lsb_def f32_sig_def rne_def bit_length.simps
  Let_def f32_inf_def

lemmas f32_fields = f32_sign_def f32_exponent_def f32_fraction_def f32_finite_def
  f32_mantissa_def f32_lsb_of_def

section \<open>Bit length\<close>

lemma bit_length_0 [simp]: "bit_length 0 = 0"
  by (simp add: bit_length.simps)

lemma bit_length_pos [simp]: "0 < n \<Longrightarrow> 0 < bit_length n"
  by (subst bit_length.simps) simp

lemma bit_length_less: "n < 2 ^ bit_length n"
proof (induction n rule: bit_length.induct)
  case (1 n)
  show ?case
  proof (cases "n = 0")
    case False
    with 1 have "n div 2 < 2 ^ bit_length (n div 2)" by simp
    hence "n < 2 * 2 ^ bit_length (n div 2)" by linarith
    with False show ?thesis by (subst bit_length.simps) simp
  qed simp
qed

lemma bit_length_ge: "0 < n \<Longrightarrow> 2 ^ (bit_length n - 1) \<le> n"
proof (induction n rule: bit_length.induct)
  case (1 n)
  show ?case
  proof (cases "n div 2 = 0")
    case True
    with 1(2) have "n = 1" by linarith
    thus ?thesis by (simp add: bit_length.simps)
  next
    case False
    with 1 have "2 ^ (bit_length (n div 2) - 1) \<le> n div 2" by simp
    hence "2 * 2 ^ (bit_length (n div 2) - 1) \<le> n" by linarith
    moreover from False have "0 < bit_length (n div 2)" by simp
    hence "(2::nat) * 2 ^ (bit_length (n div 2) - 1) = 2 ^ bit_length (n div 2)"
      by (cases "bit_length (n div 2)") simp_all
    ultimately show ?thesis using 1(2) by (subst bit_length.simps) simp
  qed
qed

lemma bit_length_le_iff: "bit_length n \<le> k \<longleftrightarrow> n < 2 ^ k"
proof
  assume "bit_length n \<le> k"
  hence "(2::nat) ^ bit_length n \<le> 2 ^ k" by (intro power_increasing) simp_all
  with bit_length_less [of n] show "n < 2 ^ k" by linarith
next
  assume n: "n < 2 ^ k"
  show "bit_length n \<le> k"
  proof (rule ccontr)
    assume "\<not> bit_length n \<le> k"
    hence k: "k \<le> bit_length n - 1" and "0 < n" by (auto intro: ccontr)
    from k have "(2::nat) ^ k \<le> 2 ^ (bit_length n - 1)" by (intro power_increasing) simp_all
    with bit_length_ge [OF \<open>0 < n\<close>] n show False by linarith
  qed
qed

section \<open>The fields of a word\<close>

text \<open>The fields as quotients and remainders of the word read as a natural number.\<close>

lemma f32_exponent_nat: "f32_exponent w = unat w div 2 ^ 23 mod 2 ^ 8"
  unfolding f32_exponent_def unsigned_take_bit_eq unat_drop_bit_eq
  unfolding take_bit_eq_mod drop_bit_eq_div ..

lemma f32_fraction_nat: "f32_fraction w = unat w mod 2 ^ 23"
  unfolding f32_fraction_def unsigned_take_bit_eq
  unfolding take_bit_eq_mod ..

lemma f32_sign_nat: "f32_sign w \<longleftrightarrow> odd (unat w div 2 ^ 31)"
proof -
  have "bit (unat w) 31 = bit w 31" by (simp add: bit_unsigned_iff)
  thus ?thesis unfolding f32_sign_def bit_nat_def by simp
qed

lemma f32_field_bounds: "f32_exponent w < 256" "f32_fraction w < 2 ^ 23"
  by (simp_all add: f32_exponent_nat f32_fraction_nat)

lemma f32_mantissa_less: "f32_mantissa w < 2 ^ 24"
  using f32_field_bounds(2) [of w] by (simp add: f32_mantissa_def)

lemma f32_fields_of_nat:
  assumes "n < 2 ^ 31"
  shows "f32_sign (word_of_nat n) = False" "f32_exponent (word_of_nat n) = n div 2 ^ 23"
    "f32_fraction (word_of_nat n) = n mod 2 ^ 23"
proof -
  from assms have u: "unat (word_of_nat n :: float32) = n" by (simp add: unat_of_nat)
  from assms have "n div 2 ^ 23 < 2 ^ 8" by simp
  with assms u show "f32_sign (word_of_nat n) = False" "f32_exponent (word_of_nat n) = n div 2 ^ 23"
    "f32_fraction (word_of_nat n) = n mod 2 ^ 23"
    by (simp_all add: f32_sign_nat f32_exponent_nat f32_fraction_nat)
qed

text \<open>
  The value of a packed word: exponent field \<open>x\<close> and a significand \<open>k\<close> of at most
  \<open>2 ^ 24\<close> that has its leading bit unless \<open>x\<close> is zero.
\<close>

lemma valof32_bits:
  assumes "x * 2 ^ 23 + k < 255 * 2 ^ 23" "k \<le> 2 ^ 24" "x = 0 \<or> 2 ^ 23 \<le> k"
  shows "valof32 (word_of_nat (x * 2 ^ 23 + k)) = real k * 2 powr (real x - 149)"
proof -
  define w :: float32 where "w = word_of_nat (x * 2 ^ 23 + k)"
  from assms(1) have n: "x * 2 ^ 23 + k < 2 ^ 31" by simp
  note f = f32_fields_of_nat [OF n, folded w_def]
  consider "k < 2 ^ 23" "x = 0" | "2 ^ 23 \<le> k" "k < 2 ^ 24" | "k = 2 ^ 24"
    using assms by linarith
  hence "valof32 w = real k * 2 powr (real x - 149)"
  proof cases
    case 1
    with f show ?thesis by (simp add: valof32_def powr_neg_numeral)
  next
    case 2
    hence "k div 2 ^ 23 = 1" "k mod 2 ^ 23 = k - 2 ^ 23"
      by (simp_all add: div_nat_eqI mod_if le_mod_geq)
    hence "(x * 2 ^ 23 + k) div 2 ^ 23 = x + 1" "(x * 2 ^ 23 + k) mod 2 ^ 23 = k - 2 ^ 23"
      by simp_all
    with 2 f show ?thesis
      by (simp add: valof32_def powr_diff powr_realpow of_nat_diff field_simps)
  next
    case 3
    hence "(x * 2 ^ 23 + k) div 2 ^ 23 = x + 2" "(x * 2 ^ 23 + k) mod 2 ^ 23 = 0" by simp_all
    with 3 f show ?thesis
      by (simp add: valof32_def powr_diff powr_realpow field_simps)
  qed
  thus ?thesis by (simp only: w_def)
qed

lemma valof32_0 [simp]: "valof32 0 = 0"
  by (simp add: valof32_def f32_exponent_def f32_fraction_def)

lemma valof32_mantissa:
  "valof32 w = (if f32_sign w then - 1 else 1) * real (f32_mantissa w) * 2 powr f32_lsb_of w"
proof -
  have "max (f32_exponent w) 1 = (if f32_exponent w = 0 then 1 else f32_exponent w)" by auto
  thus ?thesis
    by (simp add: valof32_def f32_mantissa_def f32_lsb_of_def powr_neg_numeral powr_diff
        powr_realpow field_simps)
qed

lemma f32_neg_fields [simp]:
  "f32_sign (f32_neg w) = (\<not> f32_sign w)" "f32_exponent (f32_neg w) = f32_exponent w"
  "f32_fraction (f32_neg w) = f32_fraction w"
    apply (simp add: f32_neg_def f32_sign_def bit_simps)
   apply (simp add: f32_neg_def f32_exponent_def bit_eq_iff bit_simps)
  apply (simp add: f32_neg_def f32_fraction_def bit_eq_iff bit_simps)
  done

lemma valof32_neg [simp]: "valof32 (f32_neg w) = - valof32 w"
  by (simp add: valof32_def)

section \<open>The rounded significand\<close>

lemma rne_bounds: "m div 2 ^ s \<le> rne m s" "rne m s \<le> m div 2 ^ s + 1"
  by (simp_all add: rne_def Let_def)

lemma rne_error: "\<bar>real (rne m s) * 2 ^ s - real m\<bar> \<le> 2 ^ s / 2"
proof -
  define q r where "q = m div 2 ^ s" and "r = m mod 2 ^ s"
  have "m = q * 2 ^ s + r" unfolding q_def r_def by (rule div_mult_mod_eq [symmetric])
  hence m: "real m = real q * 2 ^ s + real r" by simp
  have "r < 2 ^ s" by (simp add: r_def)
  hence r: "real r < 2 ^ s" using of_nat_less_iff [of r "2 ^ s", where 'a = real] by simp
  show ?thesis
  proof (cases "2 * r < 2 ^ s \<or> (2 * r = 2 ^ s \<and> even q)")
    case True
    hence "2 * r \<le> 2 ^ s" by auto
    hence "2 * real r \<le> 2 ^ s" using of_nat_le_iff [of "2 * r" "2 ^ s", where 'a = real] by simp
    moreover from True have "rne m s = q" by (simp add: rne_def Let_def q_def r_def)
    ultimately show ?thesis by (simp add: m)
  next
    case False
    hence "2 ^ s \<le> 2 * r" by auto
    hence "2 ^ s \<le> 2 * real r" using of_nat_le_iff [of "2 ^ s" "2 * r", where 'a = real] by simp
    moreover from False have "rne m s = q + 1" by (simp add: rne_def Let_def q_def r_def)
    ultimately show ?thesis using r by (simp add: m algebra_simps)
  qed
qed

lemma rne_exact_iff: "rne m s * 2 ^ s = m \<longleftrightarrow> 2 ^ s dvd m"
proof
  assume "rne m s * 2 ^ s = m"
  thus "2 ^ s dvd m" by (metis dvd_triv_right)
next
  assume "2 ^ s dvd m"
  hence "m mod 2 ^ s = 0" "m div 2 ^ s * 2 ^ s = m" by simp_all
  thus "rne m s * 2 ^ s = m" by (simp add: rne_def)
qed

lemma rne_tie_even: "2 * (m mod 2 ^ s) = 2 ^ s \<Longrightarrow> even (rne m s)"
  by (simp add: rne_def Let_def)

lemma f32_lsb_ge: "- 149 \<le> f32_lsb m e" "e + int (bit_length m) - 24 \<le> f32_lsb m e"
  by (simp_all add: f32_lsb_def)

lemma f32_sig_exact_less:
  assumes "f32_lsb m e \<le> e"
  shows "f32_sig m e < 2 ^ 24"
proof -
  define d where "d = nat (e - f32_lsb m e)"
  from assms f32_lsb_ge(2) [of e m] have "bit_length m + d \<le> 24" by (simp add: d_def)
  hence "(2::nat) ^ (bit_length m + d) \<le> 2 ^ 24" by (intro power_increasing) simp_all
  moreover from bit_length_less [of m] have "m * 2 ^ d < 2 ^ bit_length m * 2 ^ d" by simp
  ultimately have "m * 2 ^ d < 2 ^ 24" unfolding power_add by (rule less_le_trans [rotated])
  with assms show ?thesis by (simp add: f32_sig_def d_def)
qed

lemma f32_sig_le: "f32_sig m e \<le> 2 ^ 24"
proof (cases "f32_lsb m e \<le> e")
  case True
  from f32_sig_exact_less [OF this] show ?thesis by simp
next
  case False
  define s where "s = nat (f32_lsb m e - e)"
  from False f32_lsb_ge(2) [of e m] have "bit_length m \<le> 24 + s" by (simp add: s_def)
  hence "(2::nat) ^ bit_length m \<le> 2 ^ (24 + s)" by (intro power_increasing) simp_all
  with bit_length_less [of m] have "m < 2 ^ 24 * 2 ^ s" by (simp add: power_add)
  hence "m div 2 ^ s < 2 ^ 24" by (simp add: less_mult_imp_div_less)
  with rne_bounds(2) [of m s] have "rne m s \<le> 2 ^ 24" by linarith
  with False show ?thesis by (simp add: f32_sig_def s_def)
qed

lemma f32_sig_ge:
  assumes "0 < m" "- 149 < f32_lsb m e"
  shows "2 ^ 23 \<le> f32_sig m e"
proof -
  from assms(2) have q: "f32_lsb m e = e + int (bit_length m) - 24" by (simp add: f32_lsb_def)
  from assms(1) have b: "0 < bit_length m" by simp
  show ?thesis
  proof (cases "f32_lsb m e \<le> e")
    case True
    define d where "d = nat (e - f32_lsb m e)"
    from True q b have "bit_length m - 1 + d = 23" by (simp add: d_def)
    hence "(2::nat) ^ 23 = 2 ^ (bit_length m - 1) * 2 ^ d" by (simp flip: power_add)
    also from bit_length_ge [OF assms(1)] have "\<dots> \<le> m * 2 ^ d" by simp
    finally show ?thesis using True by (simp add: f32_sig_def d_def)
  next
    case False
    define s where "s = nat (f32_lsb m e - e)"
    from False q b have "bit_length m - 1 = 23 + s" by (simp add: s_def)
    with bit_length_ge [OF assms(1)] have "2 ^ 23 * 2 ^ s \<le> m" by (simp add: power_add)
    hence "2 ^ 23 \<le> m div 2 ^ s" by (simp add: less_eq_div_iff_mult_less_eq)
    with rne_bounds(1) [of m s] have "2 ^ 23 \<le> rne m s" by linarith
    with False show ?thesis by (simp add: f32_sig_def s_def)
  qed
qed

lemma f32_sig_exact:
  assumes "f32_lsb m e \<le> e"
  shows "real (f32_sig m e) * 2 powr f32_lsb m e = real m * 2 powr e"
proof -
  from assms have "2 powr e = 2 ^ nat (e - f32_lsb m e) * 2 powr f32_lsb m e"
    by (simp add: powr_realpow [symmetric] powr_add [symmetric])
  with assms show ?thesis by (simp add: f32_sig_def)
qed

lemma f32_sig_error:
  "\<bar>real (f32_sig m e) * 2 powr f32_lsb m e - real m * 2 powr e\<bar> \<le> 2 powr f32_lsb m e / 2"
proof (cases "f32_lsb m e \<le> e")
  case True
  thus ?thesis by (simp add: f32_sig_exact)
next
  case False
  define s where "s = nat (f32_lsb m e - e)"
  from False have p: "2 powr f32_lsb m e = 2 ^ s * 2 powr e"
    by (simp add: s_def powr_realpow [symmetric] powr_add [symmetric])
  have "\<bar>real (rne m s) * 2 ^ s - real m\<bar> * 2 powr e \<le> 2 ^ s / 2 * 2 powr e"
    by (intro mult_right_mono rne_error) simp
  also have "\<bar>real (rne m s) * 2 ^ s - real m\<bar> * 2 powr e
             = \<bar>(real (rne m s) * 2 ^ s - real m) * 2 powr e\<bar>"
    by (simp add: abs_mult)
  also have "(real (rne m s) * 2 ^ s - real m) * 2 powr e
             = real (rne m s) * (2 ^ s * 2 powr e) - real m * 2 powr e"
    by (simp add: algebra_simps)
  finally show ?thesis using False by (simp add: f32_sig_def p flip: s_def)
qed

section \<open>The rounded number\<close>

text \<open>
  Below the pattern of infinity the result is the significand in units of the last
  place; it is the exact number when that has at most 24 bits above \<open>2 ^ - 149\<close>, and
  within half a unit of the last place of it otherwise.
\<close>

lemma f32_round_value:
  assumes "0 < m" "f32_bits m e < 255 * 2 ^ 23"
  shows "valof32 (f32_round m e) = real (f32_sig m e) * 2 powr f32_lsb m e"
proof -
  have "f32_lsb m e + 149 = 0 \<or> - 149 < f32_lsb m e" using f32_lsb_ge(1) [of m e] by linarith
  with f32_sig_ge [OF assms(1), of e] 
  have "nat (f32_lsb m e + 149) = 0 \<or> 2 ^ 23 \<le> f32_sig m e" by auto
  from valof32_bits [OF assms(2) [unfolded f32_bits_def] f32_sig_le this] assms
    f32_lsb_ge(1) [of m e]
  show ?thesis by (simp add: f32_round_def f32_bits_def)
qed

lemma f32_round_finite:
  assumes "f32_bits m e < 255 * 2 ^ 23"
  shows "f32_finite (f32_round m e)"
proof -
  from assms have "f32_bits m e < 2 ^ 31" "f32_bits m e div 2 ^ 23 < 255" by simp_all
  with f32_fields_of_nat(2) [of "f32_bits m e"] have "f32_finite (word_of_nat (f32_bits m e))"
    by (simp add: f32_finite_def)
  with assms show ?thesis by (simp add: f32_round_def f32_fields)
qed

text \<open>
  The result is below infinity when the number is below \<open>2 ^ 127\<close>, and when it is
  below \<open>2 ^ 128\<close> and no bit is lost.
\<close>

lemma f32_bits_below:
  assumes "e + int (bit_length m) \<le> 127"
  shows "f32_bits m e < 255 * 2 ^ 23"
proof -
  from assms have "f32_lsb m e \<le> 103" by (simp add: f32_lsb_def)
  with f32_lsb_ge(1) [of m e] have "nat (f32_lsb m e + 149) \<le> 252" by simp
  hence "nat (f32_lsb m e + 149) * 2 ^ 23 \<le> 252 * 2 ^ 23" by (intro mult_le_mono1)
  with f32_sig_le [of m e] show ?thesis by (simp add: f32_bits_def)
qed

lemma f32_bits_exact:
  assumes "f32_lsb m e \<le> e" "e + int (bit_length m) \<le> 128"
  shows "f32_bits m e < 255 * 2 ^ 23"
proof -
  from assms have "f32_lsb m e \<le> 104" by (simp add: f32_lsb_def)
  with f32_lsb_ge(1) [of m e] have "nat (f32_lsb m e + 149) \<le> 253" by simp
  hence "nat (f32_lsb m e + 149) * 2 ^ 23 \<le> 253 * 2 ^ 23" by (intro mult_le_mono1)
  with f32_sig_exact_less [OF assms(1)] show ?thesis by (simp add: f32_bits_def)
qed

lemma f32_round_exact:
  assumes "bit_length m \<le> 24" "- 149 \<le> e" "e + int (bit_length m) \<le> 128"
  shows "valof32 (f32_round m e) = real m * 2 powr e"
proof (cases "m = 0")
  case False
  from assms have q: "f32_lsb m e \<le> e" by (simp add: f32_lsb_def)
  from False f32_bits_exact [OF q assms(3)]
  have "valof32 (f32_round m e) = real (f32_sig m e) * 2 powr f32_lsb m e"
    by (intro f32_round_value) simp_all
  with f32_sig_exact [OF q] show ?thesis by simp
qed (simp add: f32_round_def)

lemma f32_round_error:
  assumes "f32_bits m e < 255 * 2 ^ 23"
  shows "\<bar>valof32 (f32_round m e) - real m * 2 powr e\<bar> \<le> 2 powr f32_lsb m e / 2"
proof (cases "m = 0")
  case False
  with f32_round_value [OF _ assms] f32_sig_error [of m e] show ?thesis by simp
qed (simp add: f32_round_def)

text \<open>A point of a grid within half a step of \<open>x\<close> is a nearest point of the grid.\<close>

lemma grid_nearest:
  fixes g x :: real and k j :: int
  assumes "0 < g" "\<bar>of_int k * g - x\<bar> \<le> g / 2"
  shows "\<bar>of_int k * g - x\<bar> \<le> \<bar>of_int j * g - x\<bar>"
proof (cases "j = k")
  case False
  hence "1 \<le> \<bar>j - k\<bar>" by simp
  hence "1 \<le> \<bar>of_int j - of_int k :: real\<bar>" by (simp flip: of_int_diff)
  with assms(1) have "g \<le> \<bar>of_int j - of_int k\<bar> * g" by simp
  also have "\<dots> = \<bar>of_int j * g - of_int k * g\<bar>"
    using assms(1) by (simp add: abs_mult left_diff_distrib [symmetric])
  finally show ?thesis using assms(2) by linarith
qed simp

text \<open>
  The least number of the binade of the result is not above the exact number, and
  every finite number with a finer last place is below it.
\<close>

lemma f32_binade_le:
  assumes "m \<noteq> 0" "- 149 < f32_lsb m e"
  shows "2 ^ 23 * 2 powr f32_lsb m e \<le> real m * 2 powr e"
proof -
  from assms(2) have q: "f32_lsb m e = e + int (bit_length m) - 24" by (simp add: f32_lsb_def)
  from assms(1) obtain c where c: "bit_length m = Suc c"
    using bit_length_pos [of m] by (cases "bit_length m") auto
  have "2 ^ 23 * 2 powr f32_lsb m e = 2 ^ c * 2 powr e"
    by (simp add: q c powr_diff powr_add powr_realpow)
  also have "\<dots> \<le> real m * 2 powr e"
    using bit_length_ge [of m] assms(1) of_nat_le_iff [of "2 ^ c" m, where 'a = real]
    by (simp add: c)
  finally show ?thesis .
qed

lemma valof32_less_binade:
  assumes "f32_lsb_of b \<le> q - 1"
  shows "valof32 b < 2 ^ 23 * 2 powr q"
proof -
  have "valof32 b \<le> real (f32_mantissa b) * 2 powr f32_lsb_of b"
    by (simp add: valof32_mantissa [of b])
  also have "\<dots> < 2 ^ 24 * 2 powr f32_lsb_of b"
    using f32_mantissa_less [of b] of_nat_less_iff [of "f32_mantissa b" "2 ^ 24", where 'a = real]
    by simp
  also from assms have "\<dots> \<le> 2 ^ 24 * 2 powr (q - 1)" by simp
  also have "\<dots> = 2 ^ 23 * 2 powr q" by (simp add: powr_diff)
  finally show ?thesis .
qed

text \<open>
  Correct rounding: a result below infinity is a nearest finite number. A finite
  number whose last place is not finer than that of the result lies on its grid; one
  with a finer last place is below the least number of the binade, which is on the
  grid.
\<close>

lemma f32_round_nearest:
  assumes "f32_bits m e < 255 * 2 ^ 23"
  shows "nearest32 (real m * 2 powr e) (f32_round m e)"
proof (cases "m = 0")
  case True
  thus ?thesis by (simp add: nearest32_def f32_round_def f32_fields)
next
  case False
  define x g where "x = real m * 2 powr e" and "g = (2::real) powr f32_lsb m e"
  define k where "k = int (f32_sig m e)"
  from False assms have r: "valof32 (f32_round m e) = of_int k * g"
    by (simp add: f32_round_value k_def g_def)
  have g: "0 < g" by (simp add: g_def)
  from f32_sig_error [of m e] have h: "\<bar>of_int k * g - x\<bar> \<le> g / 2"
    by (simp add: k_def g_def x_def)
  have "\<bar>of_int k * g - x\<bar> \<le> \<bar>valof32 b - x\<bar>" if "f32_finite b" for b
  proof (cases "f32_lsb m e \<le> f32_lsb_of b")
    case True
    define j where "j = (if f32_sign b then - 1 else 1) * int (f32_mantissa b)
      * 2 ^ nat (f32_lsb_of b - f32_lsb m e)"
    from True have "2 powr f32_lsb_of b = 2 ^ nat (f32_lsb_of b - f32_lsb m e) * g"
      by (simp add: g_def powr_realpow [symmetric] powr_add [symmetric])
    hence "valof32 b = of_int j * g" by (simp add: valof32_mantissa [of b] j_def)
    with grid_nearest [OF g h, of j] show ?thesis by simp
  next
    case b: False
    hence "- 149 < f32_lsb m e" by (simp add: f32_lsb_of_def)
    from f32_binade_le [OF False this] have "2 ^ 23 * g \<le> x" by (simp add: g_def x_def)
    moreover from b have "valof32 b < 2 ^ 23 * g" unfolding g_def by (intro valof32_less_binade) simp
    ultimately show ?thesis using grid_nearest [OF g h, of "2 ^ 23"] by simp
  qed
  with r assms show ?thesis by (simp add: nearest32_def f32_round_finite x_def)
qed

section \<open>Casts and quotients\<close>

lemma f32_of_nat_exact_aux: "n < 2 ^ 24 \<Longrightarrow> valof32 (f32_of_nat n) = real n"
  using f32_round_exact [of n 0] by (simp add: f32_of_nat_def bit_length_le_iff)

lemma f32_of_nat_fields:
  assumes "0 < n" "n < 2 ^ 24"
  shows "f32_sign (f32_of_nat n) = False" "f32_exponent (f32_of_nat n) = bit_length n + 126"
proof -
  from assms have b: "0 < bit_length n" "bit_length n \<le> 24" by (simp_all add: bit_length_le_iff)
  hence q: "f32_lsb n 0 = int (bit_length n) - 24" by (simp add: f32_lsb_def)
  define k where "k = f32_sig n 0"
  define x where "x = bit_length n + 125"
  from b q have x: "nat (f32_lsb n 0 + 149) = x" by (simp add: x_def)
  from b q f32_sig_ge [OF assms(1), of 0] f32_sig_exact_less [of n 0]
  have k: "2 ^ 23 \<le> k" "k < 2 ^ 24" by (simp_all add: k_def)
  from b have "x * 2 ^ 23 \<le> 149 * 2 ^ 23" by (intro mult_le_mono1) (simp add: x_def)
  with k have l: "x * 2 ^ 23 + k < 2 ^ 31" and "\<not> 255 * 2 ^ 23 \<le> x * 2 ^ 23 + k" by simp_all
  with assms have w: "f32_of_nat n = word_of_nat (x * 2 ^ 23 + k)"
    by (simp only: f32_of_nat_def f32_round_def f32_bits_def x k_def) simp
  from k have "k div 2 ^ 23 = 1" by (simp add: div_nat_eqI)
  hence "(x * 2 ^ 23 + k) div 2 ^ 23 = x + 1" by simp
  with f32_fields_of_nat(1,2) [OF l]
  show "f32_sign (f32_of_nat n) = False" "f32_exponent (f32_of_nat n) = bit_length n + 126"
    by (simp_all only: w x_def)
qed

lemma f32_div_pow2_exact_aux:
  assumes "f32_finite w" "j < f32_exponent w"
  shows "valof32 (f32_div_pow2 w j) = valof32 w / 2 ^ j"
proof -
  let ?e = "f32_lsb_of w - int j"
  from assms(1) f32_field_bounds(1) [of w] have "f32_exponent w \<le> 254"
    by (simp add: f32_finite_def)
  moreover have "bit_length (f32_mantissa w) \<le> 24"
    using f32_mantissa_less [of w] by (simp add: bit_length_le_iff)
  ultimately have "valof32 (f32_round (f32_mantissa w) ?e) = real (f32_mantissa w) * 2 powr ?e"
    using assms(2) by (intro f32_round_exact) (simp_all add: f32_lsb_of_def)
  with assms(1) show ?thesis
    by (simp add: f32_div_pow2_def Let_def valof32_mantissa [of w] powr_diff powr_realpow)
qed

text \<open>Both operations are correctly rounded.\<close>

lemma f32_neg_finite [simp]: "f32_finite (f32_neg w) = f32_finite w"
  by (simp add: f32_finite_def)

lemma nearest32_neg:
  assumes "nearest32 x a"
  shows "nearest32 (- x) (f32_neg a)"
  unfolding nearest32_def
proof (intro conjI allI impI)
  fix b assume "f32_finite b"
  moreover from assms
  have "f32_finite (f32_neg b) \<longrightarrow> \<bar>valof32 a - x\<bar> \<le> \<bar>valof32 (f32_neg b) - x\<bar>"
    unfolding nearest32_def by blast
  ultimately show "\<bar>valof32 (f32_neg a) - - x\<bar> \<le> \<bar>valof32 b - - x\<bar>" by simp
qed (use assms in \<open>simp add: nearest32_def\<close>)

lemma f32_of_nat_nearest: "n < 2 ^ 127 \<Longrightarrow> nearest32 (real n) (f32_of_nat n)"
  using f32_round_nearest [OF f32_bits_below, of 0 n] by (simp add: f32_of_nat_def bit_length_le_iff)

text \<open>
  C33: The division of a \<^verbatim>\<open>float32\<close> number by a power of two is correctly rounded for
  every finite number and every power: the result is a finite number, and no finite
  number is closer to the exact quotient. This covers the quotients that are
  subnormal numbers, where bits are lost, and the largest finite number, where none
  is.
\<close>

theorem f32_div_pow2_nearest:
  assumes "f32_finite w"
  shows "nearest32 (valof32 w / 2 ^ j) (f32_div_pow2 w j)"
proof -
  define m e where "m = f32_mantissa w" and "e = f32_lsb_of w - int j"
  have b: "bit_length m \<le> 24" using f32_mantissa_less [of w] by (simp add: bit_length_le_iff m_def)
  from assms f32_field_bounds(1) [of w] have "f32_exponent w \<le> 254" by (simp add: f32_finite_def)
  hence e: "e \<le> 104" by (simp add: e_def f32_lsb_of_def)
  have "f32_bits m e < 255 * 2 ^ 23"
  proof (cases "- 149 \<le> e")
    case True
    with b e show ?thesis by (intro f32_bits_exact) (simp_all add: f32_lsb_def)
  next
    case False
    with b show ?thesis by (intro f32_bits_below) simp
  qed
  hence n: "nearest32 (real m * 2 powr e) (f32_round m e)" by (rule f32_round_nearest)
  have v: "valof32 w / 2 ^ j = (if f32_sign w then - 1 else 1) * (real m * 2 powr e)"
    by (simp add: valof32_mantissa [of w] m_def e_def powr_diff powr_realpow)
  from assms n nearest32_neg [OF n] show ?thesis
    by (simp add: f32_div_pow2_def v flip: m_def e_def)
qed

theorem f32_div_pow2_nearest_witness:
  "f32_finite 0x00800003 \<and> f32_div_pow2 0x00800003 1 = 0x00400002 \<and>
   nearest32 (valof32 0x00800003 / 2 ^ 1) 0x00400002"
  using f32_div_pow2_nearest [of "0x00800003" 1]
  by (simp add: f32_div_pow2_def f32_fields f32_eval)

text \<open>
  Above \<open>2 ^ 24\<close> the cast drops the bits beyond the 24 leading ones by \<open>rne\<close>.
\<close>

lemma f32_of_nat_value:
  assumes "\<not> n < 2 ^ 24" "n < 2 ^ 127"
  shows "valof32 (f32_of_nat n) = real (rne n (bit_length n - 24)) * 2 ^ (bit_length n - 24)"
proof -
  define s where "s = bit_length n - 24"
  from assms have b: "\<not> bit_length n \<le> 24" "bit_length n \<le> 127" and n: "0 < n"
    by (simp_all add: bit_length_le_iff)
  from b have "nat (int (bit_length n) - 24) = s" by (simp add: s_def)
  with b have "f32_lsb n 0 = int s" "f32_sig n 0 = rne n s"
    by (simp_all add: f32_lsb_def f32_sig_def)
  with b n f32_round_value [OF _ f32_bits_below, of n 0] show ?thesis
    by (simp add: f32_of_nat_def powr_realpow flip: s_def)
qed

text \<open>
  C32: The cast of an integer to \<^verbatim>\<open>float32\<close> is correctly rounded: for every natural
  number below \<open>2 ^ 127\<close> the value of the result differs from the number by at most
  the fraction \<open>2 ^ - 24\<close> of it, and it is the number itself if and only if the number
  is a multiple of two to the number of its bits beyond 24. So every raw value below
  \<open>2 ^ 24\<close> is kept, and \<open>2 ^ 24 + 1\<close> is the first that is not.
\<close>

theorem f32_of_nat_rounding:
  assumes "n < 2 ^ 127"
  shows "nearest32 (real n) (f32_of_nat n) \<and>
         \<bar>valof32 (f32_of_nat n) - real n\<bar> \<le> real n / 2 ^ 24 \<and>
         (valof32 (f32_of_nat n) = real n \<longleftrightarrow> 2 ^ (bit_length n - 24) dvd n)"
proof (cases "n < 2 ^ 24")
  case True
  with assms show ?thesis by (simp add: f32_of_nat_exact_aux f32_of_nat_nearest bit_length_le_iff)
next
  case False
  define s where "s = bit_length n - 24"
  note v = f32_of_nat_value [OF False assms, folded s_def]
  from False have "\<not> bit_length n \<le> 24" and n: "0 < n" by (simp_all add: bit_length_le_iff)
  hence b: "bit_length n - 1 = s + 23" by (simp add: s_def)
  have "\<bar>valof32 (f32_of_nat n) - real n\<bar> \<le> 2 ^ s / 2" unfolding v by (rule rne_error)
  also have "\<dots> = 2 ^ (bit_length n - 1) / 2 ^ 24" unfolding b by (simp add: power_add)
  also have "\<dots> \<le> real n / 2 ^ 24"
    using bit_length_ge [OF n] of_nat_le_iff [of "2 ^ (bit_length n - 1)" n, where 'a = real]
    by (simp add: divide_right_mono)
  finally have "\<bar>valof32 (f32_of_nat n) - real n\<bar> \<le> real n / 2 ^ 24" .
  moreover have "valof32 (f32_of_nat n) = real n \<longleftrightarrow> 2 ^ s dvd n"
    using rne_exact_iff [of n s] of_nat_eq_iff [of "rne n s * 2 ^ s" n, where 'a = real]
    by (simp add: v)
  ultimately show ?thesis using assms by (simp add: s_def f32_of_nat_nearest)
qed

theorem f32_of_nat_rounding_witness:
  "valof32 (f32_of_nat 16777216) = 16777216 \<and> valof32 (f32_of_nat 16777217) \<noteq> 16777217 \<and>
   \<bar>valof32 (f32_of_nat 16777217) - 16777217\<bar> \<le> 16777217 / 2 ^ 24"
  using f32_of_nat_rounding [of 16777216] f32_of_nat_rounding [of 16777217]
  by (simp add: bit_length.simps)

end
