(* ===== verification/Disparity_Float.thy ===== *)
theory Disparity_Float
  imports Stereo_Data Float32
begin

text \<open>
  The disparity map of a stereo item as the array of \<^verbatim>\<open>float32\<close> numbers the program
  computes (\<^verbatim>\<open>src/KITTILoader.py\<close>, lines 219-220 and 235-236): the cast of the raw
  raster, the division by 256 and the slice or the crop, over the bit patterns of
  \<open>Float32\<close>. The theorems show that the real-valued disparity of \<open>Stereo_Data\<close> is the
  value of this array entry by entry whenever the raw values are below \<open>2 ^ 24\<close>, as
  those of every 8-bit and 16-bit raster are, and that the bound is sharp.
\<close>

section \<open>Arrays of single-precision numbers\<close>

text \<open>\<^verbatim>\<open>np.ascontiguousarray(img, dtype=np.float32)\<close>: every raw value is cast.\<close>

definition np_asarray_f32 :: "nat image \<Rightarrow> float32 list list" where
  "np_asarray_f32 im = map (map f32_of_nat) (im_px im)"

text \<open>\<^verbatim>\<open>a / 256\<close> on such an array: every entry is divided by \<open>2 ^ j\<close>, here \<open>j = 8\<close>.\<close>

definition np_div_f32 :: "float32 list list \<Rightarrow> nat \<Rightarrow> float32 list list" where
  "np_div_f32 a j = map (map (\<lambda>w. f32_div_pow2 w j)) a"

text \<open>Lines 219-220: the scaled array, sliced to the window of the crop.\<close>

definition train_disp_f32 :: "nat image \<Rightarrow> int \<Rightarrow> int \<Rightarrow> float32 list list" where
  "train_disp_f32 d x1 y1 =
     (let th = 256; tw = 512; dataL = np_div_f32 (np_asarray_f32 d) 8
      in np_slice2 dataL y1 (y1 + th) x1 (x1 + tw))"

text \<open>Lines 235-236: the scaled array of the cropped raster.\<close>

definition eval_disp_f32 :: "nat image \<Rightarrow> int \<Rightarrow> int \<Rightarrow> float32 list list" where
  "eval_disp_f32 d l u = np_div_f32 (np_asarray_f32 (window 0 d l u 1232 368)) 8"

section \<open>Reference definitions\<close>

text \<open>The values of an array, and a raster whose raw values are all below a bound.\<close>

definition plane_of :: "float32 list list \<Rightarrow> plane" where
  "plane_of a = map (map valof32) a"

definition pixels_below :: "nat \<Rightarrow> nat image \<Rightarrow> bool" where
  "pixels_below b im = list_all (list_all (\<lambda>v. v < b)) (im_px im)"

section \<open>Exactness\<close>

lemma f32_scale_exact:
  assumes "n < 2 ^ 24"
  shows "valof32 (f32_div_pow2 (f32_of_nat n) 8) = real n / 256"
proof (cases "n = 0")
  case True
  thus ?thesis by (simp add: f32_eval f32_div_pow2_def f32_fields)
next
  case False
  moreover from assms have "bit_length n \<le> 24" by (simp add: bit_length_le_iff)
  ultimately have "f32_finite (f32_of_nat n)" "8 < f32_exponent (f32_of_nat n)"
    using assms f32_of_nat_fields [of n] by (simp_all add: f32_finite_def)
  from f32_div_pow2_exact_aux [OF this] assms show ?thesis by (simp add: f32_of_nat_exact_aux)
qed

lemma pixels_below_iff: "pixels_below b im \<longleftrightarrow> (\<forall>r \<in> set (im_px im). \<forall>v \<in> set r. v < b)"
  by (simp add: pixels_below_def list_all_iff)

lemma plane_of_scaled:
  "pixels_below (2 ^ 24) im \<Longrightarrow> plane_of (np_div_f32 (np_asarray_f32 im) 8) = np_asarray_div im 256"
  by (simp add: plane_of_def np_div_f32_def np_asarray_f32_def np_asarray_div_def pixels_below_iff
      f32_scale_exact)

lemma map_py_slice: "map f (py_slice xs i j) = py_slice (map f xs) i j"
  by (simp add: py_slice_def Let_def take_map drop_map)

lemma plane_of_np_slice2: "plane_of (np_slice2 a y0 y1 x0 x1) = np_slice2 (plane_of a) y0 y1 x0 x1"
  by (simp add: plane_of_def np_slice2_def map_py_slice [symmetric])

lemma pixels_below_nth:
  assumes "pixels_below b im" "wf_image im" "y < im_h im" "x < im_w im"
  shows "im_px im ! y ! x < b"
proof -
  from assms(2,3) have r: "im_px im ! y \<in> set (im_px im)" by (simp add: wf_image_iff)
  with assms(2,4) have "im_px im ! y ! x \<in> set (im_px im ! y)" by (simp add: wf_image_iff)
  with assms(1) r show ?thesis by (simp add: pixels_below_iff)
qed

lemma pixels_below_window:
  assumes "pixels_below b im" "wf_image im" "0 < b"
  shows "pixels_below b (window 0 im l u w h)"
  unfolding pixels_below_iff [of b "window 0 im l u w h"]
  using assms by (auto simp: window_def getpixel_def pixels_below_nth)

lemma train_disp_f32_exact:
  "pixels_below (2 ^ 24) D \<Longrightarrow>
     train_disp (Some D) x1 y1 = Disp_array (plane_of (train_disp_f32 D x1 y1))"
  by (simp add: train_disp_def train_disp_f32_def plane_of_np_slice2 plane_of_scaled)

lemma eval_disp_f32_exact:
  "pixels_below (2 ^ 24) D \<Longrightarrow> wf_image D \<Longrightarrow>
     eval_disp (Some D) l u = Disp_array (plane_of (eval_disp_f32 D l u))"
  by (simp add: eval_disp_def eval_disp_f32_def plane_of_scaled pixels_below_window)

text \<open>
  C16: The disparity map the program returns, an array of \<^verbatim>\<open>float32\<close> numbers, is the
  raw raster divided by 256 without any rounding: for a returned item of a dataset
  with disparities whose raw values are below \<open>2 ^ 24\<close>, the real-valued map of the item
  is entry by entry the value of the single-precision array computed by the cast, the
  division and the slice or crop, in the training mode and in the evaluation mode.
\<close>

theorem myImageFloder_getitem_disparity_f32:
  assumes "myImageFloder_getitem rnd self index = Inr it"
    and "py_index (left self) index = Inr l" and "loader self l = Inr L"
    and "py_index (right self) index = Inr r" and "loader self r = Inr R"
    and "load_disparity self index = Inr (Some D)" and "wf_image D"
    and "pixels_below (2 ^ 24) D"
  shows "item_disp it = Disp_array (plane_of
      (if training self then train_disp_f32 D (crop_x rnd L) (crop_y rnd L)
       else eval_disp_f32 D (int (im_w L) - 1232) (int (im_h L) - 368)))"
proof (cases "training self")
  case True
  from getitem_train_form(5) [OF assms(1) True assms(2-5)] assms(6)
  have "item_disp it = train_disp (Some D) (crop_x rnd L) (crop_y rnd L)" by simp
  with True assms(8) show ?thesis by (simp add: train_disp_f32_exact)
next
  case False
  from getitem_eval_form(3) [OF assms(1) False assms(2-5)] assms(6)
  have "item_disp it = eval_disp (Some D) (int (im_w L) - 1232) (int (im_h L) - 368)" by simp
  with False assms(7,8) show ?thesis by (simp add: eval_disp_f32_exact)
qed

theorem myImageFloder_getitem_disparity_f32_witness:
  "\<exists>it. myImageFloder_getitem ex_crop (ex_stereo True False) 0 = Inr it \<and>
     item_disp it = Disp_array (plane_of (train_disp_f32 (ex_img 1242 375 512) 269 10))"
proof -
  obtain it where it: "myImageFloder_getitem ex_crop (ex_stereo True False) 0 = Inr it"
    using ex_stereo_returns by blast
  from myImageFloder_getitem_disparity_f32 [where l = "''l.png''" and r = "''r.png''"
      and L = "ex_img 1242 375 (10, 20, 30)" and R = "ex_img 1242 375 (40, 50, 60)"
      and D = "ex_img 1242 375 512", OF it]
  have "item_disp it = Disp_array (plane_of (train_disp_f32 (ex_img 1242 375 512) 269 10))"
    by (simp add: load_disparity_def pixels_below_iff ex_img_def [of _ _ "512::nat"] wf_image_iff)
  with it show ?thesis by blast
qed

text \<open>
  The bound is needed: a raster with the raw value \<open>2 ^ 24 + 1\<close> comes back as
  \<open>65536\<close>, not as the quotient.
\<close>

theorem np_asarray_f32_rounds:
  "plane_of (np_div_f32 (np_asarray_f32 (ex_img 1 1 16777217)) 8) = [[65536]] \<and>
   np_asarray_div (ex_img 1 1 16777217) 256 = [[16777217 / 256]]"
  by (simp add: plane_of_def np_div_f32_def np_asarray_f32_def np_asarray_div_def ex_img_def
      f32_eval f32_div_pow2_def f32_fields valof32_def)

end
