(* ===== verification/Spec2Isabelle.thy ===== *)
theory Spec2Isabelle
  imports Store_Model Dataset_Pass Rng_Errors Draw_Coverage Disparity_Float
begin

text \<open>
  \<^bold>\<open>A verification development for \<^verbatim>\<open>src/KITTILoader.py\<close>.\<close>

  The program is the data-loading layer of a stereo-matching and frustum-based 3D
  detection pipeline. It has two dataset classes and the numeric helpers they call:

  \<^item> \<^verbatim>\<open>angle2class\<close>, \<^verbatim>\<open>size2class\<close>: the encodings of a box's heading and size
    as regression targets;
  \<^item> \<^verbatim>\<open>rotate_pc_along_y\<close>: the rotation of a point cloud into the frustum frame;
  \<^item> \<^verbatim>\<open>myPointData\<close>: per-item access to stored point records. \<^verbatim>\<open>__getitem__\<close>
    loads a record, draws \<open>num_point\<close> points with replacement, optionally mirrors and
    shifts points, box centre and heading, rotates points and centre with
    \<^verbatim>\<open>rotate_pc_along_y\<close> and encodes heading and size with \<^verbatim>\<open>angle2class\<close> and
    \<^verbatim>\<open>size2class\<close>;
  \<^item> \<^verbatim>\<open>myImageFloder\<close>: per-item access to stereo pairs with their disparity map.
    \<^verbatim>\<open>__getitem__\<close> loads both images and the disparity image, crops them (a
    random 512 by 256 window in training mode, the bottom right 1232 by 368 window
    otherwise), scales the disparity by 1/256 and turns the images into normalised
    tensors with \<^verbatim>\<open>get_transform\<close>;
  \<^item> \<^verbatim>\<open>get_transform\<close> and \<^verbatim>\<open>scale_crop\<close>: the tensor conversion followed by the
    normalisation with the ImageNet statistics;
  \<^item> \<^verbatim>\<open>is_image_file\<close> and the three loaders, which are file-system glue.

  \<^bold>\<open>How the program is modelled.\<close> Every Python function is one HOL definition with
  the source's name, translated statement by statement.
  \<^item> Floats are \<^typ>\<open>real\<close>; Python's unbounded integers are \<^typ>\<open>int\<close>. The theorems
    on angles, points and tensors are about exact arithmetic and say nothing about
    rounding. For the disparity map, the one array whose element type the source
    fixes (\<^verbatim>\<open>dtype=np.float32\<close>), the single-precision computation is modelled on
    32-bit words and shown to agree with the reals.
  \<^item> Every exception the source can raise is a value: a function that can raise
    returns \<^typ>\<open>'a result\<close>, that is \<open>py_error + 'a\<close>, and \<open>rbind\<close> sequences
    statements so that the first exception ends the computation.
  \<^item> A numpy array of shape \<open>(N, C)\<close> is the record \<open>ndarray\<close> of its column count and
    rows, with the predicate \<open>wf_ndarray\<close>; a one-dimensional array is a list. In
    \<open>Point_Data\<close> the in-place updates of the source are functional updates. That this
    is sound is a theorem: \<open>Store_Model\<close> holds the same code over an explicit store, in
    which a variable is an address, an update writes at it and a copy allocates, and
    shows that both return and raise the same.
  \<^item> The random number generators are inputs: the record \<open>draws\<close> holds the outcome of
    each draw of one call. Index draws are raw naturals reduced into their range, so
    every outcome is covered and none is invalid; theorems quantify over all draws.
    The order and the number of the draws are modelled separately, with the generator
    as a state, and connected to the records by a refinement.
  \<^item> A stored sample is the record \<open>point_record\<close> of optional fields (a missing key is
    \<open>None\<close> and reading it is \<open>KeyError\<close>); the file system is a function from paths
    to stored samples.
  \<^item> An image is the record \<open>image\<close> of width, height and rows of pixels, with the
    predicate \<open>wf_image\<close>. The channels of an RGB pixel are bytes (\<open>8 word\<close>), so that
    their range is part of the type; a disparity pixel is a natural number. A tensor is
    a list of planes, a plane a list of rows.
  \<^item> Reference definitions (\<open>angle_class\<close>, \<open>rot_row\<close>, \<open>augment\<close>, \<open>chosen\<close>,
    \<open>crop_x\<close>, \<open>norm_value\<close>, \<open>window\<close> and the like) name what the code computes; they
    are introduced after the code's definitions and connected to them by lemmas.

  \<^bold>\<open>Theories.\<close>
  \<^item> \<open>Py_Prelude\<close>: exceptions, results, real modulo (\<open>rmod\<close>), and the Python and
    numpy scalar primitives (\<open>py_fdiv\<close>, \<open>py_fmod\<close>, \<open>py_int\<close>, \<open>np_clip\<close>,
    \<open>py_index\<close>, \<open>vec_get\<close>), with the collections \<open>py_defs\<close> and \<open>res_iffs\<close>.
  \<^item> \<open>NdArray\<close>: the array operations (\<open>np_take_rows\<close>, \<open>np_get_cols\<close>, \<open>np_set_cols\<close>,
    \<open>np_col_map\<close>, \<open>np_dot\<close>, \<open>np_transpose\<close>, \<open>np_sub_vec\<close>, \<open>np_expand_dims0\<close>,
    \<open>np_squeeze\<close>) and when each returns.
  \<^item> \<open>Box_Encoding\<close>: \<open>angle2class\<close> (lines 76-94) with the reference definitions
    \<open>angle_class\<close>, \<open>angle_residual\<close> and the contract \<open>angle_decomp\<close>; \<open>size2class\<close>
    (lines 98-108) with \<open>box_mean\<close>. The lemmas show that the code implements the
    contract and that the contract determines the result (a refinement in both
    directions), the range of class and residual, which exceptions can be raised, the
    round trip through \<open>class2angle\<close>, periodicity, and what happens outside the
    documented domain (the last half bin, negative counts, a one-entry size).
  \<^item> \<open>Rotation\<close>: \<open>rotate_pc_along_y\<close> (lines 60-73) as the source's matrix code, and
    the row-wise rotation \<open>rot_row\<close> it is proved equal to; norm and distance
    preservation, inverse, composition, untouched channels, the only exception.
  \<^item> \<open>Random_Draws\<close>: \<open>np_random_choice\<close> and \<open>random_randint\<close> over given draws, with
    range and completeness lemmas.
  \<^item> \<open>Point_Data\<close>: \<open>myPointData_init\<close>, \<open>myPointData_len\<close> and \<open>myPointData_getitem\<close>
    (lines 112-179), the latter composed of \<open>select_source\<close>, \<open>subsample\<close>,
    \<open>flip_aug\<close>, \<open>shift_aug\<close> in the order of the source. Each block has a lemma
    saying exactly when it returns and what (collection \<open>block_iffs\<close>) and which
    exceptions it can raise (\<open>block_errors\<close>); \<open>myPointData_getitem_Inr_iff\<close> composes
    them into a closed form of the returned sample over the reference functions
    \<open>augment\<close>, \<open>chosen\<close> and \<open>rot_row\<close>. The properties are read off this form:
    shape, totality on well-formed records, exceptions, label alignment, metadata,
    the effect of flip and shift.
  \<^item> \<open>Image_Model\<close>: the crop of the imaging library (\<open>pil_crop\<close>, the \<open>window\<close> it
    returns, padded where it leaves the image), the float conversion of a disparity
    image and Python's slices (\<open>np_asarray_div\<close>, \<open>py_slice\<close>, \<open>np_slice2\<close>), and
    \<open>get_transform\<close> with \<open>scale_crop\<close>, \<open>to_tensor\<close>, \<open>tv_normalize\<close> and
    \<open>imagenet_stats\<close> (lines 14-41). The lemmas give sizes and entries of crops, slices
    and tensors (collection \<open>img_shape\<close>), and show that the transform is total, bounded
    and injective.
  \<^item> \<open>Stereo_Data\<close>: \<open>myImageFloder_init\<close>, \<open>myImageFloder_len\<close> and
    \<open>myImageFloder_getitem\<close> (lines 182-247), composed of \<open>load_disparity\<close>,
    \<open>train_item\<close> and \<open>eval_item\<close>; \<open>is_image_file\<close> and the loaders (lines 21-24,
    44-53). \<open>train_item_Inr_iff\<close> and \<open>eval_item_eq\<close> give the item of each mode in
    closed form (collection \<open>stereo_iffs\<close>). The properties: left image, right image
    and disparity are cut with one window inside the image; shapes and entries in both
    modes; exactly when the access returns and what it raises; load mode; the length.
  \<^item> \<open>State_Result\<close>: computations over a state that return or raise (\<open>sbind\<close>,
    \<open>slift\<close>), shared by the generators and the store, with two judgments that have
    one rule per kind of statement: \<open>sim\<close> (the computation simulates a result computed
    without the state) and \<open>keeps\<close> (it preserves an invariant of the state, exceptions
    included).
  \<^item> \<open>Rng_State\<close>: the two global generators as state. A generator \<open>rng\<close> is a tape
    of outcomes with the number of draws made; \<open>st_choice\<close>, \<open>st_random\<close>, \<open>st_randn\<close>
    and \<open>st_randint\<close> read it and advance. \<open>myPointData_getitem_st\<close> and
    \<open>myImageFloder_getitem_st\<close> are the item accesses with the generator threaded
    through their statements by \<open>sbind\<close>. The relation \<open>refines\<close> with one rule per
    kind of statement (collection \<open>refines_steps\<close>) shows that they return what the
    definitions over \<open>draws_of\<close> and \<open>crop_draws_of\<close> return and how many draws a
    returning call has made.
  \<^item> \<open>Store_Model\<close>: the arrays of \<^verbatim>\<open>myPointData.__getitem__\<close> as objects. The
    record \<open>store\<close> holds the one- and two-dimensional arrays by address;
    \<open>take_rows_h\<close>, \<open>np_copy1\<close>, \<open>np_copy2\<close> and \<open>expand_dims_h\<close> allocate,
    \<open>col_imap\<close>, \<open>vec_imap\<close> and \<open>set_cols_h\<close> write in place.
    \<open>rotate_pc_along_y_h\<close>, \<open>subsample_h\<close>, \<open>flip_aug_h\<close>, \<open>shift_aug_h\<close>,
    \<open>getitem_from\<close> (lines 125-176) and \<open>myPointData_getitem_h\<close> (lines 122-176, with
    the loader \<open>point_loader_h\<close> that builds new arrays at every call) follow the source
    statement by statement. The lemmas: every block simulates its counterpart of
    \<open>Point_Data\<close> (bundle \<open>store_steps\<close>), so the whole access returns and raises what
    \<open>myPointData_getitem\<close> does; it keeps every array that existed before the call
    (\<open>untouched\<close>, bundle \<open>keeps_blocks\<close>), on every path; of a loaded sample it
    writes the centre only; and when centre and size are one array the size it reads is
    the augmented centre (\<open>seen_record\<close>).
  \<^item> \<open>Dataset_Pass\<close>: the interface both classes offer to their caller (the record
    \<open>dataset\<close> of a length and an item access, \<open>point_dataset\<close> and \<open>stereo_dataset\<close>
    its instances) and one pass over it: the step relation \<open>step\<close> with \<open>reachable\<close>,
    and the loop \<open>run_pass\<close>, a recursive function with its termination proof. The
    pass is the caller's side of the interface and is written from the specification:
    the indices below the length in order, the first failed fetch aborts. The lemmas,
    proved once for the interface and instantiated for both classes: the step relation
    is well founded and deterministic, the loop computes the final state that is
    reached, the invariant \<open>pass_inv\<close> holds in every reachable state (by rule
    induction), and a pass is the sequence \<open>seq_results\<close> of the pure item accesses on
    successive windows of the tape of draws. Which passes run through to the last
    index is read off the files: a point dataset of well-formed records
    (\<open>wf_point_files\<close>) always does, a stereo dataset exactly when \<open>stereo_files_ok\<close>
    holds. That the loop itself ends is a fact about the loop, which is not code of
    the program, and is kept as a lemma only. The indices both accesses serve are those
    of a Python list: out of range raises before any draw, negative indices wrap.
  \<^item> \<open>Getitem_Errors\<close>: which exception an item access raises. The failure
    conditions of the statements of both \<^verbatim>\<open>__getitem__\<close> methods are lists of checks
    over the arguments of the call, in the order of the source (\<open>point_checks\<close> with
    \<open>record_checks\<close>, \<open>cloud_checks\<close> and \<open>box_checks\<close>; \<open>stereo_checks\<close>), and
    \<open>first_error\<close> is the outcome of such a list. The lemmas \<open>block_cases\<close> give the
    result of every block on all its branches; one lemma per group of checks shows
    that the rest of the body raises what the group decides; the theorems say that an
    access raises the exception of the first failing check and returns when none
    fails, and that the exceptions of the point item access are exactly the five of
    \<open>point_errors\<close>. Each check also carries the number of draws the call has made
    when its statement is reached.
  \<^item> \<open>Rng_Errors\<close>: where an item access leaves the generator. Every check of
    \<open>Getitem_Errors\<close> carries the number of draws made when its statement is reached;
    the blocks that draw are given as pairs of result and generator, and the accesses
    of \<open>Rng_State\<close> are shown equal to the pair of the result over the record of draws
    and the generator advanced by the draws of the first failing check, or by all of
    them when the call returns.
  \<^item> \<open>Draw_Coverage\<close>: what the draws can produce. Every window that fits the left
    image is the training crop of some draws (\<open>crop_origins\<close>, \<open>train_window\<close>), and
    every sequence of row indices of the stored cloud is the sample of some draws
    (\<open>draws_for\<close>): the converse of the theorems that every item is a window or a
    sample.
  \<^item> \<open>Float32\<close>: single-precision numbers as 32-bit words with their fields
    (\<open>f32_sign\<close>, \<open>f32_exponent\<close>, \<open>f32_fraction\<close>) and their value \<open>valof32\<close>; the
    rounding of a dyadic number to the nearest word, ties to even (\<open>bit_length\<close>,
    \<open>rne\<close>, \<open>f32_lsb\<close>, \<open>f32_sig\<close>, \<open>f32_round\<close>), with subnormal results and
    overflow to infinity; the cast of an integer \<open>f32_of_nat\<close> and the division by a
    power of two \<open>f32_div_pow2\<close> (line 219). The specification is \<open>nearest32\<close>: a
    finite number to which no finite number is closer. The lemmas: the value of a
    rounded number, its distance of at most half a unit of the last place from the
    exact one, exactness on numbers of at most 24 significant bits, and that rounding,
    cast and division return a nearest number whenever the result is below infinity.
  \<^item> \<open>Disparity_Float\<close>: the disparity array of both branches over these words
    (\<open>np_asarray_f32\<close>, \<open>np_div_f32\<close>, \<open>train_disp_f32\<close>, \<open>eval_disp_f32\<close>, lines
    219-220 and 235-236). For raw values below \<open>2 ^ 24\<close> the real-valued disparity of
    \<open>Stereo_Data\<close> is the value of this array, so the theorems on the disparity hold for
    the numbers the program computes; at \<open>2 ^ 24 + 1\<close> they differ.
  \<^item> This theory: the properties that span components. A returned sample is
    consistent geometry (points and centre moved by one rigid motion), its heading
    target decodes to the augmented heading, and without augmentation the item is
    \<open>rotate_pc_along_y\<close> of the sampled rows. \<open>store_dataset\<close> puts the item access on
    the store behind the interface of \<open>Dataset_Pass\<close>: a whole pass returns what the
    pure accesses return one by one and leaves the arrays that existed untouched, so
    the fetches are independent of each other. And the exception of a pass is the
    outcome of the checks of \<open>Getitem_Errors\<close> for its indices in their order, and
    the generator after it stands where the last access, returned or failed, left it
    (\<open>pass_draws\<close>).

  \<^bold>\<open>Bounds.\<close> No definition uses fuel and no loop of the source is unbounded: the
  comprehensions and array operations are structural recursion over lists, and the
  loop of a pass is a function whose termination is proved with the measure
  \<open>length - position\<close>. The store is unbounded: addresses are natural numbers and an
  allocation never fails. Class
  counts, sample sizes and indices are unbounded integers as in Python. The bound
  \<open>2 ^ 24\<close> on raw disparity values is the precision of the format, 24 significant
  bits, and covers every 8-bit and 16-bit raster; the bound \<open>2 ^ 127\<close> of the theorem
  on the cast keeps the result at least one binade below the overflow to infinity. The crop sizes
  512 by 256 and 1232 by 368 are the constants of the source; the example images are
  uniform, so that the theorems are instantiated without enumerating pixels.

  \<^bold>\<open>Not modelled.\<close> Decoding of image and \<^verbatim>\<open>.npy\<close> files, the directory listing
  and the tensor library: they are inputs of the model, not code of this repository.
  The conversion of the returned arrays to tensors of 32-bit floats is the identity in
  the model. Floating-point rounding is modelled for the disparity map only: the
  division by 255 of the tensor conversion and the normalisation by means and
  deviations that are not dyadic numbers round in every entry, their results depend
  on the order in which the tensor library evaluates them, and the statistics are
  themselves rounded when they become tensors; the angles and points are 64-bit
  floats whose trigonometric functions the platform's library rounds. For these the
  theorems hold of the exact values only. The loaders are lookups in a file system whose entries are decoded images;
  the conversion to RGB is part of the decoding. Image modes other than RGB and
  single-channel integer images are not modelled. Of the arrays, views that share
  their data with another array are not modelled (the source makes one, of a temporary
  copy), nor are element types other than float. Of the iteration over a dataset,
  shuffling, batching and the worker processes of the loader class of the tensor
  library are not modelled: a pass here is sequential. The error classes of the
  specification are not in the code: the exceptions are those of Python and numpy that
  the failing statements raise.

  \<^bold>\<open>Assumptions of the model.\<close> Floats other than the disparity are reals, so no
  angle is a NaN or an infinity: the assertion of \<^verbatim>\<open>angle2class\<close> (line 88) cannot fail
  and the quotient of line 91 cannot round up to the class count. Every failure of a
  load is \<open>IOError\<close>; the other exceptions the libraries raise for a file of the wrong
  kind are not told apart. A loaded record holds a different array under each key;
  two names for one array arise only inside the item access, and \<open>getitem_from\<close>
  covers the record in which centre and size are one array. The generator is a tape
  with one cell for each draw of the program, integer or real, and draws are counted
  in cells, not in the words the generators of the libraries consume. Two behaviours
  depend on the version of a library and are fixed here: a choice of no element from
  an empty population returns the empty choice, and the imaging library refuses a
  crop box whose right or lower edge is before its left or upper edge with
  \<open>ValueError\<close>, which no call of the program produces.
\<close>

section \<open>The point dataset on the store, behind the collection interface\<close>

text \<open>
  The point dataset whose item access works on the store of arrays, as an instance of
  the interface of \<open>Dataset_Pass\<close>. \<open>rnds j\<close> holds the draws of the access at index
  \<open>j\<close>.
\<close>

definition store_dataset ::
  "point_fs \<Rightarrow> (nat \<Rightarrow> draws) \<Rightarrow> myPointData \<Rightarrow> (store, point_sample) dataset" where
  "store_dataset fs rnds self =
     \<lparr>ds_len = myPointData_len self,
      ds_getitem = (\<lambda>index. myPointData_getitem_h fs (rnds (nat index)) self index)\<rparr>"

text \<open>
  The frame of the source has \<open>x\<close> to the right, \<open>y\<close> down and \<open>z\<close> forward, and the
  heading of a box is its angle about the \<open>y\<close> axis: a box of heading \<open>h\<close> faces the
  direction \<open>(cos h, 0, - sin h)\<close>. \<open>heading_tip c h\<close> is the point one unit ahead of the
  centre \<open>c\<close> of such a box.
\<close>

definition heading_tip :: "real list \<Rightarrow> real \<Rightarrow> real list" where
  "heading_tip c h = c[0 := c ! 0 + cos h, 2 := c ! 2 - sin h]"

text \<open>
  The draws of a pass whose item accesses have the given outcomes of their checks, in
  the order of the indices, when a returning access makes \<open>k\<close> draws: the pass ends with
  the first access that fails.
\<close>

primrec pass_draws :: "failure option list \<Rightarrow> nat \<Rightarrow> nat" where
  "pass_draws [] k = 0"
| "pass_draws (c # cs) k = (case c of Some (e, j) \<Rightarrow> j | None \<Rightarrow> k + pass_draws cs k)"

lemma store_dataset_simps [simp]:
  "ds_len (store_dataset fs rnds self) = myPointData_len self"
  "ds_getitem (store_dataset fs rnds self) (int i) = myPointData_getitem_h fs (rnds i) self (int i)"
  by (simp_all add: store_dataset_def)

section \<open>A returned sample is consistent geometry\<close>

text \<open>
  The properties below span \<open>myPointData\<close>, the rotation and the encodings. Their
  hypotheses name the stored record the item was made from.
\<close>

lemma ex_lookup:
  "py_index (points (ex_data f sh)) 0 = Inr ''d/a.npy''"
  "ex_fs ''d/a.npy'' = Some ex_record"
  "stored_points (ex_data f sh) ex_record = Some \<lparr>ncols = 3, rows = [[1, 5, 0], [0, 2, 1]]\<rparr>"
  "stored_labels (ex_data f sh) ex_record = Some [1, 0]"
  "box3d_center ex_record = Some [1, 0, 2]" "heading ex_record = Some (pi / 2)"
  "wf_ndarray \<lparr>ncols = 3, rows = [[1, 5, 0], [0, 2, 1]]\<rparr>"
  by (simp_all add: py_index_def ex_fs_def stored_points_def stored_labels_def ex_record_def
      wf_ndarray_def)

lemma sampled_row_length:
  assumes "wf_ndarray pts" and "3 \<le> ncols pts" and "0 < nrows pts"
  shows "3 \<le> length (rows pts ! chosen rnd (nrows pts) i)"
  using assms wf_ndarray_nth [of pts "chosen rnd (nrows pts) i"] by (simp add: chosen_def)

text \<open>
  C1: Points and box centre undergo the same rigid motion. For every returned point,
  its squared distance to the returned box centre in the \<open>x\<close>-\<open>z\<close> plane equals the one
  between the stored point it was sampled from and the stored centre, whatever the
  flip, the shift and the frustum angle; the \<open>y\<close> coordinate and every further channel
  of the point are the stored ones.
\<close>

theorem getitem_rigid_motion:
  assumes "myPointData_getitem fs rnd self index = Inr s"
    and "py_index (points self) index = Inr point" and "fs point = Some d"
    and "stored_points self d = Some pts" and "box3d_center d = Some c"
    and "wf_ndarray pts" and "i < nat (num_point self)"
  shows "xz_dist2 (rows (points_rot s) ! i) (box3d_center_rot s) =
      xz_dist2 (rows pts ! chosen rnd (nrows pts) i) c \<and>
    (\<forall>j. j \<noteq> 0 \<and> j \<noteq> 2 \<longrightarrow>
      rows (points_rot s) ! i ! j = rows pts ! chosen rnd (nrows pts) i ! j \<and>
      box3d_center_rot s ! j = c ! j)"
proof -
  let ?p = "rows pts ! chosen rnd (nrows pts) i"
  let ?t = "rot_angle s"
  from assms have *: "3 \<le> ncols pts" "3 \<le> length c" "0 < nrows pts"
    "rows (points_rot s) ! i = rot_row ?t (augment self rnd c ?p)"
    "box3d_center_rot s = rot_row ?t (augment self rnd c c)"
    by (auto simp: myPointData_getitem_Inr_iff)
  from assms(6) *(1,3) have p: "3 \<le> length ?p" by (rule sampled_row_length)
  with * show ?thesis
    by (simp add: xz_dist2_rot_row xz_dist2_augment rot_row_nth_other augment_nth_other)
qed

theorem getitem_rigid_motion_witness:
  "\<exists>s. myPointData_getitem ex_fs ex_draws (ex_data True True) 0 = Inr s \<and>
     xz_dist2 (rows (points_rot s) ! 1) (box3d_center_rot s) = 2"
proof -
  obtain s where s: "myPointData_getitem ex_fs ex_draws (ex_data True True) 0 = Inr s"
    using ex_getitem_returns by blast
  have "1 < nat (num_point (ex_data True True))" by simp
  from getitem_rigid_motion [OF s ex_lookup(1,2,3,5,7) this] s show ?thesis
    by (auto simp: chosen_def ex_draws_def nrows_def xz_dist2_def)
qed

text \<open>
  The heading target decodes to the heading of the augmented box in the rotated
  frame: class centre plus residual, turned back by the rotation angle, has the cosine
  and the sine of the stored heading \<open>h\<close> (of \<open>pi - h\<close> when the sample was flipped).
\<close>

theorem getitem_heading_decodes:
  assumes "myPointData_getitem fs rnd self index = Inr s"
    and "py_index (points self) index = Inr point" and "fs point = Some d"
    and "heading d = Some h"
  shows "cos (class2angle (angle_c_rot s) (angle_r_rot s) (num_angle self) + rot_angle s) =
      cos (flip_head self rnd h) \<and>
    sin (class2angle (angle_c_rot s) (angle_r_rot s) (num_angle self) + rot_angle s) =
      sin (flip_head self rnd h)"
proof -
  let ?a = "flip_head self rnd h - rot_angle s"
  let ?n = "num_angle self"
  from assms have e: "angle2class ?a ?n = Inr (angle_c_rot s, angle_r_rot s)"
    by (auto simp: myPointData_getitem_Inr_iff)
  then have "?n \<noteq> 0" by (auto simp: angle2class_zero)
  with e have "angle_c_rot s = angle_class ?a ?n" "angle_r_rot s = angle_residual ?a ?n"
    by (simp_all add: angle2class_Inr)
  then have "class2angle (angle_c_rot s) (angle_r_rot s) ?n + rot_angle s =
      flip_head self rnd h + two_pi * of_int (- \<lfloor>(?a + bin_width ?n / 2) / two_pi\<rfloor>)"
    by (simp only: class2angle_result)
  then show ?thesis by (simp only: cos_add_period sin_add_period)
qed

theorem getitem_heading_decodes_witness:
  "\<exists>s. myPointData_getitem ex_fs ex_draws (ex_data False False) 0 = Inr s \<and>
     cos (class2angle (angle_c_rot s) (angle_r_rot s) 4 + rot_angle s) = 0"
proof -
  obtain s where s: "myPointData_getitem ex_fs ex_draws (ex_data False False) 0 = Inr s"
    using ex_getitem_returns by blast
  from getitem_heading_decodes [OF s ex_lookup(1,2,6)] s show ?thesis
    by (auto simp: flip_head_def flipped_def)
qed

lemma heading_tip_period [simp]: "heading_tip c (h + two_pi * of_int k) = heading_tip c h"
  by (simp only: heading_tip_def cos_add_period sin_add_period)

lemma motion_heading_tip:
  assumes "3 \<le> length c"
  shows "rot_row t (augment self rnd c (heading_tip c h)) =
     heading_tip (rot_row t (augment self rnd c c)) (flip_head self rnd h - t)"
proof -
  from assms obtain x y z cs where c: "c = x # y # z # cs"
    by (cases c; cases "tl c"; cases "tl (tl c)") auto
  show ?thesis
    by (simp add: c augment_def shift_fn_def flip_fn_def flip_row_def shift_row_def rot_row_def
        heading_tip_def flip_head_def center_dist_def cos_diff sin_diff algebra_simps)
qed

text \<open>
  C8: Points, centre and heading are moved together. Take the point one unit ahead of
  the stored box centre in the direction of the stored heading and move it as the item
  access moves the points, by the flip, the shift and the rotation: it is the point one
  unit ahead of the returned centre in the direction of the heading that the returned
  class and residual decode to. So the heading target is the heading of the box in the
  frame of the returned points, for every flip, shift and frustum angle.
\<close>

theorem getitem_heading_consistent:
  assumes "myPointData_getitem fs rnd self index = Inr s"
    and "py_index (points self) index = Inr point" and "fs point = Some d"
    and "box3d_center d = Some c" and "heading d = Some h"
  shows "rot_row (rot_angle s) (augment self rnd c (heading_tip c h)) =
     heading_tip (box3d_center_rot s)
       (class2angle (angle_c_rot s) (angle_r_rot s) (num_angle self))"
proof -
  let ?a = "flip_head self rnd h - rot_angle s"
  let ?n = "num_angle self"
  from assms have *: "3 \<le> length c"
    "box3d_center_rot s = rot_row (rot_angle s) (augment self rnd c c)"
    "angle2class ?a ?n = Inr (angle_c_rot s, angle_r_rot s)"
    by (auto simp: myPointData_getitem_Inr_iff)
  from *(3) have "?n \<noteq> 0" by (auto simp: angle2class_zero)
  with *(3) have "angle_c_rot s = angle_class ?a ?n" "angle_r_rot s = angle_residual ?a ?n"
    by (simp_all add: angle2class_Inr)
  then have "class2angle (angle_c_rot s) (angle_r_rot s) ?n =
      ?a + two_pi * of_int (- \<lfloor>(?a + bin_width ?n / 2) / two_pi\<rfloor>)"
    by (simp only: class2angle_result)
  with motion_heading_tip [OF *(1)] *(2) show ?thesis
    by (simp only: heading_tip_period)
qed

theorem getitem_heading_consistent_witness:
  "\<exists>s. myPointData_getitem ex_fs ex_draws (ex_data True True) 0 = Inr s \<and>
     rot_row (rot_angle s)
       (augment (ex_data True True) ex_draws [1, 0, 2] (heading_tip [1, 0, 2] (pi / 2))) =
     heading_tip (box3d_center_rot s) (class2angle (angle_c_rot s) (angle_r_rot s) 4)"
proof -
  obtain s where s: "myPointData_getitem ex_fs ex_draws (ex_data True True) 0 = Inr s"
    using ex_getitem_returns by blast
  from getitem_heading_consistent [OF s ex_lookup(1,2,5,6)] s show ?thesis by simp
qed

text \<open>
  The heading target is a valid classification target: with a positive number of
  angle classes the returned class is an index below \<open>num_angle\<close> and the returned
  residual is at most half a bin wide.
\<close>

theorem getitem_heading_target_range:
  assumes "myPointData_getitem fs rnd self index = Inr s" and "0 < num_angle self"
  shows "0 \<le> angle_c_rot s \<and> angle_c_rot s < num_angle self \<and>
    \<bar>angle_r_rot s\<bar> \<le> bin_width (num_angle self) / 2"
proof -
  from assms(1) obtain a where "angle2class a (num_angle self) = Inr (angle_c_rot s, angle_r_rot s)"
    by (auto simp: myPointData_getitem_Inr_iff)
  with assms(2) have "angle_c_rot s = angle_class a (num_angle self)"
    "angle_r_rot s = angle_residual a (num_angle self)"
    by (simp_all add: angle2class_Inr)
  with angle_class_range [OF assms(2), of a] angle_residual_range [OF assms(2), of a]
  show ?thesis by simp
qed

theorem getitem_heading_target_range_witness:
  "\<exists>s. myPointData_getitem ex_fs ex_draws (ex_data True False) 0 = Inr s \<and>
     0 \<le> angle_c_rot s \<and> angle_c_rot s < 4"
proof -
  obtain s where s: "myPointData_getitem ex_fs ex_draws (ex_data True False) 0 = Inr s"
    using ex_getitem_returns by blast
  from getitem_heading_target_range [OF s] s show ?thesis by auto
qed

text \<open>
  Without augmentation the item is the rotation of the sampled rows: when neither
  flip nor shift is configured, the returned points are what \<open>rotate_pc_along_y\<close> gives
  on the sampled rows of the stored cloud at the returned angle, and the returned
  centre is the stored centre rotated by the same angle.
\<close>

theorem getitem_plain_is_rotation:
  assumes "myPointData_getitem fs rnd self index = Inr s"
    and "py_index (points self) index = Inr point" and "fs point = Some d"
    and "stored_points self d = Some pts" and "box3d_center d = Some c"
    and "\<not> random_flip self" and "\<not> random_shift self"
  shows "rotate_pc_along_y
      (pts\<lparr>rows := map (\<lambda>i. rows pts ! chosen rnd (nrows pts) i) [0..<nat (num_point self)]\<rparr>)
      (rot_angle s) = Inr (points_rot s) \<and>
    box3d_center_rot s = rot_row (rot_angle s) c"
  using assms
  by (auto simp: myPointData_getitem_Inr_iff rotate_pc_along_y_cases augment_def
      flip_fn_def shift_fn_def flipped_def comp_def)

theorem getitem_plain_is_rotation_witness:
  "\<exists>s. myPointData_getitem ex_fs ex_draws (ex_data False False) 0 = Inr s \<and>
     box3d_center_rot s = [- 2, 0, 1]"
proof -
  obtain s where s: "myPointData_getitem ex_fs ex_draws (ex_data False False) 0 = Inr s"
    using ex_getitem_returns by blast
  from getitem_plain_is_rotation [OF s ex_lookup(1,2,3,5)] have
    "box3d_center_rot s = rot_row (rot_angle s) [1, 0, 2]" by simp
  moreover from s have "rot_angle s = pi / 2"
    by (auto simp: myPointData_getitem_Inr_iff ex_fs_def ex_record_def py_index_def
        split: if_splits)
  ultimately show ?thesis using s by (simp add: rot_row_def)
qed

section \<open>The fetches of a pass are independent\<close>

text \<open>
  C17: One pass over the point dataset with its arrays in a store returns the samples of
  the pure item accesses at the indices below the length, or raises the exception of
  the first that raises: no access sees what an earlier access has written, although
  each updates arrays in place. And the pass leaves every array that existed before it
  as it was, whether it returns or aborts.
\<close>

theorem pass_on_store:
  "fst (run_pass (store_dataset fs rnds self) 0 [] h) =
     seq_results (map (\<lambda>j. myPointData_getitem fs (rnds j) self (int j))
       [0..<myPointData_len self]) \<and>
   extends h (snd (run_pass (store_dataset fs rnds self) 0 [] h))"
proof
  show "fst (run_pass (store_dataset fs rnds self) 0 [] h) =
     seq_results (map (\<lambda>j. myPointData_getitem fs (rnds j) self (int j))
       [0..<myPointData_len self])"
    using run_pass_seq_aux [of "store_dataset fs rnds self" "\<lambda>i s. True"
        "\<lambda>j. myPointData_getitem fs (rnds j) self (int j)" 0 h "[]"]
    by (simp add: myPointData_getitem_h_result_aux)
  show "extends h (snd (run_pass (store_dataset fs rnds self) 0 [] h))"
    unfolding extends_def
    by (rule run_pass_keeps [where I = "untouched (next_addr h) h"])
      (simp_all add: keeps_myPointData_getitem_h untouched_refl)
qed

theorem pass_on_store_witness:
  "extends ex_store (snd (run_pass (store_dataset ex_fs (\<lambda>j. ex_draws) (ex_data True True))
     0 [] ex_store))"
  using pass_on_store [of ex_fs "\<lambda>j. ex_draws" "ex_data True True" ex_store] by simp

section \<open>Where a pass aborts\<close>

text \<open>
  The three forms of the point item access raise alike: on the store of arrays and
  with the generator threaded, the exception is that of the first failing check of the
  access over values.
\<close>

theorem layers_raise_alike:
  "err_of (fst (myPointData_getitem_h fs rnd self index h)) =
     map_option fst (first_error (point_checks fs rnd self index)) \<and>
   err_of (fst (myPointData_getitem_st fs self index g)) =
     map_option fst (first_error (point_checks fs (draws_of self g) self index))"
  using myPointData_getitem_st_refines_aux [of fs self index g]
  by (simp add: myPointData_getitem_h_result_aux myPointData_getitem_decides_aux refines_iff)

lemma err_of_seq_results: "err_of (seq_results rs) = first_error (map err_of rs)"
proof (induction rs)
  case Nil
  show ?case by simp
next
  case (Cons r rs)
  then show ?case
    by (cases r; cases "seq_results rs") simp_all
qed

text \<open>
  C28: The exception of a pass is that of the first check that fails, over the checks
  of all its item accesses in the order of the indices: a pass over the point dataset
  raises \<open>e\<close> exactly when the checks of \<open>Getitem_Errors\<close> for the indices \<open>0\<close>, \<open>1\<close>,
  ... below the length, each on the draws its access reads from the generator, fail
  first with \<open>e\<close>. For the stereo dataset the checks do not mention the draws: whether
  a pass aborts, where and with which exception is fixed by the lists and the files,
  whatever the generator gives.
\<close>

theorem pass_first_error:
  "(raises (fst (run_pass (point_dataset fs self) 0 [] g)) e \<longleftrightarrow>
      map_option fst (first_error (map (\<lambda>j. first_error
        (point_checks fs (draws_of self (tape_pos (draws_used self) g j)) self (int j)))
        [0..<myPointData_len self])) = Some e) \<and>
   (raises (fst (run_pass (stereo_dataset st) 0 [] g')) e \<longleftrightarrow>
      map_option fst (first_error (map (\<lambda>j. first_error (stereo_checks st (int j)))
        [0..<myImageFloder_len st])) = Some e)"
  by (simp add: raises_err_of point_pass_seq stereo_pass_seq err_of_seq_results comp_def
      fetched_def fetched_stereo_def myPointData_getitem_decides_aux
      myImageFloder_getitem_decides_aux map_option_first_error)

theorem pass_first_error_witness:
  "raises (fst (run_pass (stereo_dataset ex_bad_stereo) 0 [] ex_rng)) IOError"
  using pass_first_error [of ex_fs "ex_data True True" ex_rng IOError ex_bad_stereo ex_rng]
  by (simp add: myImageFloder_len_def stereo_checks_def ex_bad_stereo_def
      myImageFloder_init_def out_of_range_def item_at_def py_index_def upt_rec)

lemma run_pass_state_aux:
  assumes "\<And>j. j < ds_len ds \<Longrightarrow> ds_getitem ds (int j) (tape_pos k g j) =
      (win j, advance (draws_made (c j) k) (tape_pos k g j))"
    and "\<And>j. err_of (win j) = map_option fst (c j)"
    and "i \<le> ds_len ds"
  shows "snd (run_pass ds i acc (tape_pos k g i)) =
    advance (i * k + pass_draws (map c [i..<ds_len ds]) k) g"
  using assms(3)
proof (induction "ds_len ds - i" arbitrary: i acc)
  case 0
  then show ?case by (simp add: run_pass_unfold tape_pos_def)
next
  case (Suc n)
  then have i: "i < ds_len ds" by simp
  then have upt: "[i..<ds_len ds] = i # [Suc i..<ds_len ds]" by (rule upt_conv_Cons)
  show ?case
  proof (cases "c i")
    case None
    with assms(2) [of i] obtain x where x: "win i = Inr x" by (cases "win i") simp_all
    from Suc(2) i have "n = ds_len ds - Suc i" and "Suc i \<le> ds_len ds" by simp_all
    from assms(1) [OF i] x None
    have "ds_getitem ds (int i) (tape_pos k g i) = (Inr x, tape_pos k g (Suc i))"
      by (simp add: tape_pos_def add.commute)
    from run_pass_unfold(3) [OF i this, of acc] Suc(1) [OF \<open>n = ds_len ds - Suc i\<close>
        \<open>Suc i \<le> ds_len ds\<close>, of "acc @ [x]"] None
    show ?thesis by (simp add: upt)
  next
    case (Some f)
    with assms(2) [of i] have "win i = Inl (fst f)" by (cases "win i") simp_all
    with assms(1) [OF i] Some have "ds_getitem ds (int i) (tape_pos k g i) =
        (Inl (fst f), advance (i * k + snd f) g)"
      by (cases f) (simp add: tape_pos_def add.commute)
    from run_pass_unfold(2) [OF i this, of acc] Some show ?thesis
      by (cases f) (simp add: upt)
  qed
qed

text \<open>
  C35: Where a pass leaves the generator. A pass that returns has made the draws of all
  its accesses; a pass that aborts at an index has made the draws of the accesses
  before it and those the failed access made before its failing statement. So a pass
  over the stereo dataset in training mode that meets an image wide enough but too low
  aborts one draw after the last returned item.
\<close>

theorem pass_generator:
  "snd (run_pass (point_dataset fs self) 0 [] g) =
     advance (pass_draws (map (\<lambda>j. first_error
       (point_checks fs (draws_of self (tape_pos (draws_used self) g j)) self (int j)))
       [0..<myPointData_len self]) (draws_used self)) g \<and>
   snd (run_pass (stereo_dataset st) 0 [] g') =
     advance (pass_draws (map (\<lambda>j. first_error (stereo_checks st (int j)))
       [0..<myImageFloder_len st]) (crop_draws_used st)) g'"
proof
  let ?k = "draws_used self"
  let ?c = "\<lambda>j. first_error (point_checks fs (draws_of self (tape_pos ?k g j)) self (int j))"
  have "snd (run_pass (point_dataset fs self) 0 [] (tape_pos ?k g 0)) =
      advance (0 * ?k + pass_draws (map ?c [0..<ds_len (point_dataset fs self)]) ?k) g"
  proof (rule run_pass_state_aux [where win = "fetched fs self g"])
    show "ds_getitem (point_dataset fs self) (int j) (tape_pos ?k g j) =
        (fetched fs self g j, advance (draws_made (?c j) ?k) (tape_pos ?k g j))" for j
      using myPointData_getitem_st_refines_aux [of fs self "int j" "tape_pos ?k g j"]
      by (intro prod_eqI) (simp_all add: refines_iff fetched_def myPointData_getitem_st_state_aux)
    show "err_of (fetched fs self g j) = map_option fst (?c j)" for j
      by (simp add: fetched_def myPointData_getitem_decides_aux)
  qed simp
  then show "snd (run_pass (point_dataset fs self) 0 [] g) =
      advance (pass_draws (map ?c [0..<myPointData_len self]) ?k) g"
    by (simp add: tape_pos_def)
next
  let ?k = "crop_draws_used st"
  let ?c = "\<lambda>j. first_error (stereo_checks st (int j))"
  have "snd (run_pass (stereo_dataset st) 0 [] (tape_pos ?k g' 0)) =
      advance (0 * ?k + pass_draws (map ?c [0..<ds_len (stereo_dataset st)]) ?k) g'"
  proof (rule run_pass_state_aux [where win = "fetched_stereo st g'"])
    show "ds_getitem (stereo_dataset st) (int j) (tape_pos ?k g' j) =
        (fetched_stereo st g' j, advance (draws_made (?c j) ?k) (tape_pos ?k g' j))" for j
      using myImageFloder_getitem_st_refines_aux [of st "int j" "tape_pos ?k g' j"]
      by (intro prod_eqI)
        (simp_all add: refines_iff fetched_stereo_def myImageFloder_getitem_st_state_aux)
    show "err_of (fetched_stereo st g' j) = map_option fst (?c j)" for j
      by (simp add: fetched_stereo_def myImageFloder_getitem_decides_aux)
  qed simp
  then show "snd (run_pass (stereo_dataset st) 0 [] g') =
      advance (pass_draws (map ?c [0..<myImageFloder_len st]) ?k) g'"
    by (simp add: tape_pos_def)
qed

theorem pass_generator_witness:
  "snd (run_pass (stereo_dataset
     (myImageFloder_init [''a''] [''a''] [] True [''n''] True
        (\<lambda>path. Inr (ex_img 600 200 black)) (\<lambda>path. Inl IOError))) 0 [] ex_rng) = advance 1 ex_rng"
  using pass_generator [of ex_fs "ex_data True True" ex_rng
      "myImageFloder_init [''a''] [''a''] [] True [''n''] True
        (\<lambda>path. Inr (ex_img 600 200 black)) (\<lambda>path. Inl IOError)" ex_rng]
  by (simp add: myImageFloder_len_def stereo_checks_def myImageFloder_init_def
      out_of_range_def item_at_def py_index_def upt_rec)

end
